(* ===== verification/Prelude.thy ===== *)
theory Prelude imports Main "HOL-Library.Sublist" "HOL-Library.AList" begin

text \<open>
  What every component of the drivers shares: errors as values, the outcome of a Go call that
  can fail or panic, the history of calls that a component makes to the outside, and the
  ``ticker against deadline'' loop that the controllers use to wait for the cloud.

  Conventions of the whole development.
  \<^item> A Go error is a value of type \<open>go_error\<close>. The text of an error the drivers build
    themselves is diagnostics no code branches on, and it is left out; its gRPC code is kept.
    The text of an error that comes from outside is kept, because the code searches it.
  \<^item> A nil dereference, an index out of range and a write to a nil map are the value
    \<open>GoPanic\<close>, never an unspecified value of HOL.
  \<^item> A Go map that the code ranges over is an association list: the list is the order in which
    this run of the program visits the entries. Go leaves that order open, so a statement for
    every list is a statement for every order.
  \<^item> The outside (cloud API, mounter, operating system) is an argument of the definitions: a
    record of functions from the history of the calls made so far to the answer of the next
    call. Every sequence of answers an outside with a state of its own can give is such a
    function, so a statement for every record covers every outside.
\<close>

section \<open>Collections of facts\<close>

named_theorems go_str \<open>rewrite rules for the string functions of Go's library\<close>
named_theorems hist_intro \<open>a call extends the history it starts from\<close>
named_theorems keeps_intro \<open>what keeps an invariant of the state\<close>
named_theorems call_simps \<open>what a single outside call does to the history\<close>

section \<open>Errors\<close>

datatype grpc_code =
    InvalidArgument | NotFound | Internal | Aborted | FailedPrecondition
  | DeadlineExceeded | PermissionDenied | Unimplemented

text \<open>
  The classes of outside errors that the code tells apart: \<open>os.IsNotExist\<close>,
  \<open>os.IsPermission\<close>, the errno values of a corrupted mount, an error of the cloud's SDK
  with its code, the two predicates of the Kubernetes API errors, and the rest.
\<close>

datatype err_class =
    ENotExist | EPermission | ECorruptedMnt | ESdk string | EK8sNotFound | EK8sAlreadyExists
  | EOther

datatype ext_err = ExtErr (err_class: err_class) (err_text: string)

datatype go_error =
    Status grpc_code          \<comment> \<open>an error with a gRPC code\<close>
  | Plain ext_err             \<comment> \<open>an outside error handed on as it is\<close>
  | PlainMsg                  \<comment> \<open>an error without a code, built by the driver\<close>
  | CacheEntryNotFound        \<comment> \<open>the error type of \<open>util.CacheEntryNotFound\<close>\<close>
  | GoPanic                   \<comment> \<open>a run-time panic\<close>
  | GoExit                    \<comment> \<open>\<open>glog.Fatal\<close>: the process ends\<close>

definition IsNotExist :: "ext_err \<Rightarrow> bool" where
  "IsNotExist e \<longleftrightarrow> err_class e = ENotExist"

definition IsPermission :: "ext_err \<Rightarrow> bool" where
  "IsPermission e \<longleftrightarrow> err_class e = EPermission"

section \<open>Generic lemmas\<close>

lemma suffix_trans_Cons: "suffix (x # h) h' \<Longrightarrow> suffix h h'"
  by (auto simp: suffix_def)

lemma suffix_ConsI [hist_intro]: "suffix h h' \<Longrightarrow> suffix h (x # h')"
  by (simp add: suffix_Cons)

lemma filter_filter_same [simp]: "filter P (filter P xs) = filter P xs"
  by (induction xs) auto

lemma map_of_eq_Some_unique:
  "distinct (map fst kvs) \<Longrightarrow> (k, v) \<in> set kvs \<Longrightarrow> map_of kvs k = Some v"
  by simp

section \<open>Loops over a Go map or slice that can return early\<close>

text \<open>
  \<open>for _, x := range xs { ... return err ... }\<close>: the state is threaded, the first error ends
  the loop.
\<close>

fun fold_err :: "('s \<Rightarrow> 'x \<Rightarrow> 'e + 's) \<Rightarrow> 's \<Rightarrow> 'x list \<Rightarrow> 'e + 's" where
  "fold_err f s [] = Inr s"
| "fold_err f s (x # xs) = (case f s x of Inl e \<Rightarrow> Inl e | Inr s' \<Rightarrow> fold_err f s' xs)"

lemma fold_err_append:
  "fold_err f s (xs @ ys) =
     (case fold_err f s xs of Inl e \<Rightarrow> Inl e | Inr s' \<Rightarrow> fold_err f s' ys)"
  by (induction xs arbitrary: s) (auto split: sum.splits)

lemma fold_err_inv:
  assumes "fold_err f s xs = Inr t" "P s"
    and "\<And>s x s'. x \<in> set xs \<Longrightarrow> P s \<Longrightarrow> f s x = Inr s' \<Longrightarrow> P s'"
  shows "P t"
  using assms
proof (induction xs arbitrary: s)
  case (Cons x xs)
  then obtain s' where s': "f s x = Inr s'" "fold_err f s' xs = Inr t"
    by (auto split: sum.splits)
  have "P s'" by (rule Cons.prems(3) [OF _ Cons.prems(2) s'(1)]) simp
  show ?case
    by (rule Cons.IH [OF s'(2) \<open>P s'\<close>]) (auto intro: Cons.prems(3))
qed simp

text \<open>
  Two visits of the same entries in different orders agree when any two different entries
  commute. This is how the independence of Go's map order is shown.
\<close>

definition commute_err :: "('s \<Rightarrow> 'x \<Rightarrow> 'e + 's) \<Rightarrow> 'x \<Rightarrow> 'x \<Rightarrow> bool" where
  "commute_err f x y \<longleftrightarrow> (\<forall>s. fold_err f s [x, y] = fold_err f s [y, x])"

lemma fold_err_swap:
  assumes "commute_err f x y"
  shows "fold_err f s (x # y # zs) = fold_err f s (y # x # zs)"
  using assms fold_err_append [of f s "[x, y]" zs] fold_err_append [of f s "[y, x]" zs]
  by (simp add: commute_err_def)

lemma fold_err_to_front:
  assumes "\<forall>y\<in>set ys. commute_err f x y"
  shows "fold_err f s (ys @ x # zs) = fold_err f s (x # ys @ zs)"
  using assms
proof (induction ys arbitrary: s)
  case (Cons y ys)
  have "fold_err f s ((y # ys) @ x # zs) = fold_err f s (y # x # ys @ zs)"
    using Cons by (auto split: sum.splits)
  also have "\<dots> = fold_err f s (x # y # ys @ zs)"
    using Cons.prems by (intro fold_err_swap) (auto simp: commute_err_def)
  finally show ?case by simp
qed simp

lemma fold_err_order:
  assumes "distinct xs" "distinct ys" "set xs = set ys"
    and "\<And>x y. x \<in> set xs \<Longrightarrow> y \<in> set xs \<Longrightarrow> x \<noteq> y \<Longrightarrow> commute_err f x y"
  shows "fold_err f s xs = fold_err f s ys"
  using assms
proof (induction xs arbitrary: ys s)
  case (Cons x xs)
  from Cons.prems(3) have "x \<in> set ys" by auto
  then obtain as bs where ys: "ys = as @ x # bs" by (meson split_list)
  have "fold_err f s ys = fold_err f s (x # as @ bs)"
    unfolding ys using Cons.prems ys by (intro fold_err_to_front) auto
  also have "\<dots> = fold_err f s (x # xs)"
  proof -
    from Cons.prems(1-3) ys have sub: "distinct xs" "distinct (as @ bs)" "set xs = set (as @ bs)"
      by (auto simp: insert_ident)
    have "fold_err f t (as @ bs) = fold_err f t xs" for t
      by (rule Cons.IH [OF sub, symmetric]) (rule Cons.prems(4), auto)
    then show ?thesis by (auto split: sum.splits)
  qed
  finally show ?case by simp
qed simp

section \<open>The ticker against the deadline\<close>

text \<open>
  \<^verbatim>\<open>
  ticker := time.NewTicker(...); ctx, cancel := context.WithTimeout(...)
  for { select { case <-ticker.C: ...probe...; case <-ctx.Done(): ...give up... } }
  \<close>
  Which of two ready branches a \<open>select\<close> takes is open, so the number of ticks served before
  the deadline branch is taken is an argument: \<open>poll probe n w\<close> serves at most \<open>n\<close> ticks and
  then takes the deadline branch (\<open>None\<close>). A probe answers \<open>Some\<close> when the branch returns, and
  \<open>None\<close> when it goes round the loop again.
\<close>

fun poll :: "('w \<Rightarrow> 'a option \<times> 'w) \<Rightarrow> nat \<Rightarrow> 'w \<Rightarrow> 'a option \<times> 'w" where
  "poll probe 0 w = (None, w)"
| "poll probe (Suc n) w =
     (case probe w of (Some a, w') \<Rightarrow> (Some a, w') | (None, w') \<Rightarrow> poll probe n w')"

text \<open>The state after \<open>k\<close> ticks that all went round the loop.\<close>

fun after_ticks :: "('w \<Rightarrow> 'a option \<times> 'w) \<Rightarrow> nat \<Rightarrow> 'w \<Rightarrow> 'w" where
  "after_ticks probe 0 w = w"
| "after_ticks probe (Suc k) w = after_ticks probe k (snd (probe w))"

lemma poll_inv:
  assumes "poll probe n w = (r, w')" "P w" "\<And>w a w'. P w \<Longrightarrow> probe w = (a, w') \<Longrightarrow> P w'"
  shows "P w'"
  using assms
proof (induction n arbitrary: w)
  case (Suc n)
  obtain a v where p: "probe w = (a, v)" by fastforce
  then have "P v" using Suc.prems by blast
  with Suc p show ?case by (cases a) auto
qed simp

text \<open>A result of the loop was the answer of some probe, in a state the loop reached.\<close>

lemma poll_SomeD:
  assumes "poll probe n w = (Some a, w')"
  obtains k where "k < n" "probe (after_ticks probe k w) = (Some a, w')"
    "\<And>j. j < k \<Longrightarrow> fst (probe (after_ticks probe j w)) = None"
proof -
  have "\<exists>k<n. probe (after_ticks probe k w) = (Some a, w') \<and>
          (\<forall>j<k. fst (probe (after_ticks probe j w)) = None)"
    using assms
  proof (induction n arbitrary: w)
    case (Suc n)
    obtain r v where p: "probe w = (r, v)" by fastforce
    show ?case
    proof (cases r)
      case None
      with Suc p obtain k where "k < n" "probe (after_ticks probe k v) = (Some a, w')"
        "\<forall>j<k. fst (probe (after_ticks probe j v)) = None" by auto
      with p None have "Suc k < Suc n \<and> probe (after_ticks probe (Suc k) w) = (Some a, w') \<and>
          (\<forall>j<Suc k. fst (probe (after_ticks probe j w)) = None)"
        by (auto simp: less_Suc_eq_0_disj)
      then show ?thesis by blast
    next
      case (Some b)
      with Suc.prems p show ?thesis by (intro exI [of _ 0]) auto
    qed
  qed simp
  then show ?thesis using that by blast
qed

lemma poll_None_iff:
  "fst (poll probe n w) = None \<longleftrightarrow> (\<forall>k<n. fst (probe (after_ticks probe k w)) = None)"
proof (induction n arbitrary: w)
  case (Suc n)
  obtain r v where p: "probe w = (r, v)" by fastforce
  show ?case
    using p Suc [of v] by (cases r) (auto simp: less_Suc_eq_0_disj)
qed simp

end
