(* ===== verification/InFlight.thy ===== *)
theory InFlight imports Prelude begin

text \<open>
  The two guards against concurrent operations: \<open>util.VolumeLocks\<close> (\<open>idlocker.go\<close>), which the
  CFS Turbo node takes for a file system, and \<open>util.Idempotent\<close> (\<open>idempotent.go\<close>), which the CBS
  node takes for a request. Their contract is the locale \<open>exclusive_keys\<close>; inside it the
  gRPC handlers that run at the same time are a step relation, and mutual exclusion and the
  absence of leaked keys are proved once for both.
\<close>

section \<open>The two guards\<close>

text \<open>\<open>VolumeLocks\<close>: a set of volume ids behind a mutex, which makes each method one step.\<close>

record VolumeLocks =
  locks :: "string set"

definition NewVolumeLocks :: VolumeLocks where
  "NewVolumeLocks = \<lparr>locks = {}\<rparr>"

definition TryAcquire :: "string \<Rightarrow> VolumeLocks \<Rightarrow> bool \<times> VolumeLocks" where
  "TryAcquire volumeID vl =
     (if volumeID \<in> locks vl then (False, vl)
      else (True, vl\<lparr>locks := insert volumeID (locks vl)\<rparr>))"

definition Release :: "string \<Rightarrow> VolumeLocks \<Rightarrow> VolumeLocks" where
  "Release volumeID vl = vl\<lparr>locks := locks vl - {volumeID}\<rparr>"

text \<open>
  \<open>Idempotent\<close>: a map from the printed request to \<open>true\<close>. The printed request is the key, so the
  argument here is that string.
\<close>

record Idempotent =
  idemMap :: "string \<rightharpoonup> bool"

definition NewIdempotent :: Idempotent where
  "NewIdempotent = \<lparr>idemMap = Map.empty\<rparr>"

definition Insert :: "string \<Rightarrow> Idempotent \<Rightarrow> bool \<times> Idempotent" where
  "Insert hash idem =
     (case idemMap idem hash of
        Some _ \<Rightarrow> (False, idem)
      | None \<Rightarrow> (True, idem\<lparr>idemMap := (idemMap idem)(hash \<mapsto> True)\<rparr>))"

definition Delete :: "string \<Rightarrow> Idempotent \<Rightarrow> Idempotent" where
  "Delete hash idem = idem\<lparr>idemMap := (idemMap idem)(hash := None)\<rparr>"

section \<open>Handlers that run at the same time\<close>

text \<open>
  \<open>running s i\<close> is the key handler \<open>i\<close> works on. A handler starts when its acquisition succeeds,
  is turned away when it fails, and releases its key when it ends (the code's \<open>defer\<close>).
\<close>

record 'g handlers =
  running :: "nat \<Rightarrow> string option"
  guard :: 'g

inductive handler_step ::
  "(string \<Rightarrow> 'g \<Rightarrow> bool \<times> 'g) \<Rightarrow> (string \<Rightarrow> 'g \<Rightarrow> 'g) \<Rightarrow> 'g handlers \<Rightarrow> 'g handlers \<Rightarrow> bool"
  for acquire release where
  start: "running s i = None \<Longrightarrow> acquire k (guard s) = (True, g) \<Longrightarrow>
     handler_step acquire release s (s\<lparr>running := (running s)(i \<mapsto> k), guard := g\<rparr>)"
| turned_away: "running s i = None \<Longrightarrow> acquire k (guard s) = (False, g) \<Longrightarrow>
     handler_step acquire release s (s\<lparr>guard := g\<rparr>)"
| finish: "running s i = Some k \<Longrightarrow>
     handler_step acquire release s
       (s\<lparr>running := (running s)(i := None), guard := release k (guard s)\<rparr>)"

inductive handlers_reachable ::
  "(string \<Rightarrow> 'g \<Rightarrow> bool \<times> 'g) \<Rightarrow> (string \<Rightarrow> 'g \<Rightarrow> 'g) \<Rightarrow> 'g \<Rightarrow> 'g handlers \<Rightarrow> bool"
  for acquire release g0 where
  init: "handlers_reachable acquire release g0 \<lparr>running = Map.empty, guard = g0\<rparr>"
| step: "handlers_reachable acquire release g0 s \<Longrightarrow> handler_step acquire release s t \<Longrightarrow>
     handlers_reachable acquire release g0 t"

inductive_cases handler_stepE: "handler_step acquire release s t"

definition one_per_key :: "(nat \<Rightarrow> string option) \<Rightarrow> bool" where
  "one_per_key m \<longleftrightarrow> (\<forall>i j k. m i = Some k \<and> m j = Some k \<longrightarrow> i = j)"

lemma one_per_keyD: "one_per_key m \<Longrightarrow> m i = Some k \<Longrightarrow> m j = Some k \<Longrightarrow> i = j"
  unfolding one_per_key_def by blast

lemma one_per_key_start:
  assumes "one_per_key m" "k \<notin> ran m"
  shows "one_per_key (m(i \<mapsto> k))"
proof -
  have "m j \<noteq> Some k" for j using assms(2) by (auto simp: ran_def)
  with assms(1) show ?thesis unfolding one_per_key_def by (metis fun_upd_apply option.inject)
qed

lemma one_per_key_finish:
  assumes "one_per_key m" "m i = Some k"
  shows "one_per_key (m(i := None)) \<and> ran (m(i := None)) = ran m - {k}"
proof
  show "one_per_key (m(i := None))"
    using assms(1) unfolding one_per_key_def by (metis fun_upd_apply option.distinct(1))
  show "ran (m(i := None)) = ran m - {k}"
  proof (rule set_eqI)
    fix x
    show "x \<in> ran (m(i := None)) \<longleftrightarrow> x \<in> ran m - {k}"
      using assms one_per_keyD [OF assms(1), of i x] by (auto simp: ran_def) (metis option.inject)
  qed
qed

section \<open>The contract\<close>

locale exclusive_keys =
  fixes acquire :: "string \<Rightarrow> 'g \<Rightarrow> bool \<times> 'g"
    and release :: "string \<Rightarrow> 'g \<Rightarrow> 'g"
    and held :: "'g \<Rightarrow> string set"
    and fresh :: 'g
  assumes acquire_result: "fst (acquire k g) \<longleftrightarrow> k \<notin> held g"
    and acquire_held: "held (snd (acquire k g)) = insert k (held g)"
    and release_held: "held (release k g) = held g - {k}"
    and fresh_held: "held fresh = {}"
begin

lemma acquire_TrueD: "acquire k g = (True, g') \<Longrightarrow> k \<notin> held g \<and> held g' = insert k (held g)"
  using acquire_result [of k g] acquire_held [of k g] by simp

lemma acquire_FalseD: "acquire k g = (False, g') \<Longrightarrow> k \<in> held g \<and> held g' = held g"
  using acquire_result [of k g] acquire_held [of k g] by (auto simp: insert_absorb)

text \<open>The held keys are those of the running handlers, and no two handlers run on one key.\<close>

lemma handlers_inv:
  assumes "handlers_reachable acquire release fresh s"
  shows "held (guard s) = ran (running s) \<and> one_per_key (running s)"
  using assms
proof induction
  case init
  show ?case by (simp add: fresh_held one_per_key_def)
next
  case (step s t)
  from step.hyps(2) show ?case
  proof cases
    case (start i k g)
    with acquire_TrueD [OF start(3)] step.IH one_per_key_start [of "running s" k i] show ?thesis
      by (simp del: fun_upd_apply)
  next
    case (turned_away i k g)
    with acquire_FalseD [OF turned_away(3)] step.IH show ?thesis by simp
  next
    case (finish i k)
    with step.IH one_per_key_finish [of "running s" i k] show ?thesis
      by (simp add: release_held del: fun_upd_apply)
  qed
qed

lemma mutual_exclusion:
  assumes "handlers_reachable acquire release fresh s" "running s i = Some k" "running s j = Some k"
  shows "i = j"
  using one_per_keyD [of "running s" i k j] handlers_inv [OF assms(1)] assms(2,3) by simp

text \<open>A key no running handler works on can be acquired again: no exit of a handler leaks it.\<close>

lemma no_leak:
  assumes "handlers_reachable acquire release fresh s" "k \<notin> ran (running s)"
  shows "fst (acquire k (guard s))"
  using handlers_inv [OF assms(1)] assms(2) by (simp add: acquire_result)

lemma release_acquire: "fst (acquire k g) \<Longrightarrow> held (release k (snd (acquire k g))) = held g"
  by (auto simp: acquire_result acquire_held release_held)

end

interpretation vlocks: exclusive_keys TryAcquire Release locks NewVolumeLocks
  by unfold_locales (auto simp: TryAcquire_def Release_def NewVolumeLocks_def)

interpretation idem: exclusive_keys Insert Delete "\<lambda>i. dom (idemMap i)" NewIdempotent
  by unfold_locales (auto simp: Insert_def Delete_def NewIdempotent_def split: option.splits)

text \<open>Releasing right after a successful acquisition restores the guard itself.\<close>

lemma Release_TryAcquire: "TryAcquire k vl = (True, vl') \<Longrightarrow> Release k vl' = vl"
  by (auto simp: TryAcquire_def Release_def split: if_splits)

lemma Delete_Insert: "Insert k idem = (True, idem') \<Longrightarrow> Delete k idem' = idem"
  by (cases idem) (auto simp: Insert_def Delete_def fun_upd_idem split: option.splits)

section \<open>Properties of the guards\<close>

text \<open>C30. However handlers that take a volume lock interleave, no two of them run on one volume at the same time,
  and a volume that no running handler works on can always be locked: no exit of a handler
  leaves the lock behind.\<close>

theorem volume_locks_exclusive:
  assumes "handlers_reachable TryAcquire Release NewVolumeLocks s"
  shows "(running s i = Some k \<and> running s j = Some k \<longrightarrow> i = j) \<and>
    (k \<notin> ran (running s) \<longrightarrow> fst (TryAcquire k (guard s)))"
  using vlocks.mutual_exclusion [OF assms, of i k j] vlocks.no_leak [OF assms, of k] by blast

theorem volume_locks_exclusive_witness:
  "fst (TryAcquire ''fs'' (guard \<lparr>running = Map.empty, guard = NewVolumeLocks\<rparr>))"
  using volume_locks_exclusive [OF handlers_reachable.init, of 0 "''fs''" 0] by simp

text \<open>The same for the requests that \<open>Idempotent\<close> guards: a printed request is worked on by one handler at a
  time, and it is accepted again once that handler is done.\<close>

theorem idempotent_exclusive:
  assumes "handlers_reachable Insert Delete NewIdempotent s"
  shows "(running s i = Some k \<and> running s j = Some k \<longrightarrow> i = j) \<and>
    (k \<notin> ran (running s) \<longrightarrow> fst (Insert k (guard s)))"
  using idem.mutual_exclusion [OF assms, of i k j] idem.no_leak [OF assms, of k] by blast

theorem idempotent_exclusive_witness:
  "fst (Insert ''req'' (guard \<lparr>running = Map.empty, guard = NewIdempotent\<rparr>))"
  using idempotent_exclusive [OF handlers_reachable.init, of 0 "''req''" 0] by simp

end
