(* ===== verification/GoStrings.thy ===== *)
theory GoStrings imports Prelude "HOL-Library.Char_ord" begin

text \<open>
  The functions of Go's \<open>strings\<close> and \<open>strconv\<close> packages the drivers use, on byte strings.
  Case folding and white space are the ASCII ones. \<open>strings.Split\<close> and \<open>strings.ReplaceAll\<close>
  are modelled for a non-empty separator, the only way the drivers call them. The lemmas give
  the round trip of \<open>Split\<close> and \<open>Join\<close> and the shape of what \<open>Split\<close> returns.
\<close>

section \<open>Searching\<close>

definition HasPrefix :: "string \<Rightarrow> string \<Rightarrow> bool" where
  "HasPrefix s p = prefix p s"

definition HasSuffix :: "string \<Rightarrow> string \<Rightarrow> bool" where
  "HasSuffix s p = prefix (rev p) (rev s)"

fun Contains :: "string \<Rightarrow> string \<Rightarrow> bool" where
  "Contains [] sub = (sub = [])"
| "Contains (c # s) sub = (prefix sub (c # s) \<or> Contains s sub)"

lemma HasPrefix_append [go_str]: "HasPrefix (p @ s) p"
  by (simp add: HasPrefix_def)

lemma HasPrefix_iff: "HasPrefix s p \<longleftrightarrow> (\<exists>r. s = p @ r)"
  by (auto simp: HasPrefix_def prefix_def)

lemma HasSuffix_iff: "HasSuffix s p \<longleftrightarrow> (\<exists>r. s = r @ p)"
  by (simp add: HasSuffix_def flip: suffix_to_prefix) (auto simp: suffix_def)

lemma Contains_iff: "Contains s sub \<longleftrightarrow> (\<exists>a b. s = a @ sub @ b)"
proof (induction s)
  case (Cons c s)
  show ?case
  proof
    assume "Contains (c # s) sub"
    then consider "prefix sub (c # s)" | "Contains s sub" by auto
    then show "\<exists>a b. c # s = a @ sub @ b"
    proof cases
      case 1
      then show ?thesis by (metis append_Nil prefixE)
    next
      case 2
      with Cons show ?thesis by (metis append_Cons)
    qed
  next
    assume "\<exists>a b. c # s = a @ sub @ b"
    then obtain a b where ab: "c # s = a @ sub @ b" by blast
    show "Contains (c # s) sub"
    proof (cases a)
      case Nil
      with ab have "prefix sub (c # s)" by (simp add: prefix_def)
      then show ?thesis by simp
    next
      case (Cons d a')
      with ab have "s = a' @ sub @ b" by simp
      with Cons.IH show ?thesis by auto
    qed
  qed
qed auto

lemma Contains_single [simp]: "Contains s [c] \<longleftrightarrow> c \<in> set s"
  by (induction s) auto

section \<open>Trimming\<close>

definition TrimSuffix :: "string \<Rightarrow> string \<Rightarrow> string" where
  "TrimSuffix s p = (if HasSuffix s p then take (length s - length p) s else s)"

definition TrimPrefix :: "string \<Rightarrow> string \<Rightarrow> string" where
  "TrimPrefix s p = (if HasPrefix s p then drop (length p) s else s)"

definition Trim :: "string \<Rightarrow> string \<Rightarrow> string" where
  "Trim s cutset = rev (dropWhile (\<lambda>c. c \<in> set cutset) (rev (dropWhile (\<lambda>c. c \<in> set cutset) s)))"

definition TrimLeft :: "string \<Rightarrow> string \<Rightarrow> string" where
  "TrimLeft s cutset = dropWhile (\<lambda>c. c \<in> set cutset) s"

definition ascii_space :: string where
  "ascii_space = [CHR 0x09, CHR 0x0A, CHR 0x0B, CHR 0x0C, CHR 0x0D, CHR 0x20]"

definition TrimSpace :: "string \<Rightarrow> string" where
  "TrimSpace s = Trim s ascii_space"

lemma TrimSuffix_append [go_str]: "TrimSuffix (s @ p) p = s"
  by (simp add: TrimSuffix_def HasSuffix_def)

lemma TrimPrefix_append [go_str]: "TrimPrefix (p @ s) p = s"
  by (simp add: TrimPrefix_def HasPrefix_def)

lemma TrimPrefix_no_prefix: "\<not> HasPrefix s p \<Longrightarrow> TrimPrefix s p = s"
  by (simp add: TrimPrefix_def)

section \<open>Splitting and joining\<close>

text \<open>\<open>SplitC c s\<close> is \<open>strings.Split(s, "c")\<close> for a separator of one byte.\<close>

fun SplitC :: "char \<Rightarrow> string \<Rightarrow> string list" where
  "SplitC c [] = [[]]"
| "SplitC c (x # xs) =
     (if x = c then [] # SplitC c xs
      else case SplitC c xs of [] \<Rightarrow> [[x]] | w # ws \<Rightarrow> (x # w) # ws)"

text \<open>\<open>Split s sep\<close> is \<open>strings.Split(s, sep)\<close> for any non-empty separator.\<close>

function Split_from :: "string \<Rightarrow> string \<Rightarrow> string \<Rightarrow> string list" where
  "Split_from sep acc s =
     (if sep \<noteq> [] \<and> prefix sep s then rev acc # Split_from sep [] (drop (length sep) s)
      else case s of [] \<Rightarrow> [rev acc] | c # s' \<Rightarrow> Split_from sep (c # acc) s')"
  by pat_completeness auto
termination
  by (relation "measure (\<lambda>(sep, acc, s). length s)") (auto simp: prefix_def)

declare Split_from.simps [simp del]

definition Split :: "string \<Rightarrow> string \<Rightarrow> string list" where
  "Split s sep = Split_from sep [] s"

fun Join :: "string list \<Rightarrow> string \<Rightarrow> string" where
  "Join [] sep = []"
| "Join [w] sep = w"
| "Join (w # v # ws) sep = w @ sep @ Join (v # ws) sep"

definition ReplaceAll :: "string \<Rightarrow> string \<Rightarrow> string \<Rightarrow> string" where
  "ReplaceAll s old new = Join (Split s old) new"

text \<open>\<open>strings.Replace(s, old, new, 1)\<close>.\<close>

definition Replace1 :: "string \<Rightarrow> string \<Rightarrow> string \<Rightarrow> string" where
  "Replace1 s old new =
     (case Split s old of w # v # ws \<Rightarrow> w @ new @ Join (v # ws) old | _ \<Rightarrow> s)"

text \<open>\<open>strings.ReplaceAll\<close> of one byte by one byte.\<close>

definition ReplaceC :: "char \<Rightarrow> char \<Rightarrow> string \<Rightarrow> string" where
  "ReplaceC old new s = map (\<lambda>c. if c = old then new else c) s"

lemma SplitC_not_Nil [simp]: "SplitC c s \<noteq> []"
  by (induction s) (auto split: list.splits)

lemma SplitC_Cons_other [simp]:
  "x \<noteq> c \<Longrightarrow> SplitC c (x # xs) = (x # hd (SplitC c xs)) # tl (SplitC c xs)"
  by (cases "SplitC c xs") auto

lemma SplitC_no_sep [go_str]: "c \<notin> set s \<Longrightarrow> SplitC c s = [s]"
  by (induction s) auto

lemma SplitC_append [go_str]:
  "c \<notin> set w \<Longrightarrow> SplitC c (w @ c # s) = w # SplitC c s"
  by (induction w) auto

lemma SplitC_parts: "w \<in> set (SplitC c s) \<Longrightarrow> c \<notin> set w"
proof (induction s arbitrary: w)
  case (Cons x xs)
  show ?case
  proof (cases "x = c")
    case True
    with Cons show ?thesis by auto
  next
    case False
    obtain v vs where vs: "SplitC c xs = v # vs" by (cases "SplitC c xs") auto
    with False Cons.prems have "w = x # v \<or> w \<in> set vs" by auto
    with False Cons.IH vs show ?thesis by (metis list.set_intros set_ConsD)
  qed
qed simp

text \<open>The round trips: joining what was split, and splitting what was joined.\<close>

lemma Join_Cons [go_str]: "ws \<noteq> [] \<Longrightarrow> Join (w # ws) sep = w @ sep @ Join ws sep"
  by (cases ws) auto

lemma Join_SplitC [go_str]: "Join (SplitC c s) [c] = s"
proof (induction s)
  case (Cons x xs)
  obtain v vs where vs: "SplitC c xs = v # vs" by (cases "SplitC c xs") auto
  with Cons show ?case by (cases vs) auto
qed simp

lemma SplitC_Join [go_str]:
  "ws \<noteq> [] \<Longrightarrow> \<forall>w\<in>set ws. c \<notin> set w \<Longrightarrow> SplitC c (Join ws [c]) = ws"
proof (induction ws)
  case (Cons w ws)
  show ?case
  proof (cases ws)
    case Nil
    with Cons.prems show ?thesis by (simp add: SplitC_no_sep)
  next
    case (Cons v vs)
    with Cons.prems Cons.IH show ?thesis by (simp add: SplitC_append)
  qed
qed simp

lemma SplitC_append_sep: "SplitC c (a @ c # b) = SplitC c a @ SplitC c b"
proof (induction a)
  case (Cons x xs)
  obtain v vs where "SplitC c xs = v # vs" by (cases "SplitC c xs") auto
  with Cons show ?case by auto
qed simp

lemma SplitC_Join_concat: "ws \<noteq> [] \<Longrightarrow> SplitC c (Join ws [c]) = concat (map (SplitC c) ws)"
proof (induction ws)
  case (Cons w ws)
  then show ?case by (cases ws) (simp_all add: SplitC_append_sep)
qed simp

lemma length_SplitC: "length (SplitC c s) = Suc (count_list s c)"
proof (induction s)
  case (Cons x xs)
  obtain v vs where "SplitC c xs = v # vs" by (cases "SplitC c xs") auto
  with Cons show ?case by auto
qed simp

lemma Split_from_not_Nil [simp]: "Split_from sep acc s \<noteq> []"
proof (induction sep acc s rule: Split_from.induct)
  case (1 sep acc s)
  then show ?case by (subst Split_from.simps) (auto split: list.splits)
qed

text \<open>Without an occurrence of the separator there is one part, the whole string.\<close>

lemma Split_from_no_sep:
  "sep \<noteq> [] \<Longrightarrow> \<not> Contains s sep \<Longrightarrow> Split_from sep acc s = [rev acc @ s]"
proof (induction s arbitrary: acc)
  case Nil
  then show ?case by (subst Split_from.simps) auto
next
  case (Cons c s)
  then show ?case by (subst Split_from.simps) auto
qed

lemma Split_no_sep [go_str]: "sep \<noteq> [] \<Longrightarrow> \<not> Contains s sep \<Longrightarrow> Split s sep = [s]"
  by (simp add: Split_def Split_from_no_sep)

section \<open>Case\<close>

definition lower_char :: "char \<Rightarrow> char" where
  "lower_char c = (if of_char c \<in> {65..90 :: nat} then char_of (of_char c + 32 :: nat) else c)"

definition ToLower :: "string \<Rightarrow> string" where
  "ToLower s = map lower_char s"

section \<open>Numbers\<close>

definition max_int64 :: int where "max_int64 = 9223372036854775807"
definition min_int64 :: int where "min_int64 = -9223372036854775808"

text \<open>Conversions of a mathematical integer to Go's \<open>int64\<close> (or \<open>int\<close>) and \<open>uint64\<close>.\<close>

definition int64 :: "int \<Rightarrow> int" where
  "int64 x = (x + 9223372036854775808) mod 18446744073709551616 - 9223372036854775808"

definition uint64 :: "int \<Rightarrow> nat" where
  "uint64 x = nat (x mod 18446744073709551616)"

lemma int64_range: "min_int64 \<le> int64 x \<and> int64 x \<le> max_int64"
proof -
  have "0 \<le> (x + 9223372036854775808) mod 18446744073709551616"
    "(x + 9223372036854775808) mod 18446744073709551616 < 18446744073709551616"
    by (simp_all)
  then show ?thesis unfolding int64_def min_int64_def max_int64_def by linarith
qed

lemma int64_id: "min_int64 \<le> x \<Longrightarrow> x \<le> max_int64 \<Longrightarrow> int64 x = x"
  by (simp add: int64_def min_int64_def max_int64_def)

lemma uint64_range: "uint64 x < 18446744073709551616"
proof -
  have "x mod 18446744073709551616 < 18446744073709551616"
    and "0 \<le> x mod 18446744073709551616" by simp_all
  then show ?thesis unfolding uint64_def by linarith
qed

lemma uint64_id: "0 \<le> x \<Longrightarrow> x < 18446744073709551616 \<Longrightarrow> uint64 x = nat x"
  by (simp add: uint64_def)

definition is_digit :: "char \<Rightarrow> bool" where
  "is_digit c \<longleftrightarrow> of_char c \<in> {48..57 :: nat}"

definition digits_val :: "string \<Rightarrow> int" where
  "digits_val s = foldl (\<lambda>n c. 10 * n + (of_char c - 48)) 0 s"

datatype num_error = ErrSyntax | ErrRange

text \<open>
  \<open>strconv.Atoi\<close> returns a value next to its error: 0 for a string that is no number, the
  nearest bound for one that is out of range. The drivers use the value after an error.
\<close>

definition Atoi :: "string \<Rightarrow> num_error option \<times> int" where
  "Atoi s =
     (let (neg, ds) =
        (case s of [] \<Rightarrow> (False, [])
         | c # r \<Rightarrow> if c = CHR ''-'' then (True, r) else if c = CHR ''+'' then (False, r)
                  else (False, s))
      in if ds = [] \<or> \<not> list_all is_digit ds then (Some ErrSyntax, 0)
         else let v = (if neg then - digits_val ds else digits_val ds)
              in if v > max_int64 then (Some ErrRange, max_int64)
                 else if v < min_int64 then (Some ErrRange, min_int64) else (None, v))"

definition ParseBool :: "string \<Rightarrow> bool option" where
  "ParseBool s =
     (if s \<in> set [''1'', ''t'', ''T'', ''true'', ''TRUE'', ''True''] then Some True
      else if s \<in> set [''0'', ''f'', ''F'', ''false'', ''FALSE'', ''False''] then Some False
      else None)"

fun show_nat :: "nat \<Rightarrow> string" where
  "show_nat n =
     (if n < 10 then [char_of (48 + n)] else show_nat (n div 10) @ [char_of (48 + n mod 10)])"

declare show_nat.simps [simp del]

text \<open>What Atoi returns is always an int64.\<close>

definition show_int :: "int \<Rightarrow> string" where
  "show_int i = (if i < 0 then ''-'' @ show_nat (nat (- i)) else show_nat (nat i))"

lemma Atoi_range: "min_int64 \<le> snd (Atoi s) \<and> snd (Atoi s) \<le> max_int64"
proof -
  have "min_int64 \<le> 0" "0 \<le> max_int64" by (simp_all add: min_int64_def max_int64_def)
  then show ?thesis unfolding Atoi_def Let_def by (auto split: list.splits)
qed

text \<open>Atoi reads back what Itoa prints.\<close>

lemma of_char_digit: "d < (10::nat) \<Longrightarrow> of_char (char_of (48 + d) :: char) = 48 + d"
  by (simp add: of_char_of)

lemma is_digit_show: "d < (10::nat) \<Longrightarrow> is_digit (char_of (48 + d))"
  by (simp add: is_digit_def of_char_digit)

lemma show_nat_digits: "list_all is_digit (show_nat n) \<and> show_nat n \<noteq> []"
proof (induction n rule: show_nat.induct)
  case (1 n)
  show ?case
    using 1 by (subst (1 2) show_nat.simps) (auto simp: is_digit_show)
qed

lemma digits_val_snoc: "digits_val (s @ [c]) = 10 * digits_val s + (of_char c - 48)"
  by (simp add: digits_val_def)

lemma digits_val_show_nat: "digits_val (show_nat n) = int n"
proof (induction n rule: show_nat.induct)
  case (1 n)
  have dig': "(of_char (char_of (48 + d) :: char) :: int) = 48 + int d" if "d < (10::nat)" for d
    using of_char_digit [OF that] by (metis of_nat_add of_nat_numeral of_nat_of_char)
  show ?case
  proof (cases "n < 10")
    case True
    then show ?thesis
      by (subst show_nat.simps) (simp add: digits_val_def dig')
  next
    case False
    with 1 have "digits_val (show_nat (n div 10)) = int (n div 10)" by simp
    with False show ?thesis
      by (subst show_nat.simps) (simp add: digits_val_snoc dig' flip: zdiv_int zmod_int, presburger)
  qed
qed

lemma Atoi_show_nat: "int n \<le> max_int64 \<Longrightarrow> Atoi (show_nat n) = (None, int n)"
proof -
  assume le: "int n \<le> max_int64"
  obtain c r where cr: "show_nat n = c # r" using show_nat_digits by (cases "show_nat n") auto
  then have "is_digit c" using show_nat_digits [of n] by simp
  then have "c \<noteq> CHR ''-''" "c \<noteq> CHR ''+''" by (auto simp: is_digit_def)
  moreover have "min_int64 \<le> int n" by (simp add: min_int64_def)
  ultimately show ?thesis
    using le cr show_nat_digits [of n] digits_val_show_nat [of n] unfolding Atoi_def by auto
qed

end
