(* ===== verification/Util.thy ===== *)
theory Util imports GoStrings begin

text \<open>
  The helpers of \<open>driver/util\<close>: sizes in \<open>int64\<close> (\<open>util.go\<close>), the metrics label of an SDK
  error, the tests on paths and mounts, the credentials and the namespace read from the
  environment (\<open>secret_util.go\<close>, \<open>k8scache.go\<close>), and the wait for instance metadata
  (\<open>metadata.go\<close>). The lemmas give the rounding contract, its overflow boundary, and the result
  of the metadata wait.
\<close>

section \<open>Sizes\<close>

text \<open>
  Go's \<open>int64\<close> division truncates towards zero and every operation wraps around; \<open>int64\<close> is
  written where the wrap-around can happen.
\<close>

definition go_div :: "int \<Rightarrow> int \<Rightarrow> int" where
  "go_div a b = sgn a * sgn b * (\<bar>a\<bar> div \<bar>b\<bar>)"

definition go_mod :: "int \<Rightarrow> int \<Rightarrow> int" where
  "go_mod a b = a - go_div a b * b"

definition GiB :: int where "GiB = 1024 * 1024 * 1024"

definition roundUpSize :: "int \<Rightarrow> int \<Rightarrow> int" where
  "roundUpSize volumeSizeBytes allocationUnitBytes =
     (let roundedUp = int64 (go_div volumeSizeBytes allocationUnitBytes)
      in if go_mod volumeSizeBytes allocationUnitBytes > 0 then int64 (roundedUp + 1) else roundedUp)"

definition RoundUpBytes :: "int \<Rightarrow> int" where
  "RoundUpBytes volumeSizeBytes = int64 (roundUpSize volumeSizeBytes GiB * GiB)"

definition RoundUpGiB :: "int \<Rightarrow> int" where
  "RoundUpGiB volumeSizeBytes = roundUpSize volumeSizeBytes GiB"

definition BytesToGiB :: "int \<Rightarrow> int" where
  "BytesToGiB volumeSizeBytes = int64 (go_div volumeSizeBytes GiB)"

definition GiBToBytes :: "int \<Rightarrow> int" where
  "GiBToBytes volumeSizeGiB = int64 (volumeSizeGiB * GiB)"

lemma go_div_nonneg: "0 \<le> a \<Longrightarrow> 0 < b \<Longrightarrow> go_div a b = a div b"
  by (cases "a = 0") (auto simp: go_div_def)

lemma go_mod_nonneg: "0 \<le> a \<Longrightarrow> 0 < b \<Longrightarrow> go_mod a b = a mod b"
  by (simp add: go_mod_def go_div_nonneg minus_div_mult_eq_mod)

text \<open>On sizes that are not negative the rounding is the ceiling, without overflow.\<close>

lemma ceiling_div:
  fixes a u :: int
  assumes "0 < u"
  shows "(if 0 < a mod u then a div u + 1 else a div u) = (a + u - 1) div u"
proof -
  have a: "a = u * (a div u) + a mod u" by simp
  show ?thesis
  proof (cases "0 < a mod u")
    case True
    have "a + u - 1 = u * (a div u + 1) + (a mod u - 1)" using a by (simp add: algebra_simps)
    from int_div_pos_eq [OF this] True assms pos_mod_bound [OF assms, of a]
    show ?thesis by simp
  next
    case False
    then have "a mod u = 0" using pos_mod_sign [OF assms, of a] by linarith
    with a have "a + u - 1 = u * (a div u) + (u - 1)" by linarith
    from int_div_pos_eq [OF this] False assms show ?thesis by simp
  qed
qed

lemma RoundUpGiB_eq:
  assumes "0 \<le> b" "b \<le> max_int64"
  shows "RoundUpGiB b = (b + GiB - 1) div GiB"
proof -
  let ?q = "b div 1073741824" and ?r = "b mod 1073741824"
  have q: "0 \<le> ?q" "?q \<le> 8589934591"
    using assms by (simp_all add: max_int64_def)
  have id: "int64 x = x" if "0 \<le> x" "x \<le> 8589934592" for x
    using that by (simp add: int64_id min_int64_def max_int64_def)
  have "RoundUpGiB b = (if 0 < ?r then ?q + 1 else ?q)"
    using assms q by (simp add: RoundUpGiB_def roundUpSize_def GiB_def go_div_nonneg go_mod_nonneg id Let_def)
  also have "\<dots> = (b + 1073741824 - 1) div 1073741824" by (rule ceiling_div) simp
  finally show ?thesis by (simp add: GiB_def)
qed

lemma RoundUpGiB_covers:
  assumes "0 \<le> b" "b \<le> max_int64"
  shows "b \<le> RoundUpGiB b * GiB" "RoundUpGiB b * GiB < b + GiB" "0 \<le> RoundUpGiB b"
  using assms by (simp_all add: RoundUpGiB_eq GiB_def)

text \<open>\<open>RoundUpGiB\<close> is the smallest number of GiB that holds a request; converting it back to bytes is
  exact up to the last GiB below \<open>2^63\<close>, and wraps to the most negative value beyond.\<close>

theorem RoundUpGiB_least_cover:
  assumes "0 \<le> b" "b \<le> max_int64"
  shows "b \<le> RoundUpGiB b * GiB \<and> (\<forall>k. b \<le> k * GiB \<longrightarrow> RoundUpGiB b \<le> k)
    \<and> GiBToBytes (RoundUpGiB b) =
        (if b \<le> max_int64 - (GiB - 1) then RoundUpGiB b * GiB else min_int64)
    \<and> RoundUpBytes b = GiBToBytes (RoundUpGiB b)"
proof (intro conjI)
  show "b \<le> RoundUpGiB b * GiB" using RoundUpGiB_covers [OF assms] by simp
  show "\<forall>k. b \<le> k * GiB \<longrightarrow> RoundUpGiB b \<le> k"
    using assms by (auto simp: RoundUpGiB_eq GiB_def)
  show "RoundUpBytes b = GiBToBytes (RoundUpGiB b)"
    by (simp add: RoundUpBytes_def GiBToBytes_def RoundUpGiB_def)
  show "GiBToBytes (RoundUpGiB b) =
        (if b \<le> max_int64 - (GiB - 1) then RoundUpGiB b * GiB else min_int64)"
  proof (cases "b \<le> max_int64 - (GiB - 1)")
    case True
    with RoundUpGiB_covers [OF assms] assms have "RoundUpGiB b * GiB \<le> max_int64"
      by (simp add: RoundUpGiB_eq GiB_def max_int64_def)
    moreover have "min_int64 \<le> RoundUpGiB b * GiB"
      using RoundUpGiB_covers [OF assms] assms by (simp add: min_int64_def GiB_def)
    ultimately show ?thesis using True by (simp add: GiBToBytes_def int64_id)
  next
    case False
    with assms have "RoundUpGiB b = 8589934592"
      by (simp add: RoundUpGiB_eq GiB_def max_int64_def)
    with False show ?thesis by (simp add: GiBToBytes_def GiB_def int64_def min_int64_def)
  qed
qed

theorem RoundUpGiB_least_cover_witness:
  "RoundUpGiB 1073741825 = 2 \<and> GiBToBytes 2 = 2147483648 \<and> GiBToBytes (RoundUpGiB max_int64) = min_int64"
  using RoundUpGiB_least_cover [of 1073741825] RoundUpGiB_least_cover [of max_int64]
  by (simp add: RoundUpGiB_eq GiB_def max_int64_def)

section \<open>Error codes, paths and mounts\<close>

text \<open>The label the metrics carry for an SDK error.\<close>

definition GetTencentSdkErrCode :: "ext_err \<Rightarrow> string" where
  "GetTencentSdkErrCode err =
     (case err_class err of ESdk code \<Rightarrow> ''SDKErr.'' @ code | _ \<Rightarrow> ''InternalError'')"

definition IsCorruptedMnt :: "ext_err option \<Rightarrow> bool" where
  "IsCorruptedMnt err = (case err of None \<Rightarrow> False | Some e \<Rightarrow> err_class e = ECorruptedMnt)"

text \<open>\<open>stat\<close> is \<open>os.Stat\<close>'s error, \<open>None\<close> for nil. The result is the pair Go returns.\<close>

definition PathExists :: "(string \<Rightarrow> ext_err option) \<Rightarrow> string \<Rightarrow> bool \<times> ext_err option" where
  "PathExists stat path =
     (case stat path of
        None \<Rightarrow> (True, None)
      | Some err \<Rightarrow>
          if IsNotExist err then (False, None)
          else if IsCorruptedMnt (Some err) then (True, Some err)
          else (False, Some err))"

fun HasMountRefs :: "string \<Rightarrow> string list \<Rightarrow> bool" where
  "HasMountRefs mountPath [] = False"
| "HasMountRefs mountPath (ref # refs) =
     (if \<not> Contains ref mountPath then True else HasMountRefs mountPath refs)"

definition IsDirMounted :: "(string \<Rightarrow> bool \<times> ext_err option) \<Rightarrow> string \<Rightarrow> bool \<times> ext_err option" where
  "IsDirMounted isLikelyNotMountPoint mountPath =
     (case isLikelyNotMountPoint mountPath of
        (notMnt, Some err) \<Rightarrow> if \<not> IsNotExist err then (False, Some err) else (\<not> notMnt, None)
      | (notMnt, None) \<Rightarrow> (\<not> notMnt, None))"

lemma HasMountRefs_iff: "HasMountRefs p refs \<longleftrightarrow> (\<exists>ref\<in>set refs. \<not> Contains ref p)"
  by (induction refs) auto

section \<open>Environment variables\<close>

text \<open>\<open>os.Getenv\<close> gives the empty string for a variable that is not set.\<close>

type_synonym getenv = "string \<Rightarrow> string"

definition GetSercet :: "getenv \<Rightarrow> string \<times> string \<times> string \<times> bool" where
  "GetSercet env =
     (env ''TENCENTCLOUD_API_SECRET_ID'', env ''TENCENTCLOUD_API_SECRET_KEY'', [], False)"

definition GetK8sNamespace :: "getenv \<Rightarrow> string" where
  "GetK8sNamespace env =
     (let namespace = env ''POD_NAMESPACE''
      in if namespace = [] \<or> HasPrefix namespace ''cls-'' then ''kube-system'' else namespace)"

section \<open>Waiting for the instance metadata\<close>

definition metadata_keys :: "string list" where
  "metadata_keys = [''placement/region'', ''placement/zone'', ''instance-id'']"

text \<open>
  \<open>meta n\<close> is the answer of the metadata service to try \<open>n\<close>. The table \<open>m\<close> has an entry for three
  keys; calling the nil function found under any other key panics.
\<close>

definition GetFromMetadata_tick :: "(nat \<Rightarrow> ext_err + string) \<Rightarrow> string \<Rightarrow> nat \<Rightarrow> (go_error + string) option \<times> nat" where
  "GetFromMetadata_tick meta k n =
     (if k \<notin> set metadata_keys then (Some (Inl GoPanic), n)
      else case meta n of
        Inl err \<Rightarrow> (None, Suc n)
      | Inr v \<Rightarrow> if v = [] then (None, Suc n) else (Some (Inr v), Suc n))"

definition GetFromMetadata :: "(nat \<Rightarrow> ext_err + string) \<Rightarrow> nat \<Rightarrow> string \<Rightarrow> go_error + string" where
  "GetFromMetadata meta ticks k =
     (case fst (poll (GetFromMetadata_tick meta k) ticks 0) of
        Some r \<Rightarrow> r
      | None \<Rightarrow> Inl PlainMsg)"

lemma GetFromMetadata_after_ticks:
  assumes "k \<in> set metadata_keys"
  shows "after_ticks (GetFromMetadata_tick meta k) j n = n + j"
  using assms by (induction j arbitrary: n) (auto simp: GetFromMetadata_tick_def split: sum.splits)

lemma GetFromMetadata_tick_None:
  assumes "k \<in> set metadata_keys"
  shows "fst (GetFromMetadata_tick meta k n) = None \<longleftrightarrow> (\<forall>v. meta n = Inr v \<longrightarrow> v = [])"
  using assms by (auto simp: GetFromMetadata_tick_def split: sum.splits)

text \<open>The wait for a known metadata key returns the first non-empty answer among the tries the deadline
  allows, and an error exactly when there is none.\<close>

theorem GetFromMetadata_first_answer:
  assumes "k \<in> set metadata_keys"
  shows "GetFromMetadata meta ticks k =
     (case find (\<lambda>n. \<exists>v. meta n = Inr v \<and> v \<noteq> []) [0..<ticks] of
        Some n \<Rightarrow> map_sum (\<lambda>_. PlainMsg) id (meta n) | None \<Rightarrow> Inl PlainMsg)"
proof (cases "fst (poll (GetFromMetadata_tick meta k) ticks 0)")
  case None
  then have "\<forall>n<ticks. \<forall>v. meta n = Inr v \<longrightarrow> v = []"
    using assms by (simp add: poll_None_iff GetFromMetadata_after_ticks GetFromMetadata_tick_None)
  then have "find (\<lambda>n. \<exists>v. meta n = Inr v \<and> v \<noteq> []) [0..<ticks] = None"
    by (auto simp: find_None_iff)
  with None show ?thesis by (simp add: GetFromMetadata_def)
next
  case (Some r)
  then obtain w' where "poll (GetFromMetadata_tick meta k) ticks 0 = (Some r, w')"
    by (metis prod.collapse)
  then obtain n where n: "n < ticks" "GetFromMetadata_tick meta k n = (Some r, w')"
    "\<And>j. j < n \<Longrightarrow> fst (GetFromMetadata_tick meta k j) = None"
    by (rule poll_SomeD) (use assms in \<open>auto simp: GetFromMetadata_after_ticks\<close>)
  then obtain v where v: "meta n = Inr v" "v \<noteq> []" "r = Inr v"
    using assms by (auto simp: GetFromMetadata_tick_def split: sum.splits if_splits)
  have "find (\<lambda>n. \<exists>v. meta n = Inr v \<and> v \<noteq> []) [0..<ticks] = Some n"
    using n v assms by (auto simp: find_Some_iff GetFromMetadata_tick_None intro!: exI [of _ n])
  with Some v show ?thesis by (simp add: GetFromMetadata_def)
qed

theorem GetFromMetadata_first_answer_witness:
  "GetFromMetadata (\<lambda>n. if n < 2 then Inl (ExtErr EOther []) else Inr ''gz'') 5 ''placement/region'' = Inr ''gz''"
proof -
  have k: "''placement/region'' \<in> set metadata_keys" by code_simp
  have "[0..<5] = [0, 1, 2, 3, 4 :: nat]" by (simp add: upt_rec)
  then show ?thesis by (subst GetFromMetadata_first_answer [OF k]) simp
qed

text \<open>
  \<open>meta k n\<close> is the metadata service's answer to try \<open>n\<close> for key \<open>k\<close>, \<open>waits\<close> the tries before
  the deadline. A value that cannot be had ends the process.
\<close>

definition from_metadata :: "(string \<Rightarrow> nat \<Rightarrow> ext_err + string) \<Rightarrow> nat \<Rightarrow> string \<Rightarrow> go_error + string" where
  "from_metadata meta waits k = map_sum (\<lambda>e. if e = GoPanic then GoPanic else GoExit) id (GetFromMetadata (meta k) waits k)"

lemma from_metadata_InrD: "from_metadata meta waits k = Inr v \<Longrightarrow> v \<noteq> []"
proof -
  assume "from_metadata meta waits k = Inr v"
  then have g: "GetFromMetadata (meta k) waits k = Inr v"
    by (auto simp: from_metadata_def map_sum_def split: sum.splits)
  then obtain w' where "poll (GetFromMetadata_tick (meta k) k) waits 0 = (Some (Inr v), w')"
    by (auto simp: GetFromMetadata_def split: option.splits) (metis prod.collapse)
  then obtain n where "GetFromMetadata_tick (meta k) k n = (Some (Inr v), w')"
    by (rule poll_SomeD)
  then show ?thesis by (auto simp: GetFromMetadata_tick_def split: sum.splits if_splits)
qed

end
