(* ===== verification/MetadataStore.thy ===== *)
theory MetadataStore imports GoStrings begin

text \<open>
  The metadata store of the CBS controller: the interface \<open>util.CachePersister\<close>
  (\<open>cachepersister.go\<close>) as a locale, and its implementation over Kubernetes ConfigMaps
  (\<open>k8scache.go\<close>), which interprets it. The Kubernetes API is an argument: a record of functions
  over an abstract cluster state, with the documented behaviour of Get, List, Create and Delete
  as the predicate \<open>cm_api_laws\<close>. A stored value is a snapshot record (\<open>cbs_utils.go\<close>), encoded
  field by field as \<open>encoding/json\<close> does for its struct tags.
\<close>

section \<open>The snapshot record and its JSON form\<close>

record cbsSnapshot =
  SourceVolumeId :: string
  SnapName :: string
  SnapId :: string
  CreatedAt :: int
  SizeBytes :: int

definition zero_cbsSnapshot :: cbsSnapshot where
  "zero_cbsSnapshot =
     \<lparr>SourceVolumeId = [], SnapName = [], SnapId = [], CreatedAt = 0, SizeBytes = 0\<rparr>"

text \<open>
  A JSON object is the list of its members; the theory \<open>JsonTexts\<close> has the texts. A text that is no object
  of scalars is \<open>NotJson\<close>.
\<close>

datatype json_val = JStr string | JNum int

datatype json_text = JsonObj "(string \<times> json_val) list" | NotJson

definition marshal_snapshot :: "cbsSnapshot \<Rightarrow> json_text" where
  "marshal_snapshot s = JsonObj
     [(''sourceVolumeId'', JStr (SourceVolumeId s)), (''snapName'', JStr (SnapName s)),
      (''sanpId'', JStr (SnapId s)), (''createdAt'', JNum (CreatedAt s)),
      (''sizeBytes'', JNum (SizeBytes s))]"

text \<open>
  \<open>json.Unmarshal\<close> into a struct sets the fields the object has and leaves the others as they
  were. A member of the wrong kind is an error, and the members after it are still set.
\<close>

fun set_member :: "(string \<times> json_val) \<Rightarrow> cbsSnapshot \<Rightarrow> bool \<times> cbsSnapshot" where
  "set_member (k, v) s =
     (if k = ''sourceVolumeId'' then
        (case v of JStr x \<Rightarrow> (True, s\<lparr>SourceVolumeId := x\<rparr>) | _ \<Rightarrow> (False, s))
      else if k = ''snapName'' then
        (case v of JStr x \<Rightarrow> (True, s\<lparr>SnapName := x\<rparr>) | _ \<Rightarrow> (False, s))
      else if k = ''sanpId'' then
        (case v of JStr x \<Rightarrow> (True, s\<lparr>SnapId := x\<rparr>) | _ \<Rightarrow> (False, s))
      else if k = ''createdAt'' then
        (case v of JNum x \<Rightarrow> (True, s\<lparr>CreatedAt := x\<rparr>) | _ \<Rightarrow> (False, s))
      else if k = ''sizeBytes'' then
        (case v of JNum x \<Rightarrow> (True, s\<lparr>SizeBytes := x\<rparr>) | _ \<Rightarrow> (False, s))
      else (True, s))"

fun set_members :: "(string \<times> json_val) list \<Rightarrow> cbsSnapshot \<Rightarrow> bool \<times> cbsSnapshot" where
  "set_members [] s = (True, s)"
| "set_members (m # ms) s =
     (let (ok, s') = set_member m s; (ok', s'') = set_members ms s' in (ok \<and> ok', s''))"

definition unmarshal_snapshot :: "json_text \<Rightarrow> cbsSnapshot \<Rightarrow> bool \<times> cbsSnapshot" where
  "unmarshal_snapshot t dest =
     (case t of JsonObj ms \<Rightarrow> set_members ms dest | NotJson \<Rightarrow> (False, dest))"

text \<open>What was marshalled is read back, whatever the destination held.\<close>

lemma unmarshal_marshal [simp]: "unmarshal_snapshot (marshal_snapshot s) dest = (True, s)"
  by (cases s, cases dest) (simp add: unmarshal_snapshot_def marshal_snapshot_def)

section \<open>ConfigMaps and the Kubernetes API\<close>

record ConfigMap =
  cm_name :: string
  cm_namespace :: string
  cm_labels :: "(string \<times> string) list"
  cm_data :: "string \<rightharpoonup> json_text"

text \<open>
  The client's calls over a cluster state \<open>'w\<close>, and \<open>cm_view\<close>, the ConfigMaps a state holds by
  namespace and name. \<open>cm_view\<close> is there for the laws only; no operation of the driver reads it.
\<close>

record 'w cm_api =
  cm_get :: "string \<Rightarrow> string \<Rightarrow> 'w \<Rightarrow> (ext_err + ConfigMap) \<times> 'w"
  cm_list :: "string \<Rightarrow> string \<times> string \<Rightarrow> 'w \<Rightarrow> (ext_err + ConfigMap list) \<times> 'w"
  cm_create :: "string \<Rightarrow> ConfigMap \<Rightarrow> 'w \<Rightarrow> (ext_err + ConfigMap) \<times> 'w"
  cm_delete :: "string \<Rightarrow> string \<Rightarrow> 'w \<Rightarrow> ext_err option \<times> 'w"
  cm_view :: "'w \<Rightarrow> string \<Rightarrow> string \<rightharpoonup> ConfigMap"

text \<open>
  What the API documents: Get and List do not change the store and answer from it; Create stores
  an object whose name is free, and fails with AlreadyExists only when it is taken; Delete
  removes an object, and fails with NotFound only when there is none. These two failures change
  nothing; after any other failure, a timeout say, the change may have been made or not.
\<close>

definition cm_reads_ok :: "'w cm_api \<Rightarrow> bool" where
  "cm_reads_ok api \<longleftrightarrow>
     (\<forall>ns n w r w'. cm_get api ns n w = (r, w') \<longrightarrow> cm_view api w' = cm_view api w \<and>
        (case r of
           Inr cm \<Rightarrow> cm_view api w ns n = Some cm
         | Inl e \<Rightarrow> err_class e = EK8sNotFound \<longrightarrow> cm_view api w ns n = None)) \<and>
     (\<forall>ns l w r w'. cm_list api ns l w = (r, w') \<longrightarrow> cm_view api w' = cm_view api w)"

definition cm_create_ok :: "'w cm_api \<Rightarrow> bool" where
  "cm_create_ok api \<longleftrightarrow>
     (\<forall>ns cm w r w'. cm_create api ns cm w = (r, w') \<longrightarrow>
        (case r of
           Inr _ \<Rightarrow> cm_view api w ns (cm_name cm) = None \<and>
             cm_view api w' = (cm_view api w)(ns := (cm_view api w ns)(cm_name cm \<mapsto> cm))
         | Inl e \<Rightarrow>
             (if err_class e = EK8sAlreadyExists
              then cm_view api w' = cm_view api w \<and> cm_view api w ns (cm_name cm) \<noteq> None
              else cm_view api w' = cm_view api w \<or> cm_view api w ns (cm_name cm) = None \<and>
                cm_view api w' = (cm_view api w)(ns := (cm_view api w ns)(cm_name cm \<mapsto> cm)))))"

definition cm_delete_ok :: "'w cm_api \<Rightarrow> bool" where
  "cm_delete_ok api \<longleftrightarrow>
     (\<forall>ns n w r w'. cm_delete api ns n w = (r, w') \<longrightarrow>
        (case r of
           None \<Rightarrow> cm_view api w' = (cm_view api w)(ns := (cm_view api w ns)(n := None))
         | Some e \<Rightarrow>
             (if err_class e = EK8sNotFound then cm_view api w' = cm_view api w \<and> cm_view api w ns n = None
              else cm_view api w' = cm_view api w \<or>
                cm_view api w' = (cm_view api w)(ns := (cm_view api w ns)(n := None)))))"

text \<open>Deletions whose failures are definite: none of them was made after all.\<close>

definition cm_delete_definite :: "'w cm_api \<Rightarrow> bool" where
  "cm_delete_definite api \<longleftrightarrow> (\<forall>ns n w e w'. cm_delete api ns n w = (Some e, w') \<longrightarrow> cm_view api w' = cm_view api w)"

definition cm_api_laws :: "'w cm_api \<Rightarrow> bool" where
  "cm_api_laws api \<longleftrightarrow> cm_reads_ok api \<and> cm_create_ok api \<and> cm_delete_ok api"

section \<open>K8sCMCache\<close>

record 'w K8sCMCache =
  Client :: "'w cm_api"
  Namespace :: string
  cluster :: 'w

definition cmLabel :: string where "cmLabel = ''csi-metadata''"
definition cmDataKey :: string where "cmDataKey = ''content''"
definition csiMetadataLabelAttr :: string where
  "csiMetadataLabelAttr = ''com.tencent.cloud.csi.cbs/metadata''"

definition getMetadataCM :: "'w K8sCMCache \<Rightarrow> string \<Rightarrow> (ext_err + ConfigMap) \<times> 'w K8sCMCache" where
  "getMetadataCM k8scm resourceID =
     (let (r, w) = cm_get (Client k8scm) (Namespace k8scm) resourceID (cluster k8scm)
      in (r, k8scm\<lparr>cluster := w\<rparr>))"

definition K8sCMCache_Create ::
  "'w K8sCMCache \<Rightarrow> string \<Rightarrow> cbsSnapshot \<Rightarrow> (go_error + unit) \<times> 'w K8sCMCache" where
  "K8sCMCache_Create k8scm identifier data =
     (case getMetadataCM k8scm identifier of
        (Inr cm, k1) \<Rightarrow> (Inr (), k1)   \<comment> \<open>already exists, skipping\<close>
      | (Inl _, k1) \<Rightarrow>
          (let cm = \<lparr>cm_name = identifier, cm_namespace = Namespace k1,
                     cm_labels = [(csiMetadataLabelAttr, cmLabel)],
                     cm_data = [cmDataKey \<mapsto> marshal_snapshot data]\<rparr>
           in case cm_create (Client k1) (Namespace k1) cm (cluster k1) of
                (Inr _, w) \<Rightarrow> (Inr (), k1\<lparr>cluster := w\<rparr>)
              | (Inl e, w) \<Rightarrow>
                  if err_class e = EK8sAlreadyExists then (Inr (), k1\<lparr>cluster := w\<rparr>)
                  else (Inl PlainMsg, k1\<lparr>cluster := w\<rparr>)))"

text \<open>\<open>cm.Data[cmDataKey]\<close> of a map without that key is the empty string, which is no JSON.\<close>

definition cm_content :: "ConfigMap \<Rightarrow> json_text" where
  "cm_content cm = (case cm_data cm cmDataKey of Some t \<Rightarrow> t | None \<Rightarrow> NotJson)"

definition K8sCMCache_Get ::
  "'w K8sCMCache \<Rightarrow> string \<Rightarrow> cbsSnapshot \<Rightarrow> (go_error + cbsSnapshot) \<times> 'w K8sCMCache" where
  "K8sCMCache_Get k8scm identifier data =
     (case getMetadataCM k8scm identifier of
        (Inl e, k1) \<Rightarrow>
          (if err_class e = EK8sNotFound then (Inl CacheEntryNotFound, k1) else (Inl (Plain e), k1))
      | (Inr cm, k1) \<Rightarrow>
          (case unmarshal_snapshot (cm_content cm) data of
             (True, d) \<Rightarrow> (Inr d, k1)
           | (False, d) \<Rightarrow> (Inl PlainMsg, k1)))"

definition K8sCMCache_Delete :: "'w K8sCMCache \<Rightarrow> string \<Rightarrow> (go_error + unit) \<times> 'w K8sCMCache" where
  "K8sCMCache_Delete k8scm identifier =
     (case cm_delete (Client k8scm) (Namespace k8scm) identifier (cluster k8scm) of
        (None, w) \<Rightarrow> (Inr (), k8scm\<lparr>cluster := w\<rparr>)
      | (Some e, w) \<Rightarrow>
          if err_class e = EK8sNotFound then (Inr (), k8scm\<lparr>cluster := w\<rparr>)
          else (Inl PlainMsg, k8scm\<lparr>cluster := w\<rparr>))"

text \<open>
  \<open>ForAll\<close> lists the labelled ConfigMaps, decodes each whose name matches into the one destination
  object, and calls \<open>f\<close> with its name. The destination and whatever \<open>f\<close> changes are the state
  \<open>'s\<close>; \<open>unm\<close> decodes into the destination (\<open>False\<close>: an error), \<open>match\<close> is
  \<open>regexp.MatchString(pattern, _)\<close> of a valid pattern.
\<close>

fun ForAll_loop ::
  "(string \<Rightarrow> bool) \<Rightarrow> (json_text \<Rightarrow> 's \<Rightarrow> bool \<times> 's) \<Rightarrow> (string \<Rightarrow> 's \<Rightarrow> go_error option \<times> 's)
     \<Rightarrow> ConfigMap list \<Rightarrow> 's \<Rightarrow> go_error option \<times> 's" where
  "ForAll_loop match unm f [] s = (None, s)"
| "ForAll_loop match unm f (cm # cms) s =
     (if \<not> match (cm_name cm) then ForAll_loop match unm f cms s
      else case unm (cm_content cm) s of
        (False, s1) \<Rightarrow> (Some PlainMsg, s1)
      | (True, s1) \<Rightarrow>
          (case f (cm_name cm) s1 of
             (Some e, s2) \<Rightarrow> (Some e, s2)
           | (None, s2) \<Rightarrow> ForAll_loop match unm f cms s2))"

definition K8sCMCache_ForAll ::
  "'w K8sCMCache \<Rightarrow> (string \<Rightarrow> bool) \<Rightarrow> (json_text \<Rightarrow> 's \<Rightarrow> bool \<times> 's)
     \<Rightarrow> (string \<Rightarrow> 's \<Rightarrow> go_error option \<times> 's) \<Rightarrow> 's \<Rightarrow> go_error option \<times> 's \<times> 'w K8sCMCache" where
  "K8sCMCache_ForAll k8scm match unm f s =
     (case cm_list (Client k8scm) (Namespace k8scm) (csiMetadataLabelAttr, cmLabel) (cluster k8scm) of
        (Inl e, w) \<Rightarrow> (Some PlainMsg, s, k8scm\<lparr>cluster := w\<rparr>)
      | (Inr cms, w) \<Rightarrow>
          (let (err, s') = ForAll_loop match unm f cms s in (err, s', k8scm\<lparr>cluster := w\<rparr>)))"

lemma ForAll_loop_inv:
  assumes "ForAll_loop match unm f cms s = (e, s')" "P s"
    and "\<And>t s b s1. P s \<Longrightarrow> unm t s = (b, s1) \<Longrightarrow> P s1"
    and "\<And>n s e s1. P s \<Longrightarrow> f n s = (e, s1) \<Longrightarrow> P s1"
  shows "P s'"
  using assms(1,2)
proof (induction cms arbitrary: s)
  case (Cons cm cms)
  obtain b s1 where u: "unm (cm_content cm) s = (b, s1)" by fastforce
  obtain e2 s2 where f: "f (cm_name cm) s1 = (e2, s2)" by fastforce
  have "P s1" using assms(3) Cons.prems(2) u by blast
  moreover from this have "P s2" using assms(4) f by blast
  ultimately show ?case
    using Cons u f by (cases b; cases e2) (auto split: if_splits)
qed simp

section \<open>The contract of CachePersister\<close>

text \<open>
  \<open>stored\<close> is what a store holds, \<open>present\<close> the identifiers that are taken (an identifier can be
  taken by an object that is no snapshot), \<open>ok\<close> the provider's invariant.
\<close>

locale cache_persister =
  fixes create :: "'s \<Rightarrow> string \<Rightarrow> cbsSnapshot \<Rightarrow> (go_error + unit) \<times> 's"
    and fetch :: "'s \<Rightarrow> string \<Rightarrow> cbsSnapshot \<Rightarrow> (go_error + cbsSnapshot) \<times> 's"
    and remove :: "'s \<Rightarrow> string \<Rightarrow> (go_error + unit) \<times> 's"
    and present :: "'s \<Rightarrow> string set"
    and stored :: "'s \<Rightarrow> string \<rightharpoonup> cbsSnapshot"
    and ok :: "'s \<Rightarrow> bool"
  assumes create_law: "ok s \<Longrightarrow> create s i d = (r, s') \<Longrightarrow> ok s' \<and>
      (case r of
         Inr _ \<Rightarrow> present s' = insert i (present s) \<and>
           stored s' = (if i \<in> present s then stored s else (stored s)(i \<mapsto> d))
       | Inl _ \<Rightarrow> present s' = present s \<and> stored s' = stored s \<or>
           i \<notin> present s \<and> present s' = insert i (present s) \<and> stored s' = (stored s)(i \<mapsto> d))"
    and fetch_law: "ok s \<Longrightarrow> fetch s i d = (q, s') \<Longrightarrow> ok s' \<and> present s' = present s \<and> stored s' = stored s \<and>
      (case q of Inr v \<Rightarrow> i \<in> present s | Inl e \<Rightarrow> e = CacheEntryNotFound \<longrightarrow> i \<notin> present s)"
    and fetch_stored: "ok s \<Longrightarrow> fetch s i d = (Inr v, s') \<Longrightarrow> stored s i = Some u \<Longrightarrow> v = u"
    and remove_law: "ok s \<Longrightarrow> remove s i = (r, s') \<Longrightarrow> ok s' \<and>
      (case r of
         Inr _ \<Rightarrow> present s' = present s - {i} \<and> stored s' = (stored s)(i := None)
       | Inl _ \<Rightarrow> present s' = present s \<and> stored s' = stored s \<or>
           present s' = present s - {i} \<and> stored s' = (stored s)(i := None))"
    and stored_present: "ok s \<Longrightarrow> dom (stored s) \<subseteq> present s"
begin

text \<open>A value stored under a free identifier is what a later Get returns.\<close>

lemma create_fetch:
  assumes "ok s" "i \<notin> present s" "create s i d = (Inr u, s1)" "fetch s1 i d0 = (Inr v, s2)"
  shows "v = d"
  using create_law [OF assms(1,3)] fetch_stored [OF _ assms(4), of d] assms(2) by simp

text \<open>A second Create changes nothing: the first value stays.\<close>

lemma create_again:
  assumes "ok s" "create s i d = (Inr u, s1)" "create s1 i d' = (r, s2)"
  shows "stored s2 = stored s1 \<and> present s2 = present s1"
proof -
  from create_law [OF assms(1,2)] have "ok s1" "i \<in> present s1" by simp_all
  with create_law [OF this(1) assms(3)] show ?thesis by (auto split: sum.splits)
qed

text \<open>Delete is idempotent, and what it deleted is not found again.\<close>

lemma remove_fetch:
  assumes "ok s" "remove s i = (Inr u, s1)" "fetch s1 i d = (r, s2)"
  shows "\<forall>v. r \<noteq> Inr v"
  using remove_law [OF assms(1,2)] fetch_law [OF _ assms(3)] by (cases r) auto

lemma remove_create_other:
  assumes "ok s" "remove s i = (Inr u, s1)" "j \<noteq> i"
  shows "stored s1 j = stored s j"
  using remove_law [OF assms(1,2)] assms(3) by simp

end

section \<open>K8sCMCache keeps the contract\<close>

definition k8s_present :: "'w K8sCMCache \<Rightarrow> string set" where
  "k8s_present k = dom (cm_view (Client k) (cluster k) (Namespace k))"

text \<open>The snapshot an identifier holds: decoded into an empty record, as every reader does.\<close>

definition decode_cm :: "ConfigMap \<Rightarrow> cbsSnapshot option" where
  "decode_cm cm =
     (let s = snd (unmarshal_snapshot (cm_content cm) zero_cbsSnapshot)
      in if marshal_snapshot s = cm_content cm then Some s else None)"

definition k8s_stored :: "'w K8sCMCache \<Rightarrow> string \<rightharpoonup> cbsSnapshot" where
  "k8s_stored k = (\<lambda>i. Option.bind (cm_view (Client k) (cluster k) (Namespace k) i) decode_cm)"

definition k8s_ok :: "'w K8sCMCache \<Rightarrow> bool" where
  "k8s_ok k \<longleftrightarrow> cm_api_laws (Client k)"

lemma getMetadataCM_law:
  assumes "k8s_ok k" "getMetadataCM k i = (r, k')"
  shows "k8s_ok k'" "Client k' = Client k" "Namespace k' = Namespace k"
    "cm_view (Client k) (cluster k') = cm_view (Client k) (cluster k)"
    "r = Inr cm \<Longrightarrow> cm_view (Client k) (cluster k) (Namespace k) i = Some cm"
    "r = Inl e \<Longrightarrow> err_class e = EK8sNotFound \<Longrightarrow> cm_view (Client k) (cluster k) (Namespace k) i = None"
proof -
  obtain w where g: "cm_get (Client k) (Namespace k) i (cluster k) = (r, w)"
    and k': "k' = k\<lparr>cluster := w\<rparr>"
    using assms(2) by (auto simp: getMetadataCM_def split: prod.splits)
  have law: "cm_view (Client k) w = cm_view (Client k) (cluster k)"
    "case r of
       Inr cm \<Rightarrow> cm_view (Client k) (cluster k) (Namespace k) i = Some cm
     | Inl e \<Rightarrow> err_class e = EK8sNotFound \<longrightarrow> cm_view (Client k) (cluster k) (Namespace k) i = None"
    using assms(1) g unfolding k8s_ok_def cm_api_laws_def cm_reads_ok_def by blast+
  show "k8s_ok k'" "Client k' = Client k" "Namespace k' = Namespace k"
    using assms(1) k' by (simp_all add: k8s_ok_def)
  show "cm_view (Client k) (cluster k') = cm_view (Client k) (cluster k)"
    using law k' by simp
  show "r = Inr cm \<Longrightarrow> cm_view (Client k) (cluster k) (Namespace k) i = Some cm"
    using law by simp
  show "r = Inl e \<Longrightarrow> err_class e = EK8sNotFound \<Longrightarrow>
      cm_view (Client k) (cluster k) (Namespace k) i = None"
    using law by simp
qed

lemma cm_create_law:
  assumes "k8s_ok k" "cm_create (Client k) ns cm w = (r, w')"
  shows "case r of
           Inr _ \<Rightarrow> cm_view (Client k) w ns (cm_name cm) = None \<and>
             cm_view (Client k) w' =
               (cm_view (Client k) w)(ns := (cm_view (Client k) w ns)(cm_name cm \<mapsto> cm))
         | Inl e \<Rightarrow>
             (if err_class e = EK8sAlreadyExists
              then cm_view (Client k) w' = cm_view (Client k) w \<and> cm_view (Client k) w ns (cm_name cm) \<noteq> None
              else cm_view (Client k) w' = cm_view (Client k) w \<or> cm_view (Client k) w ns (cm_name cm) = None \<and>
                cm_view (Client k) w' = (cm_view (Client k) w)(ns := (cm_view (Client k) w ns)(cm_name cm \<mapsto> cm)))"
  using assms unfolding k8s_ok_def cm_api_laws_def cm_create_ok_def by blast

lemma cm_delete_law:
  assumes "k8s_ok k" "cm_delete (Client k) ns i w = (r, w')"
  shows "case r of
           None \<Rightarrow> cm_view (Client k) w' =
               (cm_view (Client k) w)(ns := (cm_view (Client k) w ns)(i := None))
         | Some e \<Rightarrow>
             (if err_class e = EK8sNotFound then cm_view (Client k) w' = cm_view (Client k) w \<and> cm_view (Client k) w ns i = None
              else cm_view (Client k) w' = cm_view (Client k) w \<or>
                cm_view (Client k) w' = (cm_view (Client k) w)(ns := (cm_view (Client k) w ns)(i := None)))"
  using assms unfolding k8s_ok_def cm_api_laws_def cm_delete_ok_def by blast

lemma decode_stored_cm:
  "decode_cm \<lparr>cm_name = i, cm_namespace = ns, cm_labels = ls,
     cm_data = [cmDataKey \<mapsto> marshal_snapshot d]\<rparr> = Some d"
  by (simp add: decode_cm_def cm_content_def)

lemma decode_cm_unmarshal: "decode_cm cm = Some s \<Longrightarrow> unmarshal_snapshot (cm_content cm) d = (True, s)"
  by (auto simp: decode_cm_def Let_def split: if_splits) (metis unmarshal_marshal)

text \<open>Storing a ConfigMap, or removing one, seen through what the store holds.\<close>

lemma k8s_updated:
  assumes "cm_view (Client k) w = (cm_view (Client k) (cluster k))
      (Namespace k := (cm_view (Client k) (cluster k) (Namespace k))(i := x))"
  shows "k8s_present (k\<lparr>cluster := w\<rparr>) = (if x = None then k8s_present k - {i} else insert i (k8s_present k))"
    and "k8s_stored (k\<lparr>cluster := w\<rparr>) = (k8s_stored k)(i := Option.bind x decode_cm)"
  by (simp_all add: k8s_present_def k8s_stored_def assms fun_eq_iff)

lemma k8s_same:
  assumes "cm_view (Client k) w = cm_view (Client k) (cluster k)"
  shows "k8s_present (k\<lparr>cluster := w\<rparr>) = k8s_present k" "k8s_stored (k\<lparr>cluster := w\<rparr>) = k8s_stored k"
  using assms by (simp_all add: k8s_present_def k8s_stored_def)

lemma K8sCMCache_Create_law:
  assumes ok: "k8s_ok k" and c: "K8sCMCache_Create k i d = (r, k')"
  shows "k8s_ok k' \<and>
    (case r of
       Inr _ \<Rightarrow> k8s_present k' = insert i (k8s_present k) \<and>
         k8s_stored k' = (if i \<in> k8s_present k then k8s_stored k else (k8s_stored k)(i \<mapsto> d))
     | Inl _ \<Rightarrow> k8s_present k' = k8s_present k \<and> k8s_stored k' = k8s_stored k \<or>
         i \<notin> k8s_present k \<and> k8s_present k' = insert i (k8s_present k) \<and> k8s_stored k' = (k8s_stored k)(i \<mapsto> d))"
proof -
  obtain g k1 where g: "getMetadataCM k i = (g, k1)" by fastforce
  note law = getMetadataCM_law [OF ok g]
  have k1: "k8s_present k1 = k8s_present k" "k8s_stored k1 = k8s_stored k"
    using law by (simp_all add: k8s_present_def k8s_stored_def)
  show ?thesis
  proof (cases g)
    case (Inr cm)
    with c g law have "k' = k1" "r = Inr ()" "i \<in> k8s_present k"
      by (auto simp: K8sCMCache_Create_def k8s_present_def)
    with law k1 show ?thesis by auto
  next
    case (Inl e)
    define cm where "cm = \<lparr>cm_name = i, cm_namespace = Namespace k1,
                     cm_labels = [(csiMetadataLabelAttr, cmLabel)],
                     cm_data = [cmDataKey \<mapsto> marshal_snapshot d]\<rparr>"
    have dec: "decode_cm cm = Some d" "cm_name cm = i" by (simp_all add: cm_def decode_stored_cm)
    obtain q w where q: "cm_create (Client k1) (Namespace k1) cm (cluster k1) = (q, w)" by fastforce
    note claw = cm_create_law [OF law(1) q, unfolded dec(2)]
    from c g Inl q have k': "k' = k1\<lparr>cluster := w\<rparr>"
      and r: "r = (case q of Inr _ \<Rightarrow> Inr () | Inl e \<Rightarrow>
                if err_class e = EK8sAlreadyExists then Inr () else Inl PlainMsg)"
      by (auto simp: K8sCMCache_Create_def cm_def split: sum.splits if_splits)
    have none: "i \<notin> k8s_present k" if "cm_view (Client k1) (cluster k1) (Namespace k1) i = None"
      using that k1(1) by (auto simp: k8s_present_def)
    have some: "i \<in> k8s_present k" if "cm_view (Client k1) (cluster k1) (Namespace k1) i \<noteq> None"
      using that k1(1) by (auto simp: k8s_present_def)
    have "k8s_ok k'" using law(1) k' by (simp add: k8s_ok_def)
    moreover have "k8s_present k' = insert i (k8s_present k) \<and> k8s_stored k' = (k8s_stored k)(i \<mapsto> d)"
      if "cm_view (Client k1) w = (cm_view (Client k1) (cluster k1))
        (Namespace k1 := (cm_view (Client k1) (cluster k1) (Namespace k1))(i \<mapsto> cm))"
      using k8s_updated [OF that] k' k1 dec by simp
    moreover have "k8s_present k' = k8s_present k \<and> k8s_stored k' = k8s_stored k"
      if "cm_view (Client k1) w = cm_view (Client k1) (cluster k1)"
      using k8s_same [OF that] k' k1 by simp
    ultimately show ?thesis
      using claw r none some by (auto split: sum.splits if_splits)
  qed
qed

lemma K8sCMCache_Get_law:
  assumes ok: "k8s_ok k" and c: "K8sCMCache_Get k i d = (r, k')"
  shows "k8s_ok k' \<and> k8s_present k' = k8s_present k \<and> k8s_stored k' = k8s_stored k \<and>
      (case r of Inr v \<Rightarrow> i \<in> k8s_present k | Inl e \<Rightarrow> e = CacheEntryNotFound \<longrightarrow> i \<notin> k8s_present k)"
    and "r = Inr v \<Longrightarrow> k8s_stored k i = Some u \<Longrightarrow> v = u"
proof -
  obtain g k1 where g: "getMetadataCM k i = (g, k1)" by fastforce
  note law = getMetadataCM_law [OF ok g]
  have k': "k' = k1" and r: "r = (case g of Inl e \<Rightarrow>
        Inl (if err_class e = EK8sNotFound then CacheEntryNotFound else Plain e)
      | Inr cm \<Rightarrow> (case unmarshal_snapshot (cm_content cm) d of (b, v) \<Rightarrow> if b then Inr v else Inl PlainMsg))"
    using c g by (auto simp: K8sCMCache_Get_def split: sum.splits prod.splits bool.splits if_splits)
  show "k8s_ok k' \<and> k8s_present k' = k8s_present k \<and> k8s_stored k' = k8s_stored k \<and>
      (case r of Inr v \<Rightarrow> i \<in> k8s_present k | Inl e \<Rightarrow> e = CacheEntryNotFound \<longrightarrow> i \<notin> k8s_present k)"
    using law k' r
    by (auto simp: k8s_present_def k8s_stored_def split: sum.splits prod.splits if_splits)
  show "v = u" if "r = Inr v" "k8s_stored k i = Some u"
  proof -
    from that(1) r obtain cm where cm: "g = Inr cm" "unmarshal_snapshot (cm_content cm) d = (True, v)"
      by (auto split: sum.splits prod.splits if_splits)
    with law that(2) have "decode_cm cm = Some u" by (auto simp: k8s_stored_def)
    from decode_cm_unmarshal [OF this] cm(2) show ?thesis by simp
  qed
qed

lemma K8sCMCache_Get_stored:
  "k8s_ok k \<Longrightarrow> K8sCMCache_Get k i d = (Inr v, k') \<Longrightarrow> k8s_stored k i = Some u \<Longrightarrow> v = u"
  by (rule K8sCMCache_Get_law(2)) auto

lemma K8sCMCache_Get_client:
  assumes "k8s_ok k" "K8sCMCache_Get k i d = (r, k')"
  shows "Client k' = Client k"
proof -
  obtain g k1 where g: "getMetadataCM k i = (g, k1)" by fastforce
  with getMetadataCM_law(2) [OF assms(1) g] assms(2) show ?thesis
    by (auto simp: K8sCMCache_Get_def split: sum.splits prod.splits bool.splits if_splits)
qed

lemma K8sCMCache_Delete_law:
  assumes ok: "k8s_ok k" and c: "K8sCMCache_Delete k i = (r, k')"
  shows "k8s_ok k' \<and>
    (case r of
       Inr _ \<Rightarrow> k8s_present k' = k8s_present k - {i} \<and> k8s_stored k' = (k8s_stored k)(i := None)
     | Inl _ \<Rightarrow> k8s_present k' = k8s_present k \<and> k8s_stored k' = k8s_stored k \<or>
         k8s_present k' = k8s_present k - {i} \<and> k8s_stored k' = (k8s_stored k)(i := None))"
    and "cm_delete_definite (Client k) \<Longrightarrow> r = Inl e \<Longrightarrow> k8s_present k' = k8s_present k \<and> k8s_stored k' = k8s_stored k"
proof -
  obtain q w where q: "cm_delete (Client k) (Namespace k) i (cluster k) = (q, w)" by fastforce
  note law = cm_delete_law [OF ok q]
  from c q have k': "k' = k\<lparr>cluster := w\<rparr>" and r: "r = (case q of None \<Rightarrow> Inr ()
      | Some e \<Rightarrow> if err_class e = EK8sNotFound then Inr () else Inl PlainMsg)"
    by (auto simp: K8sCMCache_Delete_def split: option.splits if_splits)
  have gone: "k8s_present k' = k8s_present k - {i} \<and> k8s_stored k' = (k8s_stored k)(i := None)"
    if "cm_view (Client k) w = (cm_view (Client k) (cluster k))
      (Namespace k := (cm_view (Client k) (cluster k) (Namespace k))(i := None))"
    using k8s_updated [OF that] k' by simp
  have same: "k8s_present k' = k8s_present k \<and> k8s_stored k' = k8s_stored k"
    if "cm_view (Client k) w = cm_view (Client k) (cluster k)"
    using k8s_same [OF that] k' by simp
  have missing: "(cm_view (Client k) (cluster k))
      (Namespace k := (cm_view (Client k) (cluster k) (Namespace k))(i := None)) = cm_view (Client k) (cluster k)"
    if "cm_view (Client k) (cluster k) (Namespace k) i = None"
    using that by (simp add: fun_eq_iff)
  show "k8s_ok k' \<and>
    (case r of
       Inr _ \<Rightarrow> k8s_present k' = k8s_present k - {i} \<and> k8s_stored k' = (k8s_stored k)(i := None)
     | Inl _ \<Rightarrow> k8s_present k' = k8s_present k \<and> k8s_stored k' = k8s_stored k \<or>
         k8s_present k' = k8s_present k - {i} \<and> k8s_stored k' = (k8s_stored k)(i := None))"
    using law r ok k' gone same missing by (auto simp: k8s_ok_def split: option.splits if_splits)
  show "k8s_present k' = k8s_present k \<and> k8s_stored k' = k8s_stored k" if "cm_delete_definite (Client k)" "r = Inl e"
    using that q r same by (auto simp: cm_delete_definite_def split: option.splits)
qed

interpretation k8scm: cache_persister K8sCMCache_Create K8sCMCache_Get K8sCMCache_Delete
  k8s_present k8s_stored k8s_ok
proof unfold_locales
  fix s :: "'a K8sCMCache"
  show "dom (k8s_stored s) \<subseteq> k8s_present s"
    by (auto simp: k8s_stored_def k8s_present_def bind_eq_Some_conv)
qed (erule (1) K8sCMCache_Create_law K8sCMCache_Get_law(1) K8sCMCache_Delete_law(1)
      | erule (2) K8sCMCache_Get_stored)+

section \<open>A cluster that keeps the laws\<close>

text \<open>
  A concrete API over a plain map, on which the witnesses run. It shows that the laws can hold;
  no property is about it alone.
\<close>

definition map_cm_api :: "(string \<Rightarrow> string \<rightharpoonup> ConfigMap) cm_api" where
  "map_cm_api =
     \<lparr>cm_get = (\<lambda>ns n w. (case w ns n of Some cm \<Rightarrow> Inr cm | None \<Rightarrow> Inl (ExtErr EK8sNotFound []), w)),
      cm_list = (\<lambda>ns l w. (Inl (ExtErr EOther []), w)),
      cm_create = (\<lambda>ns cm w.
         if w ns (cm_name cm) = None then (Inr cm, w(ns := (w ns)(cm_name cm \<mapsto> cm)))
         else (Inl (ExtErr EK8sAlreadyExists []), w)),
      cm_delete = (\<lambda>ns n w.
         if w ns n = None then (Some (ExtErr EK8sNotFound []), w)
         else (None, w(ns := (w ns)(n := None)))),
      cm_view = (\<lambda>w. w)\<rparr>"

lemma map_cm_api_laws: "cm_api_laws map_cm_api"
  unfolding cm_api_laws_def cm_reads_ok_def cm_create_ok_def cm_delete_ok_def
  by (auto simp: map_cm_api_def split: option.splits if_splits)

definition empty_k8scm :: "(string \<Rightarrow> string \<rightharpoonup> ConfigMap) K8sCMCache" where
  "empty_k8scm = \<lparr>Client = map_cm_api, Namespace = ''kube-system'', cluster = (\<lambda>_. Map.empty)\<rparr>"

lemma empty_k8scm_ok: "k8s_ok empty_k8scm" "k8s_present empty_k8scm = {}"
  by (simp_all add: empty_k8scm_def k8s_ok_def map_cm_api_laws k8s_present_def)
     (simp add: map_cm_api_def)

text \<open>What a read of a stored snapshot gives, whatever the API answers.\<close>

lemma K8sCMCache_Get_answer:
  assumes "k8s_ok k" "k8s_stored k i = Some u" "K8sCMCache_Get k i d = (r, k')"
  shows "case fst (cm_get (Client k) (Namespace k) i (cluster k)) of Inr cm \<Rightarrow> r = Inr u | Inl e \<Rightarrow> r = Inl (Plain e)"
proof -
  obtain g w where g: "cm_get (Client k) (Namespace k) i (cluster k) = (g, w)" by fastforce
  then have m: "getMetadataCM k i = (g, k\<lparr>cluster := w\<rparr>)" by (simp add: getMetadataCM_def)
  note law = getMetadataCM_law [OF assms(1) m]
  show ?thesis
  proof (cases g)
    case (Inr cm)
    with law(5) assms(2) have "decode_cm cm = Some u" by (simp add: k8s_stored_def)
    from decode_cm_unmarshal [OF this] Inr m g assms(3) show ?thesis by (simp add: K8sCMCache_Get_def)
  next
    case (Inl e)
    with law(6) assms(2) have "err_class e \<noteq> EK8sNotFound" by (auto simp: k8s_stored_def)
    with Inl m g assms(3) show ?thesis by (simp add: K8sCMCache_Get_def)
  qed
qed

text \<open>C25. What the metadata store accepted under a free identifier is what \<open>Get\<close> returns, field for field,
  whenever the API answers the read; when it does not, \<open>Get\<close> hands its error on and never reports the
  entry missing.\<close>

theorem metadata_create_get:
  assumes "k8s_ok k" "i \<notin> k8s_present k" "K8sCMCache_Create k i d = (Inr (), k1)"
    and "K8sCMCache_Get k1 i d0 = (r, k2)"
  shows "case fst (cm_get (Client k1) (Namespace k1) i (cluster k1)) of
      Inr cm \<Rightarrow> r = Inr d
    | Inl e \<Rightarrow> r = Inl (Plain e)"
proof -
  from k8scm.create_law [OF assms(1,3)] assms(2) have "k8s_ok k1" "k8s_stored k1 i = Some d" by simp_all
  from K8sCMCache_Get_answer [OF this assms(4)] show ?thesis .
qed

theorem metadata_create_get_witness:
  "\<exists>k1 k2. K8sCMCache_Create empty_k8scm ''snap-1'' (zero_cbsSnapshot\<lparr>SnapName := ''daily''\<rparr>) = (Inr (), k1)
     \<and> K8sCMCache_Get k1 ''snap-1'' zero_cbsSnapshot = (Inr (zero_cbsSnapshot\<lparr>SnapName := ''daily''\<rparr>), k2)"
proof -
  obtain k1 where c: "K8sCMCache_Create empty_k8scm ''snap-1'' (zero_cbsSnapshot\<lparr>SnapName := ''daily''\<rparr>) = (Inr (), k1)"
    and a: "\<exists>cm. fst (cm_get (Client k1) (Namespace k1) ''snap-1'' (cluster k1)) = Inr cm"
    by (simp add: K8sCMCache_Create_def getMetadataCM_def empty_k8scm_def map_cm_api_def)
  obtain r k2 where g: "K8sCMCache_Get k1 ''snap-1'' zero_cbsSnapshot = (r, k2)" by fastforce
  from metadata_create_get [OF empty_k8scm_ok(1) _ c g] empty_k8scm_ok(2) a c g show ?thesis by auto
qed

end
