(* ===== verification/CbsTypes.thy ===== *)
theory CbsTypes imports Util MetadataStore begin

text \<open>
  The vocabulary of the CBS driver: the constants of \<open>controller.go\<close>, the objects of the cloud
  API the code reads and writes (\<open>v20170312/models.go\<close>), the calls and metrics as events, the
  outside as a record of answers, and the pure helpers on quotas and topologies. The lemmas give
  the exact result of the two disk-type checks.
\<close>

section \<open>Constants of controller.go\<close>

definition GB :: int where "GB = 2 ^ 30"

lemma GB_eq: "GB = 1073741824" by (simp add: GB_def)

definition DiskChargePrepaidPeriodValidValues :: "int list" where
  "DiskChargePrepaidPeriodValidValues = [1, 2, 3, 4, 5, 6, 7, 8, 9, 10, 11, 12, 24, 36]"

abbreviation "DiskTypeCloudBasic \<equiv> ''CLOUD_BASIC''"
abbreviation "DiskTypeCloudPremium \<equiv> ''CLOUD_PREMIUM''"
abbreviation "DiskTypeCloudHSSD \<equiv> ''CLOUD_HSSD''"
abbreviation "DiskTypeCloudTSSD \<equiv> ''CLOUD_TSSD''"
abbreviation "DiskChargeTypePrePaid \<equiv> ''PREPAID''"
abbreviation "DiskChargeTypePostPaidByHour \<equiv> ''POSTPAID_BY_HOUR''"
abbreviation "DiskChargeTypeCdcPaid \<equiv> ''CDCPAID''"
abbreviation "RenewFlagAuto \<equiv> ''NOTIFY_AND_AUTO_RENEW''"
abbreviation "RenewFlagManual \<equiv> ''NOTIFY_AND_MANUAL_RENEW''"
abbreviation "RenewFlagDisable \<equiv> ''DISABLE_NOTIFY_AND_MANUAL_RENEW''"
abbreviation "TagForDeletionCreateBy \<equiv> ''tke-cbs-provisioner-createBy-flag''"
abbreviation "TagForDeletionClusterId \<equiv> ''tke-clusterId''"
abbreviation "StatusUnattached \<equiv> ''UNATTACHED''"
abbreviation "StatusAttached \<equiv> ''ATTACHED''"
abbreviation "StatusExpanding \<equiv> ''EXPANDING''"
abbreviation "SnapshotNormal \<equiv> ''NORMAL''"
abbreviation "SnapShotNotFound \<equiv> ''InvalidSnapshotId.NotFound''"
abbreviation "CVMNodeIDPrefix \<equiv> ''ins-''"
abbreviation "CXMNodeIDPrefix \<equiv> ''eks-''"
abbreviation "EncryptEnable \<equiv> ''ENCRYPT''"
abbreviation "CXMInstanceType \<equiv> ''eks''"
abbreviation "TopologyZoneKey \<equiv> ''topology.com.tencent.cloud.csi.cbs/zone''"

definition NodeIDLength :: nat where "NodeIDLength = 12"
definition dmDefaultDevices :: int where "dmDefaultDevices = 2"

section \<open>Objects of the cloud API\<close>

text \<open>
  Pointer fields of a disk are options, as the code sees them: some branches test them against
  nil, others dereference them.
\<close>

record Disk =
  DiskId :: "string option"
  DiskSize :: "nat option"
  DiskState :: "string option"
  InstanceId :: "string option"

record DiskConfig =
  Available :: bool
  DiskType :: string
  MaxDiskSize :: nat
  MinDiskSize :: nat

record DiskChargePrepaid =
  Period :: nat
  RenewFlag :: string

record Placement =
  Zone :: string
  ProjectId :: nat
  CdcId :: "string option"

text \<open>
  The tags of a request are the entries of the map they are built from, one for each key, here in
  the order of their insertion; Go's order for a map is open.
\<close>

record CreateDisksRequest =
  cd_DiskType :: string
  cd_DiskChargeType :: string
  cd_Placement :: Placement
  cd_DiskName :: string
  cd_DiskCount :: nat
  cd_DiskChargePrepaid :: "DiskChargePrepaid option"
  cd_DiskSize :: nat
  cd_SnapshotId :: "string option"
  cd_ClientToken :: string
  cd_Encrypt :: "string option"
  cd_Tags :: "(string \<times> string) list"
  cd_ThroughputPerformance :: "nat option"

record Snapshot =
  s_DiskId :: string
  s_DiskSize :: nat
  s_SnapshotState :: string
  s_Percent :: nat

section \<open>Events: outside calls and metrics\<close>

datatype pvc_action = Provision | DeleteAction | Attach | Detach | NoAction

text \<open>
  The prometheus counters the controller bumps. \<open>YunApi\<close> and \<open>PvcRequest\<close> and \<open>OperationError\<close>
  are the label values of the three counter vectors; \<open>CostObserved\<close> is an observation of the
  latency histogram, without its measured value.
\<close>

datatype metric =
    YunApi string string string      \<comment> \<open>API action, disk id, return code\<close>
  | CostObserved string
  | PvcRequest pvc_action string
  | OperationError pvc_action string string string

datatype cbs_event =
    DescribeDisks "string list"
  | CreateDisks CreateDisksRequest
  | TerminateDisks "string list"
  | AttachDisks "string list" string "string option"   \<comment> \<open>disks, instance, instance type\<close>
  | DetachDisks "string list" "string option"
  | ResizeDisk string nat
  | BindAutoSnapshotPolicy string "string list"
  | DescribeDiskConfigQuota string string              \<comment> \<open>zone, charge type\<close>
  | DescribeInstancesDiskNum "string list"
  | DescribeSnapshots "string list"
  | CreateSnapshotCall string string                   \<comment> \<open>disk, snapshot name\<close>
  | DeleteSnapshotsCall "string list"
  | DescribeZones
  | DescribeClusterTags string string                  \<comment> \<open>cluster id, region\<close>
  | Metric metric

type_synonym cbs_hist = "cbs_event list"

text \<open>
  The outside of the CBS driver. Each function maps the history (newest event first) to the
  answer of the next call. \<open>ticks\<close> is how many ticks the next wait serves before its deadline
  branch is taken.
\<close>

record cbs_env =
  on_DescribeDisks :: "cbs_hist \<Rightarrow> string list \<Rightarrow> ext_err + Disk list"
  on_CreateDisks :: "cbs_hist \<Rightarrow> CreateDisksRequest \<Rightarrow> ext_err + string list"
  on_TerminateDisks :: "cbs_hist \<Rightarrow> string list \<Rightarrow> ext_err option"
  on_AttachDisks :: "cbs_hist \<Rightarrow> string \<Rightarrow> string \<Rightarrow> ext_err option"
  on_DetachDisks :: "cbs_hist \<Rightarrow> string \<Rightarrow> ext_err option"
  on_ResizeDisk :: "cbs_hist \<Rightarrow> string \<Rightarrow> nat \<Rightarrow> ext_err option"
  on_BindAutoSnapshotPolicy :: "cbs_hist \<Rightarrow> string \<Rightarrow> string \<Rightarrow> ext_err option"
  on_DescribeDiskConfigQuota :: "cbs_hist \<Rightarrow> string \<Rightarrow> string \<Rightarrow> ext_err + DiskConfig list"
  on_DescribeInstancesDiskNum :: "cbs_hist \<Rightarrow> string \<Rightarrow> ext_err + (string \<times> nat) list"
  on_DescribeSnapshots :: "cbs_hist \<Rightarrow> string \<Rightarrow> ext_err + Snapshot list"
  on_CreateSnapshot :: "cbs_hist \<Rightarrow> string \<Rightarrow> string \<Rightarrow> ext_err + string"
  on_DeleteSnapshots :: "cbs_hist \<Rightarrow> string \<Rightarrow> ext_err option"
  on_DescribeZones :: "cbs_hist \<Rightarrow> ext_err + (string \<times> string) list"
  on_DescribeClusterTags :: "cbs_hist \<Rightarrow> string \<Rightarrow> string \<Rightarrow> ext_err + (string \<times> string) list"
  ticks :: "cbs_hist \<Rightarrow> nat"

section \<open>Credentials\<close>

record Credential =
  SecretId :: string
  SecretKey :: string
  Token :: string

text \<open>
  \<open>updateClient\<close> replaces the credentials of the three clients when \<open>GetSercet\<close> reports an
  updated token.
\<close>

definition updateClient :: "getenv \<Rightarrow> Credential \<times> Credential \<times> Credential \<Rightarrow> Credential \<times> Credential \<times> Credential" where
  "updateClient env clients =
     (let (secretID, secretKey, token, isTokenUpdate) = GetSercet env
      in if token \<noteq> [] \<and> isTokenUpdate
         then (let cred = \<lparr>SecretId = secretID, SecretKey = secretKey, Token = token\<rparr>
               in (cred, cred, cred))
         else clients)"

text \<open>
  \<open>GetSercet\<close> never reports one, so the call has no effect, and the handlers below leave it out.
\<close>

lemma updateClient_id [simp]: "updateClient env clients = clients"
  by (simp add: updateClient_def GetSercet_def)

section \<open>Volume ids\<close>

text \<open>The loop that the controller's operations start with: the parts that name a disk.\<close>

definition diskIdList :: "string \<Rightarrow> string list" where
  "diskIdList volumeId = filter (\<lambda>disk. HasPrefix disk ''disk-'') (SplitC (CHR '','') volumeId)"

text \<open>\<open>diskIdsStr\<close> of \<open>CreateVolume\<close>: every id but the last is followed by a comma.\<close>

fun joinDiskIds :: "string list \<Rightarrow> string" where
  "joinDiskIds [] = []"
| "joinDiskIds [disk] = disk"
| "joinDiskIds (disk # disks) = disk @ '','' @ joinDiskIds disks"

definition disk_name :: "string \<Rightarrow> bool" where
  "disk_name d \<longleftrightarrow> HasPrefix d ''disk-'' \<and> CHR '','' \<notin> set d"

lemma joinDiskIds_Join: "joinDiskIds ds = Join ds '',''"
  by (induction ds rule: joinDiskIds.induct) auto

lemma diskIdList_join:
  assumes "ds \<noteq> []" "list_all disk_name ds"
  shows "diskIdList (joinDiskIds ds) = ds"
proof -
  from assms(2) have "\<forall>d\<in>set ds. CHR '','' \<notin> set d" "\<forall>d\<in>set ds. HasPrefix d ''disk-''"
    by (auto simp: list_all_iff disk_name_def)
  with assms(1) show ?thesis by (simp add: diskIdList_def joinDiskIds_Join SplitC_Join)
qed

lemma diskIdList_disk_name: "d \<in> set (diskIdList v) \<Longrightarrow> disk_name d"
  by (auto simp: diskIdList_def disk_name_def dest: SplitC_parts)

section \<open>The zone of a volume\<close>

type_synonym topology = "string \<rightharpoonup> string"

record TopologyRequirement =
  Requisite :: "topology list"
  Preferred :: "topology list"

fun first_zone :: "topology list \<Rightarrow> string option" where
  "first_zone [] = None"
| "first_zone (t # ts) = (case t TopologyZoneKey of Some zone \<Rightarrow> Some zone | None \<Rightarrow> first_zone ts)"

definition pickAvailabilityZone :: "TopologyRequirement option \<Rightarrow> string" where
  "pickAvailabilityZone requirement =
     (case requirement of
        None \<Rightarrow> []
      | Some r \<Rightarrow>
          (case first_zone (Preferred r) of
             Some zone \<Rightarrow> zone
           | None \<Rightarrow> (case first_zone (Requisite r) of Some zone \<Rightarrow> zone | None \<Rightarrow> [])))"

section \<open>The disk type and size against the quota\<close>

text \<open>
  Both functions return the disk type next to the error (\<open>True\<close>: the size is out of range). The
  state of the first loop is \<open>(createType, minDiskSize, maxDiskSize)\<close>; an available
  \<open>CLOUD_BASIC\<close> ends it.
\<close>

fun default_type_loop :: "DiskConfig list \<Rightarrow> string \<times> nat \<times> nat \<Rightarrow> string \<times> nat \<times> nat" where
  "default_type_loop [] s = s"
| "default_type_loop (c # cs) s =
     (let s' = (if Available c \<and> DiskType c = DiskTypeCloudPremium
                then (DiskTypeCloudPremium, MinDiskSize c, MaxDiskSize c) else s)
      in if Available c \<and> DiskType c = DiskTypeCloudBasic
         then (DiskTypeCloudBasic, MinDiskSize c, MaxDiskSize c)
         else default_type_loop cs s')"

definition getDiskTypeForDefaultStorageClass :: "nat \<Rightarrow> DiskConfig list \<Rightarrow> string \<times> bool" where
  "getDiskTypeForDefaultStorageClass diskSize quota =
     (let (createType, minDiskSize, maxDiskSize) = default_type_loop quota ([], 0, 0)
      in if createType \<noteq> [] \<and> (diskSize < minDiskSize \<or> diskSize > maxDiskSize)
         then (createType, True) else (createType, False))"

fun verifyDiskTypeIsSupported :: "string \<Rightarrow> nat \<Rightarrow> DiskConfig list \<Rightarrow> string \<times> bool" where
  "verifyDiskTypeIsSupported inputDiskType diskSize [] = ([], False)"
| "verifyDiskTypeIsSupported inputDiskType diskSize (c # cs) =
     (if Available c \<and> DiskType c = inputDiskType then
        (if diskSize < MinDiskSize c \<or> diskSize > MaxDiskSize c then (inputDiskType, True)
         else (inputDiskType, False))
      else verifyDiskTypeIsSupported inputDiskType diskSize cs)"

text \<open>The type a request may be created with: offered, and the size within the offered range.\<close>

definition offered :: "DiskConfig list \<Rightarrow> string \<Rightarrow> nat \<Rightarrow> bool" where
  "offered quota t sz \<longleftrightarrow>
     (\<exists>c\<in>set quota. Available c \<and> DiskType c = t \<and> MinDiskSize c \<le> sz \<and> sz \<le> MaxDiskSize c)"

lemma verifyDiskTypeIsSupported_offered:
  "verifyDiskTypeIsSupported t sz quota = (u, False) \<Longrightarrow> u \<noteq> [] \<Longrightarrow> u = t \<and> offered quota t sz"
  by (induction quota) (auto simp: offered_def split: if_splits)

lemma default_type_loop_offer:
  assumes "default_type_loop quota s = (t, lo, hi)"
  shows "(t, lo, hi) = s \<or>
    (\<exists>c\<in>set quota. Available c \<and> DiskType c = t \<and> MinDiskSize c = lo \<and> MaxDiskSize c = hi
       \<and> t \<in> {DiskTypeCloudBasic, DiskTypeCloudPremium})"
  using assms
proof (induction quota arbitrary: s)
  case (Cons c cs)
  show ?case
  proof (cases "Available c \<and> DiskType c = DiskTypeCloudBasic")
    case True
    with Cons.prems show ?thesis by (auto simp: Let_def)
  next
    case False
    define s' where "s' = (if Available c \<and> DiskType c = DiskTypeCloudPremium
                then (DiskTypeCloudPremium, MinDiskSize c, MaxDiskSize c) else s)"
    from False Cons.prems have "default_type_loop cs s' = (t, lo, hi)"
      by (auto simp: s'_def Let_def)
    from Cons.IH [OF this] show ?thesis
      by (auto simp: s'_def split: if_splits)
  qed
qed simp

lemma getDiskTypeForDefaultStorageClass_offered:
  assumes "getDiskTypeForDefaultStorageClass sz quota = (u, False)" "u \<noteq> []"
  shows "offered quota u sz"
proof -
  obtain t lo hi where l: "default_type_loop quota ([], 0, 0) = (t, lo, hi)" by (metis prod_cases3)
  with assms have "t = u" "lo \<le> sz" "sz \<le> hi"
    by (auto simp: getDiskTypeForDefaultStorageClass_def split: if_splits)
  with default_type_loop_offer [OF l] assms(2) show ?thesis by (auto simp: offered_def)
qed

text \<open>
  The default storage class prefers the basic type: it is chosen whenever the quota offers it,
  wherever it stands in the list.
\<close>

lemma default_type_loop_basic:
  "\<exists>c\<in>set quota. Available c \<and> DiskType c = DiskTypeCloudBasic \<Longrightarrow>
   fst (default_type_loop quota s) = DiskTypeCloudBasic"
  by (induction quota arbitrary: s) (auto simp: Let_def)

end
