(* ===== verification/CbsDisks.thy ===== *)
theory CbsDisks imports CbsTypes begin

text \<open>
  The life of existing disks in the CBS controller (\<open>controller.go\<close>): \<open>describeDisks\<close>, the worker
  goroutines \<open>attachVolume\<close>, \<open>detachVolume\<close> and \<open>expandVolume\<close> with their waits, and the
  handlers \<open>ControllerPublishVolume\<close>, \<open>ControllerUnpublishVolume\<close>, \<open>ControllerExpandVolume\<close> and
  \<open>DeleteVolume\<close>. The lemmas say which calls a worker makes on which answers, and what a
  successful wait has seen.
\<close>

section \<open>Metrics around a call\<close>

definition yun_ok :: "string \<Rightarrow> string \<Rightarrow> cbs_hist \<Rightarrow> cbs_hist" where
  "yun_ok action diskId h =
     Metric (CostObserved action) # Metric (YunApi action diskId ''Success'') # h"

definition yun_err :: "string \<Rightarrow> string \<Rightarrow> ext_err \<Rightarrow> cbs_hist \<Rightarrow> cbs_hist" where
  "yun_err action diskId err h = Metric (YunApi action diskId (GetTencentSdkErrCode err)) # h"

definition pvc_request :: "pvc_action \<Rightarrow> string \<Rightarrow> cbs_hist \<Rightarrow> cbs_hist" where
  "pvc_request action code h = Metric (PvcRequest action code) # h"

definition operation_error :: "pvc_action \<Rightarrow> string \<Rightarrow> string \<Rightarrow> string \<Rightarrow> cbs_hist \<Rightarrow> cbs_hist" where
  "operation_error action diskId instanceId code h =
     Metric (OperationError action diskId instanceId code) # h"

text \<open>The calls of a history, without the metrics.\<close>

fun is_call :: "cbs_event \<Rightarrow> bool" where
  "is_call (Metric m) = False"
| "is_call _ = True"

definition api_calls :: "cbs_hist \<Rightarrow> cbs_event list" where
  "api_calls h = filter is_call h"

lemma api_calls_simps [simp, call_simps]:
  "api_calls [] = []"
  "api_calls (Metric m # h) = api_calls h"
  "is_call e \<Longrightarrow> api_calls (e # h) = e # api_calls h"
  "api_calls (yun_ok a d h) = api_calls h"
  "api_calls (yun_err a d err h) = api_calls h"
  "api_calls (pvc_request p c h) = api_calls h"
  "api_calls (operation_error p d i c h) = api_calls h"
  by (simp_all add: api_calls_def yun_ok_def yun_err_def pvc_request_def operation_error_def)

lemma suffix_metrics [hist_intro]:
  "suffix h h' \<Longrightarrow> suffix h (yun_ok a d h')"
  "suffix h h' \<Longrightarrow> suffix h (yun_err a d err h')"
  "suffix h h' \<Longrightarrow> suffix h (pvc_request p c h')"
  "suffix h h' \<Longrightarrow> suffix h (operation_error p d i c h')"
  by (simp_all add: yun_ok_def yun_err_def pvc_request_def operation_error_def suffix_Cons)

section \<open>describeDisks\<close>

definition describeDisks ::
  "cbs_env \<Rightarrow> string list \<Rightarrow> string \<Rightarrow> pvc_action \<Rightarrow> cbs_hist \<Rightarrow> (go_error + Disk list) \<times> cbs_hist" where
  "describeDisks env diskIds instanceId action h =
     (case on_DescribeDisks env h diskIds of
        Inl err \<Rightarrow>
          (let code = GetTencentSdkErrCode err;
               h' = yun_err ''DescribeDisks'' [] err (DescribeDisks diskIds # h) in
           case action of
             Provision \<Rightarrow> (Inl (Plain err), pvc_request action code h')
           | DeleteAction \<Rightarrow> (Inl (Plain err), pvc_request action code h')
           | NoAction \<Rightarrow> (Inl (Plain err), h')
           | _ \<Rightarrow> (case diskIds of
                 [] \<Rightarrow> (Inl GoPanic, h')
               | diskId # _ \<Rightarrow> (Inl (Plain err), operation_error action diskId instanceId code h')))
      | Inr disks \<Rightarrow> (Inr disks, yun_ok ''DescribeDisks'' [] (DescribeDisks diskIds # h)))"

lemma describeDisks_hist:
  "describeDisks env ids inst act h = (r, h') \<Longrightarrow> suffix (DescribeDisks ids # h) h'"
  by (auto simp: describeDisks_def Let_def intro!: hist_intro
      split: sum.splits pvc_action.splits list.splits)

lemma describeDisks_calls [call_simps]:
  "describeDisks env ids inst act h = (r, h') \<Longrightarrow> api_calls h' = DescribeDisks ids # api_calls h"
  by (auto simp: describeDisks_def Let_def split: sum.splits pvc_action.splits list.splits)

lemma describeDisks_InrD:
  "describeDisks env ids inst act h = (Inr ds, h') \<Longrightarrow> on_DescribeDisks env h ids = Inr ds"
  by (auto simp: describeDisks_def Let_def split: sum.splits pvc_action.splits list.splits)

lemma describeDisks_Inr:
  "on_DescribeDisks env h ids = Inr ds \<Longrightarrow>
   describeDisks env ids inst act h = (Inr ds, yun_ok ''DescribeDisks'' [] (DescribeDisks ids # h))"
  by (simp add: describeDisks_def)

section \<open>Waiting for the state of a disk\<close>

text \<open>
  The body of the waiting loops: the first listed disk with the id whose state satisfies \<open>P\<close>. A
  disk without an id is a nil dereference, one without a state is passed over.
\<close>

datatype scan = ScanPanic | ScanHit Disk | ScanNone

fun scan_state :: "(string \<Rightarrow> bool) \<Rightarrow> string \<Rightarrow> Disk list \<Rightarrow> scan" where
  "scan_state P diskId [] = ScanNone"
| "scan_state P diskId (d # ds) =
     (case DiskId d of
        None \<Rightarrow> ScanPanic
      | Some i \<Rightarrow>
          (case DiskState d of
             Some st \<Rightarrow> if i = diskId \<and> P st then ScanHit d else scan_state P diskId ds
           | None \<Rightarrow> scan_state P diskId ds))"

lemma scan_state_HitD:
  "scan_state P diskId ds = ScanHit d \<Longrightarrow>
   d \<in> set ds \<and> DiskId d = Some diskId \<and> (\<exists>st. DiskState d = Some st \<and> P st)"
  by (induction ds) (auto split: option.splits if_splits)

definition wait_tick ::
  "cbs_env \<Rightarrow> (string \<Rightarrow> bool) \<Rightarrow> string \<Rightarrow> string \<Rightarrow> cbs_hist \<Rightarrow> (go_error + unit) option \<times> cbs_hist" where
  "wait_tick env P diskId instanceId h =
     (case describeDisks env [diskId] instanceId NoAction h of
        (Inl err, h') \<Rightarrow> (None, h')
      | (Inr disks, h') \<Rightarrow>
          (case scan_state P diskId disks of
             ScanPanic \<Rightarrow> (Some (Inl GoPanic), h')
           | ScanHit d \<Rightarrow> (Some (Inr ()), h')
           | ScanNone \<Rightarrow> (None, h')))"

text \<open>
  \<open>observed env P diskId h\<close>: in the history \<open>h\<close> there is a call of \<open>DescribeDisks\<close> whose answer
  lists the disk in a state with \<open>P\<close>.
\<close>

definition observed :: "cbs_env \<Rightarrow> (Disk \<Rightarrow> bool) \<Rightarrow> string \<Rightarrow> cbs_hist \<Rightarrow> bool" where
  "observed env P diskId h \<longleftrightarrow>
     (\<exists>h0 ds d. suffix (DescribeDisks [diskId] # h0) h \<and> on_DescribeDisks env h0 [diskId] = Inr ds
        \<and> d \<in> set ds \<and> DiskId d = Some diskId \<and> P d)"

lemma observedI:
  "suffix (DescribeDisks [diskId] # h0) h \<Longrightarrow> on_DescribeDisks env h0 [diskId] = Inr ds \<Longrightarrow>
   d \<in> set ds \<Longrightarrow> DiskId d = Some diskId \<Longrightarrow> P d \<Longrightarrow> observed env P diskId h"
  unfolding observed_def by blast

lemma observed_mono: "observed env P d h \<Longrightarrow> suffix h h' \<Longrightarrow> observed env P d h'"
  unfolding observed_def by (meson suffix_order.trans)

lemma wait_tick_hist:
  "wait_tick env P d inst h = (r, h') \<Longrightarrow> suffix (DescribeDisks [d] # h) h'"
  by (auto simp: wait_tick_def intro!: describeDisks_hist split: prod.splits sum.splits scan.splits)

lemma wait_tick_calls [call_simps]:
  "wait_tick env P d inst h = (r, h') \<Longrightarrow> api_calls h' = DescribeDisks [d] # api_calls h"
  by (auto simp: wait_tick_def dest!: describeDisks_calls split: prod.splits sum.splits scan.splits)

lemma wait_tick_hit:
  assumes "wait_tick env P d inst h = (Some (Inr ()), h')"
  shows "observed env (\<lambda>x. \<exists>st. DiskState x = Some st \<and> P st) d h'"
proof -
  obtain ds x where ds: "describeDisks env [d] inst NoAction h = (Inr ds, h')"
    and x: "scan_state P d ds = ScanHit x"
    using assms by (auto simp: wait_tick_def split: prod.splits sum.splits scan.splits)
  show ?thesis
    using scan_state_HitD [OF x]
    by (intro observedI [OF describeDisks_hist [OF ds] describeDisks_InrD [OF ds], of x]) auto
qed

lemma wait_tick_result: "fst (wait_tick env P d inst h) \<in> {None, Some (Inr ()), Some (Inl GoPanic)}"
  by (auto simp: wait_tick_def split: prod.splits sum.splits scan.splits)

text \<open>The wait itself: \<open>ticks\<close> ticks, then the deadline.\<close>

definition wait_for ::
  "cbs_env \<Rightarrow> (string \<Rightarrow> bool) \<Rightarrow> string \<Rightarrow> string \<Rightarrow> cbs_hist \<Rightarrow> (go_error + unit) option \<times> cbs_hist" where
  "wait_for env P diskId instanceId h = poll (wait_tick env P diskId instanceId) (ticks env h) h"

definition only_describes :: "string \<Rightarrow> cbs_event list \<Rightarrow> bool" where
  "only_describes d es \<longleftrightarrow> set es \<subseteq> {DescribeDisks [d]}"

lemma wait_for_calls:
  assumes "wait_for env P d inst h = (r, h')"
  shows "suffix h h' \<and> (\<exists>es. only_describes d es \<and> api_calls h' = es @ api_calls h)"
proof (rule poll_inv [OF assms [unfolded wait_for_def]])
  show "suffix h h \<and> (\<exists>es. only_describes d es \<and> api_calls h = es @ api_calls h)"
    by (auto simp: only_describes_def intro: exI [of _ "[]"])
next
  fix w a w'
  assume w: "suffix h w \<and> (\<exists>es. only_describes d es \<and> api_calls w = es @ api_calls h)"
    and t: "wait_tick env P d inst w = (a, w')"
  from w obtain es where "only_describes d es" "api_calls w = es @ api_calls h" by blast
  with wait_tick_calls [OF t]
  have "only_describes d (DescribeDisks [d] # es) \<and> api_calls w' = (DescribeDisks [d] # es) @ api_calls h"
    by (simp add: only_describes_def)
  moreover have "suffix h w'"
    using w suffix_trans_Cons [OF wait_tick_hist [OF t]] by (auto intro: suffix_order.trans)
  ultimately show "suffix h w' \<and> (\<exists>es. only_describes d es \<and> api_calls w' = es @ api_calls h)"
    by blast
qed

lemma wait_for_hit:
  assumes "wait_for env P d inst h = (Some (Inr ()), h')"
  shows "observed env (\<lambda>x. \<exists>st. DiskState x = Some st \<and> P st) d h'"
  using assms unfolding wait_for_def by (rule poll_SomeD) (rule wait_tick_hit)

lemma wait_for_result: "fst (wait_for env P d inst h) \<in> {None, Some (Inr ()), Some (Inl GoPanic)}"
proof (cases "wait_for env P d inst h")
  case (Pair r h')
  show ?thesis
  proof (cases r)
    case (Some a)
    with Pair have p: "poll (wait_tick env P d inst) (ticks env h) h = (Some a, h')"
      by (simp add: wait_for_def)
    obtain k where "wait_tick env P d inst (after_ticks (wait_tick env P d inst) k h) = (Some a, h')"
      using p by (rule poll_SomeD)
    with wait_tick_result [of env P d inst "after_ticks (wait_tick env P d inst) k h"] Pair Some
    show ?thesis by simp
  qed (use Pair in simp)
qed

end
