(* ===== verification/CbsAttach.thy ===== *)
theory CbsAttach imports CbsDisks begin

text \<open>
  The handlers of \<open>controller.go\<close> that work on the disks of a volume id, one goroutine per disk:
  \<open>ControllerPublishVolume\<close>, \<open>ControllerUnpublishVolume\<close>, \<open>ControllerExpandVolume\<close>; and
  \<open>DeleteVolume\<close>.

  A worker has an outside of its own, \<open>wenv i\<close>, and a history of its own: the answers it sees are
  arbitrary functions of its own calls, so whatever the other workers do between two of them is
  one of the outsides that the statements quantify over. A handler returns its result, and the
  histories of its workers.
\<close>

section \<open>Workers\<close>

type_synonym worker = "(go_error + unit) \<times> cbs_hist"

definition run_workers :: "(nat \<Rightarrow> cbs_env) \<Rightarrow> (cbs_env \<Rightarrow> string \<Rightarrow> cbs_hist \<Rightarrow> worker) \<Rightarrow> string list \<Rightarrow> worker list" where
  "run_workers wenv work diskIds =
     map2 (\<lambda>i diskId. work (wenv i) diskId []) [0..<length diskIds] diskIds"

text \<open>
  \<open>wg.Wait()\<close> and the loop over the responses. A panic of a goroutine takes the process down.
\<close>

definition gather :: "worker list \<Rightarrow> go_error + unit" where
  "gather ws =
     (if Inl GoPanic \<in> set (map fst ws) then Inl GoPanic
      else if \<exists>r\<in>set (map fst ws). r \<noteq> Inr () then Inl (Status Aborted)
      else Inr ())"

lemma length_run_workers [simp]: "length (run_workers wenv work ds) = length ds"
  by (simp add: run_workers_def)

lemma nth_run_workers [simp]:
  "i < length ds \<Longrightarrow> run_workers wenv work ds ! i = work (wenv i) (ds ! i) []"
  by (simp add: run_workers_def)

lemma run_workers_Nil_iff [simp]:
  "run_workers wenv work ds = [] \<longleftrightarrow> ds = []" "[] = run_workers wenv work ds \<longleftrightarrow> ds = []"
  by (auto simp: run_workers_def)

lemma gather_InrD: "gather ws = Inr () \<Longrightarrow> i < length ws \<Longrightarrow> fst (ws ! i) = Inr ()"
  by (auto simp: gather_def split: if_splits)

lemma gather_Inl: "gather ws = Inl e \<Longrightarrow> e = GoPanic \<or> e = Status Aborted"
  by (auto simp: gather_def split: if_splits)

lemma gather_Inr_iff: "gather ws = Inr () \<longleftrightarrow> (\<forall>w\<in>set ws. fst w = Inr ())"
  by (auto simp: gather_def)

section \<open>attachVolume\<close>

definition supported_node :: "string \<Rightarrow> bool" where
  "supported_node instanceId \<longleftrightarrow>
     (HasPrefix instanceId CVMNodeIDPrefix \<or> HasPrefix instanceId CXMNodeIDPrefix) \<and>
     length instanceId = NodeIDLength"

definition instance_type :: "string \<Rightarrow> string option" where
  "instance_type instanceId =
     (if HasPrefix instanceId CXMNodeIDPrefix then Some CXMInstanceType else None)"

text \<open>The loop over the first answer: \<open>None\<close> goes on to the call of \<open>AttachDisks\<close>.\<close>

fun attach_check :: "string \<Rightarrow> string \<Rightarrow> Disk list \<Rightarrow> (go_error + unit) option" where
  "attach_check diskId instanceId [] = None"
| "attach_check diskId instanceId (d # ds) =
     (case DiskId d of
        None \<Rightarrow> Some (Inl GoPanic)
      | Some i \<Rightarrow>
          if i \<noteq> diskId then attach_check diskId instanceId ds
          else case DiskState d of
            None \<Rightarrow> Some (Inl GoPanic)
          | Some st \<Rightarrow>
              if st \<noteq> StatusAttached then attach_check diskId instanceId ds
              else case InstanceId d of
                None \<Rightarrow> Some (Inl GoPanic)
              | Some n \<Rightarrow> if n = instanceId then Some (Inr ()) else Some (Inl (Status FailedPrecondition)))"

definition attachVolume :: "string \<Rightarrow> cbs_env \<Rightarrow> string \<Rightarrow> cbs_hist \<Rightarrow> worker" where
  "attachVolume instanceId env diskId h =
     (case describeDisks env [diskId] instanceId Attach h of
        (Inl err, h1) \<Rightarrow> (Inl (if err = GoPanic then GoPanic else Status Internal), h1)
      | (Inr [], h1) \<Rightarrow>
          (Inl (Status NotFound), operation_error Attach diskId instanceId ''ErrDiskNotFound'' h1)
      | (Inr disks, h1) \<Rightarrow>
          (case attach_check diskId instanceId disks of
             Some (Inl (Status FailedPrecondition)) \<Rightarrow>
               (Inl (Status FailedPrecondition),
                operation_error Attach diskId instanceId ''ErrDiskAttachedAlready'' h1)
           | Some r \<Rightarrow> (r, h1)
           | None \<Rightarrow>
               (let h2 = AttachDisks [diskId] instanceId (instance_type instanceId) # h1 in
                case on_AttachDisks env h1 diskId instanceId of
                  Some err \<Rightarrow>
                    (Inl (Status Internal),
                     operation_error Attach diskId instanceId (GetTencentSdkErrCode err)
                       (yun_err ''AttachDisks'' diskId err h2))
                | None \<Rightarrow>
                    (case wait_for env (\<lambda>st. st = StatusAttached) diskId instanceId
                            (yun_ok ''AttachDisks'' diskId h2) of
                       (Some r, h3) \<Rightarrow> (r, h3)
                     | (None, h3) \<Rightarrow>
                         (Inl (Status DeadlineExceeded),
                          operation_error Attach diskId instanceId ''ErrDiskAttachedATimeout'' h3)))))"

section \<open>detachVolume\<close>

fun detach_check :: "string \<Rightarrow> string \<Rightarrow> Disk list \<Rightarrow> (go_error + unit) option" where
  "detach_check diskId instanceId [] = None"
| "detach_check diskId instanceId (d # ds) =
     (case DiskId d of
        None \<Rightarrow> Some (Inl GoPanic)
      | Some i \<Rightarrow>
          if i \<noteq> diskId then detach_check diskId instanceId ds
          else case DiskState d of
            None \<Rightarrow> Some (Inl GoPanic)
          | Some st \<Rightarrow>
              if st = StatusUnattached then Some (Inr ())
              else if st \<noteq> StatusAttached then detach_check diskId instanceId ds
              else case InstanceId d of
                None \<Rightarrow> Some (Inl GoPanic)
              | Some n \<Rightarrow> if n \<noteq> instanceId then Some (Inr ()) else detach_check diskId instanceId ds)"

definition detachVolume :: "string \<Rightarrow> cbs_env \<Rightarrow> string \<Rightarrow> cbs_hist \<Rightarrow> worker" where
  "detachVolume instanceId env diskId h =
     (case describeDisks env [diskId] instanceId Detach h of
        (Inl err, h1) \<Rightarrow> (Inl (if err = GoPanic then GoPanic else Status Internal), h1)
      | (Inr [], h1) \<Rightarrow> (Inr (), h1)
      | (Inr disks, h1) \<Rightarrow>
          (case detach_check diskId instanceId disks of
             Some r \<Rightarrow> (r, h1)
           | None \<Rightarrow>
               (let h2 = DetachDisks [diskId] (instance_type instanceId) # h1 in
                case on_DetachDisks env h1 diskId of
                  Some err \<Rightarrow>
                    (Inl (Status Internal),
                     operation_error Detach diskId instanceId (GetTencentSdkErrCode err)
                       (yun_err ''DetachDisks'' diskId err h2))
                | None \<Rightarrow>
                    (case wait_for env (\<lambda>st. st = StatusUnattached) diskId instanceId
                            (yun_ok ''DetachDisks'' diskId h2) of
                       (Some r, h3) \<Rightarrow> (r, h3)
                     | (None, h3) \<Rightarrow>
                         (Inl (Status DeadlineExceeded),
                          operation_error Detach diskId instanceId ''ErrDiskDetachedATimeout'' h3)))))"

section \<open>expandVolume\<close>

fun expand_check :: "string \<Rightarrow> int \<Rightarrow> Disk list \<Rightarrow> (go_error + unit) option" where
  "expand_check diskId newCbsSizeGB [] = None"
| "expand_check diskId newCbsSizeGB (d # ds) =
     (case DiskId d of
        None \<Rightarrow> Some (Inl GoPanic)
      | Some i \<Rightarrow>
          if i \<noteq> diskId then expand_check diskId newCbsSizeGB ds
          else case DiskSize d of
            None \<Rightarrow> Some (Inl GoPanic)
          | Some sz \<Rightarrow> if uint64 newCbsSizeGB \<le> sz then Some (Inr ()) else expand_check diskId newCbsSizeGB ds)"

definition expandVolume :: "int \<Rightarrow> cbs_env \<Rightarrow> string \<Rightarrow> cbs_hist \<Rightarrow> worker" where
  "expandVolume newCbsSizeGB env diskId h =
     (case describeDisks env [diskId] [] NoAction h of
        (Inl err, h1) \<Rightarrow> (Inl (Status Internal), h1)
      | (Inr [], h1) \<Rightarrow> (Inl (Status NotFound), h1)
      | (Inr disks, h1) \<Rightarrow>
          (case expand_check diskId newCbsSizeGB disks of
             Some r \<Rightarrow> (r, h1)
           | None \<Rightarrow>
               (let h2 = ResizeDisk diskId (uint64 newCbsSizeGB) # h1 in
                case on_ResizeDisk env h1 diskId (uint64 newCbsSizeGB) of
                  Some err \<Rightarrow> (Inl (Status Internal), h2)
                | None \<Rightarrow>
                    (case wait_for env (\<lambda>st. st \<noteq> StatusExpanding) diskId [] h2 of
                       (Some r, h3) \<Rightarrow> (r, h3)
                     | (None, h3) \<Rightarrow> (Inl (Status DeadlineExceeded), h3)))))"

section \<open>The handlers\<close>

record ControllerPublishVolumeRequest =
  pub_VolumeId :: string
  pub_NodeId :: string
  pub_VolumeCapability :: "unit option"   \<comment> \<open>only its presence is looked at\<close>

definition ControllerPublishVolume ::
  "(nat \<Rightarrow> cbs_env) \<Rightarrow> ControllerPublishVolumeRequest \<Rightarrow> (go_error + unit) \<times> worker list" where
  "ControllerPublishVolume wenv req =
     (if pub_VolumeId req = [] then (Inl (Status InvalidArgument), [])
      else if pub_NodeId req = [] then (Inl (Status InvalidArgument), [])
      else if pub_VolumeCapability req = None then (Inl (Status InvalidArgument), [])
      else
        let diskIds = pub_VolumeId req; instanceId = pub_NodeId req in
        if \<not> supported_node instanceId then (Inl (Status Internal), [])
        else
          let disks = diskIdList diskIds in
          if length diskIds = 0 then (Inl (Status InvalidArgument), [])
          else
            let ws = run_workers wenv (attachVolume instanceId) disks
            in (gather ws, ws))"

record ControllerUnpublishVolumeRequest =
  unpub_VolumeId :: string
  unpub_NodeId :: string

definition ControllerUnpublishVolume ::
  "(nat \<Rightarrow> cbs_env) \<Rightarrow> ControllerUnpublishVolumeRequest \<Rightarrow> (go_error + unit) \<times> worker list" where
  "ControllerUnpublishVolume wenv req =
     (if unpub_VolumeId req = [] then (Inl (Status InvalidArgument), [])
      else if unpub_NodeId req = [] then (Inl (Status InvalidArgument), [])
      else
        let diskIds = unpub_VolumeId req; instanceId = unpub_NodeId req in
        if \<not> supported_node instanceId then (Inr (), [])
        else
          let disks = diskIdList diskIds in
          if length diskIds = 0 then (Inl (Status InvalidArgument), [])
          else
            let ws = run_workers wenv (detachVolume instanceId) disks
            in (gather ws, ws))"

record ControllerExpandVolumeRequest =
  exp_VolumeId :: string
  exp_RequiredBytes :: "int option"       \<comment> \<open>\<open>None\<close>: no capacity range\<close>

record ControllerExpandVolumeResponse =
  CapacityBytes :: int
  NodeExpansionRequired :: bool

definition ControllerExpandVolume ::
  "(nat \<Rightarrow> cbs_env) \<Rightarrow> ControllerExpandVolumeRequest \<Rightarrow>
   (go_error + ControllerExpandVolumeResponse) \<times> worker list" where
  "ControllerExpandVolume wenv req =
     (if exp_VolumeId req = [] then (Inl (Status InvalidArgument), [])
      else case exp_RequiredBytes req of
        None \<Rightarrow> (Inl (Status InvalidArgument), [])
      | Some requiredBytes \<Rightarrow>
          let newCbsSizeGB = RoundUpGiB requiredBytes;
              diskIds = exp_VolumeId req;
              disks = diskIdList diskIds in
          if length diskIds = 0 then (Inl (Status InvalidArgument), [])
          else
            let ws = run_workers wenv (expandVolume newCbsSizeGB) disks in
            case gather ws of
              Inl err \<Rightarrow> (Inl err, ws)
            | Inr _ \<Rightarrow>
                (Inr \<lparr>CapacityBytes = GiBToBytes newCbsSizeGB, NodeExpansionRequired = True\<rparr>, ws))"

text \<open>\<open>DeleteVolume\<close> describes and terminates all disks in one call each.\<close>

definition DeleteVolume :: "cbs_env \<Rightarrow> string \<Rightarrow> cbs_hist \<Rightarrow> (go_error + unit) \<times> cbs_hist" where
  "DeleteVolume env volumeId h =
     (if volumeId = [] then (Inl (Status InvalidArgument), h)
      else
        let disks = diskIdList volumeId in
        case describeDisks env disks [] DeleteAction h of
          (Inl err, h1) \<Rightarrow> (Inl (Status Internal), h1)
        | (Inr [], h1) \<Rightarrow> (Inr (), h1)
        | (Inr _, h1) \<Rightarrow>
            (let h2 = TerminateDisks disks # h1 in
             case on_TerminateDisks env h1 disks of
               Some err \<Rightarrow>
                 (Inl (Status Internal),
                  pvc_request DeleteAction (GetTencentSdkErrCode err) (yun_err ''TerminateDisks'' [] err h2))
             | None \<Rightarrow> (Inr (), pvc_request DeleteAction ''Success'' (yun_ok ''TerminateDisks'' [] h2))))"

section \<open>What the first answer decides\<close>

lemma attach_check_None:
  "attach_check d inst ds = None \<Longrightarrow>
   \<forall>x\<in>set ds. DiskId x \<noteq> None \<and> (DiskId x = Some d \<longrightarrow> DiskState x \<noteq> Some StatusAttached \<and> DiskState x \<noteq> None)"
  by (induction ds) (auto split: option.splits if_splits)

lemma attach_check_Inr:
  "attach_check d inst ds = Some (Inr ()) \<Longrightarrow>
   \<exists>x\<in>set ds. DiskId x = Some d \<and> DiskState x = Some StatusAttached \<and> InstanceId x = Some inst"
  by (induction ds) (auto split: option.splits if_splits)

lemma attach_check_result:
  "attach_check d inst ds = Some r \<Longrightarrow> r \<in> {Inr (), Inl GoPanic, Inl (Status FailedPrecondition)}"
  by (induction ds) (auto split: option.splits if_splits)

lemma detach_check_None:
  "detach_check d inst ds = None \<Longrightarrow>
   \<forall>x\<in>set ds. DiskId x \<noteq> None \<and> (DiskId x = Some d \<longrightarrow> DiskState x \<noteq> Some StatusUnattached \<and>
     (DiskState x = Some StatusAttached \<longrightarrow> InstanceId x = Some inst))"
  by (induction ds) (auto split: option.splits if_splits)

lemma detach_check_Inr:
  "detach_check d inst ds = Some (Inr ()) \<Longrightarrow>
   \<exists>x\<in>set ds. DiskId x = Some d \<and> (DiskState x = Some StatusUnattached \<or>
     DiskState x = Some StatusAttached \<and> InstanceId x \<noteq> Some inst)"
  by (induction ds) (auto split: option.splits if_splits)

lemma expand_check_None:
  "expand_check d n ds = None \<Longrightarrow>
   \<forall>x\<in>set ds. DiskId x = Some d \<longrightarrow> (\<exists>sz. DiskSize x = Some sz \<and> sz < uint64 n)"
  by (induction ds) (auto split: option.splits if_splits)

lemma expand_check_Inr:
  "expand_check d n ds = Some (Inr ()) \<Longrightarrow>
   \<exists>x\<in>set ds. DiskId x = Some d \<and> (\<exists>sz. DiskSize x = Some sz \<and> uint64 n \<le> sz)"
  by (induction ds) (auto split: option.splits if_splits)

text \<open>A listing that a well-behaved cloud gives for one disk: every disk has an id, one is \<open>d\<close>.\<close>

definition lists_one :: "string \<Rightarrow> Disk \<Rightarrow> Disk list \<Rightarrow> bool" where
  "lists_one d k ds \<longleftrightarrow> k \<in> set ds \<and> DiskId k = Some d \<and>
     (\<forall>x\<in>set ds. DiskId x \<noteq> None \<and> (DiskId x = Some d \<longrightarrow> x = k))"

lemma lists_one_Cons:
  "lists_one d k (x # ds) \<Longrightarrow>
   x = k \<and> DiskId k = Some d \<or> (\<exists>i. DiskId x = Some i \<and> i \<noteq> d) \<and> lists_one d k ds"
  unfolding lists_one_def by (cases "DiskId x = Some d") auto

lemma attach_check_one:
  assumes "lists_one d k ds" "DiskState k = Some StatusAttached" "InstanceId k = Some n"
  shows "attach_check d inst ds = Some (if n = inst then Inr () else Inl (Status FailedPrecondition))"
  using assms(1)
proof (induction ds)
  case (Cons x ds)
  from lists_one_Cons [OF Cons.prems] show ?case
    using Cons.IH assms(2,3) by auto
qed (simp add: lists_one_def)

lemma detach_check_one:
  assumes "lists_one d k ds"
    and "DiskState k = Some StatusUnattached \<or>
         DiskState k = Some StatusAttached \<and> InstanceId k = Some n \<and> n \<noteq> inst"
  shows "detach_check d inst ds = Some (Inr ())"
  using assms(1)
proof (induction ds)
  case (Cons x ds)
  from lists_one_Cons [OF Cons.prems] show ?case
    using Cons.IH assms(2) by auto
qed (simp add: lists_one_def)

lemma lists_one_not_Nil: "lists_one d k ds \<Longrightarrow> ds \<noteq> []"
  by (auto simp: lists_one_def)

section \<open>Properties of attachVolume\<close>

text \<open>A worker whose check decided, and one that went on to the call.\<close>

lemma attachVolume_checked:
  assumes "attachVolume inst env d h = (r, h')" "describeDisks env [d] inst Attach h = (Inr ds, h1)"
    and "ds \<noteq> []" "attach_check d inst ds = Some b"
  shows "r = b \<and> api_calls h' = api_calls h1 \<and> (b = Inr () \<longrightarrow> h' = h1)"
  using assms attach_check_result [OF assms(4)]
  by (cases ds) (auto simp: attachVolume_def simp del: attach_check.simps)

lemma attachVolume_unchecked:
  assumes "attachVolume inst env d h = (r, h')" "describeDisks env [d] inst Attach h = (Inr ds, h1)"
    and "ds \<noteq> []" "attach_check d inst ds = None"
    and "wait_for env (\<lambda>st. st = StatusAttached) d inst
      (yun_ok ''AttachDisks'' d (AttachDisks [d] inst (instance_type inst) # h1)) = (v, h3)"
  shows "case on_AttachDisks env h1 d inst of
      Some e \<Rightarrow> r = Inl (Status Internal) \<and> api_calls h' = AttachDisks [d] inst (instance_type inst) # api_calls h1
    | None \<Rightarrow> v = None \<and> r = Inl (Status DeadlineExceeded) \<and> h' = operation_error Attach d inst ''ErrDiskAttachedATimeout'' h3 \<or>
        v = Some r \<and> h' = h3"
  using assms
  by (cases ds; cases v; cases "on_AttachDisks env h1 d inst")
    (auto simp: attachVolume_def Let_def simp del: attach_check.simps)

text \<open>The exits of a worker, as one elimination rule for each worker.\<close>

lemma attachVolume_cases:
  assumes "attachVolume inst env d h = (r, h')"
  obtains (refused) "api_calls h' = DescribeDisks [d] # api_calls h" "\<And>u. r \<noteq> Inr u"
      "r \<noteq> Inl (Status DeadlineExceeded)"
    | (already) ds where "on_DescribeDisks env h [d] = Inr ds" "r = Inr ()"
      "attach_check d inst ds = Some (Inr ())" "suffix (DescribeDisks [d] # h) h'"
      "api_calls h' = DescribeDisks [d] # api_calls h"
    | (attach) ds h1 where "on_DescribeDisks env h [d] = Inr ds" "attach_check d inst ds = None"
      "suffix (DescribeDisks [d] # h) h1" "api_calls h1 = DescribeDisks [d] # api_calls h"
      "on_AttachDisks env h1 d inst \<noteq> None" "r = Inl (Status Internal)"
      "api_calls h' = AttachDisks [d] inst (instance_type inst) # api_calls h1"
    | (waited) ds h1 h3 where "on_DescribeDisks env h [d] = Inr ds" "attach_check d inst ds = None"
      "suffix (DescribeDisks [d] # h) h1" "api_calls h1 = DescribeDisks [d] # api_calls h"
      "on_AttachDisks env h1 d inst = None"
      "wait_for env (\<lambda>st. st = StatusAttached) d inst
         (yun_ok ''AttachDisks'' d (AttachDisks [d] inst (instance_type inst) # h1)) = (None, h3) \<and>
         r = Inl (Status DeadlineExceeded) \<and>
         h' = operation_error Attach d inst ''ErrDiskAttachedATimeout'' h3 \<or>
       wait_for env (\<lambda>st. st = StatusAttached) d inst
         (yun_ok ''AttachDisks'' d (AttachDisks [d] inst (instance_type inst) # h1)) = (Some r, h3) \<and>
         h' = h3"
proof -
  obtain a h1 where d: "describeDisks env [d] inst Attach h = (a, h1)" by fastforce
  note c = describeDisks_calls [OF d] and s = describeDisks_hist [OF d]
  show ?thesis
  proof (cases a)
    case (Inl e)
    with assms d c show ?thesis by (intro refused) (auto simp: attachVolume_def split: if_splits)
  next
    case (Inr ds)
    with d have o: "on_DescribeDisks env h [d] = Inr ds" by (blast dest: describeDisks_InrD)
    show ?thesis
    proof (cases "ds = []")
      case True
      with assms d Inr c show ?thesis by (intro refused) (auto simp: attachVolume_def)
    next
      case ds: False
      show ?thesis
      proof (cases "attach_check d inst ds")
        case None
        obtain v h3 where w: "wait_for env (\<lambda>st. st = StatusAttached) d inst
            (yun_ok ''AttachDisks'' d (AttachDisks [d] inst (instance_type inst) # h1)) = (v, h3)" by fastforce
        note u = attachVolume_unchecked [OF assms d [unfolded Inr] ds None w]
        show ?thesis
        proof (cases "on_AttachDisks env h1 d inst")
          case no_err: None
          with u w show ?thesis by (intro waited [OF o None s c no_err, of h3]) auto
        next
          case (Some e)
          with u show ?thesis by (intro attach [OF o None s c]) auto
        qed
      next
        case (Some b)
        note k = attachVolume_checked [OF assms d [unfolded Inr] ds Some]
        show ?thesis
        proof (cases "b = Inr ()")
          case True
          with k Some c s show ?thesis by (intro already [OF o]) auto
        next
          case False
          with k c attach_check_result [OF Some] show ?thesis by (intro refused) auto
        qed
      qed
    qed
  qed
qed

text \<open>A worker that succeeds has seen the disk attached, at its node or after its own call.\<close>

definition attached_for :: "string \<Rightarrow> cbs_hist \<Rightarrow> string \<Rightarrow> Disk \<Rightarrow> bool" where
  "attached_for inst h d x \<longleftrightarrow>
     DiskState x = Some StatusAttached \<and>
     (InstanceId x = Some inst \<or> AttachDisks [d] inst (instance_type inst) \<in> set h)"

lemma attach_ok_observed:
  assumes "attachVolume inst env d h = (Inr (), h')"
  shows "observed env (attached_for inst h' d) d h'"
  using assms
proof (cases rule: attachVolume_cases)
  case (already ds)
  from attach_check_Inr [OF already(3)] obtain x where "x \<in> set ds" "DiskId x = Some d"
    "DiskState x = Some StatusAttached" "InstanceId x = Some inst" by blast
  with already(1,4) show ?thesis by (auto intro!: observedI simp: attached_for_def)
next
  case (waited ds h1 h3)
  then have w: "wait_for env (\<lambda>st. st = StatusAttached) d inst
         (yun_ok ''AttachDisks'' d (AttachDisks [d] inst (instance_type inst) # h1)) = (Some (Inr ()), h')"
    by auto
  from wait_for_calls [OF w] have "AttachDisks [d] inst (instance_type inst) \<in> set h'"
    by (auto simp: yun_ok_def suffix_def)
  moreover from wait_for_hit [OF w] have "observed env (\<lambda>x. DiskState x = Some StatusAttached) d h'"
    by simp
  ultimately show ?thesis unfolding observed_def attached_for_def by auto
qed auto

text \<open>
  The calls of a worker: one look at the disk; then, only if the disk was not shown attached,
  one call of \<open>AttachDisks\<close>; then looks only.
\<close>

definition attach_shape :: "cbs_env \<Rightarrow> string \<Rightarrow> string \<Rightarrow> cbs_hist \<Rightarrow> cbs_hist \<Rightarrow> bool" where
  "attach_shape env inst d h h' \<longleftrightarrow>
     api_calls h' = DescribeDisks [d] # api_calls h \<or>
     (\<exists>es ds. only_describes d es \<and>
        api_calls h' = es @ AttachDisks [d] inst (instance_type inst) # DescribeDisks [d] # api_calls h \<and>
        on_DescribeDisks env h [d] = Inr ds \<and>
        (\<forall>x\<in>set ds. DiskId x = Some d \<longrightarrow> DiskState x \<noteq> Some StatusAttached))"

lemma attach_shape_holds:
  assumes "attachVolume inst env d h = (r, h')"
  shows "attach_shape env inst d h h'"
  using assms
proof (cases rule: attachVolume_cases)
  case (attach ds h1)
  then have "only_describes d [] \<and>
     api_calls h' = [] @ AttachDisks [d] inst (instance_type inst) # DescribeDisks [d] # api_calls h"
    by (simp add: only_describes_def)
  with attach(1) attach_check_None [OF attach(2)] show ?thesis unfolding attach_shape_def by blast
next
  case (waited ds h1 h3)
  then obtain v where "wait_for env (\<lambda>st. st = StatusAttached) d inst
         (yun_ok ''AttachDisks'' d (AttachDisks [d] inst (instance_type inst) # h1)) = (v, h3)"
      and h': "api_calls h' = api_calls h3" by auto
  from wait_for_calls [OF this(1)] obtain es where "only_describes d es"
    "api_calls h3 = es @ AttachDisks [d] inst (instance_type inst) # DescribeDisks [d] # api_calls h"
    using waited(4) by auto
  with waited(1) h' attach_check_None [OF waited(2)] show ?thesis
    unfolding attach_shape_def by (metis (no_types, lifting))
qed (simp_all add: attach_shape_def)

end
