(* ===== verification/CbsCreateParams.thy ===== *)
theory CbsCreateParams imports CbsTypes begin

text \<open>
  The first half of \<open>cbsController.CreateVolume\<close> (\<open>controller.go\<close>), up to the first call to the
  cloud: the checks on the request, the loop over the storage class parameters, and the checks
  on the device mapper and the prepaid options. The parameters are a list in the order in which
  Go's map iteration visits them. The lemmas say what a parsed request satisfies, and when the
  order of the visit matters.
\<close>

section \<open>The request\<close>

datatype access_mode =
    MODE_UNKNOWN | SINGLE_NODE_WRITER | SINGLE_NODE_READER_ONLY | MULTI_NODE_READER_ONLY
  | MULTI_NODE_SINGLE_WRITER | MULTI_NODE_MULTI_WRITER

record CreateVolumeRequest =
  cv_Name :: string
  cv_VolumeCapabilities :: "access_mode option list"   \<comment> \<open>\<open>None\<close>: nil \<open>AccessMode\<close>\<close>
  cv_RequiredBytes :: "int option"                     \<comment> \<open>\<open>None\<close>: nil \<open>CapacityRange\<close>\<close>
  cv_Parameters :: "(string \<times> string) list"
  cv_VolumeContentSource :: "string option option"     \<comment> \<open>\<open>Some None\<close>: a source that is no snapshot\<close>
  cv_AccessibilityRequirements :: "TopologyRequirement option"

record cbsController =
  ctrl_zone :: string
  ctrl_region :: string
  ctrl_clusterId :: string

fun check_access_modes :: "access_mode option list \<Rightarrow> go_error + unit" where
  "check_access_modes [] = Inr ()"
| "check_access_modes (None # cs) = Inl GoPanic"
| "check_access_modes (Some m # cs) =
     (if m \<noteq> SINGLE_NODE_WRITER then Inl (Status InvalidArgument) else check_access_modes cs)"

text \<open>The request's checks, then \<open>req.CapacityRange.RequiredBytes\<close>.\<close>

definition cv_check_request :: "CreateVolumeRequest \<Rightarrow> go_error + int" where
  "cv_check_request req =
     (if cv_Name req = [] then Inl (Status InvalidArgument)
      else if length (cv_VolumeCapabilities req) \<le> 0 then Inl (Status InvalidArgument)
      else case check_access_modes (cv_VolumeCapabilities req) of
        Inl e \<Rightarrow> Inl e
      | Inr _ \<Rightarrow> (case cv_RequiredBytes req of None \<Rightarrow> Inl GoPanic | Some bytes \<Rightarrow> Inr bytes))"

section \<open>The parameters\<close>

record cv_params =
  aspId :: string
  volumeZone :: string
  cdcId :: string
  devicemapper :: string
  projectId :: int
  throughputPerformance :: int
  inputVolumeType :: string
  volumeChargeType :: string
  volumeChargePrepaidRenewFlag :: string
  volumeChargePrepaidPeriod :: int
  devices :: int
  volumeTags :: "(string \<times> string) list"

definition cv_params_init :: "cbsController \<Rightarrow> cv_params" where
  "cv_params_init ctrl =
     \<lparr>aspId = [], volumeZone = [], cdcId = [], devicemapper = [], projectId = 0,
      throughputPerformance = 0, inputVolumeType = DiskTypeCloudPremium,
      volumeChargeType = DiskChargeTypePostPaidByHour,
      volumeChargePrepaidRenewFlag = RenewFlagManual, volumeChargePrepaidPeriod = 1, devices = 1,
      volumeTags = (if ctrl_clusterId ctrl \<noteq> []
        then [(TagForDeletionCreateBy, ''yes''), (TagForDeletionClusterId, ctrl_clusterId ctrl)]
        else [])\<rparr>"

text \<open>The map of the tags is an association list; \<open>AList.update\<close> is the assignment to a key.\<close>

fun add_disk_tags :: "string list \<Rightarrow> (string \<times> string) list \<Rightarrow> (string \<times> string) list" where
  "add_disk_tags [] tags = tags"
| "add_disk_tags (diskTag # diskTags) tags =
     (case SplitC (CHR '':'') diskTag of
        [k, v] \<Rightarrow> add_disk_tags diskTags (AList.update k v tags)
      | _ \<Rightarrow> add_disk_tags diskTags tags)"

text \<open>One round of \<open>for k, v := range req.Parameters\<close>.\<close>

definition cv_param :: "cv_params \<Rightarrow> string \<times> string \<Rightarrow> go_error + cv_params" where
  "cv_param p kv =
     (let k = ToLower (fst kv); v = snd kv in
      if k = ''aspid'' then Inr (p\<lparr>aspId := v\<rparr>)
      else if k = ''type'' \<or> k = ''disktype'' then Inr (p\<lparr>inputVolumeType := v\<rparr>)
      else if k = ''zone'' \<or> k = ''diskzone'' then Inr (p\<lparr>volumeZone := v\<rparr>)
      else if k = ''paymode'' \<or> k = ''diskchargetype'' then
        (if v = DiskChargeTypePrePaid then Inr (p\<lparr>volumeChargeType := v\<rparr>) else Inr p)
      else if k = ''renewflag'' \<or> k = ''diskchargeprepaidrenewflag'' then
        Inr (p\<lparr>volumeChargePrepaidRenewFlag := v\<rparr>)
      else if k = ''diskchargetypeprepaidperiod'' then
        Inr (p\<lparr>volumeChargePrepaidPeriod := snd (Atoi v)\<rparr>)
      else if k = ''project'' then Inr (p\<lparr>projectId := snd (Atoi v)\<rparr>)
      else if k = ''disktags'' then
        Inr (p\<lparr>volumeTags := add_disk_tags (SplitC (CHR '','') v) (volumeTags p)\<rparr>)
      else if k = ''throughputperformance'' then Inr (p\<lparr>throughputPerformance := snd (Atoi v)\<rparr>)
      else if k = ''cdcid'' then Inr (p\<lparr>cdcId := v, volumeChargeType := DiskChargeTypeCdcPaid\<rparr>)
      else if k = ''devicemapper'' then Inr (p\<lparr>devicemapper := v\<rparr>)
      else if k = ''devices'' then
        (let n = snd (Atoi v)
         in if n \<le> 0 then Inl (Status InvalidArgument) else Inr (p\<lparr>devices := n\<rparr>))
      else Inr p)"

definition cv_parse_params :: "cbsController \<Rightarrow> (string \<times> string) list \<Rightarrow> go_error + cv_params" where
  "cv_parse_params ctrl params = fold_err cv_param (cv_params_init ctrl) params"

definition cv_check_devices :: "cv_params \<Rightarrow> go_error + unit" where
  "cv_check_devices p =
     (if devicemapper p \<noteq> [] then
        (if devicemapper p \<noteq> ''LVM'' then Inl (Status InvalidArgument)
         else if devices p < dmDefaultDevices then Inl (Status InvalidArgument)
         else Inr ())
      else if devices p \<noteq> 1 then Inl (Status InvalidArgument)
      else Inr ())"

text \<open>The prepaid checks; a failure also counts an invalid argument.\<close>

definition cv_prepaid_ok :: "cv_params \<Rightarrow> bool" where
  "cv_prepaid_ok p \<longleftrightarrow>
     (volumeChargeType p = DiskChargeTypePrePaid \<longrightarrow>
        volumeChargePrepaidPeriod p \<in> set DiskChargePrepaidPeriodValidValues \<and>
        volumeChargePrepaidRenewFlag p \<in> set [RenewFlagDisable, RenewFlagAuto, RenewFlagManual])"

section \<open>What the loop guarantees\<close>

lemma cv_param_devices:
  "cv_param p kv = Inr p' \<Longrightarrow> 0 < devices p \<Longrightarrow> 0 < devices p'"
  by (auto simp: cv_param_def Let_def split: if_splits)

text \<open>
  After a successful parse: the number of devices is positive and an \<open>int64\<close>, and the charge type
  is one of the three the code knows.
\<close>

lemma cv_parse_params_inv:
  assumes "cv_parse_params ctrl params = Inr p"
  shows "0 < devices p \<and> devices p \<le> max_int64 \<and>
     volumeChargeType p \<in> {DiskChargeTypePostPaidByHour, DiskChargeTypePrePaid, DiskChargeTypeCdcPaid}"
proof (rule fold_err_inv [where P = "\<lambda>p. 0 < devices p \<and> devices p \<le> max_int64 \<and>
     volumeChargeType p \<in> {DiskChargeTypePostPaidByHour, DiskChargeTypePrePaid, DiskChargeTypeCdcPaid}"])
  show "fold_err cv_param (cv_params_init ctrl) params = Inr p"
    using assms by (simp add: cv_parse_params_def)
  show "0 < devices (cv_params_init ctrl) \<and> devices (cv_params_init ctrl) \<le> max_int64 \<and>
     volumeChargeType (cv_params_init ctrl) \<in>
       {DiskChargeTypePostPaidByHour, DiskChargeTypePrePaid, DiskChargeTypeCdcPaid}"
    by (simp add: cv_params_init_def max_int64_def)
  show "0 < devices p' \<and> devices p' \<le> max_int64 \<and>
     volumeChargeType p' \<in> {DiskChargeTypePostPaidByHour, DiskChargeTypePrePaid, DiskChargeTypeCdcPaid}"
    if "0 < devices p \<and> devices p \<le> max_int64 \<and>
     volumeChargeType p \<in> {DiskChargeTypePostPaidByHour, DiskChargeTypePrePaid, DiskChargeTypeCdcPaid}"
      "cv_param p kv = Inr p'" for p kv p'
    using that Atoi_range [of "snd kv"]
    by (auto simp: cv_param_def Let_def split: if_splits)
qed

text \<open>
  The slots of the parsed state that a key writes. Two keys with different slots commute; the
  keys of one slot, and \<open>cdcid\<close> against the two charge type keys, do not.
\<close>

definition param_slot :: "string \<Rightarrow> string" where
  "param_slot key =
     (let k = ToLower key in
      if k \<in> set [''type'', ''disktype''] then ''type''
      else if k \<in> set [''zone'', ''diskzone''] then ''zone''
      else if k \<in> set [''paymode'', ''diskchargetype'', ''cdcid''] then ''charge''
      else if k \<in> set [''renewflag'', ''diskchargeprepaidrenewflag''] then ''renew''
      else k)"

text \<open>A round of the loop, read as one of thirteen updates of the state.\<close>

datatype param_op =
    SetAsp string | SetType string | SetZone string | SetPrepaid | SetRenew string | SetPeriod int
  | SetProject int | AddTags "string list" | SetThroughput int | SetCdc string | SetMapper string
  | SetDevices int | NoOp

definition param_op :: "string \<Rightarrow> string \<Rightarrow> param_op" where
  "param_op k v =
     (if k = ''aspid'' then SetAsp v
      else if k = ''type'' \<or> k = ''disktype'' then SetType v
      else if k = ''zone'' \<or> k = ''diskzone'' then SetZone v
      else if k = ''paymode'' \<or> k = ''diskchargetype'' then
        (if v = DiskChargeTypePrePaid then SetPrepaid else NoOp)
      else if k = ''renewflag'' \<or> k = ''diskchargeprepaidrenewflag'' then SetRenew v
      else if k = ''diskchargetypeprepaidperiod'' then SetPeriod (snd (Atoi v))
      else if k = ''project'' then SetProject (snd (Atoi v))
      else if k = ''disktags'' then AddTags (SplitC (CHR '','') v)
      else if k = ''throughputperformance'' then SetThroughput (snd (Atoi v))
      else if k = ''cdcid'' then SetCdc v
      else if k = ''devicemapper'' then SetMapper v
      else if k = ''devices'' then SetDevices (snd (Atoi v))
      else NoOp)"

fun apply_op :: "param_op \<Rightarrow> cv_params \<Rightarrow> go_error + cv_params" where
  "apply_op (SetAsp v) p = Inr (p\<lparr>aspId := v\<rparr>)"
| "apply_op (SetType v) p = Inr (p\<lparr>inputVolumeType := v\<rparr>)"
| "apply_op (SetZone v) p = Inr (p\<lparr>volumeZone := v\<rparr>)"
| "apply_op SetPrepaid p = Inr (p\<lparr>volumeChargeType := DiskChargeTypePrePaid\<rparr>)"
| "apply_op (SetRenew v) p = Inr (p\<lparr>volumeChargePrepaidRenewFlag := v\<rparr>)"
| "apply_op (SetPeriod n) p = Inr (p\<lparr>volumeChargePrepaidPeriod := n\<rparr>)"
| "apply_op (SetProject n) p = Inr (p\<lparr>projectId := n\<rparr>)"
| "apply_op (AddTags ts) p = Inr (p\<lparr>volumeTags := add_disk_tags ts (volumeTags p)\<rparr>)"
| "apply_op (SetThroughput n) p = Inr (p\<lparr>throughputPerformance := n\<rparr>)"
| "apply_op (SetCdc v) p = Inr (p\<lparr>cdcId := v, volumeChargeType := DiskChargeTypeCdcPaid\<rparr>)"
| "apply_op (SetMapper v) p = Inr (p\<lparr>devicemapper := v\<rparr>)"
| "apply_op (SetDevices n) p = (if n \<le> 0 then Inl (Status InvalidArgument) else Inr (p\<lparr>devices := n\<rparr>))"
| "apply_op NoOp p = Inr p"

fun op_slot :: "param_op \<Rightarrow> string" where
  "op_slot (SetAsp v) = ''aspid''"
| "op_slot (SetType v) = ''type''"
| "op_slot (SetZone v) = ''zone''"
| "op_slot SetPrepaid = ''charge''"
| "op_slot (SetRenew v) = ''renew''"
| "op_slot (SetPeriod n) = ''diskchargetypeprepaidperiod''"
| "op_slot (SetProject n) = ''project''"
| "op_slot (AddTags ts) = ''disktags''"
| "op_slot (SetThroughput n) = ''throughputperformance''"
| "op_slot (SetCdc v) = ''charge''"
| "op_slot (SetMapper v) = ''devicemapper''"
| "op_slot (SetDevices n) = ''devices''"
| "op_slot NoOp = []"

lemma cv_param_op: "cv_param p kv = apply_op (param_op (ToLower (fst kv)) (snd kv)) p"
  unfolding cv_param_def param_op_def Let_def
  by (simp only: apply_op.simps if_distrib [of "\<lambda>x. apply_op x p"] if_distribR cong: if_cong)

lemma op_slot_param_op:
  "param_op (ToLower k) v = NoOp \<or> op_slot (param_op (ToLower k) v) = param_slot k"
  unfolding param_op_def param_slot_def Let_def by (simp split: if_splits)

lemma apply_op_commute:
  "op_slot a \<noteq> op_slot b \<Longrightarrow> fold_err (\<lambda>p a. apply_op a p) p [a, b] = fold_err (\<lambda>p a. apply_op a p) p [b, a]"
  by (cases a; cases b) simp_all

lemma cv_param_commute:
  assumes "param_slot (fst x) \<noteq> param_slot (fst y)"
  shows "commute_err cv_param x y"
proof -
  define a where "a = param_op (ToLower (fst x)) (snd x)"
  define b where "b = param_op (ToLower (fst y)) (snd y)"
  have "fold_err cv_param p [x, y] = fold_err (\<lambda>p a. apply_op a p) p [a, b]"
    "fold_err cv_param p [y, x] = fold_err (\<lambda>p a. apply_op a p) p [b, a]" for p
    by (simp_all add: cv_param_op a_def b_def split: sum.split)
  moreover have "op_slot a \<noteq> op_slot b \<or> a = NoOp \<or> b = NoOp"
    using assms op_slot_param_op [of "fst x" "snd x"] op_slot_param_op [of "fst y" "snd y"]
    by (auto simp: a_def b_def)
  moreover have "fold_err (\<lambda>p a. apply_op a p) p [NoOp, c] = fold_err (\<lambda>p a. apply_op a p) p [c, NoOp]" for p c
    by (simp split: sum.split)
  ultimately show ?thesis
    unfolding commute_err_def using apply_op_commute [of a b] by metis
qed

text \<open>Parameters whose keys write different slots give the same parsed request in whatever order Go's map
  iteration visits them.\<close>

theorem params_order_independent:
  assumes "distinct (map (param_slot \<circ> fst) params)" "distinct params'" "set params' = set params"
  shows "cv_parse_params ctrl params' = cv_parse_params ctrl params"
  unfolding cv_parse_params_def
proof (rule fold_err_order)
  show "distinct params" using assms(1) by (simp add: distinct_map)
  fix x y
  assume "x \<in> set params'" "y \<in> set params'" "x \<noteq> y"
  with assms(1,3) have "param_slot (fst x) \<noteq> param_slot (fst y)"
    by (auto simp: distinct_map inj_on_def)
  then show "commute_err cv_param x y" by (rule cv_param_commute)
qed (use assms in auto)

theorem params_order_independent_witness:
  "cv_parse_params \<lparr>ctrl_zone = [], ctrl_region = [], ctrl_clusterId = []\<rparr> [(''devices'', ''2''), (''deviceMapper'', ''LVM'')]
   = cv_parse_params \<lparr>ctrl_zone = [], ctrl_region = [], ctrl_clusterId = []\<rparr> [(''deviceMapper'', ''LVM''), (''devices'', ''2'')]"
proof -
  have d: "distinct (map (param_slot \<circ> fst) [(''deviceMapper'', ''LVM''), (''devices'', ''2'')])" by code_simp
  show ?thesis by (rule params_order_independent [OF d]) auto
qed

text \<open>The slot of the charge type is shared, and there the order decides: the same two parameters give a
  CDC-paid disk in one order and a prepaid one in the other.\<close>

theorem charge_type_depends_on_order:
  "map_sum id volumeChargeType (cv_parse_params ctrl [(''cdcId'', c), (''payMode'', ''PREPAID'')]) = Inr DiskChargeTypePrePaid
   \<and> map_sum id volumeChargeType (cv_parse_params ctrl [(''payMode'', ''PREPAID''), (''cdcId'', c)]) = Inr DiskChargeTypeCdcPaid"
proof -
  have "ToLower ''cdcId'' = ''cdcid''" "ToLower ''payMode'' = ''paymode''" by code_simp+
  then show ?thesis by (simp add: cv_parse_params_def cv_param_op param_op_def)
qed

end
