(* ===== verification/CbsCreate.thy ===== *)
theory CbsCreate imports CbsAttach CbsCreateParams begin

text \<open>
  The rest of \<open>cbsController.CreateVolume\<close> (\<open>controller.go\<close>): the zone, the quota, the snapshot
  to restore, the request to the cloud, the workers that wait for the new disks, and the
  response.
\<close>

section \<open>The quota\<close>

text \<open>The error and the type that \<open>validateDiskTypeAndSize\<close> returns side by side.\<close>

definition validateDiskTypeAndSize ::
  "cbs_env \<Rightarrow> string \<Rightarrow> string \<Rightarrow> string \<Rightarrow> nat \<Rightarrow> cbs_hist \<Rightarrow> (string \<times> go_error option) \<times> cbs_hist" where
  "validateDiskTypeAndSize env inputDiskType zone paymode diskSize h =
     (let h1 = DescribeDiskConfigQuota zone paymode # h in
      case on_DescribeDiskConfigQuota env h zone paymode of
        Inl err \<Rightarrow>
          (([], Some (Plain err)),
           pvc_request Provision (GetTencentSdkErrCode err) (yun_err ''DescribeDiskConfigQuota'' [] err h1))
      | Inr quota \<Rightarrow>
          (let (t, outOfRange) =
             (if inputDiskType = ''cbs'' then getDiskTypeForDefaultStorageClass diskSize quota
              else verifyDiskTypeIsSupported inputDiskType diskSize quota)
           in ((t, if outOfRange then Some PlainMsg else None), yun_ok ''DescribeDiskConfigQuota'' [] h1)))"

section \<open>The zone\<close>

definition cv_zone ::
  "cbs_env \<Rightarrow> cbsController \<Rightarrow> CreateVolumeRequest \<Rightarrow> cv_params \<Rightarrow> cbs_hist \<Rightarrow> (go_error + string) \<times> cbs_hist" where
  "cv_zone env ctrl req p h =
     (let z1 = (if volumeZone p = [] then pickAvailabilityZone (cv_AccessibilityRequirements req) else volumeZone p);
          z2 = (if z1 = [] then ctrl_zone ctrl else z1) in
      if HasPrefix z2 ''ap-'' then (Inr z2, h)
      else
        case on_DescribeZones env h of
          Inl err \<Rightarrow> (Inl (Status Internal), DescribeZones # h)
        | Inr zones \<Rightarrow> (Inr (case map_of zones z2 of Some zone \<Rightarrow> zone | None \<Rightarrow> z2), DescribeZones # h))"

section \<open>From the request to what will be created\<close>

record cv_plan =
  plan_params :: cv_params
  plan_capacity :: int
  plan_zone :: string
  plan_size :: nat
  plan_type :: string
  plan_encrypt :: bool

text \<open>
  Everything up to the construction of the cloud request. The tests follow the order of the
  code; the encryption parameter is looked up by its exact name, outside the loop.
\<close>

definition cv_make_plan ::
  "cbs_env \<Rightarrow> cbsController \<Rightarrow> CreateVolumeRequest \<Rightarrow> cbs_hist \<Rightarrow> (go_error + cv_plan) \<times> cbs_hist" where
  "cv_make_plan env ctrl req h =
     (case cv_check_request req of
        Inl e \<Rightarrow> (Inl e, h)
      | Inr volumeCapacity \<Rightarrow>
     (case cv_parse_params ctrl (cv_Parameters req) of
        Inl e \<Rightarrow> (Inl e, h)
      | Inr p \<Rightarrow>
     (case cv_check_devices p of
        Inl e \<Rightarrow> (Inl e, h)
      | Inr _ \<Rightarrow>
     (case cv_zone env ctrl req p h of
        (Inl e, h1) \<Rightarrow> (Inl e, h1)
      | (Inr zone, h1) \<Rightarrow>
          if \<not> cv_prepaid_ok p then (Inl (Status InvalidArgument), pvc_request Provision ''InvalidArgument'' h1)
          else
            (let size = uint64 (go_div volumeCapacity GB) in
             case validateDiskTypeAndSize env (inputVolumeType p) zone (volumeChargeType p) size h1 of
               ((t, Some err), h2) \<Rightarrow>
                 (Inl (Status InvalidArgument), pvc_request Provision ''InvalidArgument'' h2)
             | ((t, None), h2) \<Rightarrow>
                 if t = [] then
                   (Inl (Status InvalidArgument),
                    pvc_request Provision ''ErrDiskTypeSoldOutOrNotSupported'' h2)
                 else
                   (let volumeEncrypt =
                      (case map_of (cv_Parameters req) ''encrypt'' of Some v \<Rightarrow> v | None \<Rightarrow> []) in
                    if volumeEncrypt \<noteq> [] \<and> volumeEncrypt \<noteq> EncryptEnable then
                      (Inl (Status InvalidArgument), pvc_request Provision ''InvalidArgument'' h2)
                    else
                      (Inr \<lparr>plan_params = p, plan_capacity = volumeCapacity, plan_zone = zone,
                            plan_size = size, plan_type = t,
                            plan_encrypt = (volumeEncrypt = EncryptEnable)\<rparr>, h2)))))))"

section \<open>The snapshot to restore\<close>

definition cv_snapshot ::
  "cbs_env \<Rightarrow> CreateVolumeRequest \<Rightarrow> cbs_hist \<Rightarrow> (go_error + string option) \<times> cbs_hist" where
  "cv_snapshot env req h =
     (case cv_VolumeContentSource req of
        None \<Rightarrow> (Inr None, h)
      | Some None \<Rightarrow> (Inl (Status InvalidArgument), pvc_request Provision ''InvalidArgument'' h)
      | Some (Some snapshotId) \<Rightarrow>
          if length snapshotId = 0 then
            (Inl (Status InvalidArgument), pvc_request Provision ''InvalidArgument'' h)
          else
            (let h1 = DescribeSnapshots [snapshotId] # h in
             case on_DescribeSnapshots env h snapshotId of
               Inl err \<Rightarrow>
                 (Inl (Status Internal),
                  pvc_request Provision (GetTencentSdkErrCode err) (yun_err ''DescribeSnapshots'' [] err h1))
             | Inr snaps \<Rightarrow>
                 (let h2 = yun_ok ''DescribeSnapshots'' [] h1 in
                  if length snaps = 0 then
                    (Inl (Status NotFound), pvc_request Provision ''ErrSnapshotNotFound'' h2)
                  else (Inr (Some snapshotId), h2))))"

section \<open>The request to the cloud\<close>

definition cv_disk_name :: "cbsController \<Rightarrow> CreateVolumeRequest \<Rightarrow> string" where
  "cv_disk_name ctrl req =
     (if ctrl_clusterId ctrl \<noteq> [] then ctrl_clusterId ctrl @ ''/'' @ cv_Name req else cv_Name req)"

text \<open>The tags of the cluster override those of the parameters; an error is only logged.\<close>

definition add_cluster_tags :: "(string \<times> string) list \<Rightarrow> (string \<times> string) list \<Rightarrow> (string \<times> string) list" where
  "add_cluster_tags kvs tags = foldl (\<lambda>m (k, v). AList.update k v m) tags kvs"

definition cv_tags :: "cbs_env \<Rightarrow> cbsController \<Rightarrow> (string \<times> string) list \<Rightarrow> cbs_hist \<Rightarrow> (string \<times> string) list \<times> cbs_hist" where
  "cv_tags env ctrl tags h =
     (let h1 = DescribeClusterTags (ctrl_clusterId ctrl) (ctrl_region ctrl) # h in
      case on_DescribeClusterTags env h (ctrl_clusterId ctrl) (ctrl_region ctrl) of
        Inl err \<Rightarrow> (tags, h1)
      | Inr kvs \<Rightarrow> (add_cluster_tags kvs tags, h1))"

definition cv_build_request ::
  "cbsController \<Rightarrow> CreateVolumeRequest \<Rightarrow> cv_plan \<Rightarrow> string option \<Rightarrow> (string \<times> string) list \<Rightarrow> CreateDisksRequest" where
  "cv_build_request ctrl req plan snapshotId tags =
     (let p = plan_params plan; diskName = cv_disk_name ctrl req in
      \<lparr>cd_DiskType = plan_type plan,
       cd_DiskChargeType = volumeChargeType p,
       cd_Placement = \<lparr>Zone = plan_zone plan, ProjectId = uint64 (projectId p),
         CdcId = (if cdcId p \<noteq> [] then Some (cdcId p) else None)\<rparr>,
       cd_DiskName = diskName,
       cd_DiskCount = uint64 (devices p),
       cd_DiskChargePrepaid =
         (if volumeChargeType p = DiskChargeTypePrePaid
          then Some \<lparr>Period = uint64 (volumeChargePrepaidPeriod p), RenewFlag = volumeChargePrepaidRenewFlag p\<rparr>
          else None),
       cd_DiskSize = plan_size plan,
       cd_SnapshotId = snapshotId,
       cd_ClientToken = diskName,
       cd_Encrypt = (if plan_encrypt plan then Some EncryptEnable else None),
       cd_Tags = tags,
       cd_ThroughputPerformance =
         (if (plan_type plan = DiskTypeCloudHSSD \<or> plan_type plan = DiskTypeCloudTSSD) \<and> throughputPerformance p \<noteq> 0
          then Some (uint64 (throughputPerformance p)) else None)\<rparr>)"

section \<open>Waiting for the new disks\<close>

definition createVolume_tick ::
  "cbs_env \<Rightarrow> string \<Rightarrow> string \<Rightarrow> cbs_hist \<Rightarrow> (go_error + unit) option \<times> cbs_hist" where
  "createVolume_tick env diskId asp h =
     (case describeDisks env [diskId] [] Provision h of
        (Inl err, h1) \<Rightarrow> (None, h1)
      | (Inr disks, h1) \<Rightarrow>
          (case scan_state (\<lambda>st. st = StatusAttached \<or> st = StatusUnattached) diskId disks of
             ScanPanic \<Rightarrow> (Some (Inl GoPanic), h1)
           | ScanNone \<Rightarrow> (None, h1)
           | ScanHit d \<Rightarrow>
               (let h2 = (if asp \<noteq> [] then BindAutoSnapshotPolicy asp [diskId] # h1 else h1)
                in (Some (Inr ()), pvc_request Provision ''Success'' h2))))"

definition createVolume :: "string \<Rightarrow> cbs_env \<Rightarrow> string \<Rightarrow> cbs_hist \<Rightarrow> worker" where
  "createVolume asp env diskId h =
     (case poll (createVolume_tick env diskId asp) (ticks env h) h of
        (Some r, h1) \<Rightarrow> (r, h1)
      | (None, h1) \<Rightarrow> (Inl (Status DeadlineExceeded), pvc_request Provision ''ErrDiskCreatedTimeout'' h1))"

section \<open>CreateVolume\<close>

record Volume =
  vol_CapacityBytes :: int
  vol_ContentSource :: "string option"
  vol_VolumeId :: string
  vol_VolumeContext :: "(string \<times> string) list"
  vol_Zone :: string

definition CreateVolume ::
  "cbs_env \<Rightarrow> (nat \<Rightarrow> cbs_env) \<Rightarrow> cbsController \<Rightarrow> CreateVolumeRequest \<Rightarrow> cbs_hist \<Rightarrow>
   (go_error + Volume) \<times> cbs_hist \<times> worker list" where
  "CreateVolume env wenv ctrl req h =
     (case cv_make_plan env ctrl req h of
        (Inl e, h1) \<Rightarrow> (Inl e, h1, [])
      | (Inr plan, h1) \<Rightarrow>
     (case cv_snapshot env req h1 of
        (Inl e, h2) \<Rightarrow> (Inl e, h2, [])
      | (Inr snapshotId, h2) \<Rightarrow>
     (let (tags, h3) = cv_tags env ctrl (volumeTags (plan_params plan)) h2;
          createCbsReq = cv_build_request ctrl req plan snapshotId tags;
          h4 = CreateDisks createCbsReq # h3 in
      case on_CreateDisks env h3 createCbsReq of
        Inl err \<Rightarrow>
          (Inl (Status Internal),
           pvc_request Provision (GetTencentSdkErrCode err) (yun_err ''CreateDisks'' [] err h4), [])
      | Inr diskIds \<Rightarrow>
          (let h5 = yun_ok ''CreateDisks'' [] h4 in
           if int (length diskIds) < devices (plan_params plan) then
             (Inl (Status Internal), pvc_request Provision ''InternalError'' h5, [])
           else
             (let ws = run_workers wenv (createVolume (aspId (plan_params plan))) diskIds in
              case gather ws of
                Inl e \<Rightarrow> (Inl e, h5, ws)
              | Inr _ \<Rightarrow>
                  (Inr \<lparr>vol_CapacityBytes = plan_capacity plan, vol_ContentSource = snapshotId,
                        vol_VolumeId = joinDiskIds diskIds, vol_VolumeContext = cv_Parameters req,
                        vol_Zone = plan_zone plan\<rparr>, h5, ws))))))"

end
