(* ===== verification/CbsDiskProps.thy ===== *)
theory CbsDiskProps imports CbsAttach begin

text \<open>
  What the handlers on existing disks guarantee: the workers that detach and expand, and the
  properties of the handlers, each with an instance on a small cloud that really attaches,
  detaches and resizes.
\<close>

section \<open>detachVolume\<close>

definition detached_from :: "string \<Rightarrow> Disk \<Rightarrow> bool" where
  "detached_from inst x \<longleftrightarrow>
     DiskState x = Some StatusUnattached \<or>
     DiskState x = Some StatusAttached \<and> InstanceId x \<noteq> Some inst"

definition detach_shape :: "cbs_env \<Rightarrow> string \<Rightarrow> string \<Rightarrow> cbs_hist \<Rightarrow> cbs_hist \<Rightarrow> bool" where
  "detach_shape env inst d h h' \<longleftrightarrow>
     api_calls h' = DescribeDisks [d] # api_calls h \<or>
     (\<exists>es ds. only_describes d es \<and>
        api_calls h' = es @ DetachDisks [d] (instance_type inst) # DescribeDisks [d] # api_calls h \<and>
        on_DescribeDisks env h [d] = Inr ds \<and> ds \<noteq> [] \<and>
        (\<forall>x\<in>set ds. DiskId x = Some d \<longrightarrow> \<not> detached_from inst x))"

lemma detach_shape_called:
  assumes "api_calls h1 = DescribeDisks [d] # api_calls h" "on_DescribeDisks env h [d] = Inr ds" "ds \<noteq> []"
    and "\<forall>x\<in>set ds. DiskId x = Some d \<longrightarrow> \<not> detached_from inst x"
    and "only_describes d es" "api_calls h' = es @ DetachDisks [d] (instance_type inst) # api_calls h1"
  shows "detach_shape env inst d h h'"
  unfolding detach_shape_def
  by (rule disjI2, rule exI [of _ es], rule exI [of _ ds]) (use assms in simp)

lemma only_describes_Nil [simp]: "only_describes d []"
  by (simp add: only_describes_def)

text \<open>The worker after a check that did not decide: the call, and the wait.\<close>

lemma detachVolume_unchecked:
  assumes "detachVolume inst env d h = (r, h')" "describeDisks env [d] inst Detach h = (Inr ds, h1)"
    and "ds \<noteq> []" "detach_check d inst ds = None"
  shows "\<exists>es. only_describes d es \<and> api_calls h' = es @ DetachDisks [d] (instance_type inst) # api_calls h1 \<and>
    (r = Inr () \<longrightarrow> observed env (detached_from inst) d h')"
proof -
  define h2 where "h2 = DetachDisks [d] (instance_type inst) # h1"
  obtain v h3 where w: "wait_for env (\<lambda>st. st = StatusUnattached) d inst (yun_ok ''DetachDisks'' d h2) = (v, h3)"
    by fastforce
  obtain es where es: "only_describes d es" "api_calls h3 = es @ api_calls h2"
    using wait_for_calls [OF w] by auto
  have "api_calls h' = [] @ api_calls h2 \<and> (\<forall>u. r \<noteq> Inr u) \<or>
      api_calls h' = api_calls h3 \<and> (\<forall>u. r \<noteq> Inr u) \<or> v = Some r \<and> h' = h3"
    using assms w by (cases ds; cases v) (auto simp: detachVolume_def h2_def Let_def simp del: detach_check.simps
        split: option.splits)
  moreover have "observed env (detached_from inst) d h3" if "v = Some (Inr ())"
    using wait_for_hit [OF w [unfolded that]] by (auto simp: observed_def detached_from_def)
  moreover have "api_calls h2 = DetachDisks [d] (instance_type inst) # api_calls h1" by (simp add: h2_def)
  ultimately show ?thesis using es only_describes_Nil by metis
qed

lemma detachVolume_spec:
  assumes "detachVolume inst env d h = (r, h')"
  shows "detach_shape env inst d h h' \<and>
    (r = Inr () \<longrightarrow> on_DescribeDisks env h [d] = Inr [] \<or> observed env (detached_from inst) d h')"
proof -
  obtain a h1 where d: "describeDisks env [d] inst Detach h = (a, h1)" by fastforce
  note c = describeDisks_calls [OF d] and s = describeDisks_hist [OF d]
  show ?thesis
  proof (cases "\<exists>ds. a = Inr ds \<and> ds \<noteq> []")
    case False
    with assms d c describeDisks_InrD [of env "[d]" inst Detach h "[]" h1] show ?thesis
      by (cases a) (auto simp: detachVolume_def detach_shape_def)
  next
    case True
    then obtain ds where ds: "describeDisks env [d] inst Detach h = (Inr ds, h1)" "ds \<noteq> []" using d by blast
    then have o: "on_DescribeDisks env h [d] = Inr ds" by (blast dest: describeDisks_InrD)
    show ?thesis
    proof (cases "detach_check d inst ds")
      case (Some b)
      with assms ds have r: "r = b" "h' = h1"
        by (cases ds; auto simp: detachVolume_def simp del: detach_check.simps)+
      have "observed env (detached_from inst) d h1" if b: "b = Inr ()"
        using detach_check_Inr [OF Some [unfolded b]] observedI [OF s o]
        by (auto simp: detached_from_def)
      with r c show ?thesis by (auto simp: detach_shape_def)
    next
      case None
      have "\<forall>x\<in>set ds. DiskId x = Some d \<longrightarrow> \<not> detached_from inst x"
        using detach_check_None [OF None] by (auto simp: detached_from_def)
      with detachVolume_unchecked [OF assms ds None] detach_shape_called [OF c o ds(2)] show ?thesis by blast
    qed
  qed
qed

section \<open>expandVolume\<close>

definition expand_shape :: "cbs_env \<Rightarrow> int \<Rightarrow> string \<Rightarrow> cbs_hist \<Rightarrow> cbs_hist \<Rightarrow> bool" where
  "expand_shape env n d h h' \<longleftrightarrow>
     api_calls h' = DescribeDisks [d] # api_calls h \<or>
     (\<exists>es ds. only_describes d es \<and>
        api_calls h' = es @ ResizeDisk d (uint64 n) # DescribeDisks [d] # api_calls h \<and>
        on_DescribeDisks env h [d] = Inr ds \<and>
        (\<forall>x\<in>set ds. DiskId x = Some d \<longrightarrow> (\<exists>sz. DiskSize x = Some sz \<and> sz < uint64 n)))"

definition big_enough :: "int \<Rightarrow> Disk \<Rightarrow> bool" where
  "big_enough n x \<longleftrightarrow> (\<exists>sz. DiskSize x = Some sz \<and> uint64 n \<le> sz)"

definition resized :: "cbs_env \<Rightarrow> int \<Rightarrow> string \<Rightarrow> cbs_hist \<Rightarrow> bool" where
  "resized env n d h \<longleftrightarrow>
     (\<exists>h1. suffix (ResizeDisk d (uint64 n) # h1) h \<and> on_ResizeDisk env h1 d (uint64 n) = None) \<and>
     observed env (\<lambda>x. \<exists>st. DiskState x = Some st \<and> st \<noteq> StatusExpanding) d h"

text \<open>The worker after a check that did not decide.\<close>

lemma expandVolume_unchecked:
  assumes "expandVolume n env d h = (r, h')" "describeDisks env [d] [] NoAction h = (Inr ds, h1)"
    and "ds \<noteq> []" "expand_check d n ds = None"
  shows "\<exists>es. only_describes d es \<and> api_calls h' = es @ ResizeDisk d (uint64 n) # api_calls h1 \<and>
    (r = Inr () \<longrightarrow> resized env n d h')"
proof -
  define h2 where "h2 = ResizeDisk d (uint64 n) # h1"
  obtain v h3 where w: "wait_for env (\<lambda>st. st \<noteq> StatusExpanding) d [] h2 = (v, h3)"
    by fastforce
  obtain es where es: "only_describes d es" "api_calls h3 = es @ api_calls h2"
    using wait_for_calls [OF w] by auto
  have "api_calls h' = [] @ api_calls h2 \<and> (\<forall>u. r \<noteq> Inr u) \<or> h' = h3 \<and> (\<forall>u. r \<noteq> Inr u) \<or>
      v = Some r \<and> h' = h3 \<and> on_ResizeDisk env h1 d (uint64 n) = None"
    using assms w by (cases ds; cases v) (auto simp: expandVolume_def h2_def Let_def simp del: expand_check.simps
        split: option.splits)
  moreover have "resized env n d h3"
    if "v = Some (Inr ())" "on_ResizeDisk env h1 d (uint64 n) = None"
    using wait_for_hit [OF w [unfolded that]] wait_for_calls [OF w] that
    by (auto simp: resized_def h2_def)
  moreover have "api_calls h2 = ResizeDisk d (uint64 n) # api_calls h1" by (simp add: h2_def)
  ultimately show ?thesis using es only_describes_Nil by metis
qed

lemma expandVolume_spec:
  assumes "expandVolume n env d h = (r, h')"
  shows "expand_shape env n d h h' \<and>
    (r = Inr () \<longrightarrow> observed env (big_enough n) d h' \<or> resized env n d h')"
proof -
  obtain a h1 where d: "describeDisks env [d] [] NoAction h = (a, h1)" by fastforce
  note c = describeDisks_calls [OF d] and s = describeDisks_hist [OF d]
  show ?thesis
  proof (cases "\<exists>ds. a = Inr ds \<and> ds \<noteq> []")
    case False
    with assms d c show ?thesis by (cases a) (auto simp: expandVolume_def expand_shape_def)
  next
    case True
    then obtain ds where ds: "describeDisks env [d] [] NoAction h = (Inr ds, h1)" "ds \<noteq> []" using d by blast
    then have o: "on_DescribeDisks env h [d] = Inr ds" by (blast dest: describeDisks_InrD)
    show ?thesis
    proof (cases "expand_check d n ds")
      case (Some b)
      with assms ds have r: "r = b" "h' = h1"
        by (cases ds; auto simp: expandVolume_def simp del: expand_check.simps)+
      have "observed env (big_enough n) d h1" if b: "b = Inr ()"
        using expand_check_Inr [OF Some [unfolded b]] observedI [OF s o]
        by (auto simp: big_enough_def)
      with r c show ?thesis by (auto simp: expand_shape_def)
    next
      case None
      with expandVolume_unchecked [OF assms ds None] expand_check_None [OF None] o c
      show ?thesis unfolding expand_shape_def by fastforce
    qed
  qed
qed

section \<open>A small cloud\<close>

text \<open>
  An outside that remembers what was asked of it: a disk is attached where the last call attached
  it, and has the size of the last resize. The instances of the properties run on it.
\<close>

fun cloud_at :: "cbs_hist \<Rightarrow> string \<Rightarrow> string option" where
  "cloud_at [] d = None"
| "cloud_at (AttachDisks ds i t # h) d = (if d \<in> set ds then Some i else cloud_at h d)"
| "cloud_at (DetachDisks ds t # h) d = (if d \<in> set ds then None else cloud_at h d)"
| "cloud_at (_ # h) d = cloud_at h d"

fun cloud_size :: "cbs_hist \<Rightarrow> string \<Rightarrow> nat" where
  "cloud_size [] d = 10"
| "cloud_size (ResizeDisk d' n # h) d = (if d = d' then n else cloud_size h d)"
| "cloud_size (_ # h) d = cloud_size h d"

definition cloud_disk :: "cbs_hist \<Rightarrow> string option \<Rightarrow> string \<Rightarrow> Disk" where
  "cloud_disk h start d =
     (let at = (if \<exists>e\<in>set h. (case e of AttachDisks ds i t \<Rightarrow> True | DetachDisks ds t \<Rightarrow> True | _ \<Rightarrow> False)
                then cloud_at h d else start) in
      \<lparr>DiskId = Some d, DiskSize = Some (cloud_size h d),
       DiskState = Some (case at of Some i \<Rightarrow> StatusAttached | None \<Rightarrow> StatusUnattached),
       InstanceId = (case at of Some i \<Rightarrow> Some i | None \<Rightarrow> Some [])\<rparr>)"

definition small_cloud :: "string option \<Rightarrow> cbs_env" where
  "small_cloud start =
     \<lparr>on_DescribeDisks = (\<lambda>h ids. Inr (map (cloud_disk h start) ids)),
      on_CreateDisks = (\<lambda>h req. Inr [''disk-new1'']),
      on_TerminateDisks = (\<lambda>h ids. None),
      on_AttachDisks = (\<lambda>h d i. None),
      on_DetachDisks = (\<lambda>h d. None),
      on_ResizeDisk = (\<lambda>h d n. None),
      on_BindAutoSnapshotPolicy = (\<lambda>h a d. None),
      on_DescribeDiskConfigQuota = (\<lambda>h z c. Inr
        [\<lparr>Available = True, DiskType = DiskTypeCloudPremium, MaxDiskSize = 16000, MinDiskSize = 10\<rparr>]),
      on_DescribeInstancesDiskNum = (\<lambda>h ids. Inr []),
      on_DescribeSnapshots = (\<lambda>h i. Inr
        [\<lparr>s_DiskId = ''disk-a'', s_DiskSize = 10, s_SnapshotState = SnapshotNormal, s_Percent = 100\<rparr>]),
      on_CreateSnapshot = (\<lambda>h d n. Inr ''snap-1''),
      on_DeleteSnapshots = (\<lambda>h i. None),
      on_DescribeZones = (\<lambda>h. Inr [(''100003'', ''ap-guangzhou-3'')]),
      on_DescribeClusterTags = (\<lambda>h c r. Inr [(''team'', ''infra'')]),
      ticks = (\<lambda>h. 3)\<rparr>"

section \<open>Publish\<close>

lemma ControllerPublishVolume_workers:
  assumes "ControllerPublishVolume wenv req = (r, ws)" "i < length ws"
  shows "supported_node (pub_NodeId req) \<and>
    ws = run_workers wenv (attachVolume (pub_NodeId req)) (diskIdList (pub_VolumeId req)) \<and> r = gather ws"
  using assms by (auto simp: ControllerPublishVolume_def Let_def split: if_splits)

text \<open>C1. When \<open>ControllerPublishVolume\<close> succeeds, every disk of the volume id was seen attached:
  to the node, or, after the worker's own call of \<open>AttachDisks\<close> for the node, attached.\<close>

theorem publish_attached:
  assumes "ControllerPublishVolume wenv req = (Inr (), ws)"
    and "diskIdList (pub_VolumeId req) = ds" "i < length ds"
  shows "i < length ws \<and> observed (wenv i) (attached_for (pub_NodeId req) (snd (ws ! i)) (ds ! i)) (ds ! i) (snd (ws ! i))"
proof -
  from assms have ws: "ws = run_workers wenv (attachVolume (pub_NodeId req)) ds" "gather ws = Inr ()"
    by (auto simp: ControllerPublishVolume_def Let_def split: if_splits)
  with assms(3) gather_InrD [OF ws(2), of i]
  have "attachVolume (pub_NodeId req) (wenv i) (ds ! i) [] = (Inr (), snd (ws ! i))"
    by (auto simp: prod_eq_iff)
  from attach_ok_observed [OF this] ws assms(3) show ?thesis by simp
qed

theorem publish_attached_witness:
  "\<exists>ws. ControllerPublishVolume (\<lambda>i. small_cloud None) \<lparr>pub_VolumeId = ''disk-a,disk-b'', pub_NodeId = ''ins-12345678'', pub_VolumeCapability = Some ()\<rparr> = (Inr (), ws)
     \<and> observed (small_cloud None) (attached_for ''ins-12345678'' (snd (ws ! 1)) ''disk-b'') ''disk-b'' (snd (ws ! 1))"
proof -
  let ?req = "\<lparr>pub_VolumeId = ''disk-a,disk-b'', pub_NodeId = ''ins-12345678'', pub_VolumeCapability = Some ()\<rparr>"
  have r: "fst (ControllerPublishVolume (\<lambda>i. small_cloud None) ?req) = Inr ()" by code_simp
  have d: "diskIdList (pub_VolumeId ?req) = [''disk-a'', ''disk-b'']" by code_simp
  obtain ws where w: "ControllerPublishVolume (\<lambda>i. small_cloud None) ?req = (Inr (), ws)"
    using r by (metis prod.collapse)
  from publish_attached [OF w d, of 1] w show ?thesis by auto
qed

text \<open>C9. \<open>attachVolume\<close> respects the owner of a disk: when the first listing shows the disk attached, it makes no
  further call; it succeeds if the owner is the node, and fails with \<open>FailedPrecondition\<close> if it
  is another one.\<close>

theorem attach_respects_owner:
  assumes "on_DescribeDisks env h [d] = Inr ds" "lists_one d k ds"
    and "DiskState k = Some StatusAttached" "InstanceId k = Some n"
  shows "fst (attachVolume inst env d h) =
           (if n = inst then Inr () else Inl (Status FailedPrecondition)) \<and>
         api_calls (snd (attachVolume inst env d h)) = DescribeDisks [d] # api_calls h"
  using attach_check_one [OF assms(2-4), of inst] lists_one_not_Nil [OF assms(2)]
  by (cases ds)
     (auto simp: attachVolume_def describeDisks_Inr [OF assms(1)] simp del: attach_check.simps)

theorem attach_respects_owner_witness:
  "fst (attachVolume ''ins-2'' (small_cloud (Some ''ins-1'')) ''disk-a'' []) = Inl (Status FailedPrecondition)"
  using attach_respects_owner [of "small_cloud (Some ''ins-1'')" "[]" "''disk-a''" "[cloud_disk [] (Some ''ins-1'') ''disk-a'']"
      "cloud_disk [] (Some ''ins-1'') ''disk-a''" "''ins-1''" "''ins-2''"]
  by (simp add: small_cloud_def cloud_disk_def lists_one_def)

text \<open>C10. Each worker of a publish looks at its disk once, calls \<open>AttachDisks\<close> at most once, for its own disk
  and the requested node and only if no listed state of the disk was attached, and then only
  looks again.\<close>

theorem publish_calls:
  assumes "ControllerPublishVolume wenv req = (r, ws)" "i < length ws"
    and "diskIdList (pub_VolumeId req) = ds"
  shows "length ws = length ds \<and> attach_shape (wenv i) (pub_NodeId req) (ds ! i) [] (snd (ws ! i))"
proof -
  from ControllerPublishVolume_workers [OF assms(1,2)] assms(3)
  have ws: "ws = run_workers wenv (attachVolume (pub_NodeId req)) ds" by simp
  with assms(2) have "ws ! i = attachVolume (pub_NodeId req) (wenv i) (ds ! i) []" by simp
  then have "attachVolume (pub_NodeId req) (wenv i) (ds ! i) [] = (fst (ws ! i), snd (ws ! i))" by simp
  from attach_shape_holds [OF this] ws show ?thesis by simp
qed

theorem publish_calls_witness:
  "\<exists>r ws. ControllerPublishVolume (\<lambda>i. small_cloud (Some ''ins-1'')) \<lparr>pub_VolumeId = ''disk-a'', pub_NodeId = ''eks-12345678'', pub_VolumeCapability = Some ()\<rparr> = (r, ws)
     \<and> attach_shape (small_cloud (Some ''ins-1'')) ''eks-12345678'' ''disk-a'' [] (snd (ws ! 0))"
proof -
  let ?req = "\<lparr>pub_VolumeId = ''disk-a'', pub_NodeId = ''eks-12345678'', pub_VolumeCapability = Some ()\<rparr>"
  obtain r ws where w: "ControllerPublishVolume (\<lambda>i. small_cloud (Some ''ins-1'')) ?req = (r, ws)"
    by fastforce
  have d: "diskIdList (pub_VolumeId ?req) = [''disk-a'']" by code_simp
  have n: "supported_node (pub_NodeId ?req)" by code_simp
  from w d n have l: "0 < length ws" by (auto simp: ControllerPublishVolume_def Let_def)
  from publish_calls [OF w l d] w show ?thesis by simp
qed

text \<open>A volume id without any part that names a disk is published and unpublished with success and
  without any call to the cloud: the test behind the split looks at the id and not at the list
  of disks.\<close>

theorem publish_without_disks:
  assumes "diskIdList v = []" "v \<noteq> []" "supported_node n"
  shows "ControllerPublishVolume wenv \<lparr>pub_VolumeId = v, pub_NodeId = n, pub_VolumeCapability = Some c\<rparr> = (Inr (), [])
     \<and> ControllerUnpublishVolume wenv \<lparr>unpub_VolumeId = v, unpub_NodeId = n\<rparr> = (Inr (), [])"
proof -
  have "n \<noteq> []" using assms(3) by (auto simp: supported_node_def NodeIDLength_def)
  with assms show ?thesis
    by (simp add: ControllerPublishVolume_def ControllerUnpublishVolume_def run_workers_def gather_def)
qed

theorem publish_without_disks_witness:
  "ControllerPublishVolume (\<lambda>i. small_cloud None) \<lparr>pub_VolumeId = ''vol-1,vol-2'', pub_NodeId = ''ins-12345678'', pub_VolumeCapability = Some ()\<rparr> = (Inr (), [])"
proof -
  have d: "diskIdList ''vol-1,vol-2'' = []" by code_simp
  have n: "supported_node ''ins-12345678''" by code_simp
  from publish_without_disks [OF d _ n] show ?thesis by simp
qed

section \<open>Unpublish\<close>

text \<open>
  C11. A worker of \<open>ControllerUnpublishVolume\<close> calls \<open>DetachDisks\<close> at most once, for its own disk, and never when
  a listing showed the disk on another node. When the call succeeds for a supported node, there was a worker
  for every disk, and each disk either was not listed at all or was seen detached from the node. For any other
  node it succeeds only without having asked the cloud anything.
\<close>

theorem unpublish_detached:
  assumes "ControllerUnpublishVolume wenv req = (r, ws)" "diskIdList (unpub_VolumeId req) = ds" "unpub_NodeId req = n"
  shows "(\<forall>i<length ws. detach_shape (wenv i) n (ds ! i) [] (snd (ws ! i))) \<and>
    (r = Inr () \<longrightarrow>
       (if supported_node n then length ws = length ds \<and>
          (\<forall>i<length ds. on_DescribeDisks (wenv i) [] [ds ! i] = Inr [] \<or>
             observed (wenv i) (detached_from n) (ds ! i) (snd (ws ! i)))
        else ws = []))"
proof -
  have "ws = [] \<or> supported_node n \<and> ws = run_workers wenv (detachVolume n) ds \<and> r = gather ws"
    using assms by (auto simp: ControllerUnpublishVolume_def Let_def split: if_splits)
  moreover have "ws = run_workers wenv (detachVolume n) ds" if "r = Inr ()" "supported_node n"
    using assms that by (auto simp: ControllerUnpublishVolume_def Let_def split: if_splits)
  moreover have "ws = []" if "\<not> supported_node n"
    using assms that by (auto simp: ControllerUnpublishVolume_def Let_def split: if_splits)
  moreover have "detach_shape (wenv i) n (ds ! i) [] (snd (ws ! i)) \<and> (fst (ws ! i) = Inr () \<longrightarrow>
      on_DescribeDisks (wenv i) [] [ds ! i] = Inr [] \<or> observed (wenv i) (detached_from n) (ds ! i) (snd (ws ! i)))"
    if "ws = run_workers wenv (detachVolume n) ds" "i < length ds" for i
  proof -
    have "detachVolume n (wenv i) (ds ! i) [] = (fst (ws ! i), snd (ws ! i))" using that by simp
    from detachVolume_spec [OF this] show ?thesis by simp
  qed
  moreover have "fst (ws ! i) = Inr ()" if "r = gather ws" "r = Inr ()" "i < length ws" for i
    using gather_InrD [of ws i] that by simp
  ultimately show ?thesis by (cases "ws = []") (auto simp: run_workers_Nil_iff)
qed

theorem unpublish_detached_witness:
  "\<exists>r ws. ControllerUnpublishVolume (\<lambda>i. small_cloud (Some ''ins-other'')) \<lparr>unpub_VolumeId = ''disk-a'', unpub_NodeId = ''ins-12345678''\<rparr> = (r, ws)
     \<and> detach_shape (small_cloud (Some ''ins-other'')) ''ins-12345678'' ''disk-a'' [] (snd (ws ! 0))"
proof -
  let ?req = "\<lparr>unpub_VolumeId = ''disk-a'', unpub_NodeId = ''ins-12345678''\<rparr>"
  obtain r ws where w: "ControllerUnpublishVolume (\<lambda>i. small_cloud (Some ''ins-other'')) ?req = (r, ws)"
    by fastforce
  have d: "diskIdList (unpub_VolumeId ?req) = [''disk-a'']" by code_simp
  have n: "supported_node (unpub_NodeId ?req)" by code_simp
  from w d n have l: "0 < length ws" by (auto simp: ControllerUnpublishVolume_def Let_def)
  from unpublish_detached [OF w d refl] l w show ?thesis by auto
qed

section \<open>Expand\<close>



text \<open>C16. An expansion never shrinks a disk: a worker calls \<open>ResizeDisk\<close> at most once, for its own
  disk, and only to a size above every size the listing showed.\<close>

theorem expand_never_shrinks:
  assumes "ControllerExpandVolume wenv req = (r, ws)" "i < length ws"
    and "exp_RequiredBytes req = Some b" "diskIdList (exp_VolumeId req) = ds"
  shows "expand_shape (wenv i) (RoundUpGiB b) (ds ! i) [] (snd (ws ! i))"
proof -
  from assms have ws: "ws = run_workers wenv (expandVolume (RoundUpGiB b)) ds"
    by (auto simp: ControllerExpandVolume_def Let_def split: if_splits sum.splits)
  with assms(2) have "expandVolume (RoundUpGiB b) (wenv i) (ds ! i) [] = (fst (ws ! i), snd (ws ! i))" by simp
  from expandVolume_spec [OF this] show ?thesis by simp
qed

theorem expand_never_shrinks_witness:
  "\<exists>r ws. ControllerExpandVolume (\<lambda>i. small_cloud None) \<lparr>exp_VolumeId = ''disk-a'', exp_RequiredBytes = Some 1073741824\<rparr> = (r, ws)
     \<and> expand_shape (small_cloud None) (RoundUpGiB 1073741824) ''disk-a'' [] (snd (ws ! 0))"
proof -
  let ?req = "\<lparr>exp_VolumeId = ''disk-a'', exp_RequiredBytes = Some 1073741824\<rparr>"
  obtain r ws where w: "ControllerExpandVolume (\<lambda>i. small_cloud None) ?req = (r, ws)" by fastforce
  have d: "diskIdList (exp_VolumeId ?req) = [''disk-a'']" by code_simp
  from w d have l: "0 < length ws" by (auto simp: ControllerExpandVolume_def Let_def split: sum.splits)
  from expand_never_shrinks [OF w l _ d, of 1073741824] w show ?thesis by simp
qed

section \<open>Delete\<close>

text \<open>C15. When \<open>DeleteVolume\<close> succeeds, it has looked at the disks named in the id, and either none of them was
  listed, or one accepted call terminated exactly those disks. Nothing else is terminated.\<close>

theorem delete_terminates_named:
  assumes "DeleteVolume env v h = (Inr (), h')" "diskIdList v = ds"
  shows "on_DescribeDisks env h ds = Inr [] \<and> api_calls h' = DescribeDisks ds # api_calls h \<or>
    (\<exists>h1. suffix h1 h' \<and> on_TerminateDisks env h1 ds = None \<and>
       api_calls h' = TerminateDisks ds # DescribeDisks ds # api_calls h)"
proof -
  obtain a h1 where d: "describeDisks env ds [] DeleteAction h = (a, h1)" by fastforce
  note c = describeDisks_calls [OF d]
  show ?thesis
  proof (cases a)
    case (Inl e)
    with assms d show ?thesis by (auto simp: DeleteVolume_def split: if_splits)
  next
    case (Inr ks)
    with d have o: "on_DescribeDisks env h ds = Inr ks" by (blast dest: describeDisks_InrD)
    show ?thesis
    proof (cases ks)
      case Nil
      with assms d Inr o c show ?thesis by (auto simp: DeleteVolume_def split: if_splits)
    next
      case (Cons y ys)
      with assms d Inr have t: "on_TerminateDisks env h1 ds = None"
        "h' = pvc_request DeleteAction ''Success'' (yun_ok ''TerminateDisks'' [] (TerminateDisks ds # h1))"
        by (auto simp: DeleteVolume_def Let_def split: if_splits option.splits)
      then have "suffix h1 h'" by (auto intro!: hist_intro)
      with t c show ?thesis by auto
    qed
  qed
qed

theorem delete_terminates_named_witness:
  "\<exists>h'. DeleteVolume (small_cloud None) ''disk-a'' [] = (Inr (), h') \<and> api_calls h' = [TerminateDisks [''disk-a''], DescribeDisks [''disk-a'']]"
proof -
  have r: "fst (DeleteVolume (small_cloud None) ''disk-a'' []) = Inr ()" by code_simp
  have d: "diskIdList ''disk-a'' = [''disk-a'']" by code_simp
  obtain h' where w: "DeleteVolume (small_cloud None) ''disk-a'' [] = (Inr (), h')"
    using r by (metis prod.collapse)
  from delete_terminates_named [OF w d] w show ?thesis by (auto simp: small_cloud_def)
qed

end
