(* ===== verification/CbsCreateProps.thy ===== *)
theory CbsCreateProps imports CbsCreate CbsDiskProps begin

text \<open>
  What \<open>CreateVolume\<close> guarantees: the request it sends (at most one, within the quota it asked for,
  with consistent prepaid options), the volume it reports, and the volume id, which leads the
  other handlers to exactly the created disks.
\<close>

section \<open>The requests of a history\<close>

fun creates :: "cbs_hist \<Rightarrow> CreateDisksRequest list" where
  "creates [] = []"
| "creates (CreateDisks q # h) = q # creates h"
| "creates (_ # h) = creates h"

lemma creates_metrics [simp]:
  "creates (yun_ok a d h) = creates h"
  "creates (yun_err a d err h) = creates h"
  "creates (pvc_request p c h) = creates h"
  by (simp_all add: yun_ok_def yun_err_def pvc_request_def)

section \<open>The plan\<close>

lemma cv_zone_creates: "cv_zone env ctrl req p h = (r, h') \<Longrightarrow> creates h' = creates h \<and> suffix h h'"
  by (auto simp: cv_zone_def Let_def suffix_Cons split: if_splits sum.splits)

lemma validate_creates:
  "validateDiskTypeAndSize env t z c n h = (r, h') \<Longrightarrow> creates h' = creates h \<and> suffix h h'"
  by (auto simp: validateDiskTypeAndSize_def Let_def suffix_Cons intro!: hist_intro
      split: sum.splits prod.splits)

lemma cv_snapshot_creates: "cv_snapshot env req h = (r, h') \<Longrightarrow> creates h' = creates h \<and> suffix h h'"
  by (auto simp: cv_snapshot_def Let_def suffix_Cons intro!: hist_intro
      split: if_splits sum.splits option.splits)

lemma cv_tags_creates: "cv_tags env ctrl tags h = (r, h') \<Longrightarrow> creates h' = creates h \<and> suffix h h'"
  by (auto simp: cv_tags_def Let_def suffix_Cons split: sum.splits)

text \<open>\<open>quoted env z c t n h\<close>: the quota for zone and charge type was asked for and offers the type and size.\<close>

definition quoted :: "cbs_env \<Rightarrow> string \<Rightarrow> string \<Rightarrow> string \<Rightarrow> nat \<Rightarrow> cbs_hist \<Rightarrow> bool" where
  "quoted env z c t n h \<longleftrightarrow>
     (\<exists>h0 quota. suffix (DescribeDiskConfigQuota z c # h0) h \<and>
        on_DescribeDiskConfigQuota env h0 z c = Inr quota \<and> offered quota t n)"

lemma quoted_mono: "quoted env z c t n h \<Longrightarrow> suffix h h' \<Longrightarrow> quoted env z c t n h'"
  unfolding quoted_def by (meson suffix_order.trans)

lemma validate_quoted:
  assumes "validateDiskTypeAndSize env it z c n h = ((t, None), h')" "t \<noteq> []"
  shows "quoted env z c t n h'"
proof -
  from assms obtain quota where q: "on_DescribeDiskConfigQuota env h z c = Inr quota"
    and h': "h' = yun_ok ''DescribeDiskConfigQuota'' [] (DescribeDiskConfigQuota z c # h)"
    and t: "(if it = ''cbs'' then getDiskTypeForDefaultStorageClass n quota
             else verifyDiskTypeIsSupported it n quota) = (t, False)"
    by (auto simp: validateDiskTypeAndSize_def Let_def split: sum.splits if_splits prod.splits)
  from t assms(2) have "offered quota t n"
    by (auto split: if_splits dest: getDiskTypeForDefaultStorageClass_offered verifyDiskTypeIsSupported_offered)
  with q h' show ?thesis unfolding quoted_def by (blast intro: hist_intro)
qed

lemma cv_make_plan_creates:
  "cv_make_plan env ctrl req h = (r, h') \<Longrightarrow> creates h' = creates h"
  by (auto simp: cv_make_plan_def Let_def dest!: cv_zone_creates validate_creates
      split: sum.splits prod.splits if_splits option.splits)

lemma cv_make_plan_InrD:
  assumes "cv_make_plan env ctrl req h = (Inr plan, h')"
  shows "cv_check_request req = Inr (plan_capacity plan)"
    and "cv_parse_params ctrl (cv_Parameters req) = Inr (plan_params plan)"
    and "cv_check_devices (plan_params plan) = Inr ()"
    and "cv_prepaid_ok (plan_params plan)"
    and "plan_size plan = uint64 (go_div (plan_capacity plan) GB)"
    and "quoted env (plan_zone plan) (volumeChargeType (plan_params plan)) (plan_type plan) (plan_size plan) h'"
  using assms
  by (auto simp: cv_make_plan_def Let_def intro: validate_quoted
      split: sum.splits prod.splits if_splits option.splits)

section \<open>The stages of CreateVolume\<close>

lemma CreateVolume_cases:
  assumes "CreateVolume env wenv ctrl req h = (r, h', ws)"
  obtains (early) e where "r = Inl e" "ws = []" "creates h' = creates h"
    | (request) plan h1 sid h2 tags h3 where
      "cv_make_plan env ctrl req h = (Inr plan, h1)" "cv_snapshot env req h1 = (Inr sid, h2)"
      "cv_tags env ctrl (volumeTags (plan_params plan)) h2 = (tags, h3)"
      "creates h' = cv_build_request ctrl req plan sid tags # creates h" "suffix h3 h'"
      "(\<exists>e. r = Inl e) \<or>
       (\<exists>ids. on_CreateDisks env h3 (cv_build_request ctrl req plan sid tags) = Inr ids \<and>
          devices (plan_params plan) \<le> int (length ids) \<and>
          ws = run_workers wenv (createVolume (aspId (plan_params plan))) ids \<and> gather ws = Inr () \<and>
          r = Inr \<lparr>vol_CapacityBytes = plan_capacity plan, vol_ContentSource = sid,
                   vol_VolumeId = joinDiskIds ids, vol_VolumeContext = cv_Parameters req,
                   vol_Zone = plan_zone plan\<rparr>)"
proof -
  obtain a h1 where a: "cv_make_plan env ctrl req h = (a, h1)" by fastforce
  note ca = cv_make_plan_creates [OF a]
  show ?thesis
  proof (cases a)
    case (Inl e)
    with assms a ca show ?thesis by (intro early) (auto simp: CreateVolume_def)
  next
    case (Inr plan)
    obtain b h2 where b: "cv_snapshot env req h1 = (b, h2)" by fastforce
    note cb = cv_snapshot_creates [OF b]
    show ?thesis
    proof (cases b)
      case (Inl e)
      with assms a b ca cb Inr show ?thesis by (intro early) (auto simp: CreateVolume_def)
    next
      case sid: (Inr sid)
      obtain tags h3 where t: "cv_tags env ctrl (volumeTags (plan_params plan)) h2 = (tags, h3)"
        by fastforce
      note ct = cv_tags_creates [OF t]
      define q where "q = cv_build_request ctrl req plan sid tags"
      have rest: "creates h' = q # creates h \<and> suffix h3 h' \<and> ((\<exists>e. r = Inl e) \<or>
         (\<exists>ids. on_CreateDisks env h3 q = Inr ids \<and> devices (plan_params plan) \<le> int (length ids) \<and>
          ws = run_workers wenv (createVolume (aspId (plan_params plan))) ids \<and> gather ws = Inr () \<and>
          r = Inr \<lparr>vol_CapacityBytes = plan_capacity plan, vol_ContentSource = sid,
                   vol_VolumeId = joinDiskIds ids, vol_VolumeContext = cv_Parameters req,
                   vol_Zone = plan_zone plan\<rparr>))"
        using assms a b t Inr sid ca cb ct unfolding CreateVolume_def q_def [symmetric] Let_def
        by (auto simp: q_def [symmetric] suffix_Cons intro!: hist_intro split: sum.splits if_splits)
      then show ?thesis
        using a b t Inr sid by (intro request) (auto simp: q_def)
    qed
  qed
qed

section \<open>The workers\<close>

definition ready :: "Disk \<Rightarrow> bool" where
  "ready x \<longleftrightarrow> DiskState x = Some StatusAttached \<or> DiskState x = Some StatusUnattached"

lemma createVolume_ready:
  assumes "createVolume asp env d h = (Inr (), h')"
  shows "observed env ready d h'"
proof -
  from assms have "poll (createVolume_tick env d asp) (ticks env h) h = (Some (Inr ()), h')"
    by (auto simp: createVolume_def split: prod.splits option.splits)
  then obtain w where w: "createVolume_tick env d asp w = (Some (Inr ()), h')"
    by (rule poll_SomeD)
  then obtain ds h1 x where d: "describeDisks env [d] [] Provision w = (Inr ds, h1)"
    and x: "scan_state (\<lambda>st. st = StatusAttached \<or> st = StatusUnattached) d ds = ScanHit x"
    and h': "h' = pvc_request Provision ''Success''
               (if asp \<noteq> [] then BindAutoSnapshotPolicy asp [d] # h1 else h1)"
    by (auto simp: createVolume_tick_def Let_def split: prod.splits sum.splits scan.splits)
  have "suffix (DescribeDisks [d] # w) h'"
    unfolding h' using describeDisks_hist [OF d] by (auto intro!: hist_intro)
  then show ?thesis
    using scan_state_HitD [OF x] by (auto intro!: observedI [OF _ describeDisks_InrD [OF d]] simp: ready_def)
qed

section \<open>The properties\<close>

text \<open>The request that the instances below use: a replayable one on the small cloud.\<close>

definition demo_ctrl :: cbsController where
  "demo_ctrl = \<lparr>ctrl_zone = ''ap-guangzhou-3'', ctrl_region = ''ap-guangzhou'', ctrl_clusterId = ''cls-1''\<rparr>"

definition demo_create :: CreateVolumeRequest where
  "demo_create = \<lparr>cv_Name = ''pvc-1'', cv_VolumeCapabilities = [Some SINGLE_NODE_WRITER],
     cv_RequiredBytes = Some 21474836481, cv_Parameters = [(''payMode'', ''PREPAID'')],
     cv_VolumeContentSource = None, cv_AccessibilityRequirements = None\<rparr>"

definition demo_p :: cv_params where
  "demo_p = (cv_params_init demo_ctrl)\<lparr>volumeChargeType := DiskChargeTypePrePaid\<rparr>"

lemma demo_p_sel [simp]:
  "volumeZone demo_p = []" "devicemapper demo_p = []" "devices demo_p = 1" "aspId demo_p = []"
  "inputVolumeType demo_p = DiskTypeCloudPremium"
  by (simp_all add: demo_p_def cv_params_init_def)

lemma demo_params: "cv_parse_params demo_ctrl (cv_Parameters demo_create) = Inr demo_p"
proof -
  have "ToLower ''payMode'' = ''paymode''" by code_simp
  then show ?thesis by (simp add: cv_parse_params_def cv_param_op param_op_def demo_create_def demo_p_def)
qed

lemma demo_plan:
  "\<exists>h1. cv_make_plan (small_cloud None) demo_ctrl demo_create [] =
     (Inr \<lparr>plan_params = demo_p, plan_capacity = 21474836481, plan_zone = ''ap-guangzhou-3'', plan_size = 20,
       plan_type = DiskTypeCloudPremium, plan_encrypt = False\<rparr>, h1)"
proof -
  have c: "cv_check_request demo_create = Inr 21474836481"
    by (simp add: cv_check_request_def demo_create_def)
  have z: "cv_zone (small_cloud None) demo_ctrl demo_create demo_p [] = (Inr ''ap-guangzhou-3'', [])"
    by (simp add: cv_zone_def demo_create_def demo_ctrl_def pickAvailabilityZone_def HasPrefix_def)
  have k: "cv_check_devices demo_p = Inr ()" by (simp add: cv_check_devices_def)
  have pp: "cv_prepaid_ok demo_p"
    by (simp add: cv_prepaid_ok_def demo_p_def cv_params_init_def DiskChargePrepaidPeriodValidValues_def)
  have d: "uint64 (go_div 21474836481 GB) = 20" by code_simp
  have e: "map_of (cv_Parameters demo_create) ''encrypt'' = None" by (simp add: demo_create_def)
  have v: "\<exists>h1. validateDiskTypeAndSize (small_cloud None) DiskTypeCloudPremium z t 20 h = ((DiskTypeCloudPremium, None), h1)"
    for z t h by (simp add: validateDiskTypeAndSize_def small_cloud_def Let_def)
  then obtain h1 where "validateDiskTypeAndSize (small_cloud None) DiskTypeCloudPremium ''ap-guangzhou-3'' (volumeChargeType demo_p) 20 [] = ((DiskTypeCloudPremium, None), h1)"
    by blast
  then show ?thesis by (simp add: cv_make_plan_def c demo_params k z pp d e Let_def)
qed

lemma demo_worker: "fst (createVolume [] (small_cloud None) ''disk-new1'' []) = Inr ()"
  by code_simp

lemma demo_created:
  obtains v h' ws where "CreateVolume (small_cloud None) (\<lambda>i. small_cloud None) demo_ctrl demo_create [] = (Inr v, h', ws)"
    "vol_CapacityBytes v = 21474836481" "vol_VolumeId v = ''disk-new1''"
proof -
  obtain h1 where p: "cv_make_plan (small_cloud None) demo_ctrl demo_create [] =
     (Inr \<lparr>plan_params = demo_p, plan_capacity = 21474836481, plan_zone = ''ap-guangzhou-3'', plan_size = 20,
       plan_type = DiskTypeCloudPremium, plan_encrypt = False\<rparr>, h1)" using demo_plan by blast
  have s: "cv_snapshot (small_cloud None) demo_create h = (Inr None, h)" for h
    by (simp add: cv_snapshot_def demo_create_def)
  have c: "on_CreateDisks (small_cloud None) h q = Inr [''disk-new1'']" for h q
    by (simp add: small_cloud_def)
  have g: "gather (run_workers (\<lambda>i. small_cloud None) (createVolume []) [''disk-new1'']) = Inr ()"
    using demo_worker by (simp add: gather_def run_workers_def)
  obtain tags h3 where t: "cv_tags (small_cloud None) demo_ctrl (volumeTags demo_p) h1 = (tags, h3)"
    by fastforce
  have "\<exists>v h' ws. CreateVolume (small_cloud None) (\<lambda>i. small_cloud None) demo_ctrl demo_create [] = (Inr v, h', ws)
      \<and> vol_CapacityBytes v = 21474836481 \<and> vol_VolumeId v = ''disk-new1''"
    by (simp add: CreateVolume_def p s t c g Let_def)
  then show ?thesis using that by blast
qed

text \<open>C12. \<open>CreateVolume\<close> sends at most one \<open>CreateDisks\<close> request. Its client token is the cluster and volume name,
  its disk count is positive, and the quota for its zone and charge type was asked for before
  and offers the requested type at the requested size.\<close>

theorem create_request_offered:
  assumes "CreateVolume env wenv ctrl req [] = (r, h', ws)" "q \<in> set (creates h')"
  shows "creates h' = [q] \<and> cd_ClientToken q = cv_disk_name ctrl req \<and> 0 < cd_DiskCount q \<and>
    quoted env (Zone (cd_Placement q)) (cd_DiskChargeType q) (cd_DiskType q) (cd_DiskSize q) h'"
  using assms(1)
proof (cases rule: CreateVolume_cases)
  case (early e)
  with assms(2) show ?thesis by simp
next
  case (request plan h1 sid h2 tags h3)
  with assms(2) have q: "q = cv_build_request ctrl req plan sid tags" "creates h' = [q]" by auto
  note p = cv_make_plan_InrD [OF request(1)]
  from cv_snapshot_creates [OF request(2)] cv_tags_creates [OF request(3)] request(5)
  have "suffix h1 h'" by (auto intro: suffix_order.trans)
  with p(6) have "quoted env (plan_zone plan) (volumeChargeType (plan_params plan)) (plan_type plan) (plan_size plan) h'"
    by (rule quoted_mono)
  moreover have "0 < uint64 (devices (plan_params plan))"
    using cv_parse_params_inv [OF p(2)] by (simp add: uint64_id max_int64_def)
  ultimately show ?thesis using q by (simp add: cv_build_request_def Let_def)
qed

theorem create_request_offered_witness:
  "\<exists>r h' ws. CreateVolume (small_cloud None) (\<lambda>i. small_cloud None) demo_ctrl demo_create [] = (r, h', ws)
     \<and> (\<exists>q. creates h' = [q] \<and> cd_ClientToken q = ''cls-1/pvc-1'')"
proof -
  obtain v h' ws where r: "CreateVolume (small_cloud None) (\<lambda>i. small_cloud None) demo_ctrl demo_create [] = (Inr v, h', ws)"
    by (rule demo_created)
  from r obtain q where "q \<in> set (creates h')" by (cases rule: CreateVolume_cases) auto
  from create_request_offered [OF r this] r show ?thesis
    by (auto simp: cv_disk_name_def demo_ctrl_def demo_create_def)
qed

text \<open>C14. Prepaid options are sent exactly with the charge type \<open>PREPAID\<close>, and then with one of the periods and one of
  the renew flags that the code accepts; more than one disk is asked for only for LVM.\<close>

theorem create_prepaid_consistent:
  assumes "CreateVolume env wenv ctrl req [] = (r, h', ws)" "q \<in> set (creates h')"
  shows "(case cd_DiskChargePrepaid q of
        None \<Rightarrow> cd_DiskChargeType q \<in> {DiskChargeTypePostPaidByHour, DiskChargeTypeCdcPaid}
      | Some pp \<Rightarrow> cd_DiskChargeType q = DiskChargeTypePrePaid \<and>
          int (Period pp) \<in> set DiskChargePrepaidPeriodValidValues \<and>
          RenewFlag pp \<in> {RenewFlagDisable, RenewFlagAuto, RenewFlagManual}) \<and>
    (1 < cd_DiskCount q \<longrightarrow> (\<exists>p. cv_parse_params ctrl (cv_Parameters req) = Inr p \<and> devicemapper p = ''LVM''))"
  using assms(1)
proof (cases rule: CreateVolume_cases)
  case (early e)
  with assms(2) show ?thesis by simp
next
  case (request plan h1 sid h2 tags h3)
  with assms(2) have q: "q = cv_build_request ctrl req plan sid tags" by auto
  note p = cv_make_plan_InrD [OF request(1)]
  from p(4) have "volumeChargeType (plan_params plan) = DiskChargeTypePrePaid \<Longrightarrow>
      volumeChargePrepaidPeriod (plan_params plan) \<in> set DiskChargePrepaidPeriodValidValues \<and>
      int (uint64 (volumeChargePrepaidPeriod (plan_params plan))) = volumeChargePrepaidPeriod (plan_params plan) \<and>
      volumeChargePrepaidRenewFlag (plan_params plan) \<in> {RenewFlagDisable, RenewFlagAuto, RenewFlagManual}"
    by (auto simp: cv_prepaid_ok_def DiskChargePrepaidPeriodValidValues_def uint64_id)
  moreover have "devicemapper (plan_params plan) = ''LVM''" if "1 < uint64 (devices (plan_params plan))"
  proof -
    from that have "devices (plan_params plan) \<noteq> 1" by (auto simp: uint64_id)
    with p(3) show ?thesis by (auto simp: cv_check_devices_def split: if_splits)
  qed
  ultimately show ?thesis
    using q p(2) cv_parse_params_inv [OF p(2)] by (auto simp: cv_build_request_def Let_def)
qed

theorem create_prepaid_consistent_witness:
  "\<exists>r h' ws q. CreateVolume (small_cloud None) (\<lambda>i. small_cloud None) demo_ctrl demo_create [] = (r, h', ws)
     \<and> q \<in> set (creates h') \<and> \<not> (1 < cd_DiskCount q)"
proof -
  obtain v h' ws where r: "CreateVolume (small_cloud None) (\<lambda>i. small_cloud None) demo_ctrl demo_create [] = (Inr v, h', ws)"
    by (rule demo_created)
  from r obtain q where q: "q \<in> set (creates h')" by (cases rule: CreateVolume_cases) auto
  from create_prepaid_consistent [OF r q] demo_params have "\<not> (1 < cd_DiskCount q)" by auto
  with r q show ?thesis by blast
qed

text \<open>C13. When \<open>CreateVolume\<close> succeeds, its volume id names the disks the cloud created, at least as many as
  the parameters ask for, and each was seen ready. Whatever handler later splits the id gets
  exactly these disks.\<close>

theorem create_volume_id:
  assumes "CreateVolume env wenv ctrl req [] = (Inr v, h', ws)"
  shows "\<exists>h3 q ids p. creates h' = [q] \<and> on_CreateDisks env h3 q = Inr ids \<and>
    cv_parse_params ctrl (cv_Parameters req) = Inr p \<and> devices p \<le> int (length ids) \<and>
    vol_VolumeId v = joinDiskIds ids \<and> length ws = length ids \<and>
    (\<forall>i<length ids. observed (wenv i) ready (ids ! i) (snd (ws ! i))) \<and>
    (list_all disk_name ids \<longrightarrow> diskIdList (vol_VolumeId v) = ids)"
  using assms
proof (cases rule: CreateVolume_cases)
  case (request plan h1 sid h2 tags h3)
  define q where "q = cv_build_request ctrl req plan sid tags"
  note p = cv_make_plan_InrD [OF request(1)]
  from request(6) obtain ids where ids: "on_CreateDisks env h3 q = Inr ids"
    "devices (plan_params plan) \<le> int (length ids)"
    "ws = run_workers wenv (createVolume (aspId (plan_params plan))) ids" "gather ws = Inr ()"
    "vol_VolumeId v = joinDiskIds ids" by (auto simp: q_def)
  have "observed (wenv i) ready (ids ! i) (snd (ws ! i))" if i: "i < length ids" for i
  proof -
    from gather_InrD [OF ids(4), of i] ids(3) i
    have "createVolume (aspId (plan_params plan)) (wenv i) (ids ! i) [] = (Inr (), snd (ws ! i))"
      by (auto simp: prod_eq_iff)
    then show ?thesis by (rule createVolume_ready)
  qed
  moreover have "ids \<noteq> []" using ids(2) cv_parse_params_inv [OF p(2)] by auto
  then have "list_all disk_name ids \<longrightarrow> diskIdList (vol_VolumeId v) = ids"
    using ids(5) by (simp add: diskIdList_join)
  moreover have "creates h' = [q]" using request(4) by (simp add: q_def)
  ultimately show ?thesis using ids p(2) by (metis length_run_workers)
qed auto

theorem create_volume_id_witness:
  "\<exists>v h' ws. CreateVolume (small_cloud None) (\<lambda>i. small_cloud None) demo_ctrl demo_create [] = (Inr v, h', ws)
     \<and> diskIdList (vol_VolumeId v) = [''disk-new1'']"
proof -
  obtain v h' ws where r: "CreateVolume (small_cloud None) (\<lambda>i. small_cloud None) demo_ctrl demo_create [] = (Inr v, h', ws)"
    by (rule demo_created)
  have "disk_name ''disk-new1''" by code_simp
  with create_volume_id [OF r] r show ?thesis by (auto simp: small_cloud_def)
qed

text \<open>C31. The capacity that \<open>CreateVolume\<close> reports is the requested one, but every disk is created with the
  request rounded down to whole GiB: it falls short of the report whenever the request is no
  multiple of a GiB.\<close>

theorem create_capacity_truncated:
  assumes "CreateVolume env wenv ctrl req [] = (Inr v, h', ws)" "creates h' = [q]"
    and "0 \<le> vol_CapacityBytes v" "vol_CapacityBytes v \<le> max_int64"
  shows "cv_RequiredBytes req = Some (vol_CapacityBytes v) \<and>
    int (cd_DiskSize q) * GiB = vol_CapacityBytes v - vol_CapacityBytes v mod GiB"
  using assms(1)
proof (cases rule: CreateVolume_cases)
  case (request plan h1 sid h2 tags h3)
  note p = cv_make_plan_InrD [OF request(1)]
  define b where "b = plan_capacity plan"
  from request(6) have v: "vol_CapacityBytes v = b" by (auto simp: b_def)
  have "0 \<le> b" "b \<le> max_int64" using assms(3,4) v by auto
  then have "int (uint64 (go_div b GB)) = b div GiB"
    by (simp add: go_div_nonneg GB_def GiB_def uint64_id max_int64_def)
  moreover have "cd_DiskSize q = uint64 (go_div b GB)"
    using request(4) assms(2) p(5) by (auto simp: cv_build_request_def Let_def b_def)
  ultimately have "int (cd_DiskSize q) * GiB = b - b mod GiB"
    by (simp add: minus_mod_eq_div_mult)
  moreover have "cv_RequiredBytes req = Some b"
    using p(1) by (auto simp: cv_check_request_def b_def split: if_splits sum.splits option.splits)
  ultimately show ?thesis using v by simp
qed auto

theorem create_capacity_truncated_witness:
  "\<exists>v h' ws q. CreateVolume (small_cloud None) (\<lambda>i. small_cloud None) demo_ctrl demo_create [] = (Inr v, h', ws)
     \<and> creates h' = [q] \<and> int (cd_DiskSize q) * GiB < vol_CapacityBytes v"
proof -
  obtain v h' ws where r: "CreateVolume (small_cloud None) (\<lambda>i. small_cloud None) demo_ctrl demo_create [] = (Inr v, h', ws)"
    and c: "vol_CapacityBytes v = 21474836481" by (rule demo_created)
  from r obtain q where q: "creates h' = [q]" by (cases rule: CreateVolume_cases) auto
  from create_capacity_truncated [OF r q] c r q show ?thesis by (auto simp: max_int64_def GiB_def)
qed

end
