(* ===== verification/CbsSnapshots.thy ===== *)
theory CbsSnapshots imports CbsDisks MetadataStore begin

text \<open>
  The snapshots of the CBS controller: the process-wide cache (\<open>cbs_utils.go\<close>) and the handlers
  \<open>CreateSnapshot\<close>, \<open>DeleteSnapshot\<close> and \<open>LoadExDataFromMetadataStore\<close> (\<open>controller.go\<close>) over the
  cache, the metadata store and the cloud. The cache maps ids to pointers, so the snapshots live
  in an explicit heap: the loader hands the same pointer out for every id.
\<close>

section \<open>The cache\<close>

record snap_state =
  snap_heap :: "nat \<Rightarrow> cbsSnapshot"
  snap_next :: nat
  cbsSnapshotMaps :: "string \<rightharpoonup> nat"

definition snap_empty :: snap_state where
  "snap_empty = \<lparr>snap_heap = (\<lambda>_. zero_cbsSnapshot), snap_next = 0, cbsSnapshotMaps = Map.empty\<rparr>"

text \<open>\<open>&cbsSnapshot{...}\<close>: the next address.\<close>

definition snap_alloc :: "cbsSnapshot \<Rightarrow> snap_state \<Rightarrow> nat \<times> snap_state" where
  "snap_alloc s st =
     (snap_next st,
      st\<lparr>snap_heap := (snap_heap st)(snap_next st := s), snap_next := Suc (snap_next st)\<rparr>)"

definition snap_add :: "string \<Rightarrow> nat \<Rightarrow> snap_state \<Rightarrow> snap_state" where
  "snap_add i a st = st\<lparr>cbsSnapshotMaps := (cbsSnapshotMaps st)(i \<mapsto> a)\<rparr>"

definition snap_delete :: "string \<Rightarrow> snap_state \<Rightarrow> snap_state" where
  "snap_delete i st = st\<lparr>cbsSnapshotMaps := (cbsSnapshotMaps st)(i := None)\<rparr>"

text \<open>The loop over the map visits its keys in the order \<open>order\<close>.\<close>

fun getCbsSnapshotByName :: "string list \<Rightarrow> snap_state \<Rightarrow> string \<Rightarrow> nat option" where
  "getCbsSnapshotByName [] st snapName = None"
| "getCbsSnapshotByName (i # order) st snapName =
     (case cbsSnapshotMaps st i of
        None \<Rightarrow> getCbsSnapshotByName order st snapName
      | Some a \<Rightarrow>
          if SnapName (snap_heap st a) = snapName then Some a
          else getCbsSnapshotByName order st snapName)"

section \<open>The handlers\<close>

record CreateSnapshotRequest =
  cs_Name :: string
  cs_SourceVolumeId :: string

record SnapshotResponse =
  sn_SizeBytes :: int
  sn_SnapshotId :: string
  sn_SourceVolumeId :: string
  sn_CreationTime :: int
  sn_ReadyToUse :: bool

definition snapshot_response :: "cbsSnapshot \<Rightarrow> bool \<Rightarrow> SnapshotResponse" where
  "snapshot_response s isReady =
     \<lparr>sn_SizeBytes = SizeBytes s, sn_SnapshotId = SnapId s, sn_SourceVolumeId = SourceVolumeId s,
      sn_CreationTime = CreatedAt s, sn_ReadyToUse = isReady\<rparr>"

definition validateSnapshotReq :: "CreateSnapshotRequest \<Rightarrow> go_error + unit" where
  "validateSnapshotReq req =
     (if length (cs_Name req) = 0 then Inl (Status InvalidArgument)
      else if length (cs_SourceVolumeId req) = 0 then Inl (Status InvalidArgument)
      else Inr ())"

text \<open>
  The branch of a name that is cached: every listed snapshot of the right disk is stored again,
  and a finished one ends the loop.
\<close>

fun restore_loop ::
  "cbsSnapshot \<Rightarrow> Snapshot list \<Rightarrow> 'w K8sCMCache \<Rightarrow> (go_error + SnapshotResponse) \<times> 'w K8sCMCache" where
  "restore_loop cbsSnap [] k = (Inr (snapshot_response cbsSnap False), k)"
| "restore_loop cbsSnap (s # ss) k =
     (if s_DiskId s \<noteq> SourceVolumeId cbsSnap then restore_loop cbsSnap ss k
      else case K8sCMCache_Create k (SnapId cbsSnap) cbsSnap of
        (Inl e, k1) \<Rightarrow> (Inl (Status Internal), k1)
      | (Inr _, k1) \<Rightarrow>
          if s_SnapshotState s = SnapshotNormal \<and> s_Percent s = 100
          then (Inr (snapshot_response cbsSnap True), k1)
          else restore_loop cbsSnap ss k1)"

type_synonym 'w snap_world = "snap_state \<times> 'w K8sCMCache \<times> cbs_hist"

text \<open>\<open>now\<close> is the clock in seconds.\<close>

definition create_new_snapshot ::
  "cbs_env \<Rightarrow> int \<Rightarrow> CreateSnapshotRequest \<Rightarrow> 'w snap_world \<Rightarrow> (go_error + SnapshotResponse) \<times> 'w snap_world" where
  "create_new_snapshot env now req w =
     (let (st, k, h) = w;
          h1 = CreateSnapshotCall (cs_SourceVolumeId req) (cs_Name req) # h in
      case on_CreateSnapshot env h (cs_SourceVolumeId req) (cs_Name req) of
        Inl err \<Rightarrow> (Inl (Status Internal), (st, k, h1))
      | Inr snapshotId \<Rightarrow>
          (let h2 = DescribeSnapshots [snapshotId] # h1 in
           case on_DescribeSnapshots env h1 snapshotId of
             Inl err \<Rightarrow> (Inl (Status Internal), (st, k, h2))
           | Inr [] \<Rightarrow> (Inl GoPanic, (st, k, h2))   \<comment> \<open>\<open>err.Error()\<close> of a nil error\<close>
           | Inr (s # _) \<Rightarrow>
               (let snap = \<lparr>SourceVolumeId = cs_SourceVolumeId req, SnapName = cs_Name req,
                            SnapId = snapshotId, CreatedAt = now,
                            SizeBytes = int64 (int (uint64 (int (s_DiskSize s) * GB)))\<rparr>;
                    (a, st1) = snap_alloc snap st;
                    st2 = snap_add snapshotId a st1 in
                case K8sCMCache_Create k snapshotId snap of
                  (Inl e, k1) \<Rightarrow> (Inl (Status Internal), (st2, k1, h2))
                | (Inr _, k1) \<Rightarrow> (Inr (snapshot_response snap False), (st2, k1, h2)))))"

definition CreateSnapshot ::
  "cbs_env \<Rightarrow> int \<Rightarrow> string list \<Rightarrow> CreateSnapshotRequest \<Rightarrow> 'w snap_world \<Rightarrow>
   (go_error + SnapshotResponse) \<times> 'w snap_world" where
  "CreateSnapshot env now order req w =
     (let (st, k, h) = w in
      case validateSnapshotReq req of
        Inl e \<Rightarrow> (Inl e, w)
      | Inr _ \<Rightarrow>
          if Contains (cs_SourceVolumeId req) '','' then (Inl (Status Internal), w)
          else case getCbsSnapshotByName order st (cs_Name req) of
            None \<Rightarrow> create_new_snapshot env now req w
          | Some a \<Rightarrow>
              (let cbsSnap = snap_heap st a; h1 = DescribeSnapshots [SnapId cbsSnap] # h in
               case on_DescribeSnapshots env h (SnapId cbsSnap) of
                 Inl err \<Rightarrow> (Inl (Status Internal), (st, k, h1))
               | Inr snaps \<Rightarrow>
                   (let (r, k1) = restore_loop cbsSnap snaps k in (r, (st, k1, h1)))))"

definition DeleteSnapshot ::
  "cbs_env \<Rightarrow> string \<Rightarrow> 'w snap_world \<Rightarrow> (go_error + unit) \<times> 'w snap_world" where
  "DeleteSnapshot env snapshotId w =
     (let (st, k, h) = w in
      if length snapshotId = 0 then (Inl (Status InvalidArgument), w)
      else case K8sCMCache_Get k snapshotId zero_cbsSnapshot of
        (Inl CacheEntryNotFound, k1) \<Rightarrow> (Inr (), (st, k1, h))
      | (Inl e, k1) \<Rightarrow> (Inl (Status Internal), (st, k1, h))
      | (Inr _, k1) \<Rightarrow>
          (let h1 = DeleteSnapshotsCall [snapshotId] # h;
               gone = (case on_DeleteSnapshots env h snapshotId of
                         None \<Rightarrow> True | Some err \<Rightarrow> err_class err = ESdk SnapShotNotFound) in
           if \<not> gone then (Inl (Status Internal), (st, k1, h1))
           else
             (let st1 = snap_delete snapshotId st in
              case K8sCMCache_Delete k1 snapshotId of
                (Inl e, k2) \<Rightarrow> (Inl (Status Internal), (st1, k2, h1))
              | (Inr _, k2) \<Rightarrow> (Inr (), (st1, k2, h1)))))"

text \<open>
  The loader allocates one record, decodes every matching ConfigMap into it, and adds its
  address under every name. An unanchored \<open>snap-(.*)\<close> matches a name that contains \<open>snap-\<close>. The
  error of \<open>ForAll\<close> is dropped.
\<close>

definition load_decode :: "nat \<Rightarrow> json_text \<Rightarrow> snap_state \<Rightarrow> bool \<times> snap_state" where
  "load_decode a text st =
     (let (ok, v) = unmarshal_snapshot text (snap_heap st a)
      in (ok, st\<lparr>snap_heap := (snap_heap st)(a := v)\<rparr>))"

definition load_add :: "nat \<Rightarrow> string \<Rightarrow> snap_state \<Rightarrow> go_error option \<times> snap_state" where
  "load_add a identifier st = (None, snap_add identifier a st)"

definition LoadExDataFromMetadataStore :: "snap_state \<times> 'w K8sCMCache \<Rightarrow> snap_state \<times> 'w K8sCMCache" where
  "LoadExDataFromMetadataStore w =
     (let (st, k) = w;
          (a, st1) = snap_alloc zero_cbsSnapshot st;
          (err, st2, k1) =
            K8sCMCache_ForAll k (\<lambda>name. Contains name ''snap-'') (load_decode a) (load_add a) st1
      in (st2, k1))"

section \<open>Lookups by name\<close>

lemma getByName_SomeD:
  "getCbsSnapshotByName order st n = Some a \<Longrightarrow>
   \<exists>i\<in>set order. cbsSnapshotMaps st i = Some a \<and> SnapName (snap_heap st a) = n"
  by (induction order) (auto split: option.splits if_splits)

lemma getByName_None_iff:
  "getCbsSnapshotByName order st n = None \<longleftrightarrow>
   (\<forall>i\<in>set order. \<forall>a. cbsSnapshotMaps st i = Some a \<longrightarrow> SnapName (snap_heap st a) \<noteq> n)"
  by (induction order) (auto split: option.splits)

text \<open>Every pointer of the map points below the allocation frontier.\<close>

definition snap_wf :: "snap_state \<Rightarrow> bool" where
  "snap_wf st \<longleftrightarrow> (\<forall>i a. cbsSnapshotMaps st i = Some a \<longrightarrow> a < snap_next st)"

lemma snap_wf_empty [simp]: "snap_wf snap_empty"
  by (simp add: snap_wf_def snap_empty_def)

lemma create_new_snapshot_wf:
  "create_new_snapshot env now req (st, k, h) = (r, (st', k', h')) \<Longrightarrow> snap_wf st \<Longrightarrow> snap_wf st'"
  by (auto simp: create_new_snapshot_def snap_alloc_def snap_add_def snap_wf_def Let_def less_Suc_eq
      split: sum.splits list.splits prod.splits if_splits)

lemma CreateSnapshot_wf:
  "CreateSnapshot env now order req (st, k, h) = (r, (st', k', h')) \<Longrightarrow> snap_wf st \<Longrightarrow> snap_wf st'"
  by (auto simp: CreateSnapshot_def Let_def dest: create_new_snapshot_wf
      split: sum.splits prod.splits if_splits option.splits)

lemma DeleteSnapshot_wf:
  "DeleteSnapshot env i (st, k, h) = (r, (st', k', h')) \<Longrightarrow> snap_wf st \<Longrightarrow> snap_wf st'"
  by (auto simp: DeleteSnapshot_def Let_def snap_delete_def snap_wf_def
      split: sum.splits prod.splits if_splits option.splits go_error.splits)

section \<open>Creating twice\<close>

fun snapshot_creates :: "cbs_hist \<Rightarrow> (string \<times> string) list" where
  "snapshot_creates [] = []"
| "snapshot_creates (CreateSnapshotCall d n # h) = (d, n) # snapshot_creates h"
| "snapshot_creates (_ # h) = snapshot_creates h"

lemma restore_loop_result:
  "restore_loop s ss k = (Inr r, k') \<Longrightarrow> r = snapshot_response s True \<or> r = snapshot_response s False"
  by (induction ss arbitrary: k) (auto split: if_splits prod.splits sum.splits)

lemma create_new_snapshot_InrD:
  assumes "create_new_snapshot env now req (st, k, h) = (Inr r, (st1, k1, h1))"
  shows "\<exists>snap. snap_heap st1 (snap_next st) = snap \<and> SnapName snap = cs_Name req \<and>
      SourceVolumeId snap = cs_SourceVolumeId req \<and> r = snapshot_response snap False \<and>
      cbsSnapshotMaps st1 = (cbsSnapshotMaps st)(SnapId snap \<mapsto> snap_next st) \<and>
      (\<forall>a. a \<noteq> snap_next st \<longrightarrow> snap_heap st1 a = snap_heap st a) \<and>
      snapshot_creates h1 = (cs_SourceVolumeId req, cs_Name req) # snapshot_creates h"
  using assms
  by (auto simp: create_new_snapshot_def snap_alloc_def snap_add_def Let_def
      split: sum.splits list.splits prod.splits)

text \<open>
  \<open>snap_known i s st\<close>: the id \<open>i\<close> is cached with the snapshot \<open>s\<close>, and no other cached snapshot has
  its name. A creation under a name that was not known ends in such a state.
\<close>

definition snap_known :: "string \<Rightarrow> cbsSnapshot \<Rightarrow> snap_state \<Rightarrow> bool" where
  "snap_known i s st \<longleftrightarrow> snap_wf st \<and>
     (\<exists>a. cbsSnapshotMaps st i = Some a \<and> snap_heap st a = s \<and>
        (\<forall>j b. cbsSnapshotMaps st j = Some b \<longrightarrow> SnapName (snap_heap st b) = SnapName s \<longrightarrow> b = a))"

lemma snap_known_lookup:
  assumes "snap_known i s st" "dom (cbsSnapshotMaps st) \<subseteq> set order"
  shows "\<exists>a. getCbsSnapshotByName order st (SnapName s) = Some a \<and> snap_heap st a = s"
proof -
  from assms(1) obtain a where a: "cbsSnapshotMaps st i = Some a" "snap_heap st a = s"
    "\<And>j b. cbsSnapshotMaps st j = Some b \<Longrightarrow> SnapName (snap_heap st b) = SnapName s \<Longrightarrow> b = a"
    by (auto simp: snap_known_def)
  with assms(2) have "i \<in> set order" by blast
  with a(1,2) have "getCbsSnapshotByName order st (SnapName s) \<noteq> None" by (auto simp: getByName_None_iff)
  then obtain b where b: "getCbsSnapshotByName order st (SnapName s) = Some b" by blast
  from getByName_SomeD [OF b] a(2,3) b show ?thesis by blast
qed

lemma create_new_snapshot_known:
  assumes "snap_wf st" "getCbsSnapshotByName order st (cs_Name req) = None"
    and "dom (cbsSnapshotMaps st) \<subseteq> set order"
    and c: "create_new_snapshot env now req (st, k, h) = (Inr r, (st1, k1, h1))"
  shows "\<exists>s. snap_known (sn_SnapshotId r) s st1 \<and> SnapName s = cs_Name req \<and> r = snapshot_response s False"
proof -
  obtain s where s: "snap_heap st1 (snap_next st) = s" "SnapName s = cs_Name req"
    "r = snapshot_response s False" "cbsSnapshotMaps st1 = (cbsSnapshotMaps st)(SnapId s \<mapsto> snap_next st)"
    "\<And>a. a \<noteq> snap_next st \<Longrightarrow> snap_heap st1 a = snap_heap st a"
    using create_new_snapshot_InrD [OF c] by blast
  have "b = snap_next st" if "cbsSnapshotMaps st1 j = Some b" "SnapName (snap_heap st1 b) = SnapName s" for j b
  proof (rule ccontr)
    assume ne: "b \<noteq> snap_next st"
    with that(1) s(4) have m: "cbsSnapshotMaps st j = Some b" by (auto split: if_splits)
    then have "j \<in> set order" using assms(3) by blast
    with m assms(2) have "SnapName (snap_heap st b) \<noteq> cs_Name req" by (auto simp: getByName_None_iff)
    with ne that(2) s(2,5) show False by simp
  qed
  then have "snap_known (SnapId s) s st1"
    unfolding snap_known_def using s(1,4) create_new_snapshot_wf [OF c assms(1)] by auto
  with s(2,3) show ?thesis by (auto simp: snapshot_response_def)
qed

lemma CreateSnapshot_cases:
  assumes "CreateSnapshot env now order req (st, k, h) = (r, (st', k', h'))"
  obtains "st' = st" "snapshot_creates h' = snapshot_creates h"
  | "create_new_snapshot env now req (st, k, h) = (r, (st', k', h'))" "getCbsSnapshotByName order st (cs_Name req) = None"
  using assms by (auto simp: CreateSnapshot_def Let_def split: sum.splits prod.splits if_splits option.splits)

lemma create_new_snapshot_cases:
  assumes "create_new_snapshot env now req (st, k, h) = (r, (st', k', h'))"
  obtains "st' = st" "snapshot_creates h' = (cs_SourceVolumeId req, cs_Name req) # snapshot_creates h"
  | s where "on_CreateSnapshot env h (cs_SourceVolumeId req) (cs_Name req) = Inr (SnapId s)" "SnapName s = cs_Name req"
      "st' = snap_add (SnapId s) (snap_next st) (snd (snap_alloc s st))"
      "snapshot_creates h' = (cs_SourceVolumeId req, cs_Name req) # snapshot_creates h"
proof (cases "on_CreateSnapshot env h (cs_SourceVolumeId req) (cs_Name req)")
  case (Inl e)
  with assms that(1) show ?thesis by (auto simp: create_new_snapshot_def Let_def)
next
  case (Inr i)
  let ?h1 = "CreateSnapshotCall (cs_SourceVolumeId req) (cs_Name req) # h"
  show ?thesis
  proof (cases "\<exists>x xs. on_DescribeSnapshots env ?h1 i = Inr (x # xs)")
    case True
    then obtain x xs where x: "on_DescribeSnapshots env ?h1 i = Inr (x # xs)" by blast
    let ?t = "\<lparr>SourceVolumeId = cs_SourceVolumeId req, SnapName = cs_Name req, SnapId = i, CreatedAt = now,
      SizeBytes = int64 (int (uint64 (int (s_DiskSize x) * GB)))\<rparr>"
    from assms Inr x have "st' = snap_add (SnapId ?t) (snap_next st) (snd (snap_alloc ?t st))"
        "snapshot_creates h' = (cs_SourceVolumeId req, cs_Name req) # snapshot_creates h"
      by (auto simp: create_new_snapshot_def snap_alloc_def Let_def split: sum.splits prod.splits)
    with Inr that(2) [of ?t] show ?thesis by simp
  next
    case False
    with assms Inr that(1) show ?thesis
      by (auto simp: create_new_snapshot_def Let_def split: sum.splits list.splits)
  qed
qed

lemma DeleteSnapshot_cases:
  assumes "DeleteSnapshot env j (st, k, h) = (r, (st', k', h'))"
  shows "(st' = st \<or> st' = snap_delete j st) \<and> snapshot_creates h' = snapshot_creates h"
  using assms by (auto simp: DeleteSnapshot_def Let_def
      split: sum.splits prod.splits if_splits option.splits go_error.splits)

text \<open>Other snapshots may come and go.\<close>

lemma snap_known_delete: "snap_known i s st \<Longrightarrow> j \<noteq> i \<Longrightarrow> snap_known i s (snap_delete j st)"
  unfolding snap_known_def snap_wf_def snap_delete_def by (simp split: if_split) blast

lemma snap_known_add:
  assumes "snap_known i s st" "j \<noteq> i" "SnapName t \<noteq> SnapName s"
  shows "snap_known i s (snap_add j (snap_next st) (snd (snap_alloc t st)))"
proof -
  from assms(1) obtain a where a: "snap_wf st" "cbsSnapshotMaps st i = Some a" "snap_heap st a = s"
    "\<And>j b. cbsSnapshotMaps st j = Some b \<Longrightarrow> SnapName (snap_heap st b) = SnapName s \<Longrightarrow> b = a"
    by (auto simp: snap_known_def)
  let ?st = "snap_add j (snap_next st) (snd (snap_alloc t st))"
  have wf: "snap_wf ?st" using a(1) by (auto simp: snap_wf_def snap_add_def snap_alloc_def less_Suc_eq)
  have i: "cbsSnapshotMaps ?st i = Some a" "snap_heap ?st a = s"
    using a(1-3) assms(2) by (auto simp: snap_wf_def snap_add_def snap_alloc_def)
  have "b = a" if m: "cbsSnapshotMaps ?st l = Some b" and n: "SnapName (snap_heap ?st b) = SnapName s" for l b
  proof (cases "b = snap_next st")
    case True
    with n assms(3) show ?thesis by (simp add: snap_add_def snap_alloc_def)
  next
    case False
    with m n have "cbsSnapshotMaps st l = Some b" "SnapName (snap_heap st b) = SnapName s"
      by (simp_all add: snap_add_def snap_alloc_def split: if_splits)
    then show ?thesis by (rule a(4))
  qed
  with wf i show ?thesis unfolding snap_known_def by blast
qed

text \<open>What a request with the known name does: no call that creates, and the same snapshot reported.\<close>

lemma CreateSnapshot_known:
  assumes k: "snap_known i s st" and n: "SnapName s = cs_Name req"
    and d: "dom (cbsSnapshotMaps st) \<subseteq> set order"
    and c: "CreateSnapshot env now order req (st, k, h) = (r, (st', k', h'))"
  shows "st' = st \<and> snapshot_creates h' = snapshot_creates h \<and>
    (\<forall>r'. r = Inr r' \<longrightarrow> r'\<lparr>sn_ReadyToUse := False\<rparr> = snapshot_response s False)"
proof -
  obtain a where a: "getCbsSnapshotByName order st (cs_Name req) = Some a" "snap_heap st a = s"
    using snap_known_lookup [OF k d] n by auto
  have "r'\<lparr>sn_ReadyToUse := False\<rparr> = snapshot_response s False" if "r = Inr r'" for r'
  proof -
    from c a that obtain ss where "restore_loop s ss k = (Inr r', k')"
      by (auto simp: CreateSnapshot_def Let_def split: sum.splits prod.splits if_splits)
    from restore_loop_result [OF this] show ?thesis by (auto simp: snapshot_response_def)
  qed
  then show ?thesis using c by - (erule CreateSnapshot_cases, simp_all add: a)
qed

definition creates_of :: "string \<Rightarrow> cbs_hist \<Rightarrow> (string \<times> string) list" where
  "creates_of n h = [c \<leftarrow> snapshot_creates h. snd c = n]"

lemma CreateSnapshot_other:
  assumes k: "snap_known i s st" and n: "SnapName s \<noteq> cs_Name req"
    and f: "\<And>h d n. on_CreateSnapshot env h d n \<noteq> Inr i"
    and c: "CreateSnapshot env now order req (st, k, h) = (r, (st', k', h'))"
  shows "snap_known i s st' \<and> creates_of (SnapName s) h' = creates_of (SnapName s) h"
  using c
proof (rule CreateSnapshot_cases)
  assume "create_new_snapshot env now req (st, k, h) = (r, (st', k', h'))"
  then show ?thesis
    by (rule create_new_snapshot_cases) (use k n f in \<open>auto simp: creates_of_def intro!: snap_known_add\<close>)
qed (use k in \<open>simp add: creates_of_def\<close>)

lemma DeleteSnapshot_known:
  assumes k: "snap_known i s st" and "j \<noteq> i"
    and c: "DeleteSnapshot env j (st, k, h) = (r, (st', k', h'))"
  shows "snap_known i s st' \<and> snapshot_creates h' = snapshot_creates h"
  using DeleteSnapshot_cases [OF c] k snap_known_delete [OF k \<open>j \<noteq> i\<close>] by auto

text \<open>
  The requests one process handles one after the other, as far as the snapshot \<open>i\<close> is not touched:
  any creations (a loop over the cache visits every key, and the cloud does not give the id \<open>i\<close> a
  second time), deletions of other ids, and any change of the store by others.
\<close>

inductive snap_requests :: "string \<Rightarrow> 'w snap_world \<Rightarrow> 'w snap_world \<Rightarrow> bool" for i where
  Requests_Refl: "snap_requests i w w"
| Requests_Create:
    "snap_requests i w (st, k, h) \<Longrightarrow> dom (cbsSnapshotMaps st) \<subseteq> set order \<Longrightarrow>
     (\<And>h d n. on_CreateSnapshot env h d n \<noteq> Inr i) \<Longrightarrow>
     CreateSnapshot env now order req (st, k, h) = (r, w') \<Longrightarrow> snap_requests i w w'"
| Requests_Delete:
    "snap_requests i w (st, k, h) \<Longrightarrow> j \<noteq> i \<Longrightarrow>
     DeleteSnapshot env j (st, k, h) = (r, w') \<Longrightarrow> snap_requests i w w'"
| Requests_Store: "snap_requests i w (st, k, h) \<Longrightarrow> snap_requests i w (st, k', h)"

lemma snap_requests_known:
  assumes "snap_requests i w w'" "snap_known i s (fst w)"
  shows "snap_known i s (fst w') \<and> creates_of (SnapName s) (snd (snd w')) = creates_of (SnapName s) (snd (snd w))"
  using assms
proof (induction rule: snap_requests.induct)
  case (Requests_Create w st k h order env now req r w')
  obtain st' k' h' where w': "w' = (st', k', h')" by (metis prod_cases3)
  from Requests_Create have known: "snap_known i s st"
    and same: "creates_of (SnapName s) h = creates_of (SnapName s) (snd (snd w))" by auto
  note c = Requests_Create.hyps(4) [unfolded w']
  show ?case
  proof (cases "SnapName s = cs_Name req")
    case True
    with CreateSnapshot_known [OF known True Requests_Create.hyps(2) c] known same w' show ?thesis
      by (simp add: creates_of_def)
  next
    case False
    with CreateSnapshot_other [OF known False Requests_Create.hyps(3) c] same w' show ?thesis by simp
  qed
next
  case (Requests_Delete w st k h j env r w')
  obtain st' k' h' where w': "w' = (st', k', h')" by (metis prod_cases3)
  from Requests_Delete DeleteSnapshot_known [of i s st j env k h r st' k' h'] w' show ?case
    by (simp add: creates_of_def)
qed simp_all

text \<open>C22. \<open>CreateSnapshot\<close> is idempotent by name in one process that handles its requests one after the other:
  after a successful creation under a name that was not known, however many requests follow
  (creations under any name, deletions of other snapshots, whatever the cloud and the store
  answer), the cloud has been asked exactly once to create a snapshot with the name, and a
  further request with it makes no such call and reports the same snapshot when it succeeds.\<close>

theorem create_snapshot_once:
  assumes "snap_wf st" "getCbsSnapshotByName order st (cs_Name req) = None"
    and "dom (cbsSnapshotMaps st) \<subseteq> set order"
    and "CreateSnapshot env now order req (st, k, h) = (Inr r, w1)"
    and "snap_requests (sn_SnapshotId r) w1 w2"
  shows "creates_of (cs_Name req) (snd (snd w2)) =
      (cs_SourceVolumeId req, cs_Name req) # creates_of (cs_Name req) h \<and>
    (\<forall>env' now' order' req' r2 w3. cs_Name req' = cs_Name req \<longrightarrow> dom (cbsSnapshotMaps (fst w2)) \<subseteq> set order' \<longrightarrow>
       CreateSnapshot env' now' order' req' w2 = (r2, w3) \<longrightarrow>
       snapshot_creates (snd (snd w3)) = snapshot_creates (snd (snd w2)) \<and>
       (\<forall>r'. r2 = Inr r' \<longrightarrow> r'\<lparr>sn_ReadyToUse := False\<rparr> = r))"
proof -
  obtain st1 k1 h1 where w1: "w1 = (st1, k1, h1)" by (metis prod_cases3)
  from assms(2,4) have c: "create_new_snapshot env now req (st, k, h) = (Inr r, (st1, k1, h1))"
    by (auto simp: CreateSnapshot_def Let_def w1 split: sum.splits if_splits)
  obtain s where s: "snap_known (sn_SnapshotId r) s st1" "SnapName s = cs_Name req" "r = snapshot_response s False"
    using create_new_snapshot_known [OF assms(1-3) c] by blast
  have one: "creates_of (cs_Name req) h1 = (cs_SourceVolumeId req, cs_Name req) # creates_of (cs_Name req) h"
    using create_new_snapshot_InrD [OF c] by (auto simp: creates_of_def)
  obtain st2 k2 h2 where w2: "w2 = (st2, k2, h2)" by (metis prod_cases3)
  from snap_requests_known [OF assms(5), of s] s(1,2) w1 w2 have
    known: "snap_known (sn_SnapshotId r) s st2" and same: "creates_of (cs_Name req) h2 = creates_of (cs_Name req) h1" by auto
  have "snapshot_creates (snd (snd w3)) = snapshot_creates h2 \<and> (\<forall>r'. r2 = Inr r' \<longrightarrow> r'\<lparr>sn_ReadyToUse := False\<rparr> = r)"
    if "cs_Name req' = cs_Name req" "dom (cbsSnapshotMaps st2) \<subseteq> set order'"
      "CreateSnapshot env' now' order' req' (st2, k2, h2) = (r2, w3)" for env' now' order' req' r2 w3
    using CreateSnapshot_known [OF known _ that(2), of req' env' now' k2 h2 r2 "fst w3"] that(1,3) s(2,3)
    by (cases w3) auto
  with one same w2 show ?thesis by simp
qed

text \<open>The instances run on an outside with one snapshot and an empty cluster.\<close>

definition snap_cloud :: "Snapshot list \<Rightarrow> cbs_env" where
  "snap_cloud listing =
     \<lparr>on_DescribeDisks = (\<lambda>h ids. Inr []), on_CreateDisks = (\<lambda>h req. Inr []),
      on_TerminateDisks = (\<lambda>h ids. None), on_AttachDisks = (\<lambda>h d i. None),
      on_DetachDisks = (\<lambda>h d. None), on_ResizeDisk = (\<lambda>h d n. None),
      on_BindAutoSnapshotPolicy = (\<lambda>h a d. None), on_DescribeDiskConfigQuota = (\<lambda>h z c. Inr []),
      on_DescribeInstancesDiskNum = (\<lambda>h ids. Inr []), on_DescribeSnapshots = (\<lambda>h i. Inr listing),
      on_CreateSnapshot = (\<lambda>h d n. Inr ''snap-1''), on_DeleteSnapshots = (\<lambda>h i. None),
      on_DescribeZones = (\<lambda>h. Inr []), on_DescribeClusterTags = (\<lambda>h c r. Inr []), ticks = (\<lambda>h. 0)\<rparr>"

definition one_snapshot :: "Snapshot list" where
  "one_snapshot = [\<lparr>s_DiskId = ''disk-a'', s_DiskSize = 10, s_SnapshotState = SnapshotNormal, s_Percent = 100\<rparr>]"

definition demo_snap_req :: CreateSnapshotRequest where
  "demo_snap_req = \<lparr>cs_Name = ''daily'', cs_SourceVolumeId = ''disk-a''\<rparr>"

theorem create_snapshot_once_witness:
  "\<exists>r1 st1 k1 h1 r2 w2. CreateSnapshot (snap_cloud one_snapshot) 7 [] demo_snap_req (snap_empty, empty_k8scm, []) = (Inr r1, (st1, k1, h1))
     \<and> CreateSnapshot (snap_cloud []) 9 [''snap-1''] demo_snap_req (snd (DeleteSnapshot (snap_cloud []) ''snap-2'' (st1, k1, h1))) = (r2, w2)
     \<and> snapshot_creates (snd (snd w2)) = [(''disk-a'', ''daily'')]"
proof -
  obtain r1 st1 k1 h1 where c: "CreateSnapshot (snap_cloud one_snapshot) 7 [] demo_snap_req (snap_empty, empty_k8scm, []) = (Inr r1, (st1, k1, h1))"
    and d: "cbsSnapshotMaps st1 = [''snap-1'' \<mapsto> 0]" and i: "sn_SnapshotId r1 = ''snap-1''"
    and h1: "snapshot_creates h1 = [(''disk-a'', ''daily'')]"
    by (auto simp: CreateSnapshot_def create_new_snapshot_def validateSnapshotReq_def demo_snap_req_def
      snap_cloud_def one_snapshot_def Let_def snap_alloc_def snap_add_def snap_empty_def snapshot_response_def
      K8sCMCache_Create_def getMetadataCM_def empty_k8scm_def map_cm_api_def)
  obtain r' st2 k2 h2 where del: "DeleteSnapshot (snap_cloud []) ''snap-2'' (st1, k1, h1) = (r', (st2, k2, h2))"
    by (metis prod_cases3)
  have run: "snap_requests (sn_SnapshotId r1) (st1, k1, h1) (st2, k2, h2)"
    by (rule Requests_Delete [OF Requests_Refl _ del]) (simp add: i)
  have st2: "dom (cbsSnapshotMaps st2) \<subseteq> {''snap-1''}"
    using DeleteSnapshot_cases [OF del] d by (auto simp: snap_delete_def split: if_splits)
  have same: "snapshot_creates h2 = snapshot_creates h1" using DeleteSnapshot_cases [OF del] by blast
  obtain r2 w3 where c2: "CreateSnapshot (snap_cloud []) 9 [''snap-1''] demo_snap_req (st2, k2, h2) = (r2, w3)"
    by (cases "CreateSnapshot (snap_cloud []) 9 [''snap-1''] demo_snap_req (st2, k2, h2)") blast
  have "snapshot_creates (snd (snd w3)) = snapshot_creates h2"
    using create_snapshot_once [OF _ _ _ c run, THEN conjunct2, rule_format, OF _ _ _ refl _ c2] st2
    by (simp add: snap_empty_def snap_wf_def)
  with c c2 del same h1 show ?thesis by (cases w3) auto
qed

text \<open>Right after the cloud has accepted a new snapshot, an empty listing makes \<open>CreateSnapshot\<close> panic (it
  prints a nil error): the snapshot exists in the cloud, and neither the cache nor the store
  knows it.\<close>

theorem create_snapshot_panics:
  assumes "validateSnapshotReq req = Inr ()" "\<not> Contains (cs_SourceVolumeId req) '',''"
    and "getCbsSnapshotByName order st (cs_Name req) = None"
    and "on_CreateSnapshot env h (cs_SourceVolumeId req) (cs_Name req) = Inr i"
    and "on_DescribeSnapshots env (CreateSnapshotCall (cs_SourceVolumeId req) (cs_Name req) # h) i = Inr []"
  shows "CreateSnapshot env now order req (st, k, h) =
    (Inl GoPanic, (st, k, DescribeSnapshots [i] # CreateSnapshotCall (cs_SourceVolumeId req) (cs_Name req) # h))"
  using assms by (simp add: CreateSnapshot_def create_new_snapshot_def Let_def)

theorem create_snapshot_panics_witness:
  "fst (CreateSnapshot (snap_cloud []) 7 [] demo_snap_req (snap_empty, empty_k8scm, [])) = Inl GoPanic"
proof -
  have v: "validateSnapshotReq demo_snap_req = Inr ()" "\<not> Contains (cs_SourceVolumeId demo_snap_req) '',''"
    by (simp_all add: validateSnapshotReq_def demo_snap_req_def)
  show ?thesis by (subst create_snapshot_panics [OF v]) (simp_all add: snap_cloud_def)
qed

section \<open>Deleting\<close>



section \<open>Loading\<close>

text \<open>C24. \<open>LoadExDataFromMetadataStore\<close> gives every loaded id the same pointer: after it every name that can be
  looked up is the one of the last decoded snapshot, and the other loaded snapshots cannot be
  found by name.\<close>

theorem load_aliases:
  assumes "LoadExDataFromMetadataStore (st, k) = (st', k')" "cbsSnapshotMaps st = Map.empty"
    and "getCbsSnapshotByName order st' n = Some a" "getCbsSnapshotByName order' st' n' = Some b"
  shows "n = n' \<and> a = b"
proof -
  define one where "one = (\<lambda>s :: snap_state. \<forall>i x. cbsSnapshotMaps s i = Some x \<longrightarrow> x = snap_next st)"
  have keep: "one s1" if "one s" "load_decode (snap_next st) t s = (e, s1)" for s t e s1
    using that by (auto simp: one_def load_decode_def split: prod.splits)
  have add: "one s1" if "one s" "load_add (snap_next st) i s = (e, s1)" for s i e s1
    using that by (auto simp: one_def load_add_def snap_add_def split: if_splits)
  have start: "one (snd (snap_alloc zero_cbsSnapshot st))"
    using assms(2) by (simp add: one_def snap_alloc_def)
  have "one st'"
    using assms(1) start ForAll_loop_inv [where P = one, OF _ start keep add]
    by (auto simp: LoadExDataFromMetadataStore_def K8sCMCache_ForAll_def snap_alloc_def Let_def
        split: prod.splits sum.splits)
  then have "a = snap_next st" "b = snap_next st"
    using getByName_SomeD [OF assms(3)] getByName_SomeD [OF assms(4)] by (auto simp: one_def)
  then show ?thesis using getByName_SomeD [OF assms(3)] getByName_SomeD [OF assms(4)] by auto
qed

text \<open>A cluster with two stored snapshots.\<close>

definition snap_cm :: "string \<Rightarrow> string \<Rightarrow> ConfigMap" where
  "snap_cm i n = \<lparr>cm_name = i, cm_namespace = ''kube-system'', cm_labels = [],
     cm_data = [cmDataKey \<mapsto> marshal_snapshot (zero_cbsSnapshot\<lparr>SnapId := i, SnapName := n\<rparr>)]\<rparr>"

definition two_stored :: "(string \<Rightarrow> string \<rightharpoonup> ConfigMap) K8sCMCache" where
  "two_stored = empty_k8scm\<lparr>Client := map_cm_api\<lparr>cm_list :=
     (\<lambda>ns l w. (Inr [snap_cm ''snap-1'' ''daily'', snap_cm ''snap-2'' ''weekly''], w))\<rparr>\<rparr>"

theorem load_aliases_witness:
  "\<exists>st' k' a. LoadExDataFromMetadataStore (snap_empty, two_stored) = (st', k')
     \<and> getCbsSnapshotByName [''snap-1'', ''snap-2''] st' ''weekly'' = Some a
     \<and> getCbsSnapshotByName [''snap-2'', ''snap-1''] st' ''daily'' = None"
proof -
  obtain st' k' where l: "LoadExDataFromMetadataStore (snap_empty, two_stored) = (st', k')" by fastforce
  have c: "Contains ''snap-1'' ''snap-''" "Contains ''snap-2'' ''snap-''" by code_simp+
  have w: "getCbsSnapshotByName [''snap-1'', ''snap-2''] st' ''weekly'' = Some 0"
    using l by (simp add: LoadExDataFromMetadataStore_def K8sCMCache_ForAll_def two_stored_def empty_k8scm_def
        snap_cm_def cm_content_def load_decode_def load_add_def snap_add_def snap_alloc_def snap_empty_def c Let_def
        split: prod.splits) (auto simp: cbsSnapshot.defs)
  have m: "cbsSnapshotMaps snap_empty = Map.empty" by (simp add: snap_empty_def)
  have "getCbsSnapshotByName [''snap-2'', ''snap-1''] st' ''daily'' \<noteq> Some b" for b
    using load_aliases [OF l m w, of "[''snap-2'', ''snap-1'']" "''daily''" b] by auto
  with l w show ?thesis by auto
qed

end
