(* ===== verification/CbsLiveness.thy ===== *)
theory CbsLiveness imports CbsDiskProps begin

text \<open>
  Publishing completes: when the cloud accepts the attachment of every disk and shows it attached
  before the deadline, the handler returns success, however the disks' states come in between.
\<close>

section \<open>A cloud that attaches\<close>

text \<open>How many listings of the disk came since it was last attached.\<close>

fun attach_age :: "string \<Rightarrow> cbs_hist \<Rightarrow> nat option" where
  "attach_age d [] = None"
| "attach_age d (AttachDisks ds i t # h) = (if d \<in> set ds then Some 0 else attach_age d h)"
| "attach_age d (DescribeDisks ids # h) = (if ids = [d] then map_option Suc (attach_age d h) else attach_age d h)"
| "attach_age d (_ # h) = attach_age d h"

text \<open>
  It accepts the attachment, lists exactly one disk with the id, and shows it attached from the
  \<open>k\<close>-th listing after the attachment on, in any other state before; \<open>k\<close> ticks fit into the deadline.
\<close>

definition attaches_after :: "nat \<Rightarrow> cbs_env \<Rightarrow> string \<Rightarrow> string \<Rightarrow> bool" where
  "attaches_after k env inst d \<longleftrightarrow>
     (\<forall>h. on_AttachDisks env h d inst = None \<and> k < ticks env h \<and>
       (\<exists>ds x st. on_DescribeDisks env h [d] = Inr ds \<and> lists_one d x ds \<and> DiskState x = Some st \<and> InstanceId x = Some inst \<and>
          (st = StatusAttached \<longleftrightarrow> (\<exists>n. attach_age d h = Some n \<and> k \<le> n))))"

lemma attach_age_metrics [simp]:
  "attach_age d (yun_ok a i h) = attach_age d h"
  by (simp add: yun_ok_def)

lemma scan_state_one:
  assumes "lists_one d x ds" "DiskState x = Some st"
  shows "scan_state P d ds = (if P st then ScanHit x else ScanNone)"
proof (cases "P st")
  case True
  from assms(1) show ?thesis
  proof (induction ds)
    case (Cons y ds)
    from lists_one_Cons [OF Cons.prems] show ?case
      using Cons.IH assms(2) True by (auto split: option.split)
  qed (simp add: lists_one_def)
next
  case False
  from assms(1) have "\<forall>y\<in>set ds. DiskId y \<noteq> None \<and> (DiskId y = Some d \<longrightarrow> DiskState y = Some st)"
    using assms(2) by (auto simp: lists_one_def)
  with False show ?thesis by (induction ds) (auto split: option.split)
qed

lemma attach_check_unattached:
  assumes "lists_one d x ds" "DiskState x = Some st" "st \<noteq> StatusAttached"
  shows "attach_check d inst ds = None"
proof -
  from assms have "\<forall>y\<in>set ds. DiskId y \<noteq> None \<and> (DiskId y = Some d \<longrightarrow> DiskState y = Some st)"
    by (auto simp: lists_one_def)
  with assms(3) show ?thesis by (induction ds) (auto split: option.split)
qed

text \<open>One tick of the wait: it ends when the disk is old enough, and makes it older otherwise.\<close>

lemma attach_tick:
  assumes "attaches_after k env inst d" "attach_age d h = Some a"
  shows "\<exists>h'. wait_tick env (\<lambda>st. st = StatusAttached) d inst h = (if k \<le> a then Some (Inr ()) else None, h') \<and>
    attach_age d h' = Some (Suc a)"
proof -
  from assms(1) obtain ds x st where ds: "on_DescribeDisks env h [d] = Inr ds" "lists_one d x ds" "DiskState x = Some st"
    "st = StatusAttached \<longleftrightarrow> (\<exists>n. attach_age d h = Some n \<and> k \<le> n)"
    unfolding attaches_after_def by blast
  show ?thesis
    using assms(2) ds(4)
    by (simp add: wait_tick_def describeDisks_Inr [OF ds(1)] scan_state_one [OF ds(2,3)])
qed

lemma attach_poll:
  assumes "attaches_after k env inst d" "attach_age d h = Some a" "k < a + n"
  shows "fst (poll (wait_tick env (\<lambda>st. st = StatusAttached) d inst) n h) = Some (Inr ()) \<or> n = 0"
  using assms(2,3)
proof (induction n arbitrary: h a)
  case (Suc n)
  from attach_tick [OF assms(1) Suc.prems(1)] obtain h' where
    t: "wait_tick env (\<lambda>st. st = StatusAttached) d inst h = (if k \<le> a then Some (Inr ()) else None, h')"
    and a: "attach_age d h' = Some (Suc a)" by blast
  show ?case
  proof (cases "k \<le> a")
    case True
    with t show ?thesis by simp
  next
    case False
    with Suc.IH [OF a] Suc.prems(2) t show ?thesis by auto
  qed
qed simp

lemma attachVolume_completes:
  assumes "attaches_after k env inst d"
  shows "fst (attachVolume inst env d []) = Inr ()"
proof -
  from assms obtain ds x st where ds: "on_DescribeDisks env [] [d] = Inr ds" "lists_one d x ds" "DiskState x = Some st"
    "st \<noteq> StatusAttached"
    unfolding attaches_after_def by (metis attach_age.simps(1) option.distinct(1))
  let ?h1 = "yun_ok ''DescribeDisks'' [] [DescribeDisks [d]]"
  let ?h2 = "yun_ok ''AttachDisks'' d (AttachDisks [d] inst (instance_type inst) # ?h1)"
  have att: "on_AttachDisks env ?h1 d inst = None" "k < ticks env ?h2"
    using assms unfolding attaches_after_def by blast+
  obtain v h3 where v: "wait_for env (\<lambda>st. st = StatusAttached) d inst ?h2 = (v, h3)" by fastforce
  have "attach_age d ?h2 = Some 0" by simp
  from attach_poll [OF assms this, of "ticks env ?h2"] att(2) v
  have "v = Some (Inr ())" by (simp add: wait_for_def)
  moreover obtain y ys where "ds = y # ys" using lists_one_not_Nil [OF ds(2)] by (cases ds) auto
  moreover from this have "attach_check d inst (y # ys) = None" using attach_check_unattached [OF ds(2-4)] by simp
  ultimately show ?thesis using v att(1) ds(1)
    by (simp add: attachVolume_def describeDisks_Inr Let_def del: attach_check.simps)
qed

text \<open>
  Publishing completes. On a supported node, when the cloud of every worker accepts the attachment
  and shows the disk attached within the ticks of the deadline, \<open>ControllerPublishVolume\<close> returns success
  for every volume id.
\<close>

theorem publish_completes:
  assumes "pub_VolumeId req \<noteq> []" "supported_node (pub_NodeId req)" "pub_VolumeCapability req \<noteq> None"
    and "\<And>i. i < length (diskIdList (pub_VolumeId req)) \<Longrightarrow>
      attaches_after (k i) (wenv i) (pub_NodeId req) (diskIdList (pub_VolumeId req) ! i)"
  shows "fst (ControllerPublishVolume wenv req) = Inr ()"
proof -
  let ?ws = "run_workers wenv (attachVolume (pub_NodeId req)) (diskIdList (pub_VolumeId req))"
  have "fst w = Inr ()" if "w \<in> set ?ws" for w
  proof -
    from that obtain i where "i < length (diskIdList (pub_VolumeId req))"
      "w = attachVolume (pub_NodeId req) (wenv i) (diskIdList (pub_VolumeId req) ! i) []"
      by (auto simp: in_set_conv_nth)
    with attachVolume_completes [OF assms(4)] show ?thesis by simp
  qed
  then have "gather ?ws = Inr ()" by (simp add: gather_Inr_iff)
  moreover have "pub_NodeId req \<noteq> []" using assms(2) by (auto simp: supported_node_def HasPrefix_def)
  ultimately show ?thesis using assms(1-3) by (simp add: ControllerPublishVolume_def Let_def)
qed

text \<open>A cloud that needs two listings.\<close>

definition slow_disk :: "string \<Rightarrow> string \<Rightarrow> cbs_hist \<Rightarrow> Disk" where
  "slow_disk inst d h =
     \<lparr>DiskId = Some d, DiskSize = Some 10,
      DiskState = Some (case attach_age d h of Some n \<Rightarrow> if 2 \<le> n then StatusAttached else ''ATTACHING'' | None \<Rightarrow> StatusUnattached),
      InstanceId = Some inst\<rparr>"

definition slow_cloud :: "string \<Rightarrow> string \<Rightarrow> cbs_env" where
  "slow_cloud inst d = (small_cloud None)\<lparr>on_DescribeDisks := (\<lambda>h ids. Inr [slow_disk inst d h])\<rparr>"

lemma slow_cloud_attaches: "attaches_after 2 (slow_cloud inst d) inst d"
  by (auto simp: attaches_after_def slow_cloud_def small_cloud_def lists_one_def slow_disk_def
      split: option.split)

theorem publish_completes_witness:
  "fst (ControllerPublishVolume (\<lambda>i. slow_cloud ''ins-12345678'' ''disk-a'')
     \<lparr>pub_VolumeId = ''disk-a'', pub_NodeId = ''ins-12345678'', pub_VolumeCapability = Some ()\<rparr>) = Inr ()"
proof -
  have d: "diskIdList ''disk-a'' = [''disk-a'']" by code_simp
  have n: "supported_node ''ins-12345678''" by code_simp
  show ?thesis
    by (rule publish_completes [where k = "\<lambda>i. 2"]) (simp_all add: d n slow_cloud_attaches)
qed

end
