(* ===== verification/CbsWorkers.thy ===== *)
theory CbsWorkers imports CbsAttach begin

text \<open>
  \<open>attachVolume\<close>, \<open>detachVolume\<close> and \<open>expandVolume\<close> one call at a time, as one kind of worker, and what a
  single worker's steps amount to: the locale \<open>disk_worker\<close> says what is needed of a step, and its lemmas
  take the steps to a run of the worker and back.

  A step of a worker is one call to the cloud with the code up to the next call. In between there are
  only the worker's own variables, its channel and the counters of the metrics.
\<close>

section \<open>Workers by the step\<close>

datatype phase = Looking | Calling | Waiting | Finished "go_error + unit"

text \<open>
  What the three workers have in common: a look at the disk that decides or goes on to a call, the
  call, and a wait that serves ticks until its deadline branch is taken.
\<close>

record worker_job =
  w_look :: "cbs_env \<Rightarrow> string \<Rightarrow> cbs_hist \<Rightarrow> phase \<times> cbs_hist"
  w_call :: "cbs_env \<Rightarrow> string \<Rightarrow> cbs_hist \<Rightarrow> phase \<times> cbs_hist"
  w_tick :: "cbs_env \<Rightarrow> string \<Rightarrow> cbs_hist \<Rightarrow> (go_error + unit) option \<times> cbs_hist"
  w_late :: "string \<Rightarrow> cbs_hist \<Rightarrow> worker"

definition run_job :: "worker_job \<Rightarrow> cbs_env \<Rightarrow> string \<Rightarrow> cbs_hist \<Rightarrow> worker" where
  "run_job job env d h =
     (case w_look job env d h of
        (Calling, h1) \<Rightarrow>
          (case w_call job env d h1 of
             (Waiting, h2) \<Rightarrow>
               (case poll (w_tick job env d) (ticks env h2) h2 of
                  (Some r, h3) \<Rightarrow> (r, h3)
                | (None, h3) \<Rightarrow> w_late job d h3)
           | (Finished r, h2) \<Rightarrow> (r, h2)
           | (_, h2) \<Rightarrow> (Inl GoPanic, h2))
      | (Finished r, h1) \<Rightarrow> (r, h1)
      | (_, h1) \<Rightarrow> (Inl GoPanic, h1))"

definition attach_look :: "string \<Rightarrow> cbs_env \<Rightarrow> string \<Rightarrow> cbs_hist \<Rightarrow> phase \<times> cbs_hist" where
  "attach_look instanceId env diskId h =
     (case describeDisks env [diskId] instanceId Attach h of
        (Inl err, h1) \<Rightarrow> (Finished (Inl (if err = GoPanic then GoPanic else Status Internal)), h1)
      | (Inr disks, h1) \<Rightarrow>
          if disks = []
          then (Finished (Inl (Status NotFound)), operation_error Attach diskId instanceId ''ErrDiskNotFound'' h1)
          else case attach_check diskId instanceId disks of
             None \<Rightarrow> (Calling, h1)
           | Some r \<Rightarrow>
               (Finished r, if r = Inl (Status FailedPrecondition)
                            then operation_error Attach diskId instanceId ''ErrDiskAttachedAlready'' h1 else h1))"

definition attach_call :: "string \<Rightarrow> cbs_env \<Rightarrow> string \<Rightarrow> cbs_hist \<Rightarrow> phase \<times> cbs_hist" where
  "attach_call instanceId env diskId h =
     (let h2 = AttachDisks [diskId] instanceId (instance_type instanceId) # h in
      case on_AttachDisks env h diskId instanceId of
        Some err \<Rightarrow>
          (Finished (Inl (Status Internal)),
           operation_error Attach diskId instanceId (GetTencentSdkErrCode err) (yun_err ''AttachDisks'' diskId err h2))
      | None \<Rightarrow> (Waiting, yun_ok ''AttachDisks'' diskId h2))"

definition attach_job :: "string \<Rightarrow> worker_job" where
  "attach_job instanceId =
     \<lparr>w_look = attach_look instanceId, w_call = attach_call instanceId,
      w_tick = (\<lambda>env diskId. wait_tick env (\<lambda>st. st = StatusAttached) diskId instanceId),
      w_late = (\<lambda>diskId h. (Inl (Status DeadlineExceeded), operation_error Attach diskId instanceId ''ErrDiskAttachedATimeout'' h))\<rparr>"

definition detach_look :: "string \<Rightarrow> cbs_env \<Rightarrow> string \<Rightarrow> cbs_hist \<Rightarrow> phase \<times> cbs_hist" where
  "detach_look instanceId env diskId h =
     (case describeDisks env [diskId] instanceId Detach h of
        (Inl err, h1) \<Rightarrow> (Finished (Inl (if err = GoPanic then GoPanic else Status Internal)), h1)
      | (Inr disks, h1) \<Rightarrow>
          if disks = [] then (Finished (Inr ()), h1)
          else case detach_check diskId instanceId disks of
             None \<Rightarrow> (Calling, h1)
           | Some r \<Rightarrow> (Finished r, h1))"

definition detach_call :: "string \<Rightarrow> cbs_env \<Rightarrow> string \<Rightarrow> cbs_hist \<Rightarrow> phase \<times> cbs_hist" where
  "detach_call instanceId env diskId h =
     (let h2 = DetachDisks [diskId] (instance_type instanceId) # h in
      case on_DetachDisks env h diskId of
        Some err \<Rightarrow>
          (Finished (Inl (Status Internal)),
           operation_error Detach diskId instanceId (GetTencentSdkErrCode err) (yun_err ''DetachDisks'' diskId err h2))
      | None \<Rightarrow> (Waiting, yun_ok ''DetachDisks'' diskId h2))"

definition detach_job :: "string \<Rightarrow> worker_job" where
  "detach_job instanceId =
     \<lparr>w_look = detach_look instanceId, w_call = detach_call instanceId,
      w_tick = (\<lambda>env diskId. wait_tick env (\<lambda>st. st = StatusUnattached) diskId instanceId),
      w_late = (\<lambda>diskId h. (Inl (Status DeadlineExceeded), operation_error Detach diskId instanceId ''ErrDiskDetachedATimeout'' h))\<rparr>"

definition expand_look :: "int \<Rightarrow> cbs_env \<Rightarrow> string \<Rightarrow> cbs_hist \<Rightarrow> phase \<times> cbs_hist" where
  "expand_look newCbsSizeGB env diskId h =
     (case describeDisks env [diskId] [] NoAction h of
        (Inl err, h1) \<Rightarrow> (Finished (Inl (Status Internal)), h1)
      | (Inr disks, h1) \<Rightarrow>
          if disks = [] then (Finished (Inl (Status NotFound)), h1)
          else case expand_check diskId newCbsSizeGB disks of
             None \<Rightarrow> (Calling, h1)
           | Some r \<Rightarrow> (Finished r, h1))"

definition expand_call :: "int \<Rightarrow> cbs_env \<Rightarrow> string \<Rightarrow> cbs_hist \<Rightarrow> phase \<times> cbs_hist" where
  "expand_call newCbsSizeGB env diskId h =
     (let h2 = ResizeDisk diskId (uint64 newCbsSizeGB) # h in
      case on_ResizeDisk env h diskId (uint64 newCbsSizeGB) of
        Some err \<Rightarrow> (Finished (Inl (Status Internal)), h2)
      | None \<Rightarrow> (Waiting, h2))"

definition expand_job :: "int \<Rightarrow> worker_job" where
  "expand_job newCbsSizeGB =
     \<lparr>w_look = expand_look newCbsSizeGB, w_call = expand_call newCbsSizeGB,
      w_tick = (\<lambda>env diskId. wait_tick env (\<lambda>st. st \<noteq> StatusExpanding) diskId []),
      w_late = (\<lambda>diskId h. (Inl (Status DeadlineExceeded), h))\<rparr>"

text \<open>Taken without a break, the steps are the workers of \<open>CbsAttach\<close>.\<close>

lemma attach_job_runs: "run_job (attach_job inst) = attachVolume inst"
  by (intro ext) (auto simp: run_job_def attach_job_def attach_look_def attach_call_def attachVolume_def Let_def wait_for_def
      simp del: attach_check.simps dest: attach_check_result split: prod.splits sum.splits option.splits list.splits)

lemma detach_job_runs: "run_job (detach_job inst) = detachVolume inst"
  by (intro ext) (auto simp: run_job_def detach_job_def detach_look_def detach_call_def detachVolume_def Let_def wait_for_def
      simp del: detach_check.simps split: prod.splits sum.splits option.splits list.splits)

lemma expand_job_runs: "run_job (expand_job n) = expandVolume n"
  by (intro ext) (auto simp: run_job_def expand_job_def expand_look_def expand_call_def expandVolume_def Let_def wait_for_def
      simp del: expand_check.simps split: prod.splits sum.splits option.splits list.splits)

section \<open>One worker against its own outside\<close>

text \<open>
  \<open>wstep job env d s h k s' h'\<close>: a step from phase \<open>s\<close> and history \<open>h\<close>; \<open>k\<close> is 1 when it served a tick.
  Waiting, the \<open>select\<close> may take either branch.
\<close>

inductive wstep :: "worker_job \<Rightarrow> cbs_env \<Rightarrow> string \<Rightarrow> phase \<Rightarrow> cbs_hist \<Rightarrow> nat \<Rightarrow> phase \<Rightarrow> cbs_hist \<Rightarrow> bool"
  for job env d where
  Look: "w_look job env d h = (s', h') \<Longrightarrow> wstep job env d Looking h 0 s' h'"
| Call: "w_call job env d h = (s', h') \<Longrightarrow> wstep job env d Calling h 0 s' h'"
| Again: "w_tick job env d h = (None, h') \<Longrightarrow> wstep job env d Waiting h 1 Waiting h'"
| Answer: "w_tick job env d h = (Some r, h') \<Longrightarrow> wstep job env d Waiting h 1 (Finished r) h'"
| Late: "w_late job d h = (r, h') \<Longrightarrow> wstep job env d Waiting h 0 (Finished r) h'"

inductive_cases LookingE: "wstep job env d Looking h k s' h'"
inductive_cases CallingE: "wstep job env d Calling h k s' h'"
inductive_cases WaitingE: "wstep job env d Waiting h k s' h'"
inductive_cases FinishedE: "wstep job env d (Finished r) h k s' h'"

text \<open>The phases a worker reaches, with the ticks it served.\<close>

inductive solo :: "worker_job \<Rightarrow> cbs_env \<Rightarrow> string \<Rightarrow> phase \<Rightarrow> cbs_hist \<Rightarrow> nat \<Rightarrow> bool" for job env d where
  Start: "solo job env d Looking [] 0"
| Step: "solo job env d s h n \<Longrightarrow> wstep job env d s h k s' h' \<Longrightarrow> solo job env d s' h' (n + k)"

text \<open>The outsides answer the same at a history; how long a wait lasts is not an answer.\<close>

definition same_answers :: "cbs_env \<Rightarrow> cbs_env \<Rightarrow> cbs_hist \<Rightarrow> bool" where
  "same_answers env env' h \<longleftrightarrow>
     on_DescribeDisks env h = on_DescribeDisks env' h \<and> on_AttachDisks env h = on_AttachDisks env' h \<and>
     on_DetachDisks env h = on_DetachDisks env' h \<and> on_ResizeDisk env h = on_ResizeDisk env' h"

lemma same_ticks: "same_answers (env\<lparr>ticks := t\<rparr>) env h"
  by (simp add: same_answers_def)

lemma same_answers_sym: "same_answers env env' h \<Longrightarrow> same_answers env' env h"
  by (simp add: same_answers_def)

text \<open>The waiting loop in terms of its ticks.\<close>

lemma after_ticks_Suc: "after_ticks probe (Suc n) w = snd (probe (after_ticks probe n w))"
  by (induction n arbitrary: w) simp_all

lemma poll_silent:
  "\<forall>k<n. fst (probe (after_ticks probe k w)) = None \<Longrightarrow> poll probe n w = (None, after_ticks probe n w)"
proof (induction n arbitrary: w)
  case (Suc n)
  from Suc.prems have "fst (probe w) = None" "\<forall>k<n. fst (probe (after_ticks probe k (snd (probe w)))) = None"
    using after_ticks.simps by (metis zero_less_Suc, metis Suc_less_eq)
  with Suc.IH [of "snd (probe w)"] show ?case by (auto split: prod.split option.split)
qed simp

lemma poll_served:
  "\<forall>k<n. fst (probe (after_ticks probe k w)) = None \<Longrightarrow> probe (after_ticks probe n w) = (Some r, w') \<Longrightarrow>
   poll probe (Suc n) w = (Some r, w')"
proof (induction n arbitrary: w)
  case (Suc n)
  from Suc.prems have "fst (probe w) = None" "\<forall>k<n. fst (probe (after_ticks probe k (snd (probe w)))) = None"
    using after_ticks.simps by (metis zero_less_Suc, metis Suc_less_eq)
  from Suc.prems(2) have "probe (after_ticks probe n (snd (probe w))) = (Some r, w')" by simp
  with \<open>\<forall>k<n. _ k\<close> have "poll probe (Suc n) (snd (probe w)) = (Some r, w')" by (rule Suc.IH)
  with \<open>fst (probe w) = None\<close> show ?case
    by (subst poll.simps) (auto split: prod.split option.split)
qed simp

text \<open>
  What the two views need of a worker: a step asks the outside only at the history it starts from,
  and makes a call, so that the history grows; the phases come in order.
\<close>

locale disk_worker =
  fixes job :: worker_job
  assumes look_local: "same_answers env env' h \<Longrightarrow> w_look job env d h = w_look job env' d h"
    and call_local: "same_answers env env' h \<Longrightarrow> w_call job env d h = w_call job env' d h"
    and tick_local: "same_answers env env' h \<Longrightarrow> w_tick job env d h = w_tick job env' d h"
    and look_grows: "w_look job env d h = (s, h') \<Longrightarrow> strict_suffix h h'"
    and call_grows: "w_call job env d h = (s, h') \<Longrightarrow> strict_suffix h h'"
    and tick_grows: "w_tick job env d h = (a, h') \<Longrightarrow> strict_suffix h h'"
    and late_grows: "w_late job d h = (r, h') \<Longrightarrow> suffix h h'"
    and look_phase: "w_look job env d h = (s, h') \<Longrightarrow> s = Calling \<or> (\<exists>r. s = Finished r)"
    and call_phase: "w_call job env d h = (s, h') \<Longrightarrow> s = Waiting \<or> (\<exists>r. s = Finished r)"
begin

lemma step_grows: "wstep job env d s h k s' h' \<Longrightarrow> suffix h h'"
  by (induction rule: wstep.induct)
    (rule suffix_order.less_imp_le, erule look_grows call_grows tick_grows | erule late_grows)+

text \<open>A step that does not take the deadline branch asks the outside, and grows the history.\<close>

lemma step_transfer:
  "wstep job env d s h k s' h' \<Longrightarrow> (h \<noteq> h' \<Longrightarrow> same_answers env env' h) \<Longrightarrow> wstep job env' d s h k s' h'"
proof (induction rule: wstep.induct)
  case (Look h s' h')
  then have "same_answers env env' h" using look_grows by (metis strict_suffix_def)
  with Look.hyps look_local show ?case by (metis wstep.Look)
next
  case (Call h s' h')
  then have "same_answers env env' h" using call_grows by (metis strict_suffix_def)
  with Call.hyps call_local show ?case by (metis wstep.Call)
next
  case (Again h h')
  then have "same_answers env env' h" using tick_grows by (metis strict_suffix_def)
  with Again.hyps tick_local show ?case by (metis wstep.Again)
next
  case (Answer h r h')
  then have "same_answers env env' h" using tick_grows by (metis strict_suffix_def)
  with Answer.hyps tick_local show ?case by (metis wstep.Answer)
qed (rule wstep.Late)

lemma solo_transfer:
  assumes "solo job env d s h n" "\<And>h0. strict_suffix h0 h \<Longrightarrow> same_answers env env' h0"
  shows "solo job env' d s h n"
  using assms
proof (induction rule: solo.induct)
  case (Step s h n k s' h')
  from step_grows [OF Step.hyps(2)] have g: "suffix h h'" .
  have "solo job env' d s h n"
    using Step.IH Step.prems g by (meson suffix_order.less_le_trans)
  moreover have "wstep job env' d s h k s' h'"
  proof (rule step_transfer [OF Step.hyps(2)])
    assume "h \<noteq> h'"
    with g show "same_answers env env' h" by (intro Step.prems) (simp add: suffix_order.less_le)
  qed
  ultimately show ?case by (rule solo.Step)
qed (rule solo.Start)

text \<open>Where a worker is says what it has done.\<close>

definition waited :: "cbs_env \<Rightarrow> string \<Rightarrow> nat \<Rightarrow> cbs_hist \<Rightarrow> bool" where
  "waited env d n h \<longleftrightarrow>
     (\<exists>h1 h2. w_look job env d [] = (Calling, h1) \<and> w_call job env d h1 = (Waiting, h2) \<and>
        h = after_ticks (w_tick job env d) n h2 \<and>
        (\<forall>k<n. fst (w_tick job env d (after_ticks (w_tick job env d) k h2)) = None))"

lemma other_ticks:
  "w_look job (env\<lparr>ticks := t\<rparr>) = w_look job env" "w_call job (env\<lparr>ticks := t\<rparr>) = w_call job env"
  "w_tick job (env\<lparr>ticks := t\<rparr>) = w_tick job env"
  by (intro ext look_local call_local tick_local same_ticks)+

lemma waited_step:
  assumes "waited env d n h" "w_tick job env d h = (None, h')"
  shows "waited env d (Suc n) h'"
proof -
  from assms(1) obtain h1 h2 where
    o: "w_look job env d [] = (Calling, h1)" "w_call job env d h1 = (Waiting, h2)"
      "h = after_ticks (w_tick job env d) n h2"
      "\<forall>k<n. fst (w_tick job env d (after_ticks (w_tick job env d) k h2)) = None"
    unfolding waited_def by blast
  have "h' = after_ticks (w_tick job env d) (Suc n) h2"
    unfolding after_ticks_Suc o(3) [symmetric] assms(2) by simp
  with o assms(2) show ?thesis
    unfolding waited_def by (metis fst_conv less_Suc_eq)
qed

lemma solo_phase:
  assumes "solo job env d s h n"
  shows "case s of
      Looking \<Rightarrow> h = [] \<and> n = 0
    | Calling \<Rightarrow> w_look job env d [] = (Calling, h) \<and> n = 0
    | Waiting \<Rightarrow> waited env d n h
    | Finished r \<Rightarrow> run_job job (env\<lparr>ticks := (\<lambda>_. n)\<rparr>) d [] = (r, h)"
  using assms
proof (induction rule: solo.induct)
  case (Step s h n k s' h')
  from Step.hyps(2) show ?case
  proof (cases rule: wstep.cases)
    case Look
    with Step.IH have l: "w_look job env d [] = (s', h')" "n = 0" by simp_all
    from look_phase [OF l(1)] l Look show ?thesis by (auto simp: run_job_def other_ticks)
  next
    case Call
    with Step.IH have l: "w_look job env d [] = (Calling, h)" "n = 0" "w_call job env d h = (s', h')" by simp_all
    from call_phase [OF l(3)] l Call show ?thesis
      by (auto simp: run_job_def other_ticks waited_def)
  next
    case Again
    with Step.IH show ?thesis by (simp add: waited_step)
  next
    case (Answer r)
    with Step.IH obtain h1 h2 where
      "w_look job env d [] = (Calling, h1)" "w_call job env d h1 = (Waiting, h2)"
      "h = after_ticks (w_tick job env d) n h2"
      "\<forall>k<n. fst (w_tick job env d (after_ticks (w_tick job env d) k h2)) = None"
      by (auto simp: waited_def)
    with Answer poll_served [of n "w_tick job env d" h2 r h'] show ?thesis
      by (simp add: run_job_def other_ticks del: poll.simps)
  next
    case (Late r)
    with Step.IH obtain h1 h2 where
      "w_look job env d [] = (Calling, h1)" "w_call job env d h1 = (Waiting, h2)"
      "h = after_ticks (w_tick job env d) n h2"
      "\<forall>k<n. fst (w_tick job env d (after_ticks (w_tick job env d) k h2)) = None"
      by (auto simp: waited_def)
    with Late poll_silent [of n "w_tick job env d" h2] show ?thesis
      by (simp add: run_job_def other_ticks)
  qed
qed simp

text \<open>And back: a worker that was run takes these steps.\<close>

lemma solo_ticks:
  assumes "solo job env d Waiting h n" "poll (w_tick job env d) m h = (a, h')"
  shows "case a of Some r \<Rightarrow> \<exists>n. solo job env d (Finished r) h' n | None \<Rightarrow> \<exists>n. solo job env d Waiting h' n"
  using assms
proof (induction m arbitrary: h n)
  case (Suc m)
  obtain b h1 where t: "w_tick job env d h = (b, h1)" by fastforce
  show ?case
  proof (cases b)
    case None
    with t solo.Step [OF Suc.prems(1) Again] have "solo job env d Waiting h1 (n + 1)" by simp
    from Suc.IH [OF this] Suc.prems(2) t None show ?thesis by simp
  next
    case (Some r)
    with t solo.Step [OF Suc.prems(1) Answer] Suc.prems(2) show ?thesis by auto
  qed
qed auto

lemma solo_run:
  assumes "run_job job env d [] = (r, h)"
  shows "\<exists>n. solo job env d (Finished r) h n"
proof -
  obtain s h1 where l: "w_look job env d [] = (s, h1)" by fastforce
  then have s1: "solo job env d s h1 0" using solo.Step [OF solo.Start wstep.Look] by simp
  from look_phase [OF l] show ?thesis
  proof
    assume s: "s = Calling"
    obtain s' h2 where c: "w_call job env d h1 = (s', h2)" by fastforce
    then have s2: "solo job env d s' h2 0" using solo.Step [OF s1 [unfolded s] wstep.Call] by simp
    from call_phase [OF c] show ?thesis
    proof
      assume s': "s' = Waiting"
      obtain a h3 where p: "poll (w_tick job env d) (ticks env h2) h2 = (a, h3)" by fastforce
      show ?thesis
      proof (cases a)
        case None
        obtain n where "solo job env d Waiting h3 n" using solo_ticks [OF s2 [unfolded s'] p] None by auto
        moreover have "w_late job d h3 = (r, h)" using assms l c s s' p None by (simp add: run_job_def)
        ultimately show ?thesis using solo.Step [OF _ wstep.Late] by blast
      next
        case (Some r')
        then show ?thesis using solo_ticks [OF s2 [unfolded s'] p] assms l c s s' p by (auto simp: run_job_def)
      qed
    next
      assume "\<exists>r. s' = Finished r"
      with s2 assms l c s show ?thesis by (auto simp: run_job_def)
    qed
  next
    assume "\<exists>r. s = Finished r"
    with s1 assms l show ?thesis by (auto simp: run_job_def)
  qed
qed

end

end
