(* ===== verification/CbsInterleave.thy ===== *)
theory CbsInterleave imports CbsWorkers CbsLiveness begin

text \<open>
  The goroutines of a handler as they run: one shared cloud, one shared history, and one worker after
  the other making its next call, in any order. \<open>CbsAttach\<close> runs every worker on its own, with an outside
  of its own; here the two views are shown to have the same outcomes, for \<open>attachVolume\<close>,
  \<open>detachVolume\<close> and \<open>expandVolume\<close> alike, and publishing is shown to have seen the one cloud attach.
\<close>

section \<open>The workers together\<close>

text \<open>The shared history says whose call each is; the cloud sees the calls only.\<close>

type_synonym shared_hist = "(nat \<times> cbs_event) list"

definition own :: "nat \<Rightarrow> shared_hist \<Rightarrow> cbs_hist" where
  "own i gh = map snd (filter (\<lambda>e. fst e = i) gh)"

text \<open>What the cloud answers at this moment.\<close>

definition now :: "cbs_env \<Rightarrow> cbs_hist \<Rightarrow> cbs_env" where
  "now cloud H = cloud\<lparr>on_DescribeDisks := (\<lambda>_. on_DescribeDisks cloud H), on_AttachDisks := (\<lambda>_. on_AttachDisks cloud H),
     on_DetachDisks := (\<lambda>_. on_DetachDisks cloud H), on_ResizeDisk := (\<lambda>_. on_ResizeDisk cloud H)\<rparr>"

inductive interleaved :: "worker_job \<Rightarrow> cbs_env \<Rightarrow> string list \<Rightarrow> phase list \<Rightarrow> shared_hist \<Rightarrow> bool"
  for job cloud ds where
  Begin: "interleaved job cloud ds (replicate (length ds) Looking) []"
| Turn: "interleaved job cloud ds ss gh \<Longrightarrow> i < length ds \<Longrightarrow>
    wstep job (now cloud (map snd gh)) (ds ! i) (ss ! i) (own i gh) k s' (es @ own i gh) \<Longrightarrow>
    interleaved job cloud ds (ss[i := s']) (map (Pair i) es @ gh)"

text \<open>The part of the shared history at which a worker with history \<open>h\<close> made its next call.\<close>

fun moment :: "nat \<Rightarrow> shared_hist \<Rightarrow> cbs_hist \<Rightarrow> shared_hist" where
  "moment i [] h = []"
| "moment i (e # gh) h = (if own i (e # gh) = h then e # gh else moment i gh h)"

text \<open>The cloud as one worker of a run saw it, and how many ticks its wait served.\<close>

definition view :: "cbs_env \<Rightarrow> shared_hist \<Rightarrow> nat \<Rightarrow> nat \<Rightarrow> cbs_env" where
  "view cloud gh n i = cloud\<lparr>on_DescribeDisks := (\<lambda>h. on_DescribeDisks cloud (map snd (moment i gh h))),
     on_AttachDisks := (\<lambda>h. on_AttachDisks cloud (map snd (moment i gh h))),
     on_DetachDisks := (\<lambda>h. on_DetachDisks cloud (map snd (moment i gh h))),
     on_ResizeDisk := (\<lambda>h. on_ResizeDisk cloud (map snd (moment i gh h))),
     ticks := (\<lambda>_. n)\<rparr>"

lemma own_simps [simp]:
  "own i [] = []"
  "own i (map (Pair i) es @ gh) = es @ own i gh"
  "j \<noteq> i \<Longrightarrow> own j (map (Pair i) es @ gh) = own j gh"
  by (induction es) (auto simp: own_def)

lemma own_Cons: "own i ((j, e) # gh) = (if j = i then e # own i gh else own i gh)"
  by (simp add: own_def)

lemma suffix_own: "suffix gh gh' \<Longrightarrow> suffix (own i gh) (own i gh')"
  by (auto simp: suffix_def own_def)

lemma moment_now [simp]: "moment i gh (own i gh) = gh"
  by (cases gh) simp_all

lemma moment_call:
  "es \<noteq> [] \<Longrightarrow> moment i (map (Pair i) es @ gh) (own i gh) = gh"
proof (induction es)
  case (Cons e es)
  then show ?case by (cases "es = []") (simp_all add: own_Cons)
qed simp

lemma moment_past:
  assumes "strict_suffix h (own i gh)"
  shows "moment i (es @ gh) h = moment i gh h"
proof (induction es)
  case (Cons e es)
  have "suffix (own i gh) (own i (e # es @ gh))" by (rule suffix_own) (simp add: suffix_def)
  with assms have "own i (e # es @ gh) \<noteq> h" by (metis suffix_order.less_le_not_le)
  with Cons show ?case by simp
qed simp

lemma view_now:
  "moment i gh' h = gh \<Longrightarrow> same_answers (now cloud (map snd gh)) (view cloud gh' n i) h"
  by (simp add: same_answers_def now_def view_def)

lemma view_past:
  "strict_suffix h (own i gh) \<Longrightarrow> same_answers (view cloud gh n i) (view cloud (es @ gh) n i) h"
  by (simp add: same_answers_def view_def moment_past)

context disk_worker begin

lemma interleaved_solo:
  assumes "interleaved job cloud ds ss gh"
  shows "length ss = length ds \<and>
    (\<forall>i<length ds. \<exists>n. solo job (view cloud gh 0 i) (ds ! i) (ss ! i) (own i gh) n)"
  using assms
proof (induction rule: interleaved.induct)
  case (Turn ss gh i k s' es)
  let ?gh = "map (Pair i) es @ gh"
  have past: "\<exists>n. solo job (view cloud ?gh 0 j) (ds ! j) (ss ! j) (own j gh) n" if "j < length ds" for j
    using Turn.IH that solo_transfer [OF _ view_past] by blast
  have "\<exists>n. solo job (view cloud ?gh 0 i) (ds ! i) s' (es @ own i gh) n"
  proof -
    from past [OF Turn.hyps(2)] obtain n where
      "solo job (view cloud ?gh 0 i) (ds ! i) (ss ! i) (own i gh) n" by blast
    moreover have "wstep job (view cloud ?gh 0 i) (ds ! i) (ss ! i) (own i gh) k s' (es @ own i gh)"
      by (rule step_transfer [OF Turn.hyps(3)]) (auto intro!: view_now moment_call)
    ultimately show ?thesis by (blast intro: solo.Step)
  qed
  moreover have "\<exists>n. solo job (view cloud ?gh 0 j) (ds ! j) (ss ! j) (own j ?gh) n"
    if "j < length ds" "j \<noteq> i" for j using past [OF that(1)] that(2) by simp
  ultimately have "\<exists>n. solo job (view cloud ?gh 0 j) (ds ! j) (ss[i := s'] ! j) (own j ?gh) n"
    if "j < length ds" for j using that Turn.IH by (cases "j = i") simp_all
  then show ?case using Turn.IH by simp
qed (auto intro: solo.Start)

text \<open>Every run of the workers together is a run of each on its own, with its view of the cloud.\<close>

lemma interleaved_run:
  assumes "interleaved job cloud ds (map Finished rs) gh" and i: "i < length ds"
  shows "\<exists>n. run_job job (view cloud gh n i) (ds ! i) [] = (rs ! i, own i gh)"
proof -
  from interleaved_solo [OF assms(1)] i obtain n where
    "solo job (view cloud gh 0 i) (ds ! i) (Finished (rs ! i)) (own i gh) n" and "length rs = length ds" by auto
  from solo_phase [OF this(1)] have "run_job job ((view cloud gh 0 i)\<lparr>ticks := (\<lambda>_. n)\<rparr>) (ds ! i) [] = (rs ! i, own i gh)"
    by simp
  then show ?thesis by (auto simp: view_def)
qed

end

subsection \<open>Every outcome is reached\<close>

text \<open>
  One worker after the other: the cloud tells from the length of the shared history whose turn it is,
  and answers as that worker's outside. \<open>turn_of hs n\<close> is the worker, and how far it is.
\<close>

fun turn_of :: "cbs_hist list \<Rightarrow> nat \<Rightarrow> nat \<times> nat" where
  "turn_of [] n = (0, n)"
| "turn_of (h # hs) n = (if n < length h then (0, n) else let (i, m) = turn_of hs (n - length h) in (Suc i, m))"

definition in_turn :: "(nat \<Rightarrow> cbs_env) \<Rightarrow> cbs_hist list \<Rightarrow> cbs_hist \<Rightarrow> cbs_env" where
  "in_turn wenv hs H = (let (i, m) = turn_of hs (length H) in now (wenv i) (take m H))"

definition one_by_one :: "(nat \<Rightarrow> cbs_env) \<Rightarrow> cbs_hist list \<Rightarrow> cbs_env" where
  "one_by_one wenv hs = (wenv 0)\<lparr>on_DescribeDisks := (\<lambda>H. on_DescribeDisks (in_turn wenv hs H) H),
     on_AttachDisks := (\<lambda>H. on_AttachDisks (in_turn wenv hs H) H),
     on_DetachDisks := (\<lambda>H. on_DetachDisks (in_turn wenv hs H) H),
     on_ResizeDisk := (\<lambda>H. on_ResizeDisk (in_turn wenv hs H) H)\<rparr>"

text \<open>The shared history after the first workers, each with all its calls.\<close>

definition in_order :: "cbs_hist list \<Rightarrow> shared_hist" where
  "in_order hs = concat (rev (map (\<lambda>i. map (Pair i) (hs ! i)) [0..<length hs]))"

lemma in_order_Nil [simp]: "in_order [] = []"
  by (simp add: in_order_def)

lemma in_order_snoc [simp]: "in_order (hs @ [h]) = map (Pair (length hs)) h @ in_order hs"
  by (auto simp: in_order_def nth_append intro!: arg_cong [of _ _ concat])

lemma length_in_order: "length (in_order hs) = sum_list (map length hs)"
  by (induction hs rule: rev_induct) simp_all

lemma own_in_order: "own i (in_order hs) = (if i < length hs then hs ! i else [])"
  by (induction hs rule: rev_induct) (auto simp: nth_append own_def filter_map comp_def)

lemma turn_of_offset:
  "i < length hs \<Longrightarrow> m < length (hs ! i) \<Longrightarrow> turn_of hs (sum_list (map length (take i hs)) + m) = (i, m)"
proof (induction hs arbitrary: i)
  case (Cons h hs)
  then show ?case by (cases i) (auto simp: Let_def)
qed simp

lemma one_by_one_answers:
  assumes "i < length hs" "strict_suffix h (hs ! i)"
  shows "same_answers (wenv i) (now (one_by_one wenv hs) (h @ map snd (in_order (take i hs)))) h"
proof -
  have "length h < length (hs ! i)" using assms(2) by (auto simp: strict_suffix_def suffix_def)
  from turn_of_offset [OF assms(1) this]
  have "turn_of hs (length (h @ map snd (in_order (take i hs)))) = (i, length h)"
    by (simp add: length_in_order add.commute)
  then show ?thesis by (simp add: same_answers_def now_def one_by_one_def in_turn_def)
qed

context disk_worker begin

text \<open>One worker's steps, while the others rest.\<close>

lemma interleaved_alone:
  assumes "solo job env (ds ! i) s h n" "interleaved job cloud ds ss gh" "i < length ds" "length ss = length ds"
    and "ss ! i = Looking" "own i gh = []"
    and "\<And>h0. strict_suffix h0 h \<Longrightarrow> same_answers env (now cloud (h0 @ map snd gh)) h0"
  shows "interleaved job cloud ds (ss[i := s]) (map (Pair i) h @ gh)"
  using assms
proof (induction rule: solo.induct)
  case Start
  then show ?case by (metis append_Nil list.map(1) list_update_id)
next
  case (Step s h n k s' h')
  from step_grows [OF Step.hyps(2)] obtain es where h': "h' = es @ h" by (auto simp: suffix_def)
  have "interleaved job cloud ds (ss[i := s]) (map (Pair i) h @ gh)"
    using Step.IH Step.prems h' by (metis suffixI suffix_order.less_le_trans)
  moreover have "wstep job (now cloud (map snd (map (Pair i) h @ gh))) (ds ! i) (ss[i := s] ! i) (own i (map (Pair i) h @ gh)) k s'
      (es @ own i (map (Pair i) h @ gh))"
  proof -
    have "wstep job (now cloud (h @ map snd gh)) (ds ! i) s h k s' (es @ h)"
    proof (rule step_transfer)
      show "wstep job env (ds ! i) s h k s' (es @ h)" using Step.hyps(2) h' by simp
    next
      assume "h \<noteq> es @ h"
      then show "same_answers env (now cloud (h @ map snd gh)) h"
        using h' by (intro Step.prems(6)) (auto simp: strict_suffix_def suffix_def)
    qed
    then show ?thesis using Step.prems by (simp add: comp_def)
  qed
  ultimately have "interleaved job cloud ds (ss[i := s, i := s']) (map (Pair i) es @ map (Pair i) h @ gh)"
    by (rule interleaved.Turn [OF _ Step.prems(2)])
  with h' show ?case by simp
qed

text \<open>All workers, one after the other.\<close>

lemma interleaved_one_by_one:
  assumes "length ws = length ds" "\<And>i. i < length ds \<Longrightarrow> run_job job (wenv i) (ds ! i) [] = ws ! i"
    and "m \<le> length ds"
  shows "interleaved job (one_by_one wenv (map snd ws)) ds
    (map (\<lambda>w. Finished (fst w)) (take m ws) @ replicate (length ds - m) Looking) (in_order (take m (map snd ws)))"
  using assms(3)
proof (induction m)
  case (Suc m)
  let ?cloud = "one_by_one wenv (map snd ws)"
  let ?ss = "map (\<lambda>w. Finished (fst w)) (take m ws) @ replicate (length ds - m) Looking"
  let ?gh = "in_order (take m (map snd ws))"
  from Suc.prems have m: "m < length ds" "m < length ws" using assms(1) by simp_all
  have "run_job job (wenv m) (ds ! m) [] = (fst (ws ! m), snd (ws ! m))" using assms(2) [OF m(1)] by simp
  from solo_run [OF this] obtain n where s: "solo job (wenv m) (ds ! m) (Finished (fst (ws ! m))) (snd (ws ! m)) n" by blast
  have "interleaved job ?cloud ds (?ss[m := Finished (fst (ws ! m))]) (map (Pair m) (snd (ws ! m)) @ ?gh)"
  proof (rule interleaved_alone [OF s _ m(1)])
    show "interleaved job ?cloud ds ?ss ?gh" using Suc by simp
    show "length ?ss = length ds" "?ss ! m = Looking" "own m ?gh = []"
      using m by (simp_all add: nth_append own_in_order)
  next
    fix h0 assume "strict_suffix h0 (snd (ws ! m))"
    then show "same_answers (wenv m) (now ?cloud (h0 @ map snd ?gh)) h0"
      using m by (intro one_by_one_answers) simp_all
  qed
  moreover have "?ss[m := Finished (fst (ws ! m))] =
      map (\<lambda>w. Finished (fst w)) (take (Suc m) ws) @ replicate (length ds - Suc m) Looking"
  proof -
    have "replicate (length ds - m) Looking = Looking # replicate (length ds - Suc m) Looking"
      using m(1) by (metis Suc_diff_Suc replicate_Suc)
    then show ?thesis using m by (simp add: take_Suc_conv_app_nth list_update_append)
  qed
  moreover have "map (Pair m) (snd (ws ! m)) @ ?gh = in_order (take (Suc m) (map snd ws))"
    using m by (simp add: take_Suc_conv_app_nth)
  ultimately show ?case by simp
qed (simp add: interleaved.Begin)

theorem runs_iff_interleaved:
  assumes "length ws = length ds"
  shows "(\<exists>wenv. run_workers wenv (run_job job) ds = ws) \<longleftrightarrow>
    (\<exists>cloud gh. interleaved job cloud ds (map (\<lambda>w. Finished (fst w)) ws) gh \<and>
       (\<forall>i<length ds. own i gh = snd (ws ! i)))"
proof
  assume "\<exists>wenv. run_workers wenv (run_job job) ds = ws"
  then obtain wenv where "run_workers wenv (run_job job) ds = ws" ..
  then have "\<And>i. i < length ds \<Longrightarrow> run_job job (wenv i) (ds ! i) [] = ws ! i" by auto
  from interleaved_one_by_one [OF assms this, of "length ds"]
  have "interleaved job (one_by_one wenv (map snd ws)) ds (map (\<lambda>w. Finished (fst w)) ws) (in_order (map snd ws))"
    using assms by simp
  moreover have "\<forall>i<length ds. own i (in_order (map snd ws)) = snd (ws ! i)"
    using assms by (simp add: own_in_order)
  ultimately show "\<exists>cloud gh. interleaved job cloud ds (map (\<lambda>w. Finished (fst w)) ws) gh \<and>
       (\<forall>i<length ds. own i gh = snd (ws ! i))" by blast
next
  assume "\<exists>cloud gh. interleaved job cloud ds (map (\<lambda>w. Finished (fst w)) ws) gh \<and>
       (\<forall>i<length ds. own i gh = snd (ws ! i))"
  then obtain cloud gh where r: "interleaved job cloud ds (map Finished (map fst ws)) gh"
    and o: "\<forall>i<length ds. own i gh = snd (ws ! i)" by (auto simp: comp_def)
  define ns where "ns i = (SOME n. run_job job (view cloud gh n i) (ds ! i) [] = (map fst ws ! i, own i gh))" for i
  have "run_job job (view cloud gh (ns i) i) (ds ! i) [] = ws ! i" if "i < length ds" for i
    using someI_ex [OF interleaved_run [OF r that]] that o assms by (simp add: ns_def)
  then have "run_workers (\<lambda>i. view cloud gh (ns i) i) (run_job job) ds = ws"
    using assms by (intro nth_equalityI) simp_all
  then show "\<exists>wenv. run_workers wenv (run_job job) ds = ws" by blast
qed

text \<open>No worker ever blocks: one that has not answered can make its next step.\<close>

lemma can_step: "(\<And>r. s \<noteq> Finished r) \<Longrightarrow> \<exists>k s' h'. wstep job env d s h k s' h'"
proof (cases s)
  case Looking
  then show ?thesis by (cases "w_look job env d h") (blast intro: wstep.Look)
next
  case Calling
  then show ?thesis by (cases "w_call job env d h") (blast intro: wstep.Call)
next
  case Waiting
  then show ?thesis by (cases "w_late job d h") (blast intro: wstep.Late)
qed blast

lemma no_deadlock:
  assumes "interleaved job cloud ds ss gh" "i < length ds" "\<And>r. ss ! i \<noteq> Finished r"
  shows "\<exists>s' es. interleaved job cloud ds (ss[i := s']) (map (Pair i) es @ gh)"
proof -
  from can_step [OF assms(3)] obtain k s' h' where
    w: "wstep job (now cloud (map snd gh)) (ds ! i) (ss ! i) (own i gh) k s' h'" by blast
  from step_grows [OF w] obtain es where "h' = es @ own i gh" by (auto simp: suffix_def)
  with w interleaved.Turn [OF assms(1,2)] show ?thesis by blast
qed

end

section \<open>The three workers\<close>

text \<open>Each of them asks at the history it is at, and its history grows.\<close>

lemma describeDisks_local:
  "same_answers env env' h \<Longrightarrow> describeDisks env ids inst act h = describeDisks env' ids inst act h"
  by (simp add: describeDisks_def same_answers_def)

lemma wait_tick_local:
  "same_answers env env' h \<Longrightarrow> wait_tick env P d inst h = wait_tick env' P d inst h"
  by (simp add: wait_tick_def describeDisks_local [of env env'])

lemma strict_suffixI_Cons: "suffix (x # h) h' \<Longrightarrow> strict_suffix h h'"
  by (auto simp: strict_suffix_def suffix_def)

lemmas describeDisks_grows = strict_suffixI_Cons [OF describeDisks_hist]
lemmas wait_tick_grows = strict_suffixI_Cons [OF wait_tick_hist]

lemma strict_suffix_more [hist_intro]:
  "strict_suffix h h' \<Longrightarrow> strict_suffix h (operation_error p d i c h')"
  "strict_suffix h (yun_ok a d (e # h))" "strict_suffix h (yun_err a d err (e # h))" "strict_suffix h (e # h)"
  by (auto simp: operation_error_def yun_ok_def yun_err_def strict_suffix_def suffix_def)

interpretation attaching: disk_worker "attach_job inst" for inst
proof
  fix env env' :: cbs_env and h d
  assume e: "same_answers env env' h"
  show "w_look (attach_job inst) env d h = w_look (attach_job inst) env' d h"
    by (simp add: attach_job_def attach_look_def describeDisks_local [OF e])
  show "w_call (attach_job inst) env d h = w_call (attach_job inst) env' d h"
    using e by (simp add: attach_job_def attach_call_def same_answers_def)
  show "w_tick (attach_job inst) env d h = w_tick (attach_job inst) env' d h"
    by (simp add: attach_job_def wait_tick_local [OF e])
qed (auto simp: attach_job_def attach_look_def attach_call_def Let_def
    intro!: hist_intro intro: describeDisks_grows wait_tick_grows split: prod.splits sum.splits option.splits if_splits)

interpretation detaching: disk_worker "detach_job inst" for inst
proof
  fix env env' :: cbs_env and h d
  assume e: "same_answers env env' h"
  show "w_look (detach_job inst) env d h = w_look (detach_job inst) env' d h"
    by (simp add: detach_job_def detach_look_def describeDisks_local [OF e])
  show "w_call (detach_job inst) env d h = w_call (detach_job inst) env' d h"
    using e by (simp add: detach_job_def detach_call_def same_answers_def)
  show "w_tick (detach_job inst) env d h = w_tick (detach_job inst) env' d h"
    by (simp add: detach_job_def wait_tick_local [OF e])
qed (auto simp: detach_job_def detach_look_def detach_call_def Let_def
    intro!: hist_intro intro: describeDisks_grows wait_tick_grows split: prod.splits sum.splits option.splits if_splits)

interpretation expanding: disk_worker "expand_job n" for n
proof
  fix env env' :: cbs_env and h d
  assume e: "same_answers env env' h"
  show "w_look (expand_job n) env d h = w_look (expand_job n) env' d h"
    by (simp add: expand_job_def expand_look_def describeDisks_local [OF e])
  show "w_call (expand_job n) env d h = w_call (expand_job n) env' d h"
    using e by (simp add: expand_job_def expand_call_def same_answers_def)
  show "w_tick (expand_job n) env d h = w_tick (expand_job n) env' d h"
    by (simp add: expand_job_def wait_tick_local [OF e])
qed (auto simp: expand_job_def expand_look_def expand_call_def Let_def
    intro!: hist_intro intro: describeDisks_grows wait_tick_grows split: prod.splits sum.splits option.splits if_splits)

section \<open>What the handlers guarantee in any interleaving\<close>

text \<open>
  The two views of publishing agree: the handler of a supported node can end with these results and
  histories of its workers, each run against an outside of its own, exactly if some cloud and some
  interleaving of the workers' calls to it ends with them.
\<close>

theorem publish_interleaving:
  assumes "pub_VolumeId req \<noteq> []" "supported_node (pub_NodeId req)" "pub_VolumeCapability req \<noteq> None"
    and "length ws = length (diskIdList (pub_VolumeId req))"
  shows "(\<exists>wenv. ControllerPublishVolume wenv req = (gather ws, ws)) \<longleftrightarrow>
    (\<exists>cloud gh. interleaved (attach_job (pub_NodeId req)) cloud (diskIdList (pub_VolumeId req))
         (map (\<lambda>w. Finished (fst w)) ws) gh \<and>
       (\<forall>i<length ws. own i gh = snd (ws ! i)))"
proof -
  have "pub_NodeId req \<noteq> []" using assms(2) by (auto simp: supported_node_def HasPrefix_def)
  with assms(1-3) have "ControllerPublishVolume wenv req = (gather ws, ws) \<longleftrightarrow>
      run_workers wenv (attachVolume (pub_NodeId req)) (diskIdList (pub_VolumeId req)) = ws" for wenv
    by (auto simp: ControllerPublishVolume_def Let_def)
  with attaching.runs_iff_interleaved [OF assms(4)] assms(4) show ?thesis by (simp add: attach_job_runs)
qed

theorem publish_interleaving_witness:
  "\<exists>cloud gh. interleaved (attach_job ''ins-12345678'') cloud [''disk-a'']
       (map (\<lambda>w. Finished (fst w)) [attachVolume ''ins-12345678'' (slow_cloud ''ins-12345678'' ''disk-a'') ''disk-a'' []]) gh \<and>
     (\<forall>i<length [attachVolume ''ins-12345678'' (slow_cloud ''ins-12345678'' ''disk-a'') ''disk-a'' []].
        own i gh = snd ([attachVolume ''ins-12345678'' (slow_cloud ''ins-12345678'' ''disk-a'') ''disk-a'' []] ! i))"
proof -
  let ?req = "\<lparr>pub_VolumeId = ''disk-a'', pub_NodeId = ''ins-12345678'', pub_VolumeCapability = Some ()\<rparr>"
  let ?ws = "[attachVolume ''ins-12345678'' (slow_cloud ''ins-12345678'' ''disk-a'') ''disk-a'' []]"
  have d: "diskIdList ''disk-a'' = [''disk-a'']" by code_simp
  have n: "supported_node ''ins-12345678''" by code_simp
  have run: "ControllerPublishVolume (\<lambda>i. slow_cloud ''ins-12345678'' ''disk-a'') ?req = (gather ?ws, ?ws)"
    by (simp add: ControllerPublishVolume_def d n run_workers_def Let_def)
  have l: "length ?ws = length (diskIdList (pub_VolumeId ?req))" by (simp add: d)
  have "\<exists>cloud gh. interleaved (attach_job (pub_NodeId ?req)) cloud (diskIdList (pub_VolumeId ?req))
         (map (\<lambda>w. Finished (fst w)) ?ws) gh \<and> (\<forall>i<length ?ws. own i gh = snd (?ws ! i))"
    by (rule iffD1 [OF publish_interleaving [of ?req ?ws, OF _ _ _ l] exI [of _ "\<lambda>i. slow_cloud ''ins-12345678'' ''disk-a''"]])
      (use n run in simp_all)
  then show ?thesis by (simp add: d)
qed





end
