(* ===== verification/CbsAccount.thy ===== *)
theory CbsAccount imports CbsInterleave begin

text \<open>
  The disks of an account as a specification of the controller. The reference cloud keeps, for every disk,
  its size, the instance it is attached to, and how many listings will still show the change that is under
  way. What the goroutines of a handler do to it, in any interleaving, is an operation on the disks one by
  one: attaching, detaching or resizing each disk of the volume that can be, and nothing else.
\<close>

section \<open>The reference cloud\<close>

record cloud_disk =
  d_size :: nat
  d_owner :: "string option"
  d_busy :: "(string \<times> nat) option"   \<comment> \<open>the state that is shown, and for how many listings more\<close>

type_synonym account = "string \<Rightarrow> cloud_disk option"

definition busy :: "string \<Rightarrow> nat \<Rightarrow> (string \<times> nat) option" where
  "busy st k = (if k = 0 then None else Some (st, k))"

definition state_of :: "cloud_disk \<Rightarrow> string" where
  "state_of x =
     (case d_busy x of
        Some (st, _) \<Rightarrow> st
      | None \<Rightarrow> if d_owner x = None then StatusUnattached else StatusAttached)"

definition shown :: "string \<Rightarrow> cloud_disk \<Rightarrow> Disk" where
  "shown d x = \<lparr>DiskId = Some d, DiskSize = Some (d_size x), DiskState = Some (state_of x), InstanceId = d_owner x\<rparr>"

text \<open>A listing without ids is one of all disks, \<open>u\<close>.\<close>

definition listing :: "string list \<Rightarrow> account \<Rightarrow> string list \<Rightarrow> Disk list" where
  "listing u a ids =
     concat (map (\<lambda>d. case a d of None \<Rightarrow> [] | Some x \<Rightarrow> [shown d x]) (if ids = [] then u else ids))"

text \<open>What a call needs of a disk.\<close>

definition attachable :: "cloud_disk option \<Rightarrow> bool" where
  "attachable x = (case x of None \<Rightarrow> False | Some y \<Rightarrow> d_busy y = None \<and> d_owner y = None)"

lemma attachableE:
  assumes "attachable x"
  obtains y where "x = Some y" "d_busy y = None" "d_owner y = None"
  using assms by (auto simp: attachable_def split: option.splits)

definition detachable :: "cloud_disk option \<Rightarrow> bool" where
  "detachable x = (case x of None \<Rightarrow> False | Some y \<Rightarrow> d_busy y = None \<and> d_owner y \<noteq> None)"

definition resizable :: "nat \<Rightarrow> cloud_disk option \<Rightarrow> bool" where
  "resizable sz x = (case x of None \<Rightarrow> False | Some y \<Rightarrow> d_busy y = None \<and> d_size y \<le> sz)"

text \<open>What a call does: a change is shown by the next \<open>k\<close> listings; a call that is refused does nothing.\<close>

definition listed_once :: "cloud_disk \<Rightarrow> cloud_disk" where
  "listed_once x = x\<lparr>d_busy := (case d_busy x of None \<Rightarrow> None | Some (st, n) \<Rightarrow> busy st (n - 1))\<rparr>"

definition attached_to :: "nat \<Rightarrow> string \<Rightarrow> cloud_disk \<Rightarrow> cloud_disk" where
  "attached_to k inst x = x\<lparr>d_owner := Some inst, d_busy := busy ''ATTACHING'' k\<rparr>"

definition let_go :: "nat \<Rightarrow> cloud_disk \<Rightarrow> cloud_disk" where
  "let_go k x = x\<lparr>d_owner := None, d_busy := busy ''DETACHING'' k\<rparr>"

definition grown_to :: "nat \<Rightarrow> nat \<Rightarrow> cloud_disk \<Rightarrow> cloud_disk" where
  "grown_to k sz x = x\<lparr>d_size := sz, d_busy := busy StatusExpanding k\<rparr>"

definition change :: "(cloud_disk option \<Rightarrow> bool) \<Rightarrow> (cloud_disk \<Rightarrow> cloud_disk) \<Rightarrow> string list \<Rightarrow> account \<Rightarrow> account" where
  "change ok f ids a = (if list_all (\<lambda>d. ok (a d)) ids then (\<lambda>d. if d \<in> set ids then map_option f (a d) else a d) else a)"

fun cloud_step :: "nat \<Rightarrow> cbs_event \<Rightarrow> account \<Rightarrow> account" where
  "cloud_step k (DescribeDisks ids) a = (\<lambda>d. if ids = [] \<or> d \<in> set ids then map_option listed_once (a d) else a d)"
| "cloud_step k (AttachDisks ids inst ty) a = change attachable (attached_to k inst) ids a"
| "cloud_step k (DetachDisks ids ty) a = change detachable (let_go k) ids a"
| "cloud_step k (ResizeDisk d sz) a = change (resizable sz) (grown_to k sz) [d] a"
| "cloud_step k (TerminateDisks ids) a =
     (if list_all (\<lambda>d. attachable (a d)) ids then (\<lambda>d. if d \<in> set ids then None else a d) else a)"
| "cloud_step k _ a = a"

definition account_after :: "nat \<Rightarrow> account \<Rightarrow> cbs_hist \<Rightarrow> account" where
  "account_after k a h = foldr (cloud_step k) h a"

lemma account_after_simps [simp]:
  "account_after k a [] = a"
  "account_after k a (e # h) = cloud_step k e (account_after k a h)"
  "account_after k a (es @ h) = account_after k (account_after k a h) es"
  by (simp_all add: account_after_def)

definition refusal :: "bool \<Rightarrow> ext_err option" where
  "refusal ok = (if ok then None else Some (ExtErr (ESdk ''InvalidParameter'') []))"

text \<open>The other calls are those of another cloud.\<close>

definition account_cloud_from :: "nat \<Rightarrow> string list \<Rightarrow> account \<Rightarrow> cbs_env \<Rightarrow> cbs_env" where
  "account_cloud_from k u a other =
     other\<lparr>on_DescribeDisks := (\<lambda>h ids. Inr (listing u (account_after k a h) ids)),
       on_AttachDisks := (\<lambda>h d inst. refusal (attachable (account_after k a h d))),
       on_DetachDisks := (\<lambda>h d. refusal (detachable (account_after k a h d))),
       on_ResizeDisk := (\<lambda>h d sz. refusal (resizable sz (account_after k a h d))),
       on_TerminateDisks := (\<lambda>h ids. refusal (list_all (\<lambda>d. attachable (account_after k a h d)) ids))\<rparr>"

section \<open>Interleavings, one disk at a time\<close>

text \<open>What the workers of a handler leave behind, when each step of a worker only touches its own disk.\<close>

lemma interleaved_by_disk:
  assumes "interleaved job cloud ds ss gh" "distinct ds"
    and start: "\<And>d. d \<in> set ds \<Longrightarrow> P d Looking [] (a d)"
    and step: "\<And>H h d s s' es n. wstep job (now cloud H) d s h n s' (es @ h) \<Longrightarrow> P d s h (account_after k a H d) \<Longrightarrow>
      P d s' (es @ h) (account_after k a (es @ H) d) \<and> (\<forall>e. e \<noteq> d \<longrightarrow> account_after k a (es @ H) e = account_after k a H e)"
  shows "length ss = length ds \<and> (\<forall>i<length ds. P (ds ! i) (ss ! i) (own i gh) (account_after k a (map snd gh) (ds ! i))) \<and>
    (\<forall>e. e \<notin> set ds \<longrightarrow> account_after k a (map snd gh) e = a e)"
  using assms(1)
proof (induction rule: interleaved.induct)
  case (Turn ss gh i n s' es)
  have H: "map snd (map (Pair i) es @ gh) = es @ map snd gh" by (simp add: comp_def)
  from step [OF Turn.hyps(3)] Turn.IH Turn.hyps(2)
  have s: "P (ds ! i) s' (es @ own i gh) (account_after k a (es @ map snd gh) (ds ! i))"
    and o: "\<And>e. e \<noteq> ds ! i \<Longrightarrow> account_after k a (es @ map snd gh) e = account_after k a (map snd gh) e" by blast+
  have "P (ds ! j) (ss[i := s'] ! j) (own j (map (Pair i) es @ gh)) (account_after k a (es @ map snd gh) (ds ! j))" if "j < length ds" for j
  proof (cases "j = i")
    case False
    with that Turn.hyps(2) assms(2) have "ds ! j \<noteq> ds ! i" by (simp add: nth_eq_iff_index_eq)
    with o [OF this] False Turn.IH that show ?thesis by simp
  qed (use s Turn.IH Turn.hyps(2) in simp)
  moreover have "account_after k a (es @ map snd gh) e = a e" if "e \<notin> set ds" for e
    using o [of e] Turn.IH Turn.hyps(2) that by (metis nth_mem)
  ultimately show ?case unfolding H using Turn.IH by simp
qed (simp add: start)

section \<open>The steps on the reference cloud\<close>

lemma prepended:
  "h = es @ h \<longleftrightarrow> es = []"
  "e1 # h = es @ h \<longleftrightarrow> es = [e1]"
  "e1 # e2 # e3 # h = es @ h \<longleftrightarrow> es = [e1, e2, e3]"
  "e1 # e2 # e3 # e4 # h = es @ h \<longleftrightarrow> es = [e1, e2, e3, e4]"
  using append_same_eq [of "[]" h es] append_same_eq [of "[e1]" h es] append_same_eq [of "[e1, e2, e3]" h es]
    append_same_eq [of "[e1, e2, e3, e4]" h es] by auto

lemmas metric_events = yun_ok_def yun_err_def operation_error_def pvc_request_def prepended

lemma listing_one: "listing u a [d] = (case a d of None \<Rightarrow> [] | Some x \<Rightarrow> [shown d x])"
  by (simp add: listing_def)

lemma account_describe:
  "describeDisks (now (account_cloud_from k u a c) H) [d] inst act h =
     (Inr (case account_after k a H d of None \<Rightarrow> [] | Some x \<Rightarrow> [shown d x]), yun_ok ''DescribeDisks'' [] (DescribeDisks [d] # h))"
  by (simp add: describeDisks_Inr now_def account_cloud_from_def listing_one)

lemma account_tick:
  "wait_tick (now (account_cloud_from k u a c) H) P d inst h =
     (case account_after k a H d of None \<Rightarrow> None | Some x \<Rightarrow> if P (state_of x) then Some (Inr ()) else None,
      yun_ok ''DescribeDisks'' [] (DescribeDisks [d] # h))"
  by (simp add: wait_tick_def account_describe shown_def split: option.split)

lemma account_calls:
  "on_AttachDisks (now (account_cloud_from k u a c) H) h d inst = refusal (attachable (account_after k a H d))"
  "on_DetachDisks (now (account_cloud_from k u a c) H) h d = refusal (detachable (account_after k a H d))"
  "on_ResizeDisk (now (account_cloud_from k u a c) H) h d sz = refusal (resizable sz (account_after k a H d))"
  by (simp_all add: now_def account_cloud_from_def)

lemma listed_busy: "listed_once (x\<lparr>d_busy := busy st n\<rparr>) = x\<lparr>d_busy := busy st (n - 1)\<rparr>"
  by (simp add: listed_once_def busy_def)

lemma listed_idle: "d_busy x = None \<Longrightarrow> listed_once x = x"
  by (simp add: listed_once_def)

text \<open>
  Where a worker is says what it has done to its disk, which was \<open>x0\<close> and not busy at the start:
  nothing before its call; the change after it, to be shown by some listings more; at the end the outcome.
\<close>

fun disk_at ::
  "(cloud_disk option \<Rightarrow> bool) \<Rightarrow> (nat \<Rightarrow> cloud_disk \<Rightarrow> cloud_disk) \<Rightarrow> (go_error + unit \<Rightarrow> cloud_disk option \<Rightarrow> bool) \<Rightarrow>
   cloud_disk option \<Rightarrow> phase \<Rightarrow> cloud_disk option \<Rightarrow> bool" where
  "disk_at ok f out x0 Looking x = (x = x0)"
| "disk_at ok f out x0 Calling x = (x = x0 \<and> ok x0)"
| "disk_at ok f out x0 Waiting x = (ok x0 \<and> (\<exists>n. x = map_option (f n) x0))"
| "disk_at ok f out x0 (Finished r) x = out r x"

definition attach_outcome :: "string \<Rightarrow> cloud_disk option \<Rightarrow> go_error + unit \<Rightarrow> cloud_disk option \<Rightarrow> bool" where
  "attach_outcome inst x0 r x =
     (case x0 of
        None \<Rightarrow> r = Inl (Status NotFound) \<and> x = None
      | Some y \<Rightarrow>
          (case d_owner y of
             Some m \<Rightarrow> r = (if m = inst then Inr () else Inl (Status FailedPrecondition)) \<and> x = x0
           | None \<Rightarrow>
               r = Inr () \<and> x = Some (y\<lparr>d_owner := Some inst\<rparr>) \<or>
               r = Inl (Status DeadlineExceeded) \<and> (\<exists>n. x = Some (attached_to n inst y))))"

definition detach_outcome :: "string \<Rightarrow> cloud_disk option \<Rightarrow> go_error + unit \<Rightarrow> cloud_disk option \<Rightarrow> bool" where
  "detach_outcome inst x0 r x =
     (case x0 of
        None \<Rightarrow> r = Inr () \<and> x = None
      | Some y \<Rightarrow>
          if d_owner y \<noteq> Some inst then r = Inr () \<and> x = x0
          else r = Inr () \<and> x = Some (y\<lparr>d_owner := None\<rparr>) \<or>
            r = Inl (Status DeadlineExceeded) \<and> (\<exists>n. x = Some (let_go n y)))"

definition resize_outcome :: "nat \<Rightarrow> cloud_disk option \<Rightarrow> go_error + unit \<Rightarrow> cloud_disk option \<Rightarrow> bool" where
  "resize_outcome sz x0 r x =
     (case x0 of
        None \<Rightarrow> r = Inl (Status NotFound) \<and> x = None
      | Some y \<Rightarrow>
          if sz \<le> d_size y then r = Inr () \<and> x = x0
          else r = Inr () \<and> x = Some (y\<lparr>d_size := sz\<rparr>) \<or>
            r = Inl (Status DeadlineExceeded) \<and> (\<exists>n. x = Some (grown_to n sz y)))"

definition idle :: "cloud_disk option \<Rightarrow> bool" where
  "idle x = (case x of None \<Rightarrow> True | Some y \<Rightarrow> d_busy y = None)"

text \<open>A change under way: the listings that show it, and the disk once it is done.\<close>

lemma no_longer_busy: "d_busy y = None \<Longrightarrow> y\<lparr>d_busy := None\<rparr> = y"
  by (cases y) simp

lemma change_simps:
  "listed_once (attached_to n inst y) = attached_to (n - 1) inst y"
  "listed_once (let_go n y) = let_go (n - 1) y"
  "listed_once (grown_to n sz y) = grown_to (n - 1) sz y"
  "state_of (attached_to n inst y) = (if n = 0 then StatusAttached else ''ATTACHING'')"
  "state_of (let_go n y) = (if n = 0 then StatusUnattached else ''DETACHING'')"
  "state_of (grown_to n sz y) = StatusExpanding \<longleftrightarrow> n \<noteq> 0"
  "d_busy y = None \<Longrightarrow> attached_to 0 inst y = y\<lparr>d_owner := Some inst\<rparr>"
  "d_busy y = None \<Longrightarrow> let_go 0 y = y\<lparr>d_owner := None\<rparr>"
  "d_busy y = None \<Longrightarrow> grown_to 0 sz y = y\<lparr>d_size := sz\<rparr>"
  by (auto simp: attached_to_def let_go_def grown_to_def listed_once_def busy_def state_of_def no_longer_busy)

lemma state_of_idle: "d_busy y = None \<Longrightarrow> state_of y = (if d_owner y = None then StatusUnattached else StatusAttached)"
  by (simp add: state_of_def)

lemmas outcome_defs = idle_def listed_idle shown_def state_of_idle attachable_def detachable_def resizable_def
  attach_outcome_def detach_outcome_def resize_outcome_def

lemmas step_simps = account_describe account_tick account_calls metric_events refusal_def change_def Let_def change_simps

lemma attach_step:
  assumes "wstep (attach_job inst) (now (account_cloud_from k u a c) H) d s h t s' (es @ h)" "idle x0"
    and "disk_at attachable (\<lambda>n. attached_to n inst) (attach_outcome inst x0) x0 s (account_after k a H d)"
  shows "disk_at attachable (\<lambda>n. attached_to n inst) (attach_outcome inst x0) x0 s' (account_after k a (es @ H) d) \<and>
    (\<forall>e. e \<noteq> d \<longrightarrow> account_after k a (es @ H) e = account_after k a H e)"
  using assms
  by (cases rule: wstep.cases)
    (auto simp: attach_job_def attach_look_def attach_call_def step_simps outcome_defs split: option.splits if_splits)

lemma detach_step:
  assumes "wstep (detach_job inst) (now (account_cloud_from k u a c) H) d s h t s' (es @ h)" "idle x0"
    and "disk_at (\<lambda>x. detachable x \<and> (\<forall>y. x = Some y \<longrightarrow> d_owner y = Some inst)) let_go (detach_outcome inst x0) x0 s (account_after k a H d)"
  shows "disk_at (\<lambda>x. detachable x \<and> (\<forall>y. x = Some y \<longrightarrow> d_owner y = Some inst)) let_go (detach_outcome inst x0) x0 s' (account_after k a (es @ H) d) \<and>
    (\<forall>e. e \<noteq> d \<longrightarrow> account_after k a (es @ H) e = account_after k a H e)"
  using assms
  by (cases rule: wstep.cases)
    (auto simp: detach_job_def detach_look_def detach_call_def step_simps outcome_defs split: option.splits if_splits)

lemma expand_step:
  assumes "wstep (expand_job g) (now (account_cloud_from k u a c) H) d s h t s' (es @ h)" "idle x0"
    and "disk_at (\<lambda>x. \<exists>y. x = Some y \<and> d_size y < uint64 g) (\<lambda>n. grown_to n (uint64 g)) (resize_outcome (uint64 g) x0) x0 s (account_after k a H d)"
  shows "disk_at (\<lambda>x. \<exists>y. x = Some y \<and> d_size y < uint64 g) (\<lambda>n. grown_to n (uint64 g)) (resize_outcome (uint64 g) x0) x0 s' (account_after k a (es @ H) d) \<and>
    (\<forall>e. e \<noteq> d \<longrightarrow> account_after k a (es @ H) e = account_after k a H e)"
  using assms
  by (cases rule: wstep.cases)
    (auto simp: expand_job_def expand_look_def expand_call_def step_simps outcome_defs split: option.splits if_splits)

section \<open>The handlers on the account\<close>

text \<open>Every disk of a volume has its outcome, and the other disks of the account are as they were.\<close>

definition outcomes ::
  "(cloud_disk option \<Rightarrow> go_error + unit \<Rightarrow> cloud_disk option \<Rightarrow> bool) \<Rightarrow> string list \<Rightarrow> account \<Rightarrow> (go_error + unit) list \<Rightarrow>
   account \<Rightarrow> bool" where
  "outcomes out ds a rs a' \<longleftrightarrow>
     length rs = length ds \<and> (\<forall>i<length ds. out (a (ds ! i)) (rs ! i) (a' (ds ! i))) \<and> (\<forall>e. e \<notin> set ds \<longrightarrow> a' e = a e)"

lemma interleaved_outcomes:
  assumes "interleaved job (account_cloud_from k u a c) ds (map Finished rs) gh" "distinct ds" "\<forall>d\<in>set ds. idle (a d)"
    and step: "\<And>x0 H h d s s' es t. wstep job (now (account_cloud_from k u a c) H) d s h t s' (es @ h) \<Longrightarrow> idle x0 \<Longrightarrow>
      disk_at ok f (out x0) x0 s (account_after k a H d) \<Longrightarrow>
      disk_at ok f (out x0) x0 s' (account_after k a (es @ H) d) \<and>
      (\<forall>e. e \<noteq> d \<longrightarrow> account_after k a (es @ H) e = account_after k a H e)"
  shows "outcomes out ds a rs (account_after k a (map snd gh))"
proof -
  let ?Q = "\<lambda>d s h x. idle (a d) \<and> disk_at ok f (out (a d)) (a d) s x"
  have "length (map Finished rs) = length ds \<and> (\<forall>i<length ds. ?Q (ds ! i) (map Finished rs ! i) (own i gh) (account_after k a (map snd gh) (ds ! i))) \<and>
    (\<forall>e. e \<notin> set ds \<longrightarrow> account_after k a (map snd gh) e = a e)"
  proof (rule interleaved_by_disk [OF assms(1,2), where P = ?Q])
    show "?Q d Looking [] (a d)" if "d \<in> set ds" for d using that assms(3) by simp
  next
    fix H h d s s' es n
    assume "wstep job (now (account_cloud_from k u a c) H) d s h n s' (es @ h)" "?Q d s h (account_after k a H d)"
    with step [of H d s h n s' es "a d"]
    show "?Q d s' (es @ h) (account_after k a (es @ H) d) \<and> (\<forall>e. e \<noteq> d \<longrightarrow> account_after k a (es @ H) e = account_after k a H e)"
      by blast
  qed
  then show ?thesis by (auto simp: outcomes_def)
qed

lemma attach_outcomes:
  assumes "interleaved (attach_job inst) (account_cloud_from k u a c) ds (map Finished rs) gh" "distinct ds" "\<forall>d\<in>set ds. idle (a d)"
  shows "outcomes (attach_outcome inst) ds a rs (account_after k a (map snd gh))"
  by (rule interleaved_outcomes [OF assms]) (rule attach_step)

lemma detach_outcomes:
  assumes "interleaved (detach_job inst) (account_cloud_from k u a c) ds (map Finished rs) gh" "distinct ds" "\<forall>d\<in>set ds. idle (a d)"
  shows "outcomes (detach_outcome inst) ds a rs (account_after k a (map snd gh))"
  by (rule interleaved_outcomes [OF assms]) (rule detach_step)

lemma resize_outcomes:
  assumes "interleaved (expand_job g) (account_cloud_from k u a c) ds (map Finished rs) gh" "distinct ds" "\<forall>d\<in>set ds. idle (a d)"
  shows "outcomes (resize_outcome (uint64 g)) ds a rs (account_after k a (map snd gh))"
  by (rule interleaved_outcomes [OF assms]) (rule expand_step)

text \<open>
  C3. The workers of a handler do to the account what the specification says, in every interleaving of
  their calls and with every delay of the cloud: each disk of the volume that is not busy is attached to
  the node, let go of, or resized, and answers success, or is still being changed when the deadline comes;
  a disk of another node, a missing disk, and one that needs nothing stay as they are, with the answer for
  it; and no other disk of the account is touched.
\<close>

theorem handlers_refine_account:
  assumes "distinct ds" "\<forall>d\<in>set ds. idle (a d)"
  shows "(\<forall>rs gh. interleaved (attach_job inst) (account_cloud_from k u a c) ds (map Finished rs) gh \<longrightarrow>
      outcomes (attach_outcome inst) ds a rs (account_after k a (map snd gh))) \<and>
    (\<forall>rs gh. interleaved (detach_job inst) (account_cloud_from k u a c) ds (map Finished rs) gh \<longrightarrow>
      outcomes (detach_outcome inst) ds a rs (account_after k a (map snd gh))) \<and>
    (\<forall>rs gh. interleaved (expand_job g) (account_cloud_from k u a c) ds (map Finished rs) gh \<longrightarrow>
      outcomes (resize_outcome (uint64 g)) ds a rs (account_after k a (map snd gh)))"
  using attach_outcomes [OF _ assms] detach_outcomes [OF _ assms] resize_outcomes [OF _ assms] by blast

text \<open>Deleting a volume whose disks are all free.\<close>

lemma listing_found:
  assumes "ids \<noteq> []" "\<forall>d\<in>set ids. a d \<noteq> None"
  shows "listing u a ids = map (\<lambda>d. shown d (the (a d))) ids"
proof -
  have "concat (map (\<lambda>d. case a d of None \<Rightarrow> [] | Some x \<Rightarrow> [shown d x]) ids) = map (\<lambda>d. shown d (the (a d))) ids"
    using assms(2) by (induction ids) (auto split: option.split)
  with assms(1) show ?thesis by (simp add: listing_def)
qed

lemma listing_gone: "ids \<noteq> [] \<Longrightarrow> \<forall>d\<in>set ids. a d = None \<Longrightarrow> listing u a ids = []"
  by (simp add: listing_def)

lemma delete_account:
  assumes "volumeId \<noteq> []" "diskIdList volumeId = ids" "ids \<noteq> []" "\<forall>d\<in>set ids. attachable (a d)"
  shows "\<exists>h. DeleteVolume (account_cloud_from k u a c) volumeId [] = (Inr (), h) \<and>
    account_after k a h = (\<lambda>d. if d \<in> set ids then None else a d)"
proof -
  let ?c = "account_cloud_from k u a c" and ?h1 = "yun_ok ''DescribeDisks'' [] [DescribeDisks ids]"
  have ex: "\<forall>d\<in>set ids. a d \<noteq> None" "\<forall>d\<in>set ids. map_option listed_once (a d) = a d"
    using assms(4) by (fastforce elim: attachableE simp: listed_idle)+
  then have a1: "account_after k a ?h1 = a" using assms(3) by (auto simp: yun_ok_def fun_eq_iff)
  obtain x xs where l: "listing u a ids = x # xs"
    using listing_found [OF assms(3) ex(1), of u] assms(3) by (cases ids) simp_all
  have ok: "on_TerminateDisks ?c ?h1 ids = None"
    using assms(4) a1 by (simp add: account_cloud_from_def refusal_def list_all_iff)
  have "describeDisks ?c ids [] DeleteAction [] = (Inr (x # xs), ?h1)"
    by (rule describeDisks_Inr) (simp add: account_cloud_from_def l)
  with ok assms(1,2) have "DeleteVolume ?c volumeId [] =
      (Inr (), pvc_request DeleteAction ''Success'' (yun_ok ''TerminateDisks'' [] (TerminateDisks ids # ?h1)))"
    by (simp add: DeleteVolume_def Let_def)
  moreover have "account_after k a (pvc_request DeleteAction ''Success'' (yun_ok ''TerminateDisks'' [] (TerminateDisks ids # ?h1))) =
      (\<lambda>d. if d \<in> set ids then None else a d)"
    using assms(4) a1 by (simp add: pvc_request_def yun_ok_def list_all_iff)
  ultimately show ?thesis by blast
qed

lemma delete_gone:
  assumes "volumeId \<noteq> []" "diskIdList volumeId = ids" "ids \<noteq> []" "\<forall>d\<in>set ids. a d = None"
  shows "DeleteVolume (account_cloud_from k u a c) volumeId [] = (Inr (), yun_ok ''DescribeDisks'' [] [DescribeDisks ids])"
proof -
  have "describeDisks (account_cloud_from k u a c) ids [] DeleteAction [] = (Inr [], yun_ok ''DescribeDisks'' [] [DescribeDisks ids])"
    by (rule describeDisks_Inr) (simp add: account_cloud_from_def listing_gone [OF assms(3,4)])
  with assms(1,2) show ?thesis by (simp add: DeleteVolume_def)
qed

text \<open>
  C4. The life of a volume. From an account in which its disks are free, a publish and an unpublish whose
  workers all succeed, in whatever interleavings, attach every disk to the node and bring the account back
  to what it was; deleting the volume then succeeds and removes exactly its disks, and deleting it once
  more succeeds and changes nothing.
\<close>

theorem volume_lifecycle:
  assumes "diskIdList volumeId = ds" "ds \<noteq> []" "distinct ds" "\<forall>d\<in>set ds. attachable (a d)"
    and "interleaved (attach_job inst) (account_cloud_from k u a c) ds (map (\<lambda>_. Finished (Inr ())) ds) gh1"
    and "interleaved (detach_job inst) (account_cloud_from k u (account_after k a (map snd gh1)) c) ds (map (\<lambda>_. Finished (Inr ())) ds) gh2"
  shows "(\<forall>d\<in>set ds. \<exists>x. account_after k a (map snd gh1) d = Some x \<and> d_owner x = Some inst) \<and>
    account_after k (account_after k a (map snd gh1)) (map snd gh2) = a \<and>
    (\<exists>h. DeleteVolume (account_cloud_from k u a c) volumeId [] = (Inr (), h) \<and>
       account_after k a h = (\<lambda>d. if d \<in> set ds then None else a d) \<and>
       fst (DeleteVolume (account_cloud_from k u (account_after k a h) c) volumeId []) = Inr ())"
proof -
  let ?rs = "map (\<lambda>_. Inr () :: go_error + unit) ds"
  let ?a1 = "account_after k a (map snd gh1)" and ?a2 = "account_after k (account_after k a (map snd gh1)) (map snd gh2)"
  have i0: "\<forall>d\<in>set ds. idle (a d)" using assms(4) by (fastforce elim: attachableE simp: idle_def)
  have m: "map (\<lambda>_. Finished (Inr ())) ds = map Finished ?rs" by simp
  have o1: "outcomes (attach_outcome inst) ds a ?rs ?a1"
    using attach_outcomes [OF assms(5) [unfolded m] assms(3) i0] .
  have own1: "\<exists>y. a d = Some y \<and> d_owner y = None \<and> d_busy y = None \<and> ?a1 d = Some (y\<lparr>d_owner := Some inst\<rparr>)" if "d \<in> set ds" for d
  proof -
    from that obtain j where j: "j < length ds" "d = ds ! j" by (metis in_set_conv_nth)
    with o1 have "attach_outcome inst (a d) (Inr ()) (?a1 d)" by (simp add: outcomes_def)
    moreover from assms(4) that have "attachable (a d)" by blast
    ultimately show ?thesis by (auto simp: attach_outcome_def elim!: attachableE)
  qed
  have i1: "\<forall>d\<in>set ds. idle (?a1 d)" using own1 by (fastforce simp: idle_def)
  have o2: "outcomes (detach_outcome inst) ds ?a1 ?rs ?a2"
    using detach_outcomes [OF assms(6) [unfolded m] assms(3) i1] .
  have "?a2 d = a d" if "d \<in> set ds" for d
  proof -
    from that obtain j where j: "j < length ds" "d = ds ! j" by (metis in_set_conv_nth)
    with o2 have "detach_outcome inst (?a1 d) (Inr ()) (?a2 d)" by (simp add: outcomes_def)
    with own1 [OF that] show ?thesis by (auto simp: detach_outcome_def)
  qed
  moreover have "?a2 d = a d" if "d \<notin> set ds" for d using o1 o2 that by (simp add: outcomes_def)
  ultimately have "?a2 = a" by (metis ext)
  moreover have "\<exists>x. ?a1 d = Some x \<and> d_owner x = Some inst" if "d \<in> set ds" for d
    using own1 [OF that] by auto
  moreover have v: "volumeId \<noteq> []" using assms(1,2) by (auto simp: diskIdList_def HasPrefix_def)
  obtain h where h: "DeleteVolume (account_cloud_from k u a c) volumeId [] = (Inr (), h)"
    "account_after k a h = (\<lambda>d. if d \<in> set ds then None else a d)"
    using delete_account [OF v assms(1,2,4)] by blast
  have "fst (DeleteVolume (account_cloud_from k u (account_after k a h) c) volumeId []) = Inr ()"
    using delete_gone [OF v assms(1,2)] h(2) by simp
  with h have "\<exists>h. DeleteVolume (account_cloud_from k u a c) volumeId [] = (Inr (), h) \<and>
       account_after k a h = (\<lambda>d. if d \<in> set ds then None else a d) \<and>
       fst (DeleteVolume (account_cloud_from k u (account_after k a h) c) volumeId []) = Inr ()" by blast
  ultimately show ?thesis by (intro conjI ballI) assumption+
qed

text \<open>One disk that is attached, or let go of, without delay.\<close>

lemma three_turns:
  assumes "wstep J (now C []) d Looking [] 0 Calling e1" "wstep J (now C e1) d Calling e1 0 Waiting (e2 @ e1)"
    and "wstep J (now C (e2 @ e1)) d Waiting (e2 @ e1) 1 (Finished r) (e3 @ e2 @ e1)"
  shows "\<exists>gh. interleaved J C [d] [Finished r] gh"
proof -
  have m: "map snd (map (Pair (0::nat)) es) = es" "own 0 (map (Pair 0) es) = es" for es :: cbs_hist
    using own_simps(2) [of 0 es "[]"] by (simp_all add: comp_def)
  have "interleaved J C [d] [Looking] []" using interleaved.Begin [of J C "[d]"] by simp
  from interleaved.Turn [OF this, of 0 0 Calling e1] assms(1) have 1: "interleaved J C [d] [Calling] (map (Pair 0) e1)" by simp
  from interleaved.Turn [OF 1, of 0 0 Waiting e2] assms(2) have 2: "interleaved J C [d] [Waiting] (map (Pair 0) (e2 @ e1))"
    unfolding m by simp
  from interleaved.Turn [OF 2, of 0 1 "Finished r" e3] assms(3) show ?thesis unfolding m by auto
qed

lemma quick_attach:
  assumes "a d = Some y" "d_busy y = None" "d_owner y = None"
  shows "\<exists>gh. interleaved (attach_job inst) (account_cloud_from 0 u a c) [d] [Finished (Inr ())] gh"
proof (rule three_turns)
  let ?c = "account_cloud_from 0 u a c" and ?J = "attach_job inst"
  let ?e1 = "yun_ok ''DescribeDisks'' [] [DescribeDisks [d]]" and ?e2 = "yun_ok ''AttachDisks'' d [AttachDisks [d] inst (instance_type inst)]"
  show "wstep ?J (now ?c []) d Looking [] 0 Calling ?e1"
    by (rule wstep.Look) (simp add: attach_job_def attach_look_def account_describe assms shown_def state_of_idle)
  show "wstep ?J (now ?c ?e1) d Calling ?e1 0 Waiting (?e2 @ ?e1)"
    by (rule wstep.Call)
      (simp add: attach_job_def attach_call_def account_calls refusal_def attachable_def assms listed_idle Let_def yun_ok_def)
  have "account_after 0 a (?e2 @ ?e1) d = Some (attached_to 0 inst y)"
    using assms by (simp add: yun_ok_def listed_idle change_def attachable_def)
  then show "wstep ?J (now ?c (?e2 @ ?e1)) d Waiting (?e2 @ ?e1) 1 (Finished (Inr ())) (?e1 @ ?e2 @ ?e1)"
    by (intro wstep.Answer) (simp add: attach_job_def account_tick change_simps yun_ok_def del: account_after_simps)
qed

lemma quick_detach:
  assumes "a d = Some y" "d_busy y = None" "d_owner y = Some inst"
  shows "\<exists>gh. interleaved (detach_job inst) (account_cloud_from 0 u a c) [d] [Finished (Inr ())] gh"
proof (rule three_turns)
  let ?c = "account_cloud_from 0 u a c" and ?J = "detach_job inst"
  let ?e1 = "yun_ok ''DescribeDisks'' [] [DescribeDisks [d]]" and ?e2 = "yun_ok ''DetachDisks'' d [DetachDisks [d] (instance_type inst)]"
  show "wstep ?J (now ?c []) d Looking [] 0 Calling ?e1"
    by (rule wstep.Look) (simp add: detach_job_def detach_look_def account_describe assms shown_def state_of_idle)
  show "wstep ?J (now ?c ?e1) d Calling ?e1 0 Waiting (?e2 @ ?e1)"
    by (rule wstep.Call)
      (simp add: detach_job_def detach_call_def account_calls refusal_def detachable_def assms listed_idle Let_def yun_ok_def)
  have "account_after 0 a (?e2 @ ?e1) d = Some (let_go 0 y)"
    using assms by (simp add: yun_ok_def listed_idle change_def detachable_def)
  then show "wstep ?J (now ?c (?e2 @ ?e1)) d Waiting (?e2 @ ?e1) 1 (Finished (Inr ())) (?e1 @ ?e2 @ ?e1)"
    by (intro wstep.Answer) (simp add: detach_job_def account_tick change_simps yun_ok_def del: account_after_simps)
qed

definition one_disk :: account where
  "one_disk = [''disk-a'' \<mapsto> \<lparr>d_size = 10, d_owner = None, d_busy = None\<rparr>]"

theorem handlers_refine_account_witness:
  "\<exists>rs gh. interleaved (attach_job ''ins-1'') (account_cloud_from 0 [] one_disk (small_cloud None)) [''disk-a''] (map Finished rs) gh \<and>
     outcomes (attach_outcome ''ins-1'') [''disk-a''] one_disk rs (account_after 0 one_disk (map snd gh))"
proof -
  have i: "\<forall>d\<in>set [''disk-a'']. idle (one_disk d)" by (simp add: one_disk_def idle_def)
  obtain gh where g: "interleaved (attach_job ''ins-1'') (account_cloud_from 0 [] one_disk (small_cloud None)) [''disk-a'']
      (map Finished [Inr ()]) gh"
    using quick_attach [of one_disk "''disk-a''" _ "''ins-1''" "[]" "small_cloud None"] by (auto simp: one_disk_def)
  with handlers_refine_account [OF _ i, of "''ins-1''" 0 "[]" "small_cloud None" 0]
  have "outcomes (attach_outcome ''ins-1'') [''disk-a''] one_disk [Inr ()] (account_after 0 one_disk (map snd gh))" by simp
  with g show ?thesis by blast
qed

theorem volume_lifecycle_witness:
  "\<exists>h. DeleteVolume (account_cloud_from 0 [] one_disk (small_cloud None)) ''disk-a'' [] = (Inr (), h) \<and>
     account_after 0 one_disk h = (\<lambda>d. if d = ''disk-a'' then None else one_disk d)"
proof -
  let ?c = "small_cloud None"
  have v: "diskIdList ''disk-a'' = [''disk-a'']" by code_simp
  have f: "\<forall>d\<in>set [''disk-a'']. attachable (one_disk d)" by (simp add: one_disk_def attachable_def)
  obtain gh1 where 1: "interleaved (attach_job ''ins-1'') (account_cloud_from 0 [] one_disk ?c) [''disk-a'']
      (map (\<lambda>_. Finished (Inr ())) [''disk-a'']) gh1"
    using quick_attach [of one_disk "''disk-a''" _ "''ins-1''" "[]" ?c] by (auto simp: one_disk_def)
  let ?a1 = "account_after 0 one_disk (map snd gh1)"
  have "outcomes (attach_outcome ''ins-1'') [''disk-a''] one_disk [Inr ()] ?a1"
    using attach_outcomes [of "''ins-1''" 0 "[]" one_disk ?c "[''disk-a'']" "[Inr ()]" gh1] 1
    by (simp add: one_disk_def idle_def)
  then have "?a1 ''disk-a'' = Some \<lparr>d_size = 10, d_owner = Some ''ins-1'', d_busy = None\<rparr>"
    by (simp add: outcomes_def attach_outcome_def one_disk_def)
  then obtain gh2 where 2: "interleaved (detach_job ''ins-1'') (account_cloud_from 0 [] ?a1 ?c) [''disk-a'']
      (map (\<lambda>_. Finished (Inr ())) [''disk-a'']) gh2"
    using quick_detach [of ?a1 "''disk-a''" _ "''ins-1''" "[]" ?c] by auto
  from volume_lifecycle [OF v _ _ f 1 2] show ?thesis by auto
qed

end
