(* ===== verification/CbsCompletion.thy ===== *)
theory CbsCompletion imports CbsAccount begin

text \<open>
  Whether the handlers complete. A worker sees the change it asked for after at most as many listings as the
  reference cloud needs for it, so one that is not stopped by its deadline before that many ticks answers
  exactly as the account says, however the calls of the other workers come in between: publishing succeeds if
  and only if every disk of the volume is free or attached to the node already, and leaves all of them
  attached to it.
\<close>

section \<open>Waiting for a change\<close>

lemma poll_change:
  assumes step: "\<And>n. listed_once (f n) = f (n - 1)" "\<And>n. P (state_of (f n)) \<longleftrightarrow> n = 0"
    and "account_after k a H d = Some (f n)" "n < m"
  shows "\<exists>H'. poll (wait_tick (account_cloud_from k u a c) P d inst) m H = (Some (Inr ()), H') \<and>
    account_after k a H' = (account_after k a H)(d := Some (f 0))"
  using assms(3,4)
proof (induction m arbitrary: n H)
  case (Suc m)
  let ?H = "yun_ok ''DescribeDisks'' [] (DescribeDisks [d] # H)"
  have t: "wait_tick (account_cloud_from k u a c) P d inst H = (if n = 0 then Some (Inr ()) else None, ?H)"
    using Suc.prems(1) step(2)
    by (simp add: wait_tick_def describeDisks_def account_cloud_from_def listing_one shown_def)
  have s: "account_after k a ?H = (account_after k a H)(d := Some (f (n - 1)))"
    using Suc.prems(1) step(1) by (auto simp: yun_ok_def)
  show ?case
  proof (cases "n = 0")
    case False
    have "account_after k a ?H d = Some (f (n - 1))" "n - 1 < m" using s Suc.prems(2) False by simp_all
    from Suc.IH [OF this, unfolded s fun_upd_upd] t False show ?thesis by simp
  qed (use t s in \<open>simp add: fun_eq_iff\<close>)
qed simp

lemma wait_change:
  assumes "\<And>n. listed_once (f n) = f (n - 1)" "\<And>n. P (state_of (f n)) \<longleftrightarrow> n = 0"
    and "account_after k a H d = Some (f k)" "\<And>h. k < ticks c h"
  shows "\<exists>H'. wait_for (account_cloud_from k u a c) P d inst H = (Some (Inr ()), H') \<and>
    account_after k a H' = (account_after k a H)(d := Some (f 0))"
  using poll_change [OF assms(1,2,3), of "ticks c H"] assms(4) by (simp add: wait_for_def account_cloud_from_def)

section \<open>The workers\<close>

text \<open>The history of a worker after its first listing, which changes nothing of a disk that is not busy.\<close>

lemma first_listing:
  assumes "idle (a d)"
  shows "describeDisks (account_cloud_from k u a c) [d] inst act [] =
      (Inr (case a d of None \<Rightarrow> [] | Some x \<Rightarrow> [shown d x]), yun_ok ''DescribeDisks'' [] [DescribeDisks [d]])"
    "account_after k a (yun_ok ''DescribeDisks'' [] [DescribeDisks [d]]) = a"
proof -
  show "describeDisks (account_cloud_from k u a c) [d] inst act [] =
      (Inr (case a d of None \<Rightarrow> [] | Some x \<Rightarrow> [shown d x]), yun_ok ''DescribeDisks'' [] [DescribeDisks [d]])"
    by (rule describeDisks_Inr) (simp add: account_cloud_from_def listing_one)
  have "map_option listed_once (a d) = a d" using assms by (auto simp: idle_def listed_idle split: option.splits)
  then show "account_after k a (yun_ok ''DescribeDisks'' [] [DescribeDisks [d]]) = a"
    by (auto simp: yun_ok_def fun_eq_iff)
qed

text \<open>The answers of the workers, and the disk afterwards.\<close>

definition attach_answer :: "string \<Rightarrow> cloud_disk option \<Rightarrow> (go_error + unit) \<times> cloud_disk option" where
  "attach_answer inst x =
     (case x of
        None \<Rightarrow> (Inl (Status NotFound), None)
      | Some y \<Rightarrow>
          (case d_owner y of
             None \<Rightarrow> (Inr (), Some (y\<lparr>d_owner := Some inst\<rparr>))
           | Some m \<Rightarrow> (if m = inst then Inr () else Inl (Status FailedPrecondition), x)))"

definition detach_answer :: "string \<Rightarrow> cloud_disk option \<Rightarrow> (go_error + unit) \<times> cloud_disk option" where
  "detach_answer inst x =
     (Inr (), map_option (\<lambda>y. if d_owner y = Some inst then y\<lparr>d_owner := None\<rparr> else y) x)"

definition resize_answer :: "nat \<Rightarrow> cloud_disk option \<Rightarrow> (go_error + unit) \<times> cloud_disk option" where
  "resize_answer sz x =
     (case x of
        None \<Rightarrow> (Inl (Status NotFound), None)
      | Some y \<Rightarrow> (Inr (), Some (if sz \<le> d_size y then y else y\<lparr>d_size := sz\<rparr>)))"

lemma attach_completes:
  assumes i: "idle (a d)" and "\<And>h. k < ticks c h"
  shows "\<exists>h. attachVolume inst (account_cloud_from k u a c) d [] = (fst (attach_answer inst (a d)), h) \<and>
    account_after k a h = a(d := snd (attach_answer inst (a d)))"
proof (cases "\<exists>y. a d = Some y \<and> d_owner y = None")
  case True
  then obtain y where y: "a d = Some y" "d_owner y = None" "d_busy y = None" using i by (auto simp: idle_def)
  note l = first_listing [of a d, OF i]
  let ?h2 = "yun_ok ''AttachDisks'' d (AttachDisks [d] inst (instance_type inst) # yun_ok ''DescribeDisks'' [] [DescribeDisks [d]])"
  have h2: "account_after k a ?h2 = a(d := Some (attached_to k inst y))"
    unfolding yun_ok_def [of "''AttachDisks''"] account_after_simps cloud_step.simps l(2)
    using y by (auto simp: change_def attachable_def)
  have "state_of (attached_to n inst y) = StatusAttached \<longleftrightarrow> n = 0" for n by (simp add: change_simps)
  then have "\<exists>H'. wait_for (account_cloud_from k u a c) (\<lambda>st. st = StatusAttached) d inst ?h2 = (Some (Inr ()), H') \<and>
    account_after k a H' = (account_after k a ?h2)(d := Some (attached_to 0 inst y))"
    using assms(2) h2 by (intro wait_change [where f = "\<lambda>n. attached_to n inst y"]) (simp_all add: change_simps(1))
  then obtain H where "wait_for (account_cloud_from k u a c) (\<lambda>st. st = StatusAttached) d inst ?h2 = (Some (Inr ()), H)"
    "account_after k a H = a(d := Some (y\<lparr>d_owner := Some inst\<rparr>))"
    using y(3) by (auto simp: change_simps h2)
  moreover have "on_AttachDisks (account_cloud_from k u a c) (yun_ok ''DescribeDisks'' [] [DescribeDisks [d]]) d inst = None"
    using y l(2) by (simp add: account_cloud_from_def refusal_def attachable_def)
  ultimately show ?thesis
    using y by (simp add: attachVolume_def l(1) shown_def state_of_idle attach_answer_def Let_def)
next
  case False
  with i first_listing [of a d, OF i] show ?thesis
    by (auto simp: attachVolume_def shown_def state_of_idle attach_answer_def idle_def operation_error_def split: option.splits)
qed

lemma detach_completes:
  assumes i: "idle (a d)" and "\<And>h. k < ticks c h"
  shows "\<exists>h. detachVolume inst (account_cloud_from k u a c) d [] = (fst (detach_answer inst (a d)), h) \<and>
    account_after k a h = a(d := snd (detach_answer inst (a d)))"
proof (cases "\<exists>y. a d = Some y \<and> d_owner y = Some inst")
  case True
  then obtain y where y: "a d = Some y" "d_owner y = Some inst" "d_busy y = None" using i by (auto simp: idle_def)
  note l = first_listing [of a d, OF i]
  let ?h2 = "yun_ok ''DetachDisks'' d (DetachDisks [d] (instance_type inst) # yun_ok ''DescribeDisks'' [] [DescribeDisks [d]])"
  have h2: "account_after k a ?h2 = a(d := Some (let_go k y))"
    unfolding yun_ok_def [of "''DetachDisks''"] account_after_simps cloud_step.simps l(2)
    using y by (auto simp: change_def detachable_def)
  have "state_of (let_go n y) = StatusUnattached \<longleftrightarrow> n = 0" for n by (simp add: change_simps)
  then have "\<exists>H'. wait_for (account_cloud_from k u a c) (\<lambda>st. st = StatusUnattached) d inst ?h2 = (Some (Inr ()), H') \<and>
    account_after k a H' = (account_after k a ?h2)(d := Some (let_go 0 y))"
    using assms(2) h2 by (intro wait_change [where f = "\<lambda>n. let_go n y"]) (simp_all add: change_simps(2))
  then obtain H where "wait_for (account_cloud_from k u a c) (\<lambda>st. st = StatusUnattached) d inst ?h2 = (Some (Inr ()), H)"
    "account_after k a H = a(d := Some (y\<lparr>d_owner := None\<rparr>))"
    using y(3) by (auto simp: change_simps h2)
  moreover have "on_DetachDisks (account_cloud_from k u a c) (yun_ok ''DescribeDisks'' [] [DescribeDisks [d]]) d = None"
    using y l(2) by (simp add: account_cloud_from_def refusal_def detachable_def)
  ultimately show ?thesis
    using y by (simp add: detachVolume_def l(1) shown_def state_of_idle detach_answer_def Let_def)
next
  case False
  with i first_listing [of a d, OF i] show ?thesis
    by (auto simp: detachVolume_def shown_def state_of_idle detach_answer_def idle_def split: option.splits)
qed

lemma expand_completes:
  assumes i: "idle (a d)" and "\<And>h. k < ticks c h"
  shows "\<exists>h. expandVolume g (account_cloud_from k u a c) d [] = (fst (resize_answer (uint64 g) (a d)), h) \<and>
    account_after k a h = a(d := snd (resize_answer (uint64 g) (a d)))"
proof (cases "\<exists>y. a d = Some y \<and> d_size y < uint64 g")
  case True
  then obtain y where y: "a d = Some y" "d_size y < uint64 g" "d_busy y = None" using i by (auto simp: idle_def)
  note l = first_listing [of a d, OF i]
  let ?h2 = "ResizeDisk d (uint64 g) # yun_ok ''DescribeDisks'' [] [DescribeDisks [d]]"
  have h2: "account_after k a ?h2 = a(d := Some (grown_to k (uint64 g) y))"
    unfolding account_after_simps cloud_step.simps l(2) using y by (auto simp: change_def resizable_def)
  have "state_of (grown_to n (uint64 g) y) \<noteq> StatusExpanding \<longleftrightarrow> n = 0" for n by (simp add: change_simps)
  then have "\<exists>H'. wait_for (account_cloud_from k u a c) (\<lambda>st. st \<noteq> StatusExpanding) d [] ?h2 = (Some (Inr ()), H') \<and>
    account_after k a H' = (account_after k a ?h2)(d := Some (grown_to 0 (uint64 g) y))"
    using assms(2) h2 by (intro wait_change [where f = "\<lambda>n. grown_to n (uint64 g) y"]) (simp_all add: change_simps(3))
  then obtain H where "wait_for (account_cloud_from k u a c) (\<lambda>st. st \<noteq> StatusExpanding) d [] ?h2 = (Some (Inr ()), H)"
    "account_after k a H = a(d := Some (y\<lparr>d_size := uint64 g\<rparr>))"
    unfolding h2 fun_upd_upd using y(3) by (auto simp: change_simps)
  moreover have "on_ResizeDisk (account_cloud_from k u a c) (yun_ok ''DescribeDisks'' [] [DescribeDisks [d]]) d (uint64 g) = None"
    using y l(2) by (simp add: account_cloud_from_def refusal_def resizable_def)
  ultimately show ?thesis
    using y by (simp add: expandVolume_def l(1) shown_def resize_answer_def Let_def)
next
  case False
  with i first_listing [of a d, OF i] show ?thesis
    by (auto simp: expandVolume_def shown_def resize_answer_def idle_def split: option.splits)
qed

section \<open>Every interleaving\<close>

text \<open>How often a worker has listed its disk: once to look, and once for every tick of its wait.\<close>

fun listings :: "cbs_hist \<Rightarrow> nat" where
  "listings [] = 0"
| "listings (DescribeDisks ids # h) = Suc (listings h)"
| "listings (_ # h) = listings h"

text \<open>
  The disk of a worker, by its phase and its own history: while it waits, as far changed as it has been
  listed since the call; at the end as the answer says, unless the deadline came before \<open>k\<close> ticks and one
  more were served.
\<close>

fun exact_at ::
  "nat \<Rightarrow> (cloud_disk option \<Rightarrow> bool) \<Rightarrow> (nat \<Rightarrow> cloud_disk \<Rightarrow> cloud_disk) \<Rightarrow>
   (cloud_disk option \<Rightarrow> (go_error + unit) \<times> cloud_disk option) \<Rightarrow> cloud_disk option \<Rightarrow> phase \<Rightarrow> cbs_hist \<Rightarrow>
   cloud_disk option \<Rightarrow> bool" where
  "exact_at k ok f ans x0 Looking h x = (x = x0 \<and> listings h = 0)"
| "exact_at k ok f ans x0 Calling h x = (x = x0 \<and> ok x0 \<and> listings h = 1)"
| "exact_at k ok f ans x0 Waiting h x = (ok x0 \<and> (\<exists>t\<le>k. listings h = Suc t \<and> x = map_option (f (k - t)) x0))"
| "exact_at k ok f ans x0 (Finished r) h x =
     (listings h \<le> k + 2 \<and> (ans x0 = (r, x) \<or> r = Inl (Status DeadlineExceeded) \<and> listings h \<le> k + 1))"

lemma exact_at_listings: "exact_at k ok f ans x0 s h x \<Longrightarrow> listings h \<le> k + 2"
  by (cases s) auto

lemmas answer_defs = attach_answer_def detach_answer_def resize_answer_def

lemma attach_exact:
  assumes "wstep (attach_job inst) (now (account_cloud_from k u a c) H) d s h t s' (es @ h)" "idle x0"
    and "exact_at k attachable (\<lambda>n. attached_to n inst) (attach_answer inst) x0 s h (account_after k a H d)"
  shows "exact_at k attachable (\<lambda>n. attached_to n inst) (attach_answer inst) x0 s' (es @ h) (account_after k a (es @ H) d) \<and>
    (\<forall>e. e \<noteq> d \<longrightarrow> account_after k a (es @ H) e = account_after k a H e)"
  using assms
  by (cases rule: wstep.cases)
    (auto simp: attach_job_def attach_look_def attach_call_def step_simps outcome_defs answer_defs
      split: option.splits if_splits intro!: exI [of _ "Suc _"])

lemma detach_exact:
  assumes "wstep (detach_job inst) (now (account_cloud_from k u a c) H) d s h t s' (es @ h)" "idle x0"
    and "exact_at k (\<lambda>x. detachable x \<and> (\<forall>y. x = Some y \<longrightarrow> d_owner y = Some inst)) let_go (detach_answer inst) x0 s h (account_after k a H d)"
  shows "exact_at k (\<lambda>x. detachable x \<and> (\<forall>y. x = Some y \<longrightarrow> d_owner y = Some inst)) let_go (detach_answer inst) x0 s' (es @ h) (account_after k a (es @ H) d) \<and>
    (\<forall>e. e \<noteq> d \<longrightarrow> account_after k a (es @ H) e = account_after k a H e)"
  using assms
  by (cases rule: wstep.cases)
    (auto simp: detach_job_def detach_look_def detach_call_def step_simps outcome_defs answer_defs
      split: option.splits if_splits intro!: exI [of _ "Suc _"])

lemma expand_exact:
  assumes "wstep (expand_job g) (now (account_cloud_from k u a c) H) d s h t s' (es @ h)" "idle x0"
    and "exact_at k (\<lambda>x. \<exists>y. x = Some y \<and> d_size y < uint64 g) (\<lambda>n. grown_to n (uint64 g)) (resize_answer (uint64 g)) x0 s h (account_after k a H d)"
  shows "exact_at k (\<lambda>x. \<exists>y. x = Some y \<and> d_size y < uint64 g) (\<lambda>n. grown_to n (uint64 g)) (resize_answer (uint64 g)) x0 s' (es @ h) (account_after k a (es @ H) d) \<and>
    (\<forall>e. e \<noteq> d \<longrightarrow> account_after k a (es @ H) e = account_after k a H e)"
  using assms
  by (cases rule: wstep.cases)
    (auto simp: expand_job_def expand_look_def expand_call_def step_simps outcome_defs answer_defs
      split: option.splits if_splits intro!: exI [of _ "Suc _"])

lemma interleaved_exact:
  assumes "interleaved job (account_cloud_from k u a c) ds ss gh" "distinct ds" "\<forall>d\<in>set ds. idle (a d)"
    and step: "\<And>x0 H h d s s' es t. wstep job (now (account_cloud_from k u a c) H) d s h t s' (es @ h) \<Longrightarrow> idle x0 \<Longrightarrow>
      exact_at k ok f ans x0 s h (account_after k a H d) \<Longrightarrow>
      exact_at k ok f ans x0 s' (es @ h) (account_after k a (es @ H) d) \<and>
      (\<forall>e. e \<noteq> d \<longrightarrow> account_after k a (es @ H) e = account_after k a H e)"
  shows "length ss = length ds \<and>
    (\<forall>i<length ds. exact_at k ok f ans (a (ds ! i)) (ss ! i) (own i gh) (account_after k a (map snd gh) (ds ! i))) \<and>
    (\<forall>e. e \<notin> set ds \<longrightarrow> account_after k a (map snd gh) e = a e)"
proof -
  let ?Q = "\<lambda>d s h x. idle (a d) \<and> exact_at k ok f ans (a d) s h x"
  have "length ss = length ds \<and>
    (\<forall>i<length ds. ?Q (ds ! i) (ss ! i) (own i gh) (account_after k a (map snd gh) (ds ! i))) \<and>
    (\<forall>e. e \<notin> set ds \<longrightarrow> account_after k a (map snd gh) e = a e)"
  proof (rule interleaved_by_disk [OF assms(1,2), where P = ?Q])
    show "?Q d Looking [] (a d)" if "d \<in> set ds" for d using that assms(3) by simp
  next
    fix H h d s s' es n
    assume "wstep job (now (account_cloud_from k u a c) H) d s h n s' (es @ h)" "?Q d s h (account_after k a H d)"
    with step [of H d s h n s' es "a d"]
    show "?Q d s' (es @ h) (account_after k a (es @ H) d) \<and> (\<forall>e. e \<noteq> d \<longrightarrow> account_after k a (es @ H) e = account_after k a H e)"
      by blast
  qed
  then show ?thesis by blast
qed

text \<open>A run in which no deadline cut a wait short of \<open>k\<close> ticks and one more.\<close>

definition patient :: "nat \<Rightarrow> (go_error + unit) list \<Rightarrow> shared_hist \<Rightarrow> bool" where
  "patient k rs gh \<longleftrightarrow> (\<forall>i<length rs. rs ! i = Inl (Status DeadlineExceeded) \<longrightarrow> k + 1 < listings (own i gh))"

text \<open>
  The workers on the one account: none lists its disk more than \<open>k + 2\<close> times; in a patient run each gives
  its answer, the disks are left as the answers say and the others as they were, and the handler succeeds
  exactly when it should; and there is such a run.
\<close>

definition completes ::
  "nat \<Rightarrow> worker_job \<Rightarrow> (cloud_disk option \<Rightarrow> (go_error + unit) \<times> cloud_disk option) \<Rightarrow> cbs_env \<Rightarrow> account \<Rightarrow>
   string list \<Rightarrow> bool \<Rightarrow> bool" where
  "completes k job ans cloud a ds good \<longleftrightarrow>
     (\<forall>ss gh i. interleaved job cloud ds ss gh \<longrightarrow> i < length ds \<longrightarrow> listings (own i gh) \<le> k + 2) \<and>
     (\<forall>rs gh hs. interleaved job cloud ds (map Finished rs) gh \<longrightarrow> patient k rs gh \<longrightarrow> length hs = length ds \<longrightarrow>
        rs = map (\<lambda>d. fst (ans (a d))) ds \<and>
        account_after k a (map snd gh) = (\<lambda>d. if d \<in> set ds then snd (ans (a d)) else a d) \<and>
        (gather (zip rs hs) = Inr () \<longleftrightarrow> good)) \<and>
     (\<exists>rs gh. interleaved job cloud ds (map Finished rs) gh \<and> patient k rs gh)"

lemma completesD:
  assumes "completes k job ans cloud a ds good" "interleaved job cloud ds (map Finished rs) gh" "patient k rs gh"
    and "length hs = length ds"
  shows "rs = map (\<lambda>d. fst (ans (a d))) ds"
    "account_after k a (map snd gh) = (\<lambda>d. if d \<in> set ds then snd (ans (a d)) else a d)"
    "gather (zip rs hs) = Inr () \<longleftrightarrow> good"
  using assms unfolding completes_def by blast+

text \<open>A worker's own outside may start from the account the others left.\<close>

lemma account_moved:
  "same_answers (account_cloud_from k u (account_after k a H) c') (now (account_cloud_from k u a c) (h @ H)) h"
  by (simp add: same_answers_def now_def account_cloud_from_def)

context disk_worker begin

text \<open>One worker after the other, each with time enough.\<close>

lemma patient_run:
  assumes "distinct ds" "\<forall>d\<in>set ds. idle (a d)"
    and alone: "\<And>b d. idle (b d) \<Longrightarrow> \<exists>h. run_job job (account_cloud_from k u b c') d [] = (fst (ans (b d)), h) \<and>
      account_after k b h = b(d := snd (ans (b d)))"
    and "m \<le> length ds"
  shows "\<exists>gh. interleaved job (account_cloud_from k u a c) ds
      (map (\<lambda>d. Finished (fst (ans (a d)))) (take m ds) @ replicate (length ds - m) Looking) gh \<and>
    account_after k a (map snd gh) = (\<lambda>d. if d \<in> set (take m ds) then snd (ans (a d)) else a d) \<and>
    (\<forall>i\<ge>m. own i gh = [])"
  using assms(4)
proof (induction m)
  case 0
  show ?case using interleaved.Begin [of job "account_cloud_from k u a c" ds] by (intro exI [of _ "[]"]) simp
next
  case (Suc m)
  then have m: "m < length ds" by simp
  let ?c = "account_cloud_from k u a c" and ?d = "ds ! m"
  let ?ss = "map (\<lambda>d. Finished (fst (ans (a d)))) (take m ds) @ replicate (length ds - m) Looking"
  from Suc obtain gh where gh: "interleaved job ?c ds ?ss gh" "\<forall>i\<ge>m. own i gh = []"
    and acc: "account_after k a (map snd gh) = (\<lambda>d. if d \<in> set (take m ds) then snd (ans (a d)) else a d)" by auto
  let ?b = "account_after k a (map snd gh)"
  have "?d \<notin> set (take m ds)" using assms(1) m by (auto simp: in_set_conv_nth nth_eq_iff_index_eq)
  then have bd: "?b ?d = a ?d" by (simp add: acc)
  with assms(2) m have "idle (?b ?d)" by simp
  with alone [of ?b ?d] obtain h where
    run: "run_job job (account_cloud_from k u ?b c') ?d [] = (fst (ans (a ?d)), h)"
    and b: "account_after k ?b h = ?b(?d := snd (ans (a ?d)))" unfolding bd by blast
  from solo_run [OF run] obtain n where
    s: "solo job (account_cloud_from k u ?b c') ?d (Finished (fst (ans (a ?d)))) h n" by blast
  have "interleaved job ?c ds (?ss[m := Finished (fst (ans (a ?d)))]) (map (Pair m) h @ gh)"
    using m gh(2) by (intro interleaved_alone [OF s gh(1)]) (simp_all add: nth_append account_moved)
  moreover have "?ss[m := Finished (fst (ans (a ?d)))] =
      map (\<lambda>d. Finished (fst (ans (a d)))) (take (Suc m) ds) @ replicate (length ds - Suc m) Looking"
  proof -
    have "replicate (length ds - m) Looking = Looking # replicate (length ds - Suc m) Looking"
      using m by (metis Suc_diff_Suc replicate_Suc)
    then show ?thesis using m by (simp add: take_Suc_conv_app_nth list_update_append)
  qed
  moreover have "account_after k a (map snd (map (Pair m) h @ gh)) =
      (\<lambda>d. if d \<in> set (take (Suc m) ds) then snd (ans (a d)) else a d)"
    using m b by (auto simp: comp_def take_Suc_conv_app_nth acc fun_eq_iff)
  ultimately show ?case using gh(2) by (intro exI [of _ "map (Pair m) h @ gh"]) simp
qed

lemma completes_intro:
  assumes "distinct ds" "\<forall>d\<in>set ds. idle (a d)"
    and step: "\<And>x0 H h d s s' es t. wstep job (now (account_cloud_from k u a c) H) d s h t s' (es @ h) \<Longrightarrow> idle x0 \<Longrightarrow>
      exact_at k ok f ans x0 s h (account_after k a H d) \<Longrightarrow>
      exact_at k ok f ans x0 s' (es @ h) (account_after k a (es @ H) d) \<and>
      (\<forall>e. e \<noteq> d \<longrightarrow> account_after k a (es @ H) e = account_after k a H e)"
    and alone: "\<And>b d. idle (b d) \<Longrightarrow>
      \<exists>h. run_job job (account_cloud_from k u b (c\<lparr>ticks := \<lambda>_. Suc k\<rparr>)) d [] = (fst (ans (b d)), h) \<and>
        account_after k b h = b(d := snd (ans (b d)))"
    and never_late: "\<And>x. fst (ans x) \<noteq> Inl (Status DeadlineExceeded)"
    and good: "good \<longleftrightarrow> (\<forall>d\<in>set ds. fst (ans (a d)) = Inr ())"
  shows "completes k job ans (account_cloud_from k u a c) a ds good"
proof -
  have exact: "length ss = length ds \<and>
      (\<forall>i<length ds. exact_at k ok f ans (a (ds ! i)) (ss ! i) (own i gh) (account_after k a (map snd gh) (ds ! i))) \<and>
      (\<forall>e. e \<notin> set ds \<longrightarrow> account_after k a (map snd gh) e = a e)"
    if "interleaved job (account_cloud_from k u a c) ds ss gh" for ss gh
    by (rule interleaved_exact [OF that assms(1,2)]) (rule step)
  show ?thesis
    unfolding completes_def
proof (intro conjI allI impI)
  fix ss gh i
  assume "interleaved job (account_cloud_from k u a c) ds ss gh" "i < length ds"
  with exact [OF this(1)] show "listings (own i gh) \<le> k + 2"
    by (blast intro: exact_at_listings)
next
  fix rs gh and hs :: "cbs_hist list"
  assume run: "interleaved job (account_cloud_from k u a c) ds (map Finished rs) gh"
    and pat: "patient k rs gh" and hs: "length hs = length ds"
  note E = exact [OF run]
  then have len: "length rs = length ds" by simp
  have a: "ans (a (ds ! i)) = (rs ! i, account_after k a (map snd gh) (ds ! i))" if "i < length ds" for i
    using E pat len that by (fastforce simp: patient_def)
  show rs: "rs = map (\<lambda>d. fst (ans (a d))) ds"
    using len a by (intro nth_equalityI) simp_all
  show "account_after k a (map snd gh) = (\<lambda>d. if d \<in> set ds then snd (ans (a d)) else a d)"
    using E a by (auto simp: fun_eq_iff in_set_conv_nth)
  have "set (map fst (zip rs hs)) = set rs" using len hs by simp
  then show "gather (zip rs hs) = Inr () \<longleftrightarrow> good"
    unfolding gather_Inr_iff good rs by (force simp: set_zip in_set_conv_nth hs)
next
  from patient_run [OF assms(1,2) alone, of "length ds"] obtain gh where
    "interleaved job (account_cloud_from k u a c) ds (map Finished (map (\<lambda>d. fst (ans (a d))) ds)) gh"
    by (auto simp: comp_def)
  moreover have "patient k (map (\<lambda>d. fst (ans (a d))) ds) gh" using never_late by (simp add: patient_def)
  ultimately show "\<exists>rs gh. interleaved job (account_cloud_from k u a c) ds (map Finished rs) gh \<and> patient k rs gh" by blast
qed
qed

end

section \<open>The handlers\<close>

lemma good_answers:
  "fst (attach_answer inst x) = Inr () \<longleftrightarrow> (\<exists>y. x = Some y \<and> d_owner y \<in> {None, Some inst})"
  "fst (detach_answer inst x) = Inr ()"
  "fst (resize_answer sz x) = Inr () \<longleftrightarrow> x \<noteq> None"
  by (auto simp: answer_defs split: option.splits)

lemma never_late_answers:
  "fst (attach_answer inst x) \<noteq> Inl (Status DeadlineExceeded)"
  "fst (detach_answer inst x) \<noteq> Inl (Status DeadlineExceeded)"
  "fst (resize_answer sz x) \<noteq> Inl (Status DeadlineExceeded)"
  by (auto simp: answer_defs split: option.splits)

text \<open>
  C5. The workers of a handler on one account of idle disks, for a volume whose disks are distinct, in every
  interleaving of their calls. A change that the cloud shows after \<open>k\<close> listings is seen: no worker lists
  its disk more than \<open>k + 2\<close> times, and when no deadline comes before \<open>k + 1\<close> ticks, every worker gives
  exactly the answer for its disk and leaves it exactly changed, every other disk of the account is as it
  was, and the handler's result is success exactly, for publishing, if every disk is there and free or
  attached to the node; for unpublishing, always, also with disks that are gone or on another node; for
  expanding, if every disk is there. Such a run exists.
\<close>

theorem handlers_complete:
  assumes "distinct ds" "\<forall>d\<in>set ds. idle (a d)" "cloud = account_cloud_from k u a c"
  shows "completes k (attach_job inst) (attach_answer inst) cloud a ds
      (\<forall>d\<in>set ds. \<exists>y. a d = Some y \<and> d_owner y \<in> {None, Some inst}) \<and>
    completes k (detach_job inst) (detach_answer inst) cloud a ds True \<and>
    completes k (expand_job g) (resize_answer (uint64 g)) cloud a ds (\<forall>d\<in>set ds. a d \<noteq> None)"
  unfolding assms(3)
proof (intro conjI)
  show "completes k (attach_job inst) (attach_answer inst) (account_cloud_from k u a c) a ds
      (\<forall>d\<in>set ds. \<exists>y. a d = Some y \<and> d_owner y \<in> {None, Some inst})"
    by (rule attaching.completes_intro [OF assms(1,2)], erule (2) attach_exact)
      (rule attach_completes [folded attach_job_runs], simp_all add: good_answers never_late_answers)
  show "completes k (detach_job inst) (detach_answer inst) (account_cloud_from k u a c) a ds True"
    by (rule detaching.completes_intro [OF assms(1,2)], erule (2) detach_exact)
      (rule detach_completes [folded detach_job_runs], simp_all add: good_answers never_late_answers)
  show "completes k (expand_job g) (resize_answer (uint64 g)) (account_cloud_from k u a c) a ds (\<forall>d\<in>set ds. a d \<noteq> None)"
    by (rule expanding.completes_intro [OF assms(1,2)], erule (2) expand_exact)
      (rule expand_completes [folded expand_job_runs], simp_all add: good_answers never_late_answers)
qed

theorem handlers_complete_witness:
  "\<exists>rs gh. interleaved (attach_job ''ins-1'') (account_cloud_from 2 [] one_disk (small_cloud None)) [''disk-a''] (map Finished rs) gh \<and>
     rs = [Inr ()] \<and> gather (zip rs [own 0 gh]) = Inr () \<and>
     account_after 2 one_disk (map snd gh) ''disk-a'' = Some \<lparr>d_size = 10, d_owner = Some ''ins-1'', d_busy = None\<rparr>"
proof -
  have i: "\<forall>d\<in>set [''disk-a'']. idle (one_disk d)" by (simp add: one_disk_def idle_def)
  let ?c = "account_cloud_from 2 [] one_disk (small_cloud None)"
  from handlers_complete [OF _ i refl, of 2 "''ins-1''" "[]" "small_cloud None"]
  have c: "completes 2 (attach_job ''ins-1'') (attach_answer ''ins-1'') ?c one_disk [''disk-a'']
      (\<forall>d\<in>set [''disk-a'']. \<exists>y. one_disk d = Some y \<and> d_owner y \<in> {None, Some ''ins-1''})" by simp
  then obtain rs gh where r: "interleaved (attach_job ''ins-1'') ?c [''disk-a''] (map Finished rs) gh" "patient 2 rs gh"
    unfolding completes_def by blast
  have x: "attach_answer ''ins-1'' (one_disk ''disk-a'') = (Inr (), Some \<lparr>d_size = 10, d_owner = Some ''ins-1'', d_busy = None\<rparr>)"
    by (simp add: one_disk_def attach_answer_def)
  have good: "\<forall>d\<in>set [''disk-a'']. \<exists>y. one_disk d = Some y \<and> d_owner y \<in> {None, Some ''ins-1''}"
    by (simp add: one_disk_def)
  have l: "length [own 0 gh] = length [''disk-a'']" by simp
  note D = completesD [OF c r l]
  from D(1,3) good have "rs = [Inr ()]" "gather (zip rs [own 0 gh]) = Inr ()" by (simp_all add: x)
  moreover have "account_after 2 one_disk (map snd gh) ''disk-a'' = Some \<lparr>d_size = 10, d_owner = Some ''ins-1'', d_busy = None\<rparr>"
    unfolding D(2) by (simp add: x)
  ultimately show ?thesis using r(1) by blast
qed

end
