(* ===== verification/Host.thy ===== *)
theory Host imports Util begin

text \<open>
  The node a driver runs on: calls to the mounter, the file system and external commands, as
  events of a history, with an outside that answers them; the actions that the node handlers are
  composed of; and \<open>path/filepath\<close>. The lemmas say how actions extend the history.
\<close>

section \<open>Actions\<close>

text \<open>
  An action runs on a state and ends in an error or a value. For most components the state is the
  history of outside calls, newest first (\<open>action\<close>); a component with files or locks of its own
  has them in its state beside the history. \<open>andThen\<close> is the usual
  \<open>if err != nil { return err }\<close>.
\<close>

type_synonym ('s, 'a) stateful = "'s \<Rightarrow> (go_error + 'a) \<times> 's"
type_synonym ('e, 'a) action = "('e list, 'a) stateful"

definition ret :: "'a \<Rightarrow> ('s, 'a) stateful" where
  "ret a = (\<lambda>h. (Inr a, h))"

definition fail :: "go_error \<Rightarrow> ('s, 'a) stateful" where
  "fail e = (\<lambda>h. (Inl e, h))"

definition andThen :: "('s, 'a) stateful \<Rightarrow> ('a \<Rightarrow> ('s, 'b) stateful) \<Rightarrow> ('s, 'b) stateful" where
  "andThen m f = (\<lambda>h. case m h of (Inl e, h') \<Rightarrow> (Inl e, h') | (Inr a, h') \<Rightarrow> f a h')"

text \<open>A call whose answer the code inspects itself.\<close>

definition ask :: "'e \<Rightarrow> ('e list \<Rightarrow> 'a) \<Rightarrow> ('e, 'a) action" where
  "ask ev answer = (\<lambda>h. (Inr (answer h), ev # h))"

text \<open>Calls whose error is returned: converted by \<open>conv\<close>.\<close>

definition call :: "(ext_err \<Rightarrow> go_error) \<Rightarrow> 'e \<Rightarrow> ('e list \<Rightarrow> ext_err option) \<Rightarrow> ('e, unit) action" where
  "call conv ev answer =
     (\<lambda>h. case answer h of None \<Rightarrow> (Inr (), ev # h) | Some e \<Rightarrow> (Inl (conv e), ev # h))"

definition fetch :: "(ext_err \<Rightarrow> go_error) \<Rightarrow> 'e \<Rightarrow> ('e list \<Rightarrow> ext_err + 'a) \<Rightarrow> ('e, 'a) action" where
  "fetch conv ev answer =
     (\<lambda>h. case answer h of Inr a \<Rightarrow> (Inr a, ev # h) | Inl e \<Rightarrow> (Inl (conv e), ev # h))"

text \<open>\<open>status.Error(code, err.Error())\<close> around a function of the driver; a panic stays one.\<close>

definition as_status :: "grpc_code \<Rightarrow> go_error \<Rightarrow> go_error" where
  "as_status code e = (if e = GoPanic \<or> e = GoExit then e else Status code)"

text \<open>\<open>fmt.Errorf("...: %v", err)\<close>: the message stays, the kind of the error is lost.\<close>

definition wrap_msg :: "go_error \<Rightarrow> go_error" where
  "wrap_msg e = (if e = GoPanic \<or> e = GoExit then e else PlainMsg)"

definition map_error :: "(go_error \<Rightarrow> go_error) \<Rightarrow> ('s, 'a) stateful \<Rightarrow> ('s, 'a) stateful" where
  "map_error f m = (\<lambda>h. case m h of (Inl e, h') \<Rightarrow> (Inl (f e), h') | (Inr a, h') \<Rightarrow> (Inr a, h'))"

text \<open>The error of an action as a value, and its text.\<close>

definition attempt :: "('s, 'a) stateful \<Rightarrow> ('s, go_error + 'a) stateful" where
  "attempt m = (\<lambda>h. case m h of (r, h') \<Rightarrow> (Inr r, h'))"

definition error_text :: "go_error \<Rightarrow> string" where
  "error_text e = (case e of Plain x \<Rightarrow> err_text x | _ \<Rightarrow> [])"

definition check :: "bool \<Rightarrow> go_error \<Rightarrow> ('s, unit) stateful" where
  "check b e = (if b then ret () else fail e)"

fun for_each :: "('x \<Rightarrow> ('s, unit) stateful) \<Rightarrow> 'x list \<Rightarrow> ('s, unit) stateful" where
  "for_each f [] = ret ()"
| "for_each f (x # xs) = andThen (f x) (\<lambda>_. for_each f xs)"

fun map_each :: "('x \<Rightarrow> ('s, 'y) stateful) \<Rightarrow> 'x list \<Rightarrow> ('s, 'y list) stateful" where
  "map_each f [] = ret []"
| "map_each f (x # xs) = andThen (f x) (\<lambda>y. andThen (map_each f xs) (\<lambda>ys. ret (y # ys)))"

lemma ret_fail_simps [simp]:
  "ret a s = (Inr a, s)"
  "fail e s = (Inl e, s)"
  by (simp_all add: ret_def fail_def)

lemma action_simps [simp]:
  "ask ev ans h = (Inr (ans h), ev # h)"
  "answer h = None \<Longrightarrow> call conv ev answer h = (Inr (), ev # h)"
  "answer h = Some x \<Longrightarrow> call conv ev answer h = (Inl (conv x), ev # h)"
  "answer' h = Inr a' \<Longrightarrow> fetch conv ev answer' h = (Inr a', ev # h)"
  "answer' h = Inl x \<Longrightarrow> fetch conv ev answer' h = (Inl (conv x), ev # h)"
  by (simp_all add: ask_def call_def fetch_def)

lemma andThen_simps [simp]:
  "m h = (Inr a, h') \<Longrightarrow> andThen m f h = f a h'"
  "m h = (Inl e, h') \<Longrightarrow> andThen m f h = (Inl e, h')"
  by (simp_all add: andThen_def)

lemma map_error_simps [simp]:
  "m h = (Inr a, h') \<Longrightarrow> map_error f m h = (Inr a, h')"
  "m h = (Inl e, h') \<Longrightarrow> map_error f m h = (Inl (f e), h')"
  by (simp_all add: map_error_def)

lemma check_simps [simp]:
  "b \<Longrightarrow> check b e h = (Inr (), h)"
  "\<not> b \<Longrightarrow> check b e h = (Inl e, h)"
  by (simp_all add: check_def)

lemma attempt_simp [simp]: "m h = (r, h') \<Longrightarrow> attempt m h = (Inr r, h')"
  by (simp add: attempt_def)

lemma attempt_InrD: "attempt m h = (Inr r, h') \<Longrightarrow> m h = (r, h')"
  by (auto simp: attempt_def split: prod.splits)

lemma andThen_InrE:
  assumes "andThen m f h = (Inr b, h')"
  obtains a h1 where "m h = (Inr a, h1)" "f a h1 = (Inr b, h')"
  using assms by (auto simp: andThen_def split: prod.splits sum.splits)

lemma andThen_cases:
  assumes "andThen m f h = (r, h')"
  obtains e where "m h = (Inl e, h')" "r = Inl e"
    | a h1 where "m h = (Inr a, h1)" "f a h1 = (r, h')"
  using assms by (auto simp: andThen_def split: prod.splits sum.splits)

lemma call_InrD: "call conv ev answer h = (Inr u, h') \<Longrightarrow> answer h = None \<and> h' = ev # h"
  by (auto simp: call_def split: option.splits)

lemma fetch_InrD: "fetch conv ev answer h = (Inr a, h') \<Longrightarrow> answer h = Inr a \<and> h' = ev # h"
  by (auto simp: fetch_def split: sum.splits)

lemma map_error_InrD: "map_error f m h = (Inr a, h') \<Longrightarrow> m h = (Inr a, h')"
  by (auto simp: map_error_def split: prod.splits sum.splits)

text \<open>
  \<open>only P m\<close>: every event that \<open>m\<close> adds satisfies \<open>P\<close>. The rules follow the structure of an
  action, so a goal about a whole handler splits into goals about its calls.
\<close>

definition only :: "('e \<Rightarrow> bool) \<Rightarrow> ('e, 'a) action \<Rightarrow> bool" where
  "only P m \<longleftrightarrow> (\<forall>h r h'. m h = (r, h') \<longrightarrow> (\<exists>es. h' = es @ h \<and> list_all P es))"

lemma onlyD: "only P m \<Longrightarrow> m h = (r, h') \<Longrightarrow> \<exists>es. h' = es @ h \<and> list_all P es"
  by (simp add: only_def)

lemma only_add:
  assumes "m h = (r, e # h)" "P e"
  shows "\<exists>es. e # h = es @ h \<and> list_all P es"
  using assms by (intro exI [of _ "[e]"]) simp

lemma only_intros [hist_intro]:
  "only P (ret a)"
  "only P (fail e)"
  "only P (check b e)"
  "only P (Pair x)"
  "P ev \<Longrightarrow> only P (ask ev answer)"
  "P ev \<Longrightarrow> only P (call conv ev ans)"
  "P ev \<Longrightarrow> only P (fetch conv ev ans')"
  "only P m \<Longrightarrow> only P (map_error f m)"
  "only P m \<Longrightarrow> only P (attempt m)"
  "(b \<Longrightarrow> only P m1) \<Longrightarrow> (\<not> b \<Longrightarrow> only P m2) \<Longrightarrow> only P (if b then m1 else m2)"
  by (auto simp: only_def ret_def fail_def check_def ask_def call_def fetch_def map_error_def attempt_def
      intro: exI [of _ "[]"] exI [of _ "[ev]"] split: option.splits sum.splits prod.splits)

lemma only_andThen [hist_intro]:
  assumes "only P m" "\<And>a h h'. m h = (Inr a, h') \<Longrightarrow> only P (f a)"
  shows "only P (andThen m f)"
  unfolding only_def
proof (intro allI impI)
  fix h r h'
  assume "andThen m f h = (r, h')"
  then show "\<exists>es. h' = es @ h \<and> list_all P es"
  proof (cases rule: andThen_cases)
    case (1 e)
    with assms(1) show ?thesis by (blast dest: onlyD)
  next
    case (2 a h1)
    from onlyD [OF assms(1) 2(1)] onlyD [OF assms(2) [OF 2(1)] 2(2)]
    obtain es es' where "h1 = es @ h" "list_all P es" "h' = es' @ h1" "list_all P es'" by blast
    then show ?thesis by (intro exI [of _ "es' @ es"]) simp
  qed
qed

lemma only_for_each [hist_intro]: "(\<And>x. only P (f x)) \<Longrightarrow> only P (for_each f xs)"
  by (induction xs) (auto intro: hist_intro)

lemma only_map_each [hist_intro]: "(\<And>x. only P (f x)) \<Longrightarrow> only P (map_each f xs)"
  by (induction xs) (auto intro!: hist_intro)

lemma only_weaken: "only P m \<Longrightarrow> (\<And>e. P e \<Longrightarrow> Q e) \<Longrightarrow> only Q m"
  unfolding only_def list_all_iff by metis

text \<open>
  \<open>keeps J m\<close>: \<open>m\<close> ends in a state where \<open>J\<close> holds when it starts in one, whatever its result.
\<close>

definition keeps :: "('s \<Rightarrow> bool) \<Rightarrow> ('s, 'a) stateful \<Rightarrow> bool" where
  "keeps J m \<longleftrightarrow> (\<forall>s r s'. m s = (r, s') \<longrightarrow> J s \<longrightarrow> J s')"

lemma keepsD: "keeps J m \<Longrightarrow> m s = (r, s') \<Longrightarrow> J s \<Longrightarrow> J s'"
  by (auto simp: keeps_def)

lemma keeps_intros [keeps_intro]:
  "keeps J (ret a)"
  "keeps J (fail e)"
  "keeps J (check b e)"
  "keeps J m \<Longrightarrow> keeps J (map_error f m)"
  "(b \<Longrightarrow> keeps J m1) \<Longrightarrow> (\<not> b \<Longrightarrow> keeps J m2) \<Longrightarrow> keeps J (if b then m1 else m2)"
  by (auto simp: keeps_def ret_def fail_def check_def map_error_def split: prod.splits sum.splits)

lemma keeps_andThen [keeps_intro]:
  assumes "keeps J m" "\<And>a s s'. m s = (Inr a, s') \<Longrightarrow> keeps J (f a)"
  shows "keeps J (andThen m f)"
  using assms unfolding keeps_def by (metis andThen_cases)

section \<open>path/filepath\<close>

text \<open>
  \<open>filepath.Clean\<close>: \<open>clean_parts rooted parts acc\<close> goes over the elements between the slashes with
  the result so far in reverse.
\<close>

fun clean_parts :: "bool \<Rightarrow> string list \<Rightarrow> string list \<Rightarrow> string list" where
  "clean_parts rooted [] acc = rev acc"
| "clean_parts rooted (w # ws) acc =
     (if w = [] \<or> w = ''.'' then clean_parts rooted ws acc
      else if w = ''..'' then
        (case acc of
           [] \<Rightarrow> clean_parts rooted ws (if rooted then [] else [w])
         | e # es \<Rightarrow> if e = ''..'' then clean_parts rooted ws (w # acc) else clean_parts rooted ws es)
      else clean_parts rooted ws (w # acc))"

definition Clean :: "string \<Rightarrow> string" where
  "Clean path =
     (let rooted = HasPrefix path ''/'';
          out = (if rooted then ''/'' else []) @ Join (clean_parts rooted (SplitC (CHR ''/'') path) []) ''/''
      in if out = [] then ''.'' else out)"

text \<open>\<open>filepath.Join\<close> (and \<open>path.Join\<close>) leaves out empty elements.\<close>

definition PathJoin :: "string list \<Rightarrow> string" where
  "PathJoin elems =
     (let es = filter (\<lambda>e. e \<noteq> []) elems in if es = [] then [] else Clean (Join es ''/''))"

text \<open>\<open>filepath.Dir\<close> (and \<open>path.Dir\<close>): all but the last element.\<close>

definition PathDir :: "string \<Rightarrow> string" where
  "PathDir path = Clean (rev (dropWhile (\<lambda>c. c \<noteq> CHR ''/'') (rev path)))"

text \<open>A name without slash that is no dot name is appended to a rooted path of such names.\<close>

definition plain_name :: "string \<Rightarrow> bool" where
  "plain_name w \<longleftrightarrow> w \<notin> {[], ''.'', ''..''} \<and> CHR ''/'' \<notin> set w"

lemma clean_parts_plain: "list_all plain_name ws \<Longrightarrow> clean_parts rooted ws acc = rev acc @ ws"
  by (induction ws arbitrary: acc) (auto simp: plain_name_def)

lemma Clean_plain:
  assumes "list_all plain_name ws"
  shows "Clean (CHR ''/'' # Join ws ''/'') = CHR ''/'' # Join ws ''/''"
proof (cases ws)
  case Nil
  then show ?thesis by (simp add: Clean_def HasPrefix_def)
next
  case (Cons w rest)
  with assms have "\<forall>d\<in>set ws. CHR ''/'' \<notin> set d" by (auto simp: list_all_iff plain_name_def)
  with Cons have "SplitC (CHR ''/'') (CHR ''/'' # Join ws ''/'') = [] # ws"
    using SplitC_Join [of ws "CHR ''/''"] by simp
  with assms show ?thesis by (simp add: Clean_def HasPrefix_def clean_parts_plain)
qed

lemma Join_snoc: "ws \<noteq> [] \<Longrightarrow> Join (ws @ [w]) sep = Join ws sep @ sep @ w"
proof (induction ws)
  case (Cons a ws)
  then show ?case by (cases ws) (auto simp: Join_Cons)
qed simp

lemma PathJoin_plain:
  assumes "list_all plain_name ws" "ws \<noteq> []" "plain_name w"
  shows "PathJoin [CHR ''/'' # Join ws ''/'', w] = CHR ''/'' # Join ws ''/'' @ ''/'' @ w"
proof -
  have "w \<noteq> []" using assms(3) by (simp add: plain_name_def)
  then have "PathJoin [CHR ''/'' # Join ws ''/'', w] = Clean (CHR ''/'' # Join (ws @ [w]) ''/'')"
    using assms(2) by (simp add: PathJoin_def Join_snoc)
  also have "\<dots> = CHR ''/'' # Join (ws @ [w]) ''/''"
    using assms by (intro Clean_plain) simp
  finally show ?thesis using assms(2) by (simp add: Join_snoc)
qed

section \<open>The node\<close>

datatype host_event =
    NotMountPoint string                        \<comment> \<open>\<open>mounter.IsLikelyNotMountPoint\<close>\<close>
  | MountCall string string string "string list"  \<comment> \<open>source, target, file system, options\<close>
  | Unmount string
  | DeviceFromMount string                      \<comment> \<open>\<open>mount.GetDeviceNameFromMount\<close>\<close>
  | FormatAndMount string string string "string list"
  | CleanupMountPoint string
  | ResizeFs string string                      \<comment> \<open>device, path\<close>
  | Stat string
  | Lstat string
  | EvalSymlinks string
  | Symlink string string
  | Glob string
  | ReadFile string
  | WriteFile string string
  | OpenFile string
  | MkdirAll string
  | RemoveFile string
  | RemoveAll string
  | SeekEnd string
  | Exec string "string list"
  | StatFS string
  | Dial string
  | ReadDir string
  | WriteStrings string "string list"           \<comment> \<open>\<open>WriteFile\<close> of a JSON list of strings\<close>
  | SetProperty string string                   \<comment> \<open>\<open>viper.Set\<close>\<close>
  | DevicePathNotExist                          \<comment> \<open>the counter of \<open>findCBSVolume\<close>\<close>

type_synonym host_hist = "host_event list"

text \<open>
  The numbers of \<open>volume.NewMetricsStatFS(path).GetMetrics()\<close>, each with the flag of
  \<open>AsInt64\<close> as an option.
\<close>

record volume_metrics =
  vm_Available :: "int option"
  vm_Capacity :: "int option"
  vm_Used :: "int option"
  vm_InodesFree :: "int option"
  vm_Inodes :: "int option"
  vm_InodesUsed :: "int option"

text \<open>
  The answers. \<open>on_NotMountPoint\<close> gives Go's pair of flag and error, \<open>on_Stat\<close> whether the path
  is a directory, \<open>on_Lstat\<close> whether it is a symbolic link, \<open>on_Exec\<close> the error and the output.
\<close>

record host_env =
  on_NotMountPoint :: "host_hist \<Rightarrow> string \<Rightarrow> bool \<times> ext_err option"
  on_MountCall :: "host_hist \<Rightarrow> string \<Rightarrow> string \<Rightarrow> string \<Rightarrow> string list \<Rightarrow> ext_err option"
  on_Unmount :: "host_hist \<Rightarrow> string \<Rightarrow> ext_err option"
  on_DeviceFromMount :: "host_hist \<Rightarrow> string \<Rightarrow> ext_err + (string \<times> nat)"
  on_FormatAndMount :: "host_hist \<Rightarrow> string \<Rightarrow> string \<Rightarrow> string \<Rightarrow> string list \<Rightarrow> ext_err option"
  on_CleanupMountPoint :: "host_hist \<Rightarrow> string \<Rightarrow> ext_err option"
  on_ResizeFs :: "host_hist \<Rightarrow> string \<Rightarrow> string \<Rightarrow> ext_err option"
  on_Stat :: "host_hist \<Rightarrow> string \<Rightarrow> ext_err + bool"
  on_Lstat :: "host_hist \<Rightarrow> string \<Rightarrow> ext_err + bool"
  on_EvalSymlinks :: "host_hist \<Rightarrow> string \<Rightarrow> ext_err + string"
  on_Symlink :: "host_hist \<Rightarrow> string \<Rightarrow> string \<Rightarrow> ext_err option"
  on_Glob :: "host_hist \<Rightarrow> string \<Rightarrow> string list"
  on_ReadFile :: "host_hist \<Rightarrow> string \<Rightarrow> ext_err + string"
  on_WriteFile :: "host_hist \<Rightarrow> string \<Rightarrow> ext_err option"
  on_OpenFile :: "host_hist \<Rightarrow> string \<Rightarrow> ext_err option"
  on_MkdirAll :: "host_hist \<Rightarrow> string \<Rightarrow> ext_err option"
  on_RemoveFile :: "host_hist \<Rightarrow> string \<Rightarrow> ext_err option"
  on_RemoveAll :: "host_hist \<Rightarrow> string \<Rightarrow> ext_err option"
  on_SeekEnd :: "host_hist \<Rightarrow> string \<Rightarrow> ext_err + int"
  on_Exec :: "host_hist \<Rightarrow> string \<Rightarrow> string list \<Rightarrow> ext_err option \<times> string"
  on_StatFS :: "host_hist \<Rightarrow> string \<Rightarrow> ext_err + volume_metrics"
  on_Dial :: "host_hist \<Rightarrow> string \<Rightarrow> ext_err option"

type_synonym 'a host_action = "(host_event, 'a) action"

definition notMountPoint :: "host_env \<Rightarrow> string \<Rightarrow> (bool \<times> ext_err option) host_action" where
  "notMountPoint env path = ask (NotMountPoint path) (\<lambda>h. on_NotMountPoint env h path)"

lemma notMountPoint_simp [simp]:
  "notMountPoint env p h = (Inr (on_NotMountPoint env h p), NotMountPoint p # h)"
  by (simp add: notMountPoint_def)

lemma only_notMountPoint [hist_intro]: "P (NotMountPoint p) \<Longrightarrow> only P (notMountPoint env p)"
  by (simp add: notMountPoint_def only_intros)

definition isFileExisted :: "host_env \<Rightarrow> string \<Rightarrow> bool host_action" where
  "isFileExisted env filename =
     andThen (ask (Stat filename) (\<lambda>h. on_Stat env h filename)) (\<lambda>r.
       ret (case r of Inr _ \<Rightarrow> True | Inl err \<Rightarrow> \<not> IsNotExist err))"

definition isMountPoint :: "host_env \<Rightarrow> string \<Rightarrow> bool host_action" where
  "isMountPoint env path =
     andThen (notMountPoint env path) (\<lambda>(notMnt, err).
       case err of Some e \<Rightarrow> fail (Plain e) | None \<Rightarrow> ret (\<not> notMnt))"

lemma only_isFileExisted [hist_intro]: "P (Stat p) \<Longrightarrow> only P (isFileExisted env p)"
  unfolding isFileExisted_def by (auto intro!: hist_intro)

lemma only_isMountPoint [hist_intro]: "P (NotMountPoint p) \<Longrightarrow> only P (isMountPoint env p)"
  unfolding isMountPoint_def by (auto intro!: hist_intro split: option.split)

lemma isMountPoint_InrD:
  "isMountPoint env p h = (Inr b, h') \<Longrightarrow> on_NotMountPoint env h p = (\<not> b, None) \<and> h' = NotMountPoint p # h"
  by (auto simp: isMountPoint_def andThen_def split: prod.splits option.splits)

text \<open>The last thing that happened was a test of the path, and it found a mount.\<close>

definition seen_mounted :: "host_env \<Rightarrow> string \<Rightarrow> host_hist \<Rightarrow> bool" where
  "seen_mounted env p h \<longleftrightarrow> (\<exists>h0. h = NotMountPoint p # h0 \<and> on_NotMountPoint env h0 p = (False, None))"

lemma seen_mountedI: "isMountPoint env p h = (Inr True, h') \<Longrightarrow> seen_mounted env p h'"
  by (auto simp: seen_mounted_def dest!: isMountPoint_InrD)

text \<open>
  \<open>if notMnt, err := IsLikelyNotMountPoint(path); err != nil { if os.IsNotExist(err) { MkdirAll }
  else Internal }\<close>: how the nodes make sure that a mount point is there. The result is
  \<open>notMnt\<close>; \<open>assumed\<close> is its value for a path that was just made (\<open>None\<close>: what the call said).
\<close>

definition ensure_mount_dir :: "host_env \<Rightarrow> bool option \<Rightarrow> string \<Rightarrow> bool host_action" where
  "ensure_mount_dir env assumed path =
     andThen (notMountPoint env path) (\<lambda>(notMnt, err).
       case err of
         None \<Rightarrow> ret notMnt
       | Some e \<Rightarrow>
           if IsNotExist e then
             andThen (call (\<lambda>_. Status Internal) (MkdirAll path) (\<lambda>h. on_MkdirAll env h path)) (\<lambda>_.
               ret (case assumed of Some b \<Rightarrow> b | None \<Rightarrow> notMnt))
           else fail (Status Internal))"

lemma only_ensure_mount_dir [hist_intro]:
  "P (NotMountPoint p) \<Longrightarrow> P (MkdirAll p) \<Longrightarrow> only P (ensure_mount_dir env a p)"
  unfolding ensure_mount_dir_def by (auto intro!: hist_intro split: option.split)

text \<open>The errors of a mount, by class.\<close>

definition mount_error :: "ext_err \<Rightarrow> go_error" where
  "mount_error err =
     (if IsPermission err then Status PermissionDenied
      else if Contains (err_text err) ''invalid argument'' then Status InvalidArgument
      else Status Internal)"

definition mount_call :: "(ext_err \<Rightarrow> go_error) \<Rightarrow> host_env \<Rightarrow> string \<Rightarrow> string \<Rightarrow> string \<Rightarrow> string list \<Rightarrow> unit host_action" where
  "mount_call conv env source target fstype mo =
     call conv (MountCall source target fstype mo) (\<lambda>h. on_MountCall env h source target fstype mo)"

section \<open>What requests and answers of a node are made of\<close>

datatype access_type =
    BlockAccess
  | MountAccess (fs_type: string) (mount_flags: "string list")
  | NoAccess

text \<open>The nil-safe getters of the generated code.\<close>

fun GetFsType :: "access_type \<Rightarrow> string" where
  "GetFsType (MountAccess t fs) = t"
| "GetFsType _ = []"

fun GetMountFlags :: "access_type \<Rightarrow> string list" where
  "GetMountFlags (MountAccess t fs) = fs"
| "GetMountFlags _ = []"

record VolumeUsage =
  u_Available :: int
  u_Total :: int
  u_Used :: int

text \<open>The numbers in the order the code converts them; the first that is no \<open>int64\<close> is an error.\<close>

definition volume_usage :: "volume_metrics \<Rightarrow> go_error + (VolumeUsage \<times> VolumeUsage)" where
  "volume_usage m =
     (case (vm_Available m, vm_Capacity m, vm_Used m, vm_InodesFree m, vm_Inodes m, vm_InodesUsed m) of
        (Some available, Some capacity, Some used, Some inodesFree, Some inodes, Some inodesUsed) \<Rightarrow>
          Inr (\<lparr>u_Available = available, u_Total = capacity, u_Used = used\<rparr>,
               \<lparr>u_Available = inodesFree, u_Total = inodes, u_Used = inodesUsed\<rparr>)
      | _ \<Rightarrow> Inl (Status Internal))"

text \<open>A text that \<open>json.Unmarshal\<close> reads into a map of strings, \<open>null\<close>, and one it refuses.\<close>

datatype map_text = StringMap "(string \<times> string) list" | NullMap | BadMap

section \<open>Unmounting a whole stack\<close>

text \<open>
  \<open>for n := 0; ; n++\<close> over \<open>IsLikelyNotMountPoint\<close> and \<open>Unmount\<close>: the loop has no bound of its
  own, so not returning is the value \<open>None\<close>. The counter is only logged.
\<close>

partial_function (option) unmount_all :: "host_env \<Rightarrow> string \<Rightarrow> host_hist \<Rightarrow> ((go_error + unit) \<times> host_hist) option" where
  "unmount_all env targetPath h =
     (case on_NotMountPoint env h targetPath of
        (notMnt, Some err) \<Rightarrow>
          Some (if IsNotExist err then Inr () else Inl (Status Internal), NotMountPoint targetPath # h)
      | (notMnt, None) \<Rightarrow>
          if notMnt then Some (Inr (), NotMountPoint targetPath # h)
          else
            (case on_Unmount env (NotMountPoint targetPath # h) targetPath of
               Some err \<Rightarrow> Some (Inl (Status Internal), Unmount targetPath # NotMountPoint targetPath # h)
             | None \<Rightarrow> unmount_all env targetPath (Unmount targetPath # NotMountPoint targetPath # h)))"

fun unmounts :: "string \<Rightarrow> host_hist \<Rightarrow> nat" where
  "unmounts p [] = 0"
| "unmounts p (Unmount q # h) = (if p = q then Suc (unmounts p h) else unmounts p h)"
| "unmounts p (_ # h) = unmounts p h"

text \<open>
  A mounter that behaves: \<open>k\<close> mounts lie on the path, every unmount takes one away, and the test
  sees whether any is left.
\<close>

definition stacked_mounts :: "host_env \<Rightarrow> string \<Rightarrow> nat \<Rightarrow> bool" where
  "stacked_mounts env p k \<longleftrightarrow>
     (\<forall>h. on_NotMountPoint env h p = (k \<le> unmounts p h, None) \<and> on_Unmount env h p = None)"

lemma unmount_all_stack:
  assumes "stacked_mounts env p k"
  shows "\<exists>h'. unmount_all env p h = Some (Inr (), h') \<and> unmounts p h' = max k (unmounts p h)"
proof (induction "k - unmounts p h" arbitrary: h)
  case 0
  then have "k \<le> unmounts p h" by simp
  then show ?case
    using assms by (subst unmount_all.simps) (simp add: stacked_mounts_def max_def)
next
  case (Suc n)
  let ?h = "Unmount p # NotMountPoint p # h"
  from Suc(2) have "n = k - unmounts p ?h" by simp
  from Suc(1) [OF this] obtain h' where
    "unmount_all env p ?h = Some (Inr (), h')" "unmounts p h' = max k (unmounts p ?h)" by blast
  moreover have "unmount_all env p h = unmount_all env p ?h"
    using assms Suc(2) by (subst unmount_all.simps) (auto simp: stacked_mounts_def)
  ultimately show ?case using Suc(2) by (intro exI [of _ h']) simp
qed

text \<open>Success means that the last test found no mount, or no path.\<close>

definition no_mount_left :: "host_env \<Rightarrow> string \<Rightarrow> host_hist \<Rightarrow> bool" where
  "no_mount_left env p h \<longleftrightarrow>
     (\<exists>h0. h = NotMountPoint p # h0 \<and>
        (on_NotMountPoint env h0 p = (True, None) \<or>
         (\<exists>b e. on_NotMountPoint env h0 p = (b, Some e) \<and> IsNotExist e)))"

lemma unmount_all_sound:
  assumes "unmount_all env p h = Some y"
  shows "fst y = Inr () \<longrightarrow> no_mount_left env p (snd y)"
proof (rule unmount_all.raw_induct [where P = "\<lambda>e q g z. fst z = Inr () \<longrightarrow> no_mount_left e q (snd z)", OF _ assms])
  fix f e q g z
  assume IH: "\<And>e q g z. f e q g = Some z \<Longrightarrow> fst z = Inr () \<longrightarrow> no_mount_left e q (snd z)"
    and "(case on_NotMountPoint e g q of
        (notMnt, None) \<Rightarrow>
          if notMnt then Some (Inr (), NotMountPoint q # g)
          else
            (case on_Unmount e (NotMountPoint q # g) q of
               None \<Rightarrow> f e q (Unmount q # NotMountPoint q # g)
             | Some err \<Rightarrow> Some (Inl (Status Internal), Unmount q # NotMountPoint q # g))
      | (notMnt, Some err) \<Rightarrow>
          Some (if IsNotExist err then Inr () else Inl (Status Internal), NotMountPoint q # g)) = Some z"
  then show "fst z = Inr () \<longrightarrow> no_mount_left e q (snd z)"
    by (auto simp: no_mount_left_def split: prod.splits option.splits if_splits)
qed

text \<open>A node on which every call succeeds and nothing is mounted; the instances of properties vary it.\<close>

definition quiet_host :: host_env where
  "quiet_host =
     \<lparr>on_NotMountPoint = (\<lambda>h p. (True, None)), on_MountCall = (\<lambda>h s t f os. None),
      on_Unmount = (\<lambda>h p. None), on_DeviceFromMount = (\<lambda>h p. Inr ([], 0)),
      on_FormatAndMount = (\<lambda>h s t f os. None), on_CleanupMountPoint = (\<lambda>h p. None),
      on_ResizeFs = (\<lambda>h d p. None), on_Stat = (\<lambda>h p. Inr True), on_Lstat = (\<lambda>h p. Inr True),
      on_EvalSymlinks = (\<lambda>h p. Inr ''/dev/vdb''), on_Symlink = (\<lambda>h a b. None),
      on_Glob = (\<lambda>h p. [''/sys/block/vdb'']), on_ReadFile = (\<lambda>h p. Inr ''disk-a''),
      on_WriteFile = (\<lambda>h p. None), on_OpenFile = (\<lambda>h p. None), on_MkdirAll = (\<lambda>h p. None),
      on_RemoveFile = (\<lambda>h p. None), on_RemoveAll = (\<lambda>h p. None), on_SeekEnd = (\<lambda>h p. Inr 0),
      on_Exec = (\<lambda>h c as. (None, [])),
      on_StatFS = (\<lambda>h p. Inr \<lparr>vm_Available = Some 1, vm_Capacity = Some 2, vm_Used = Some 1,
        vm_InodesFree = Some 1, vm_Inodes = Some 2, vm_InodesUsed = Some 1\<rparr>),
      on_Dial = (\<lambda>h a. None)\<rparr>"

end
