(* ===== verification/CbsDevices.thy ===== *)
theory CbsDevices imports Host CbsTypes begin

text \<open>
  How the CBS node finds the block devices of a volume (\<open>findCBSVolume\<close> and its helpers in
  \<open>node.go\<close>) and puts several of them together (\<open>devicemapper.go\<close>: mdadm and LVM). The lemmas
  say where a found device lies, which disks a device list stands for, and which commands are
  run.
\<close>

section \<open>Finding the device of a disk\<close>

abbreviation "DiskByIDDevicePath \<equiv> ''/dev/disk/by-id''"
abbreviation "DiskByIDDeviceNamePrefix \<equiv> ''virtio-''"

definition disk_link :: "string \<Rightarrow> string" where
  "disk_link diskId = PathJoin [DiskByIDDevicePath, DiskByIDDeviceNamePrefix @ diskId]"

definition pathExist :: "host_env \<Rightarrow> string \<Rightarrow> bool host_action" where
  "pathExist env path =
     andThen (ask (Stat path) (\<lambda>h. on_Stat env h path)) (\<lambda>r.
       case r of
         Inr _ \<Rightarrow> ret True
       | Inl e \<Rightarrow> if IsNotExist e then ret False else fail (Plain e))"

fun serial_loop :: "host_env \<Rightarrow> string \<Rightarrow> string list \<Rightarrow> string host_action" where
  "serial_loop env diskId [] = fail PlainMsg"
| "serial_loop env diskId (dir # dirs) =
     (let serialPath = PathJoin [dir, ''serial''] in
      andThen (pathExist env serialPath) (\<lambda>serialPathExist.
        if \<not> serialPathExist then serial_loop env diskId dirs
        else andThen (fetch (\<lambda>_. PlainMsg) (ReadFile serialPath) (\<lambda>h. on_ReadFile env h serialPath)) (\<lambda>content.
          if Trim content '' '' = diskId then
            ret (PathJoin [''/dev/'', last (SplitC (CHR ''/'') dir)])
          else serial_loop env diskId dirs)))"

definition getDevicePathsBySerial :: "host_env \<Rightarrow> string \<Rightarrow> string host_action" where
  "getDevicePathsBySerial env diskId =
     andThen (ask (Glob ''/sys/block/*'') (\<lambda>h. on_Glob env h ''/sys/block/*''))
       (serial_loop env diskId)"

definition findCBSVolume :: "host_env \<Rightarrow> string \<Rightarrow> string host_action" where
  "findCBSVolume env diskId =
     (let p = disk_link diskId in
      andThen (ask (Lstat p) (\<lambda>h. on_Lstat env h p)) (\<lambda>stat.
        case stat of
          Inl err \<Rightarrow>
            if IsNotExist err then
              andThen (ask DevicePathNotExist (\<lambda>h. ())) (\<lambda>_.
              andThen (getDevicePathsBySerial env diskId) (\<lambda>deviceFromSerial.
              andThen (call (\<lambda>_. PlainMsg) (Symlink deviceFromSerial p) (\<lambda>h. on_Symlink env h deviceFromSerial p)) (\<lambda>_.
              ret deviceFromSerial)))
            else fail PlainMsg
        | Inr isSymlink \<Rightarrow>
            if \<not> isSymlink then fail PlainMsg
            else
              andThen (fetch (\<lambda>_. PlainMsg) (EvalSymlinks p) (\<lambda>h. on_EvalSymlinks env h p)) (\<lambda>resolved.
              if \<not> HasPrefix resolved ''/dev'' then fail PlainMsg else ret resolved)))"

definition checkVolumePathCapacity :: "host_env \<Rightarrow> string \<Rightarrow> int \<Rightarrow> unit host_action" where
  "checkVolumePathCapacity env devicePath requiredBytes =
     andThen (fetch (\<lambda>_. PlainMsg) (SeekEnd devicePath) (\<lambda>h. on_SeekEnd env h devicePath)) (\<lambda>capacity.
       if capacity < requiredBytes then fail PlainMsg else ret ())"

section \<open>Several disks\<close>

definition getDiskSourceListFromDiskIds :: "host_env \<Rightarrow> string \<Rightarrow> string list host_action" where
  "getDiskSourceListFromDiskIds env diskIds =
     map_each (\<lambda>disk. map_error wrap_msg (findCBSVolume env disk)) (diskIdList diskIds)"

definition exec_command :: "(ext_err \<Rightarrow> go_error) \<Rightarrow> host_env \<Rightarrow> string \<Rightarrow> string list \<Rightarrow> string host_action" where
  "exec_command conv env cmd args =
     andThen (ask (Exec cmd args) (\<lambda>h. on_Exec env h cmd args)) (\<lambda>(err, output).
       case err of Some e \<Rightarrow> fail (conv e) | None \<Rightarrow> ret output)"

fun getPVName :: "string list \<Rightarrow> string" where
  "getPVName [] = []"
| "getPVName (val # vals) = (if HasPrefix val ''pvc-'' then val else getPVName vals)"

definition getPVNameFromStagingPath :: "string \<Rightarrow> string" where
  "getPVNameFromStagingPath stagingPath = getPVName (SplitC (CHR ''/'') stagingPath)"

subsection \<open>mdadm\<close>

record mdadm_params =
  md_level :: int
  md_devices :: int
  md_sLevel :: string
  md_sDevices :: string

definition mdadm_param :: "mdadm_params \<Rightarrow> string \<times> string \<Rightarrow> mdadm_params" where
  "mdadm_param p kv =
     (let k = ToLower (fst kv); v = snd kv in
      if k = ''level'' then
        (case Atoi v of
           (None, n) \<Rightarrow> p\<lparr>md_sLevel := v, md_level := n\<rparr>
         | (Some e, n) \<Rightarrow> p\<lparr>md_sLevel := v\<rparr>)
      else if k = ''devices'' then
        (case Atoi v of
           (None, n) \<Rightarrow> p\<lparr>md_sDevices := v, md_devices := n\<rparr>
         | (Some e, n) \<Rightarrow> p\<lparr>md_sDevices := v\<rparr>)
      else p)"

definition mdadmCreate :: "host_env \<Rightarrow> string \<Rightarrow> (string \<times> string) list \<Rightarrow> string \<Rightarrow> string host_action" where
  "mdadmCreate env diskIds volumeContext stagingTargetPath =
     (let p = foldl mdadm_param \<lparr>md_level = -1, md_devices = -1, md_sLevel = [], md_sDevices = []\<rparr> volumeContext in
      if md_level p = -1 \<or> md_devices p = -1 then fail PlainMsg
      else
        andThen (map_error wrap_msg (getDiskSourceListFromDiskIds env diskIds)) (\<lambda>diskSourceList.
        andThen (check (int (length diskSourceList) = md_devices p) PlainMsg) (\<lambda>_.
          let pvName = getPVNameFromStagingPath stagingTargetPath in
          if pvName = [] then fail PlainMsg
          else
            let mdPath = ''/dev/md/'' @ pvName in
            andThen (exec_command (\<lambda>_. PlainMsg) env ''mdadm''
                ([''--create'', mdPath, ''--level='' @ md_sLevel p, ''--raid-devices='' @ md_sDevices p] @ diskSourceList)) (\<lambda>res.
            ret mdPath))))"

text \<open>The only caller is behind a switch over the constant \<open>LVM\<close>, so it is never run.\<close>

definition mdadmDelete :: "host_env \<Rightarrow> string \<Rightarrow> string \<Rightarrow> unit host_action" where
  "mdadmDelete env diskIds stagingTargetPath =
     andThen (map_error wrap_msg (getDiskSourceListFromDiskIds env diskIds)) (\<lambda>diskSourceList.
       let pvName = getPVNameFromStagingPath stagingTargetPath in
       if pvName = [] then fail PlainMsg
       else
         andThen (exec_command Plain env ''mdadm'' [''-S'', ''/dev/md/'' @ pvName]) (\<lambda>_.
           for_each (\<lambda>diskSource.
               andThen (exec_command Plain env ''mdadm'' [''--zero-superblock'', diskSource]) (\<lambda>_. ret ()))
             diskSourceList))"

subsection \<open>LVM\<close>

definition lvm_pvName :: "string \<Rightarrow> string" where
  "lvm_pvName stagingTargetPath = ReplaceC (CHR ''-'') (CHR ''_'') (getPVNameFromStagingPath stagingTargetPath)"

definition lvmVgchange :: "host_env \<Rightarrow> string \<Rightarrow> bool \<Rightarrow> unit host_action" where
  "lvmVgchange env stagingTargetPath active =
     (if getPVNameFromStagingPath stagingTargetPath = [] then fail PlainMsg
      else
        let vgName = lvm_pvName stagingTargetPath @ ''_vg'' in
        andThen (exec_command (\<lambda>_. PlainMsg) env ''vgchange'' [if active then ''-ay'' else ''-an'', vgName])
          (\<lambda>_. ret ()))"

definition checkLvm :: "host_env \<Rightarrow> string \<Rightarrow> string \<Rightarrow> bool host_action" where
  "checkLvm env vgName lvName =
     andThen (exec_command (\<lambda>_. PlainMsg) env ''lvs'' []) (\<lambda>res.
       ret (Contains res vgName \<and> Contains res lvName))"

definition lvm_param :: "int \<Rightarrow> string \<times> string \<Rightarrow> go_error + int" where
  "lvm_param devs kv =
     (if ToLower (fst kv) = ''devices'' then
        (case Atoi (snd kv) of (Some e, n) \<Rightarrow> Inl PlainMsg | (None, n) \<Rightarrow> Inr n)
      else Inr devs)"

definition lvmCreate :: "host_env \<Rightarrow> string \<Rightarrow> (string \<times> string) list \<Rightarrow> string \<Rightarrow> string host_action" where
  "lvmCreate env diskIds volumeContext stagingTargetPath =
     (if getPVNameFromStagingPath stagingTargetPath = [] then fail PlainMsg
      else case fold_err lvm_param 2 volumeContext of
        Inl e \<Rightarrow> fail e
      | Inr devs \<Rightarrow>
          andThen (map_error wrap_msg (getDiskSourceListFromDiskIds env diskIds)) (\<lambda>diskSourceList.
          andThen (check (int (length diskSourceList) = devs) PlainMsg) (\<lambda>_.
            let vgName = lvm_pvName stagingTargetPath @ ''_vg'';
                lvName = lvm_pvName stagingTargetPath @ ''_lv'';
                devicePath = ''/dev/mapper/'' @ vgName @ ''-'' @ lvName in
            andThen (map_error wrap_msg (checkLvm env vgName lvName)) (\<lambda>noNeedCreate.
              if noNeedCreate then
                andThen (map_error wrap_msg (lvmVgchange env stagingTargetPath True)) (\<lambda>_. ret devicePath)
              else
                andThen (for_each (\<lambda>diskSource.
                    andThen (exec_command (\<lambda>_. PlainMsg) env ''pvcreate'' [diskSource, ''-v'']) (\<lambda>_. ret ()))
                  diskSourceList) (\<lambda>_.
                andThen (exec_command (\<lambda>_. PlainMsg) env ''vgcreate'' ([vgName] @ diskSourceList @ [''-v''])) (\<lambda>_.
                andThen (exec_command (\<lambda>_. PlainMsg) env ''lvcreate''
                    [''-l'', ''100%FREE'', ''-n'', lvName, ''-i'',
                     case map_of volumeContext ''devices'' of Some v \<Rightarrow> v | None \<Rightarrow> [], vgName]) (\<lambda>_.
                ret devicePath)))))))"

text \<open>
  \<open>lvmExpand\<close> first checks the size of every disk, then resizes the physical volumes and extends
  the logical one; the one error of \<open>lvextend\<close> it tolerates is recognised by its text.
\<close>

definition lvmExpand :: "host_env \<Rightarrow> string \<Rightarrow> string \<Rightarrow> int \<Rightarrow> unit host_action" where
  "lvmExpand env diskIds devicePath requiredBytes =
     andThen (map_error wrap_msg (getDiskSourceListFromDiskIds env diskIds)) (\<lambda>diskSourceList.
     andThen (for_each (\<lambda>diskSource. map_error wrap_msg (checkVolumePathCapacity env diskSource requiredBytes))
         diskSourceList) (\<lambda>_.
     andThen (for_each (\<lambda>diskSource.
         andThen (exec_command (\<lambda>_. PlainMsg) env ''pvresize'' [diskSource]) (\<lambda>_. ret ()))
         diskSourceList) (\<lambda>_.
     andThen (ask (Exec ''lvextend'' [devicePath, ''-l+100%FREE'']) (\<lambda>h. on_Exec env h ''lvextend'' [devicePath, ''-l+100%FREE''])) (\<lambda>(err, out).
       case err of
         None \<Rightarrow> ret ()
       | Some e \<Rightarrow> if Contains (err_text e) ''matches existing size'' then ret () else fail PlainMsg))))"

section \<open>What is found\<close>

lemma exec_command_InrD:
  "exec_command conv env cmd args h = (Inr out, h') \<Longrightarrow> on_Exec env h cmd args = (None, out) \<and> h' = Exec cmd args # h"
  by (auto simp: exec_command_def andThen_def ask_def fail_def split: prod.splits option.splits)

lemma only_exec_command [hist_intro]: "P (Exec cmd args) \<Longrightarrow> only P (exec_command conv env cmd args)"
  unfolding exec_command_def by (auto intro!: hist_intro split: option.split)

text \<open>A device found by its serial lies right under \<open>/dev\<close>; one found by its link below \<open>/dev\<close>.\<close>

lemma serial_loop_InrD:
  "serial_loop env diskId dirs h = (Inr dev, h') \<Longrightarrow>
   dev \<in> (\<lambda>dir. PathJoin [''/dev/'', last (SplitC (CHR ''/'') dir)]) ` set dirs"
proof (induction dirs arbitrary: h)
  case (Cons dir dirs)
  from Cons.prems show ?case
    by (auto simp: Let_def elim!: andThen_InrE split: if_splits dest!: Cons.IH)
qed (simp add: fail_def)

lemma PathJoin_dev:
  assumes "plain_name w"
  shows "PathJoin [''/dev/'', w] = ''/dev/'' @ w"
proof -
  have "SplitC (CHR ''/'') (''/dev//'' @ w) = [[], ''dev'', [], w]"
    using assms SplitC_append [of "CHR ''/''" "[]" "w"] by (simp add: plain_name_def SplitC_no_sep)
  with assms show ?thesis
    by (simp add: PathJoin_def Clean_def HasPrefix_def plain_name_def)
qed

text \<open>A device that \<open>findCBSVolume\<close> returns lies below \<open>/dev\<close>, whether it was found through the link in
  \<open>by-id\<close> or through the serial numbers, given that the entries of \<open>/sys/block\<close> end in plain
  names. A disk whose link is missing is linked before it is returned.\<close>

theorem findCBSVolume_dev:
  assumes "findCBSVolume env d h = (Inr dev, h')"
    and "\<forall>h. \<forall>dir\<in>set (on_Glob env h ''/sys/block/*''). plain_name (last (SplitC (CHR ''/'') dir))"
  shows "HasPrefix dev ''/dev'' \<and>
    (on_Lstat env h (disk_link d) = Inr True \<or> Symlink dev (disk_link d) \<in> set h')"
proof (cases "on_Lstat env h (disk_link d)")
  case (Inl e)
  with assms(1) obtain h1 where s: "getDevicePathsBySerial env d (DevicePathNotExist # Lstat (disk_link d) # h) = (Inr dev, h1)"
    and h': "h' = Symlink dev (disk_link d) # h1"
    by (auto simp: findCBSVolume_def Let_def elim!: andThen_InrE dest!: call_InrD split: if_splits)
  from s obtain dir h2 where "dir \<in> set (on_Glob env h2 ''/sys/block/*'')"
    "dev = PathJoin [''/dev/'', last (SplitC (CHR ''/'') dir)]"
    by (auto simp: getDevicePathsBySerial_def elim!: andThen_InrE dest!: serial_loop_InrD)
  with assms(2) have "HasPrefix dev ''/dev''" by (simp add: PathJoin_dev HasPrefix_def)
  with h' show ?thesis by simp
next
  case (Inr b)
  with assms(1) show ?thesis
    by (auto simp: findCBSVolume_def Let_def elim!: andThen_InrE dest!: fetch_InrD split: if_splits)
qed

theorem findCBSVolume_dev_witness:
  "\<exists>h'. findCBSVolume (quiet_host\<lparr>on_Lstat := (\<lambda>h p. Inl (ExtErr ENotExist []))\<rparr>) ''disk-a'' [] = (Inr ''/dev/vdb'', h')
     \<and> Symlink ''/dev/vdb'' (disk_link ''disk-a'') \<in> set h'"
proof -
  let ?env = "quiet_host\<lparr>on_Lstat := (\<lambda>h p. Inl (ExtErr ENotExist []))\<rparr>"
  have r: "fst (findCBSVolume ?env ''disk-a'' []) = Inr ''/dev/vdb''" by code_simp
  have p: "plain_name (last (SplitC (CHR ''/'') ''/sys/block/vdb''))" by code_simp
  obtain h' where w: "findCBSVolume ?env ''disk-a'' [] = (Inr ''/dev/vdb'', h')"
    using r by (metis prod.collapse)
  from findCBSVolume_dev [OF w] w p show ?thesis by (auto simp: quiet_host_def)
qed

section \<open>LVM is not created twice\<close>

lemma only_findCBSVolume [hist_intro]:
  assumes "\<And>p. P (Lstat p)" "P DevicePathNotExist" "\<And>p. P (Glob p)" "\<And>p. P (Stat p)"
    "\<And>p. P (ReadFile p)" "\<And>a b. P (Symlink a b)" "\<And>p. P (EvalSymlinks p)"
  shows "only P (findCBSVolume env d)"
proof -
  have e: "only P (pathExist env p)" for p
    unfolding pathExist_def using assms by (auto intro!: hist_intro split: sum.split)
  have "only P (serial_loop env d dirs)" for dirs
    by (induction dirs) (auto simp: Let_def intro!: hist_intro e assms)
  then show ?thesis
    unfolding findCBSVolume_def getDevicePathsBySerial_def
    by (auto simp: Let_def intro!: hist_intro assms split: sum.split)
qed

text \<open>The events of looking for devices: no command among them.\<close>

fun no_exec :: "host_event \<Rightarrow> bool" where
  "no_exec (Exec cmd args) = False"
| "no_exec _ = True"

definition lvm_reuse_event :: "string \<Rightarrow> host_event \<Rightarrow> bool" where
  "lvm_reuse_event vgName e \<longleftrightarrow> no_exec e \<or> e = Exec ''lvs'' [] \<or> e = Exec ''vgchange'' [''-ay'', vgName]"

text \<open>C29. When \<open>lvs\<close> lists the volume group and the logical volume of a volume, \<open>lvmCreate\<close> only activates the
  group: it runs no \<open>pvcreate\<close>, \<open>vgcreate\<close> or \<open>lvcreate\<close> over the data that is there.\<close>

theorem lvmCreate_keeps_data:
  assumes "lvmCreate env diskIds ctx path h = (r, h')"
    and "\<forall>h. \<exists>out. on_Exec env h ''lvs'' [] = (None, out) \<and>
       Contains out (lvm_pvName path @ ''_vg'') \<and> Contains out (lvm_pvName path @ ''_lv'')"
  shows "\<exists>es. h' = es @ h \<and> list_all (lvm_reuse_event (lvm_pvName path @ ''_vg'')) es"
proof -
  let ?P = "lvm_reuse_event (lvm_pvName path @ ''_vg'')"
  have c: "b" if "map_error wrap_msg (checkLvm env (lvm_pvName path @ ''_vg'') (lvm_pvName path @ ''_lv'')) g = (Inr b, g')" for b g g'
    using map_error_InrD [OF that] assms(2)
    by (auto simp: checkLvm_def ret_def dest!: exec_command_InrD elim!: andThen_InrE) (metis prod.inject)+
  have "only ?P (lvmCreate env diskIds ctx path)"
    unfolding lvmCreate_def Let_def getDiskSourceListFromDiskIds_def checkLvm_def lvmVgchange_def
    by (auto intro!: hist_intro simp: lvm_reuse_event_def dest: c [unfolded checkLvm_def] split: sum.split)
  from onlyD [OF this assms(1)] show ?thesis .
qed

theorem lvmCreate_keeps_data_witness:
  "\<exists>r h'. lvmCreate (quiet_host\<lparr>on_Exec := (\<lambda>h c as. (None, ''pvc_1_vg pvc_1_lv''))\<rparr>) ''disk-a,disk-b'' [] ''/csi/pvc-1/globalmount'' [] = (r, h')
     \<and> list_all (lvm_reuse_event ''pvc_1_vg'') h'"
proof -
  let ?env = "quiet_host\<lparr>on_Exec := (\<lambda>h c as. (None, ''pvc_1_vg pvc_1_lv''))\<rparr>"
  obtain r h' where w: "lvmCreate ?env ''disk-a,disk-b'' [] ''/csi/pvc-1/globalmount'' [] = (r, h')" by fastforce
  have n: "lvm_pvName ''/csi/pvc-1/globalmount'' = ''pvc_1''" by code_simp
  have c: "Contains ''pvc_1_vg pvc_1_lv'' ''pvc_1_vg''" "Contains ''pvc_1_vg pvc_1_lv'' ''pvc_1_lv''" by code_simp+
  from lvmCreate_keeps_data [OF w] n c w show ?thesis by (auto simp: quiet_host_def)
qed

end
