(* ===== verification/CbsNode.thy ===== *)
theory CbsNode imports CbsDevices InFlight begin

text \<open>
  The node service of the CBS driver (\<open>node.go\<close>): staging, publishing and their inverses, with
  the mounts of older driver versions that unpublishing cleans up (\<open>cbs_utils.go\<close>), volume
  statistics and expansion, and what the node reports about itself.
\<close>

section \<open>The node and its requests\<close>

record cbsNode =
  idempotent :: Idempotent
  node_zone :: string
  node_ID :: string
  volumeAttachLimit :: int

record NodeStageVolumeRequest =
  st_VolumeId :: string
  st_StagingTargetPath :: string
  st_VolumeCapability :: "access_type option"
  st_VolumeContext :: "(string \<times> string) list"

section \<open>createMountPoint\<close>

definition createMountPoint :: "host_env \<Rightarrow> string \<Rightarrow> bool \<Rightarrow> unit host_action" where
  "createMountPoint env mountPath isBlock =
     andThen (ask (Stat mountPath) (\<lambda>h. on_Stat env h mountPath)) (\<lambda>fi.
       case fi of
         Inl err \<Rightarrow>
           if \<not> IsNotExist err then fail (Plain err)
           else if isBlock then call Plain (OpenFile mountPath) (\<lambda>h. on_OpenFile env h mountPath)
           else call Plain (MkdirAll mountPath) (\<lambda>h. on_MkdirAll env h mountPath)
       | Inr isDir \<Rightarrow>
           if isBlock then
             andThen (if isDir then andThen (ask (RemoveFile mountPath) (\<lambda>h. on_RemoveFile env h mountPath)) (\<lambda>_. ret ())
                      else ret ()) (\<lambda>_.
               call Plain (OpenFile mountPath) (\<lambda>h. on_OpenFile env h mountPath))
           else ret ())"

text \<open>\<open>OpenFile\<close> stands for opening and closing: its answer is the first error of the two.\<close>

definition isNotSupport :: "ext_err \<Rightarrow> bool" where
  "isNotSupport err \<longleftrightarrow>
     Contains (err_text err) ''resize of format'' \<and> Contains (err_text err) ''is not supported for device''"

definition isInputOutputErr :: "ext_err \<Rightarrow> bool" where
  "isInputOutputErr err \<longleftrightarrow> Contains (err_text err) ''input/output error''"

section \<open>NodeStageVolume\<close>

text \<open>The end of staging a file system: format, mount, resize.\<close>

definition stage_mount :: "host_env \<Rightarrow> access_type \<Rightarrow> string \<Rightarrow> string \<Rightarrow> unit host_action" where
  "stage_mount env cap diskSource stagingTargetPath =
     (let mountFsType = GetFsType cap;
          mountFlags = GetMountFlags cap @ (if mountFsType = ''xfs'' then [''nouuid''] else []) in
      andThen (call (\<lambda>_. Status Internal) (FormatAndMount diskSource stagingTargetPath mountFsType mountFlags)
          (\<lambda>h. on_FormatAndMount env h diskSource stagingTargetPath mountFsType mountFlags)) (\<lambda>_.
      andThen (ask (ResizeFs diskSource stagingTargetPath) (\<lambda>h. on_ResizeFs env h diskSource stagingTargetPath)) (\<lambda>r.
        case r of
          None \<Rightarrow> ret ()
        | Some err \<Rightarrow> if isNotSupport err then ret () else fail (Status Internal))))"

text \<open>A block volume: the device is bound to a file below the staging path.\<close>

definition stage_block :: "host_env \<Rightarrow> string list \<Rightarrow> string \<Rightarrow> string \<Rightarrow> unit host_action" where
  "stage_block env flags diskSource stagingTargetPath =
     andThen (notMountPoint env stagingTargetPath) (\<lambda>(notMnt, err).
       if (case err of Some e \<Rightarrow> \<not> IsNotExist e | None \<Rightarrow> False) then fail (Status NotFound)
       else if notMnt then
         (let mountFlags = flags @ [''bind''] in
          call (\<lambda>_. Status Internal) (MountCall diskSource stagingTargetPath [] mountFlags)
            (\<lambda>h. on_MountCall env h diskSource stagingTargetPath [] mountFlags))
       else ret ())"

definition stage_body :: "host_env \<Rightarrow> NodeStageVolumeRequest \<Rightarrow> access_type \<Rightarrow> unit host_action" where
  "stage_body env req cap =
     (let diskID = st_VolumeId req;
          isBlock = (cap = BlockAccess);
          stagingTargetPath = (if isBlock then PathJoin [st_StagingTargetPath req, diskID] else st_StagingTargetPath req);
          devicemapper = (case map_of (st_VolumeContext req) ''devicemapper'' of Some v \<Rightarrow> v | None \<Rightarrow> []) in
      andThen (map_error (as_status Internal) (createMountPoint env stagingTargetPath isBlock)) (\<lambda>_.
      if devicemapper = ''RAID'' then
        andThen (map_error (as_status Internal) (mdadmCreate env diskID (st_VolumeContext req) (st_StagingTargetPath req)))
          (\<lambda>diskSource. stage_mount env cap diskSource stagingTargetPath)
      else if devicemapper = ''LVM'' then
        andThen (map_error (as_status Internal) (lvmCreate env diskID (st_VolumeContext req) (st_StagingTargetPath req)))
          (\<lambda>diskSource. stage_mount env cap diskSource stagingTargetPath)
      else if devicemapper = ''CRYPT'' then stage_mount env cap [] stagingTargetPath
      else
        andThen (map_error (as_status Internal) (findCBSVolume env diskID)) (\<lambda>diskSource.
          if isBlock then stage_block env (GetMountFlags cap) diskSource stagingTargetPath
          else
            andThen (fetch (\<lambda>_. Status Internal) (DeviceFromMount stagingTargetPath)
                (\<lambda>h. on_DeviceFromMount env h stagingTargetPath)) (\<lambda>(device, refCount).
              if diskSource = device \<or> disk_link diskID = device then ret ()
              else stage_mount env cap diskSource stagingTargetPath))))"

text \<open>
  \<open>printed\<close> is the text of a request (\<open>req.String()\<close> of the generated code), the key under which
  a running request is known. The deferred \<open>Delete\<close> runs on every exit of the body.
\<close>

definition NodeStageVolume ::
  "host_env \<Rightarrow> (NodeStageVolumeRequest \<Rightarrow> string) \<Rightarrow> NodeStageVolumeRequest \<Rightarrow> Idempotent \<times> host_hist \<Rightarrow>
   (go_error + unit) \<times> Idempotent \<times> host_hist" where
  "NodeStageVolume env printed req w =
     (let (idem, h) = w in
      if st_VolumeId req = [] then (Inl (Status InvalidArgument), w)
      else if st_StagingTargetPath req = [] then (Inl (Status InvalidArgument), w)
      else case st_VolumeCapability req of
        None \<Rightarrow> (Inl (Status InvalidArgument), w)
      | Some cap \<Rightarrow>
          (case Insert (printed req) idem of
             (False, idem1) \<Rightarrow> (Inl (Status Internal), (idem1, h))
           | (True, idem1) \<Rightarrow>
               (let (r, h1) = stage_body env req cap h
                in (r, (Delete (printed req) idem1, h1)))))"

section \<open>NodeUnstageVolume\<close>

record NodeUnstageVolumeRequest =
  un_VolumeId :: string
  un_StagingTargetPath :: string

text \<open>Taking down the staging path itself, and the volume group of a volume of several disks.\<close>

definition unstage_path :: "host_env \<Rightarrow> NodeUnstageVolumeRequest \<Rightarrow> unit host_action" where
  "unstage_path env req =
     (let stagingTargetPath = un_StagingTargetPath req in
      andThen (fetch (\<lambda>_. Status Internal) (DeviceFromMount stagingTargetPath)
          (\<lambda>h. on_DeviceFromMount env h stagingTargetPath)) (\<lambda>(device, refCount).
        if refCount = 0 then ret ()
        else
          andThen (call (\<lambda>_. Status Internal) (Unmount stagingTargetPath) (\<lambda>h. on_Unmount env h stagingTargetPath)) (\<lambda>_.
            if Contains (un_VolumeId req) '','' then
              map_error (as_status Internal) (lvmVgchange env stagingTargetPath False)
            else ret ())))"

definition NodeUnstageVolume :: "host_env \<Rightarrow> NodeUnstageVolumeRequest \<Rightarrow> unit host_action" where
  "NodeUnstageVolume env req =
     (if un_StagingTargetPath req = [] then fail (Status InvalidArgument)
      else if un_VolumeId req = [] then fail (Status InvalidArgument)
      else if Contains (un_VolumeId req) '','' then unstage_path env req
      else
        let tmpPath = PathJoin [un_StagingTargetPath req, un_VolumeId req] in
        andThen (notMountPoint env tmpPath) (\<lambda>(flag, err).
        andThen (case err of
            None \<Rightarrow> ret flag
          | Some e \<Rightarrow> if \<not> IsNotExist e \<and> \<not> isInputOutputErr e then fail (Status Internal) else ret True) (\<lambda>notMnt.
          if \<not> notMnt then
            andThen (call (\<lambda>_. Status Internal) (Unmount tmpPath) (\<lambda>h. on_Unmount env h tmpPath)) (\<lambda>_.
            andThen (ask (RemoveFile tmpPath) (\<lambda>h. on_RemoveFile env h tmpPath)) (\<lambda>r.
              case r of
                None \<Rightarrow> ret ()
              | Some e \<Rightarrow> if \<not> IsNotExist e then fail (Status Internal) else ret ()))
          else unstage_path env req)))"

section \<open>NodePublishVolume\<close>

record NodePublishVolumeRequest =
  np_VolumeId :: string
  np_StagingTargetPath :: string
  np_TargetPath :: string
  np_VolumeCapability :: "access_type option"
  np_Readonly :: bool

type_synonym 'a node_action = "Idempotent \<times> host_hist \<Rightarrow> (go_error + 'a) \<times> Idempotent \<times> host_hist"

text \<open>An action of the host as one of the node.\<close>

definition on_host :: "'a host_action \<Rightarrow> 'a node_action" where
  "on_host m = (\<lambda>(idem, h). let (r, h') = m h in (r, (idem, h')))"

text \<open>
  \<open>checkStagingTargetPath\<close> stages a volume again whose staging path is not mounted, with a
  context it makes up from the volume id.
\<close>

definition restage_context :: "string \<Rightarrow> (string \<times> string) list" where
  "restage_context volumeId =
     (if Contains volumeId '','' then
        [(''devicemapper'', ''LVM''), (''devices'', show_nat (length (SplitC (CHR '','') volumeId)))]
      else [])"

definition checkStagingTargetPath ::
  "host_env \<Rightarrow> (NodeStageVolumeRequest \<Rightarrow> string) \<Rightarrow> NodePublishVolumeRequest \<Rightarrow> unit node_action" where
  "checkStagingTargetPath env printed req w =
     (case on_host (ensure_mount_dir env (Some True) (np_StagingTargetPath req)) w of
        (Inl e, w1) \<Rightarrow> (Inl e, w1)
      | (Inr notMnt, w1) \<Rightarrow>
          if notMnt then
            NodeStageVolume env printed
              \<lparr>st_VolumeId = np_VolumeId req, st_StagingTargetPath = np_StagingTargetPath req,
               st_VolumeCapability = np_VolumeCapability req,
               st_VolumeContext = restage_context (np_VolumeId req)\<rparr> w1
          else (Inr (), w1))"

definition publish_flags :: "access_type \<Rightarrow> bool \<Rightarrow> string list" where
  "publish_flags cap readonly = GetMountFlags cap @ [''bind''] @ (if readonly then [''ro''] else [])"

definition publish_mount :: "host_env \<Rightarrow> NodePublishVolumeRequest \<Rightarrow> access_type \<Rightarrow> unit host_action" where
  "publish_mount env req cap =
     (let isBlock = (cap = BlockAccess);
          target = np_TargetPath req;
          source = (if isBlock then PathJoin [np_StagingTargetPath req, np_VolumeId req] else np_StagingTargetPath req);
          mountFlags = publish_flags cap (np_Readonly req);
          mountFsType = (if isBlock then [] else if GetFsType cap = [] then ''ext4'' else GetFsType cap) in
      andThen (notMountPoint env target) (\<lambda>(notMnt, err).
        if err = None \<and> \<not> notMnt then ret ()
        else if (case err of Some e \<Rightarrow> \<not> IsNotExist e | None \<Rightarrow> False) then fail (Status Internal)
        else
          andThen (map_error (as_status Internal) (createMountPoint env target isBlock)) (\<lambda>_.
            call (\<lambda>_. Status Internal) (MountCall source target mountFsType mountFlags)
              (\<lambda>h. on_MountCall env h source target mountFsType mountFlags))))"

definition NodePublishVolume ::
  "host_env \<Rightarrow> (NodeStageVolumeRequest \<Rightarrow> string) \<Rightarrow> NodePublishVolumeRequest \<Rightarrow> unit node_action" where
  "NodePublishVolume env printed req w =
     (if np_VolumeId req = [] then (Inl (Status InvalidArgument), w)
      else if np_StagingTargetPath req = [] then (Inl (Status InvalidArgument), w)
      else if np_TargetPath req = [] then (Inl (Status InvalidArgument), w)
      else case np_VolumeCapability req of
        None \<Rightarrow> (Inl (Status InvalidArgument), w)
      | Some cap \<Rightarrow>
          if cap = BlockAccess then on_host (publish_mount env req cap) w
          else (case checkStagingTargetPath env printed req w of
            (Inl e, w1) \<Rightarrow> (Inl e, w1)
          | (Inr _, w1) \<Rightarrow> on_host (publish_mount env req cap) w1))"

section \<open>NodeUnpublishVolume\<close>

text \<open>The paths of older versions (\<open>cbs_utils.go\<close>); an index out of range is \<open>None\<close>.\<close>

definition convertToIntreeTargetPath :: "string \<Rightarrow> string" where
  "convertToIntreeTargetPath targetPath =
     (if Contains targetPath ''volumeDevices'' then []
      else Replace1 (TrimSuffix targetPath ''/mount'') ''~csi'' ''~qcloud-cbs'')"

definition convertToIntreeStagingPath :: "string \<Rightarrow> string \<Rightarrow> string" where
  "convertToIntreeStagingPath targetPath volumeId =
     (if Contains targetPath ''volumeDevices'' then []
      else hd (Split targetPath ''/pods/'') @ ''/plugins/kubernetes.io/qcloud-cbs/mounts/'' @ volumeId)"

definition convertToOldStagingPath :: "string \<Rightarrow> string option" where
  "convertToOldStagingPath targetPath =
     (if Contains targetPath ''volumeDevices'' then Some []
      else case Split (TrimSuffix targetPath ''/mount'') ''/kubernetes.io~csi/'' of
        a # b # _ \<Rightarrow>
          Some (hd (Split targetPath ''/pods/'') @ ''/plugins/kubernetes.io/csi/pv/'' @ b @ ''/globalmount'')
      | _ \<Rightarrow> None)"

text \<open>Clean up a path of an older version when it exists.\<close>

definition clean_path :: "host_env \<Rightarrow> string \<Rightarrow> unit host_action" where
  "clean_path env path =
     (if path = [] then ret ()
      else
        andThen (ask (Stat path) (\<lambda>h. case on_Stat env h path of Inl e \<Rightarrow> Some e | Inr _ \<Rightarrow> None)) (\<lambda>stat.
          case PathExists (\<lambda>_. stat) path of
            (_, Some err) \<Rightarrow> fail (Plain err)
          | (pathExists, None) \<Rightarrow>
              if \<not> pathExists then ret ()
              else call Plain (CleanupMountPoint path) (\<lambda>h. on_CleanupMountPoint env h path)))"

definition cleanIntreeTargetPath :: "host_env \<Rightarrow> string \<Rightarrow> unit host_action" where
  "cleanIntreeTargetPath env targetPath = clean_path env (convertToIntreeTargetPath targetPath)"

definition cleanIntreeStagingPath :: "host_env \<Rightarrow> string \<Rightarrow> string \<Rightarrow> unit host_action" where
  "cleanIntreeStagingPath env targetPath volumeId =
     clean_path env (convertToIntreeStagingPath targetPath volumeId)"

definition cleanIntreePath :: "host_env \<Rightarrow> string \<Rightarrow> string \<Rightarrow> unit host_action" where
  "cleanIntreePath env targetPath volumeId =
     andThen (cleanIntreeTargetPath env targetPath) (\<lambda>_. cleanIntreeStagingPath env targetPath volumeId)"

definition cleanOldStagingPath :: "host_env \<Rightarrow> string \<Rightarrow> unit host_action" where
  "cleanOldStagingPath env targetPath =
     (case convertToOldStagingPath targetPath of
        None \<Rightarrow> fail GoPanic
      | Some path \<Rightarrow> clean_path env path)"

definition unpublish_clean :: "host_env \<Rightarrow> string \<Rightarrow> string \<Rightarrow> unit host_action" where
  "unpublish_clean env targetPath volumeId =
     andThen (map_error (as_status Internal) (cleanIntreePath env targetPath volumeId)) (\<lambda>_.
       map_error (as_status Internal) (cleanOldStagingPath env targetPath))"

text \<open>\<open>None\<close>: the call never returns.\<close>

definition NodeUnpublishVolume ::
  "host_env \<Rightarrow> string \<Rightarrow> string \<Rightarrow> host_hist \<Rightarrow> ((go_error + unit) \<times> host_hist) option" where
  "NodeUnpublishVolume env volumeId targetPath h =
     (if targetPath = [] then Some (Inl (Status InvalidArgument), h)
      else case unpublish_clean env targetPath volumeId h of
        (Inl e, h1) \<Rightarrow> Some (Inl e, h1)
      | (Inr _, h1) \<Rightarrow> unmount_all env targetPath h1)"

section \<open>Statistics, expansion and information\<close>

definition NodeGetVolumeStats :: "host_env \<Rightarrow> string \<Rightarrow> string \<Rightarrow> (VolumeUsage \<times> VolumeUsage) host_action" where
  "NodeGetVolumeStats env volumeID volumePath =
     (if length volumeID = 0 then fail (Status InvalidArgument)
      else if length volumePath = 0 then fail (Status InvalidArgument)
      else
        andThen (fetch Plain (StatFS volumePath) (\<lambda>h. on_StatFS env h volumePath)) (\<lambda>m.
          case volume_usage m of Inl e \<Rightarrow> fail e | Inr u \<Rightarrow> ret u))"

record NodeExpandVolumeRequest =
  ne_VolumeId :: string
  ne_VolumePath :: string
  ne_RequiredBytes :: "int option"     \<comment> \<open>\<open>None\<close>: nil \<open>CapacityRange\<close>\<close>

definition NodeExpandVolume :: "host_env \<Rightarrow> NodeExpandVolumeRequest \<Rightarrow> unit host_action" where
  "NodeExpandVolume env req =
     (let diskIds = ne_VolumeId req; volumePath = ne_VolumePath req in
      if diskIds = [] then fail (Status InvalidArgument)
      else if volumePath = [] then fail (Status InvalidArgument)
      else if Contains volumePath ''volumeDevices'' then ret ()
      else
        andThen (exec_command (\<lambda>_. Status Internal) env ''findmnt''
            [''-o'', ''source'', ''--noheadings'', ''--target'', volumePath]) (\<lambda>output.
        let devicePath = TrimSpace output in
        if length devicePath = 0 then fail (Status Internal)
        else case ne_RequiredBytes req of
          None \<Rightarrow> fail GoPanic
        | Some requiredBytes \<Rightarrow>
            andThen (map_error (as_status Internal)
                (if Contains diskIds '','' then lvmExpand env diskIds devicePath requiredBytes
                 else checkVolumePathCapacity env devicePath requiredBytes)) (\<lambda>_.
              call (\<lambda>_. Status Internal) (ResizeFs devicePath volumePath)
                (\<lambda>h. on_ResizeFs env h devicePath volumePath))))"

datatype node_capability = STAGE_UNSTAGE_VOLUME | NODE_EXPAND_VOLUME | GET_VOLUME_STATS | NODE_UNKNOWN

definition cbs_nodeCaps :: "node_capability list" where
  "cbs_nodeCaps = [STAGE_UNSTAGE_VOLUME, NODE_EXPAND_VOLUME, GET_VOLUME_STATS]"

definition NodeGetCapabilities :: "node_capability list" where
  "NodeGetCapabilities = map (\<lambda>nodeCap. nodeCap) cbs_nodeCaps"

text \<open>Id, number of volumes, and the segments of the topology.\<close>

definition NodeGetInfo :: "cbsNode \<Rightarrow> string \<times> int \<times> topology" where
  "NodeGetInfo node = (node_ID node, volumeAttachLimit node, [TopologyZoneKey \<mapsto> node_zone node])"

section \<open>The id and the limit of the node\<close>

definition CVM_prefix_ok :: "string \<Rightarrow> bool" where
  "CVM_prefix_ok instanceId \<longleftrightarrow>
     \<not> (instanceId = [] \<or> Contains instanceId ''/'' \<or> \<not> HasPrefix instanceId ''ins-'')"

text \<open>
  \<open>url_parse\<close> is \<open>url.Parse\<close>, with the fields the code reads. An empty result stands for a
  provider id that is not supported.
\<close>

record URL =
  url_Scheme :: string
  url_Host :: string
  url_Path :: string

definition instance_id_from :: "(string \<Rightarrow> ext_err + URL) \<Rightarrow> string \<Rightarrow> string" where
  "instance_id_from url_parse providerID =
     (case url_parse providerID of
        Inl err \<Rightarrow> []
      | Inr u \<Rightarrow>
          if url_Scheme u = ''qcloud'' then
            (let instanceId = last (SplitC (CHR ''/'') (Trim (url_Path u) ''/''))
             in if CVM_prefix_ok instanceId then instanceId else [])
          else if url_Scheme u = ''tencentcloud'' then
            (if url_Host u = [] \<or> Contains (url_Host u) ''/'' \<or> \<not> HasPrefix (url_Host u) ''kn-'' then []
             else ReplaceAll (url_Host u) ''kn-'' ''eks-'')
          else [])"

text \<open>The wait for the node object; \<open>get_node n\<close> is the answer to try \<open>n\<close>: its provider id.\<close>

definition getProviderID_tick :: "(nat \<Rightarrow> ext_err + string) \<Rightarrow> nat \<Rightarrow> string option \<times> nat" where
  "getProviderID_tick get_node n =
     (case get_node n of
        Inl err \<Rightarrow> (None, Suc n)
      | Inr providerID \<Rightarrow> if providerID = [] then (None, Suc n) else (Some providerID, Suc n))"

definition getProviderIDFromNode :: "(nat \<Rightarrow> ext_err + string) \<Rightarrow> nat \<Rightarrow> go_error + string" where
  "getProviderIDFromNode get_node tickCount =
     (case fst (poll (getProviderID_tick get_node) tickCount 0) of
        Some providerID \<Rightarrow> Inr providerID
      | None \<Rightarrow> Inl GoExit)"

definition getInstanceIdFromProviderID ::
  "(nat \<Rightarrow> ext_err + string) \<Rightarrow> nat \<Rightarrow> (string \<Rightarrow> ext_err + URL) \<Rightarrow> go_error + string" where
  "getInstanceIdFromProviderID get_node tickCount url_parse =
     map_sum id (instance_id_from url_parse) (getProviderIDFromNode get_node tickCount)"

text \<open>
  The limit the cloud reports, less the two disks a machine comes with: an unsigned subtraction.
\<close>

fun attach_detail :: "string \<Rightarrow> (string \<times> nat) list \<Rightarrow> int option" where
  "attach_detail nodeID [] = None"
| "attach_detail nodeID ((instanceId, maxAttachCount) # details) =
     (if instanceId = nodeID then Some (int64 (int (uint64 (int maxAttachCount - 2))))
      else attach_detail nodeID details)"

definition getMaxAttachCount_tick :: "cbs_env \<Rightarrow> string \<Rightarrow> cbs_hist \<Rightarrow> int option \<times> cbs_hist" where
  "getMaxAttachCount_tick env nodeID h =
     (case on_DescribeInstancesDiskNum env h nodeID of
        Inl err \<Rightarrow> (None, DescribeInstancesDiskNum [nodeID] # h)
      | Inr details \<Rightarrow> (attach_detail nodeID details, DescribeInstancesDiskNum [nodeID] # h))"

definition getMaxAttachCount :: "cbs_env \<Rightarrow> string \<Rightarrow> cbs_hist \<Rightarrow> (go_error + int) \<times> cbs_hist" where
  "getMaxAttachCount env nodeID h =
     (if Contains nodeID ''eks-'' then (Inr 18, h)
      else case poll (getMaxAttachCount_tick env nodeID) (ticks env h) h of
        (Some n, h1) \<Rightarrow> (Inr n, h1)
      | (None, h1) \<Rightarrow> (Inl GoExit, h1))"

text \<open>\<open>newCbsNode\<close>: what the flags leave open is asked for. An id that cannot be found ends the process.\<close>

definition newCbsNode ::
  "cbs_env \<Rightarrow> (nat \<Rightarrow> ext_err + string) \<Rightarrow> nat \<Rightarrow> (string \<Rightarrow> ext_err + URL) \<Rightarrow>
   string \<Rightarrow> string \<Rightarrow> int \<Rightarrow> cbs_hist \<Rightarrow> (go_error + cbsNode) \<times> cbs_hist" where
  "newCbsNode env get_node tickCount url_parse zone nodeID attachLimit h =
     (case (if nodeID = [] then getInstanceIdFromProviderID get_node tickCount url_parse else Inr nodeID) of
        Inl e \<Rightarrow> (Inl e, h)
      | Inr i \<Rightarrow>
          if i = [] then (Inl GoExit, h)
          else
            (case (if attachLimit < 0 then getMaxAttachCount env i h else (Inr attachLimit, h)) of
               (Inl e, h1) \<Rightarrow> (Inl e, h1)
             | (Inr limit, h1) \<Rightarrow>
                 (Inr \<lparr>idempotent = NewIdempotent, node_zone = zone, node_ID = i,
                       volumeAttachLimit = limit\<rparr>, h1)))"

end
