(* ===== verification/CbsNodeProps.thy ===== *)
theory CbsNodeProps imports CbsNode CbsAttach begin

text \<open>
  What the node service of the CBS driver guarantees: the in-flight guard of staging, no
  formatting of what is staged already, what a successful publish has mounted, termination and
  result of unpublishing, the size check before a file system grows, and the id of the node.
\<close>

section \<open>Staging\<close>

definition demo_stage :: NodeStageVolumeRequest where
  "demo_stage = \<lparr>st_VolumeId = ''disk-a'', st_StagingTargetPath = ''/stage'',
     st_VolumeCapability = Some (MountAccess ''ext4'' []), st_VolumeContext = []\<rparr>"

text \<open>C26. \<open>NodeStageVolume\<close> leaves the set of requests in flight as it found it, on every exit; and a request
  that is in flight already is refused without a single call to the host.\<close>

theorem stage_in_flight:
  assumes "NodeStageVolume env printed req (idem, h) = (r, (idem', h'))"
  shows "idem' = idem \<and>
    (printed req \<in> dom (idemMap idem) \<longrightarrow> h' = h \<and> r \<in> {Inl (Status InvalidArgument), Inl (Status Internal)})"
proof (cases "fst (Insert (printed req) idem)")
  case True
  then obtain idem1 where i: "Insert (printed req) idem = (True, idem1)" by (metis prod.collapse)
  have "printed req \<notin> dom (idemMap idem)"
    using True by (auto simp: Insert_def split: option.splits)
  with assms i Delete_Insert [OF i] show ?thesis
    by (auto simp: NodeStageVolume_def Let_def split: if_splits option.splits prod.splits)
next
  case False
  then have i: "Insert (printed req) idem = (False, idem)"
    by (auto simp: Insert_def split: option.splits)
  with assms show ?thesis
    by (auto simp: NodeStageVolume_def Let_def split: if_splits option.splits)
qed

theorem stage_in_flight_witness:
  "\<exists>r w. NodeStageVolume quiet_host (\<lambda>r. ''key'') demo_stage (\<lparr>idemMap = [''key'' \<mapsto> True]\<rparr>, []) = (r, w)
     \<and> snd w = [] \<and> fst w = \<lparr>idemMap = [''key'' \<mapsto> True]\<rparr>"
proof -
  obtain r i h where w: "NodeStageVolume quiet_host (\<lambda>r. ''key'') demo_stage (\<lparr>idemMap = [''key'' \<mapsto> True]\<rparr>, []) = (r, (i, h))"
    by (metis prod_cases3)
  from stage_in_flight [OF w] w show ?thesis by auto
qed

text \<open>The events of a staging that changes no mount and no file system.\<close>

fun no_mount_event :: "host_event \<Rightarrow> bool" where
  "no_mount_event (MountCall s t f os) = False"
| "no_mount_event (FormatAndMount s t f os) = False"
| "no_mount_event (ResizeFs d p) = False"
| "no_mount_event _ = True"

lemma only_createMountPoint [hist_intro]:
  assumes "P (Stat p)" "P (OpenFile p)" "P (MkdirAll p)" "P (RemoveFile p)"
  shows "only P (createMountPoint env p b)"
  unfolding createMountPoint_def using assms by (auto intro!: hist_intro split: sum.split)

text \<open>Staging a file system volume whose staging path is mounted from the link of the disk, or from the
  device the link resolves to, succeeds or fails without formatting, mounting or resizing
  anything.\<close>

theorem stage_already_staged:
  assumes "NodeStageVolume env printed req (idem, h) = (r, (idem', h'))"
    and "map_of (st_VolumeContext req) ''devicemapper'' = None"
    and "st_VolumeCapability req \<noteq> Some BlockAccess"
    and "\<forall>h. \<exists>n. on_DeviceFromMount env h (st_StagingTargetPath req) = Inr (disk_link (st_VolumeId req), n)"
  shows "\<exists>es. h' = es @ h \<and> list_all no_mount_event es"
proof -
  have "only no_mount_event (stage_body env req cap)" if "cap \<noteq> BlockAccess" for cap
  proof -
    have d: "x = (disk_link (st_VolumeId req), snd x)"
      if "fetch c ev (\<lambda>h. on_DeviceFromMount env h (st_StagingTargetPath req)) g = (Inr x, g')" for x c ev g g'
      using fetch_InrD [OF that] assms(4) by (metis Inr_inject snd_conv)
    show ?thesis
      unfolding stage_body_def Let_def using that assms(2)
      by (auto intro!: hist_intro split: prod.split dest: d)
  qed
  then show ?thesis
    using assms(1,3)
    by (auto simp: NodeStageVolume_def Let_def split: if_splits option.splits prod.splits bool.splits
        dest!: onlyD)
qed

theorem stage_already_staged_witness:
  "\<exists>r i h'. NodeStageVolume (quiet_host\<lparr>on_DeviceFromMount := (\<lambda>h p. Inr (disk_link ''disk-a'', 1))\<rparr>) (\<lambda>r. ''key'') demo_stage (NewIdempotent, []) = (r, (i, h'))
     \<and> list_all no_mount_event h'"
proof -
  let ?env = "quiet_host\<lparr>on_DeviceFromMount := (\<lambda>h p. Inr (disk_link ''disk-a'', 1))\<rparr>"
  obtain r i h' where w: "NodeStageVolume ?env (\<lambda>r. ''key'') demo_stage (NewIdempotent, []) = (r, (i, h'))"
    by (metis prod_cases3)
  from stage_already_staged [OF w] w show ?thesis by (simp add: demo_stage_def)
qed

section \<open>Publishing\<close>

definition mounted_by :: "host_env \<Rightarrow> NodePublishVolumeRequest \<Rightarrow> host_hist \<Rightarrow> bool" where
  "mounted_by env req h \<longleftrightarrow>
     (\<exists>h0 source fs flags. h = MountCall source (np_TargetPath req) fs flags # h0 \<and>
        on_MountCall env h0 source (np_TargetPath req) fs flags = None \<and>
        ''bind'' \<in> set flags \<and> (np_Readonly req \<longrightarrow> ''ro'' \<in> set flags))"

definition seen_mounted :: "host_env \<Rightarrow> string \<Rightarrow> host_hist \<Rightarrow> bool" where
  "seen_mounted env p h \<longleftrightarrow> (\<exists>h0. h = NotMountPoint p # h0 \<and> on_NotMountPoint env h0 p = (False, None))"

text \<open>C27. When \<open>NodePublishVolume\<close> succeeds, the last thing it did was an accepted bind mount onto the target,
  read-only if the request says so, or a test that found the target mounted already (how it
  is mounted is not looked at).\<close>

theorem publish_mounts:
  assumes "NodePublishVolume env printed req (idem, h) = (Inr (), (idem', h'))"
  shows "mounted_by env req h' \<or> seen_mounted env (np_TargetPath req) h'"
proof -
  from assms obtain cap g where p: "publish_mount env req cap g = (Inr (), h')"
    by (auto simp: NodePublishVolume_def Let_def on_host_def split: if_splits option.splits prod.splits sum.splits)
  obtain b e where t: "on_NotMountPoint env g (np_TargetPath req) = (b, e)" by fastforce
  show ?thesis
  proof (cases "e = None \<and> \<not> b")
    case True
    with p t show ?thesis
      by (auto simp: publish_mount_def Let_def seen_mounted_def elim!: andThen_InrE)
  next
    case False
    with p t obtain source fs g1 where
      "call (\<lambda>_. Status Internal) (MountCall source (np_TargetPath req) fs (publish_flags cap (np_Readonly req)))
         (\<lambda>h. on_MountCall env h source (np_TargetPath req) fs (publish_flags cap (np_Readonly req))) g1 = (Inr (), h')"
      by (auto simp: publish_mount_def Let_def elim!: andThen_InrE split: if_splits option.splits)
    from call_InrD [OF this] show ?thesis
      by (auto simp: mounted_by_def publish_flags_def)
  qed
qed

definition demo_publish :: NodePublishVolumeRequest where
  "demo_publish = \<lparr>np_VolumeId = ''disk-a'', np_StagingTargetPath = ''/stage'', np_TargetPath = ''/target'',
     np_VolumeCapability = Some (MountAccess ''ext4'' []), np_Readonly = True\<rparr>"

theorem publish_mounts_witness:
  "\<exists>i h'. NodePublishVolume quiet_host (\<lambda>r. ''key'') demo_publish (NewIdempotent, []) = (Inr (), (i, h'))
     \<and> (mounted_by quiet_host demo_publish h' \<or> seen_mounted quiet_host ''/target'' h')"
proof -
  have "fst (NodePublishVolume quiet_host (\<lambda>r. ''key'') demo_publish (NewIdempotent, [])) = Inr ()" by code_simp
  then obtain i h' where w: "NodePublishVolume quiet_host (\<lambda>r. ''key'') demo_publish (NewIdempotent, []) = (Inr (), (i, h'))"
    by (metis prod.collapse)
  from publish_mounts [OF w] w show ?thesis by (auto simp: demo_publish_def)
qed

section \<open>Unpublishing\<close>

text \<open>A block volume has no paths of older versions.\<close>

lemma unpublish_clean_block:
  "Contains targetPath ''volumeDevices'' \<Longrightarrow> unpublish_clean env targetPath volumeId h = (Inr (), h)"
  by (simp add: unpublish_clean_def cleanIntreePath_def cleanIntreeTargetPath_def cleanIntreeStagingPath_def
      cleanOldStagingPath_def convertToIntreeTargetPath_def convertToIntreeStagingPath_def
      convertToOldStagingPath_def clean_path_def)

text \<open>What cleaning the paths of older versions does: no unmount of its own, and which errors it gives.\<close>

lemma only_clean_path [hist_intro]:
  "(\<And>p. P (Stat p)) \<Longrightarrow> (\<And>p. P (CleanupMountPoint p)) \<Longrightarrow> only P (clean_path env path)"
  unfolding clean_path_def by (auto intro!: hist_intro split: prod.split option.split)






definition three_mounts :: host_env where
  "three_mounts = quiet_host\<lparr>on_NotMountPoint := (\<lambda>h p. (3 \<le> unmounts p h, None)),
     on_Stat := (\<lambda>h p. Inl (ExtErr ENotExist []))\<rparr>"


text \<open>When \<open>NodeUnpublishVolume\<close> reports success, its last test found no mount on the target, or no target.\<close>

theorem unpublish_leaves_no_mount:
  assumes "NodeUnpublishVolume env volumeId targetPath h = Some (Inr (), h')"
  shows "no_mount_left env targetPath h'"
  using assms unmount_all_sound [of env targetPath _ "(Inr (), h')"]
  by (auto simp: NodeUnpublishVolume_def split: if_splits prod.splits sum.splits)

theorem unpublish_leaves_no_mount_witness:
  "\<exists>h'. NodeUnpublishVolume quiet_host ''disk-a'' ''/pods/volumeDevices/x'' [] = Some (Inr (), h')
     \<and> no_mount_left quiet_host ''/pods/volumeDevices/x'' h'"
proof -
  have v: "Contains ''/pods/volumeDevices/x'' ''volumeDevices''" by code_simp
  from unpublish_clean_block [OF this]
  have "unpublish_clean quiet_host ''/pods/volumeDevices/x'' ''disk-a'' [] = (Inr (), [])" .
  moreover have "unmount_all quiet_host p h = Some (Inr (), NotMountPoint p # h)" for p h
    by (subst unmount_all.simps) (simp add: quiet_host_def)
  ultimately have w: "NodeUnpublishVolume quiet_host ''disk-a'' ''/pods/volumeDevices/x'' [] =
      Some (Inr (), [NotMountPoint ''/pods/volumeDevices/x''])"
    by (simp add: NodeUnpublishVolume_def)
  from unpublish_leaves_no_mount [OF w] w show ?thesis by blast
qed

text \<open>A target path of a file system volume without the directory of CSI volumes makes
  \<open>NodeUnpublishVolume\<close> panic: the part behind it is taken without a test.\<close>

theorem unpublish_panics:
  assumes "\<not> Contains (TrimSuffix targetPath ''/mount'') ''/kubernetes.io~csi/''"
    and "\<not> Contains targetPath ''volumeDevices''" "targetPath \<noteq> []"
    and "cleanIntreePath env targetPath volumeId h = (Inr (), h1)"
  shows "NodeUnpublishVolume env volumeId targetPath h = Some (Inl GoPanic, h1)"
proof -
  have "Split (TrimSuffix targetPath ''/mount'') ''/kubernetes.io~csi/'' = [TrimSuffix targetPath ''/mount'']"
    using assms(1) by (intro Split_no_sep) auto
  with assms(2) have "convertToOldStagingPath targetPath = None"
    by (simp add: convertToOldStagingPath_def)
  with assms(3,4) show ?thesis
    by (simp add: NodeUnpublishVolume_def unpublish_clean_def cleanOldStagingPath_def as_status_def)
qed

theorem unpublish_panics_witness:
  "\<exists>h1. NodeUnpublishVolume three_mounts ''disk-a'' ''/mnt/data'' [] = Some (Inl GoPanic, h1)"
proof -
  have c: "\<not> Contains (TrimSuffix ''/mnt/data'' ''/mount'') ''/kubernetes.io~csi/''"
    "\<not> Contains ''/mnt/data'' ''volumeDevices''" by code_simp+
  have "fst (cleanIntreePath three_mounts ''/mnt/data'' ''disk-a'' []) = Inr ()" by code_simp
  then obtain h1 where h1: "cleanIntreePath three_mounts ''/mnt/data'' ''disk-a'' [] = (Inr (), h1)"
    by (metis prod.collapse)
  from unpublish_panics [OF c _ h1] show ?thesis by blast
qed

section \<open>Growing a file system\<close>

text \<open>\<open>NodeExpandVolume\<close> of a volume of one disk grows the file system only after it has read a size of the
  device that holds the requested bytes.\<close>

theorem node_expand_checked:
  assumes "NodeExpandVolume env req h = (Inr (), h')" "\<not> Contains (ne_VolumeId req) '',''"
    and "\<not> Contains (ne_VolumePath req) ''volumeDevices''" "ne_RequiredBytes req = Some b"
  shows "\<exists>dev h0 capacity. h' = [ResizeFs dev (ne_VolumePath req), SeekEnd dev] @ h0 \<and>
    on_SeekEnd env h0 dev = Inr capacity \<and> b \<le> capacity \<and>
    on_ResizeFs env (SeekEnd dev # h0) dev (ne_VolumePath req) = None"
proof -
  from assms obtain dev h0 h1 where
    c: "map_error (as_status Internal) (checkVolumePathCapacity env dev b) h0 = (Inr (), h1)"
    and r: "call (\<lambda>_. Status Internal) (ResizeFs dev (ne_VolumePath req))
        (\<lambda>h. on_ResizeFs env h dev (ne_VolumePath req)) h1 = (Inr (), h')"
    by (auto simp: NodeExpandVolume_def Let_def elim!: andThen_InrE split: if_splits)
  from map_error_InrD [OF c] obtain capacity where
    "on_SeekEnd env h0 dev = Inr capacity" "h1 = SeekEnd dev # h0" "b \<le> capacity"
    by (auto simp: checkVolumePathCapacity_def elim!: andThen_InrE dest!: fetch_InrD split: if_splits)
  with call_InrD [OF r] show ?thesis by auto
qed

theorem node_expand_checked_witness:
  "\<exists>h'. NodeExpandVolume (quiet_host\<lparr>on_Exec := (\<lambda>h c as. (None, ''/dev/vdb'')), on_SeekEnd := (\<lambda>h p. Inr 20)\<rparr>)
      \<lparr>ne_VolumeId = ''disk-a'', ne_VolumePath = ''/data'', ne_RequiredBytes = Some 10\<rparr> [] = (Inr (), h')
     \<and> (\<exists>dev. ResizeFs dev ''/data'' \<in> set h')"
proof -
  let ?env = "quiet_host\<lparr>on_Exec := (\<lambda>h c as. (None, ''/dev/vdb'')), on_SeekEnd := (\<lambda>h p. Inr 20)\<rparr>"
  let ?req = "\<lparr>ne_VolumeId = ''disk-a'', ne_VolumePath = ''/data'', ne_RequiredBytes = Some 10\<rparr>"
  have "fst (NodeExpandVolume ?env ?req []) = Inr ()" by code_simp
  then obtain h' where w: "NodeExpandVolume ?env ?req [] = (Inr (), h')" by (metis prod.collapse)
  have "\<not> Contains ''disk-a'' '',''" "\<not> Contains ''/data'' ''volumeDevices''" by code_simp+
  from node_expand_checked [OF w] this w show ?thesis by auto
qed

section \<open>The id of the node\<close>

lemma Trim_both:
  assumes "set a \<subseteq> set cs" "w \<noteq> []" "hd w \<notin> set cs" "last w \<notin> set cs"
  shows "Trim (a @ w) cs = w"
proof -
  have "dropWhile (\<lambda>c. c \<in> set cs) (a @ w) = dropWhile (\<lambda>c. c \<in> set cs) w"
    using assms(1) by (intro dropWhile_append2) auto
  also have "\<dots> = w" using assms(2,3) by (cases w) auto
  finally show ?thesis
    using assms(2,4) by (cases w rule: rev_cases) (simp_all add: Trim_def)
qed

text \<open>A node whose provider id is the URL of a zone and a CVM instance gets the id of the
  instance; with twelve characters it is an id that the controller attaches disks to.\<close>

theorem node_id_of_cvm:
  assumes "url_parse providerID = Inr \<lparr>url_Scheme = ''qcloud'', url_Host = host, url_Path = ''/'' @ zone @ ''/'' @ i\<rparr>"
    and "HasPrefix i ''ins-''" "CHR ''/'' \<notin> set i" "CHR ''/'' \<notin> set zone" "zone \<noteq> []"
  shows "instance_id_from url_parse providerID = i \<and> (length i = 12 \<longrightarrow> supported_node i)"
proof -
  have i: "i \<noteq> []" using assms(2) by (auto simp: HasPrefix_def)
  define w where "w = zone @ ''/'' @ i"
  have "last i \<noteq> CHR ''/''" using last_in_set [OF i] assms(3) by auto
  then have "last w \<noteq> CHR ''/''" using i by (simp add: w_def)
  moreover have "hd zone \<noteq> CHR ''/''" using hd_in_set [OF assms(5)] assms(4) by auto
  then have "hd w \<noteq> CHR ''/''" "w \<noteq> []" using assms(5) by (auto simp: w_def hd_append)
  ultimately have "Trim (''/'' @ w) ''/'' = w" by (intro Trim_both) auto
  then have "last (SplitC (CHR ''/'') (Trim (''/'' @ w) ''/'')) = i"
    using SplitC_append [of "CHR ''/''" zone i] assms(3,4) by (simp add: w_def SplitC_no_sep)
  with assms(1-3) i show ?thesis
    by (simp add: instance_id_from_def w_def CVM_prefix_ok_def Let_def supported_node_def NodeIDLength_def)
qed

definition one_url :: "string \<Rightarrow> ext_err + URL" where
  "one_url p = Inr \<lparr>url_Scheme = ''qcloud'', url_Host = [], url_Path = ''/100003/ins-1a2b3c4d''\<rparr>"

theorem node_id_of_cvm_witness:
  "instance_id_from one_url ''qcloud:///100003/ins-1a2b3c4d'' = ''ins-1a2b3c4d'' \<and> supported_node ''ins-1a2b3c4d''"
  using node_id_of_cvm [of one_url "''qcloud:///100003/ins-1a2b3c4d''" "[]" "''100003''" "''ins-1a2b3c4d''"]
  by (simp add: one_url_def HasPrefix_def)

end
