(* ===== verification/CbsNodeMachine.thy ===== *)
theory CbsNodeMachine imports CbsNodeProps begin

text \<open>
  The mounts of a node as a specification of the node service. The reference host keeps a table of its mounts
  and knows which links of disks resolve to a device and which directories cannot be removed; everything else
  it accepts. What the handlers do on it is an operation on the table: staging mounts the device once,
  publishing binds it to the target once, unpublishing cleans the paths of older versions and takes every
  mount off the target, unstaging takes the device off the staging path.
\<close>

section \<open>The reference host\<close>

type_synonym mount_table = "(string \<times> string) list"      \<comment> \<open>target and device, newest first\<close>

fun drop_mount :: "string \<Rightarrow> mount_table \<Rightarrow> mount_table" where
  "drop_mount p [] = []"
| "drop_mount p (m # t) = (if fst m = p then t else m # drop_mount p t)"

text \<open>A bind mount shows the device of what it is bound to.\<close>

definition source_device :: "string \<Rightarrow> mount_table \<Rightarrow> string" where
  "source_device source t = (case map_of t source of Some dev \<Rightarrow> dev | None \<Rightarrow> source)"

fun mount_step :: "host_event \<Rightarrow> mount_table \<Rightarrow> mount_table" where
  "mount_step (FormatAndMount dev p fs opts) t = (p, dev) # t"
| "mount_step (MountCall source p fs opts) t = (p, source_device source t) # t"
| "mount_step (Unmount p) t = drop_mount p t"
| "mount_step (CleanupMountPoint p) t = drop_mount p t"
| "mount_step _ t = t"

definition table_after :: "mount_table \<Rightarrow> host_hist \<Rightarrow> mount_table" where
  "table_after t h = foldr mount_step h t"

lemma table_after_simps [simp]:
  "table_after t [] = t"
  "table_after t (e # h) = mount_step e (table_after t h)"
  by (simp_all add: table_after_def)

text \<open>
  \<open>links\<close> says what a link resolves to, \<open>paths\<close> what else is in the file system at a time: \<open>Some\<close> with whether
  it is a directory. A path that is mounted is there. \<open>stays\<close> are the directories that are there and that
  \<open>os.Remove\<close> does not remove, for instance because they are not empty; no mount point can be removed.
  \<open>CleanupMountPoint\<close> of a path that is there takes one mount off it, and fails when another one is left or
  the directory cannot be removed.
\<close>

definition lstat_answer :: "string option \<Rightarrow> ext_err + bool" where
  "lstat_answer link = (case link of None \<Rightarrow> Inl (ExtErr ENotExist []) | Some dev \<Rightarrow> Inr True)"

definition resolve_answer :: "string option \<Rightarrow> ext_err + string" where
  "resolve_answer link = (case link of None \<Rightarrow> Inl (ExtErr ENotExist []) | Some dev \<Rightarrow> Inr dev)"

definition stat_answer :: "bool option \<Rightarrow> string \<Rightarrow> mount_table \<Rightarrow> ext_err + bool" where
  "stat_answer there p t =
     (case there of
        Some isDir \<Rightarrow> Inr isDir
      | None \<Rightarrow> if map_of t p = None then Inl (ExtErr ENotExist []) else Inr True)"

definition probe_answer :: "bool option \<Rightarrow> string \<Rightarrow> mount_table \<Rightarrow> bool \<times> ext_err option" where
  "probe_answer there p t =
     (map_of t p = None, if there = None \<and> map_of t p = None then Some (ExtErr ENotExist []) else None)"

definition device_answer :: "string \<Rightarrow> mount_table \<Rightarrow> string \<times> nat" where
  "device_answer p t =
     (case map_of t p of None \<Rightarrow> ([], 0) | Some dev \<Rightarrow> (dev, length (filter (\<lambda>m. snd m = dev) t)))"

definition there_answer :: "(host_hist \<Rightarrow> string \<Rightarrow> bool option) \<Rightarrow> (string \<Rightarrow> bool) \<Rightarrow> host_hist \<Rightarrow> string \<Rightarrow> bool option" where
  "there_answer paths stays h p = (if stays p then Some True else paths h p)"

definition remove_answer :: "(string \<Rightarrow> bool) \<Rightarrow> string \<Rightarrow> mount_table \<Rightarrow> ext_err option" where
  "remove_answer stays p t =
     (if stays p \<or> map_of t p \<noteq> None then Some (ExtErr EOther ''cannot be removed'') else None)"

definition node_host ::
  "(string \<Rightarrow> string option) \<Rightarrow> (host_hist \<Rightarrow> string \<Rightarrow> bool option) \<Rightarrow> (string \<Rightarrow> bool) \<Rightarrow> mount_table \<Rightarrow> host_env" where
  "node_host links paths stays t = quiet_host
     \<lparr>on_NotMountPoint := (\<lambda>h p. probe_answer (there_answer paths stays h p) p (table_after t h)),
      on_Unmount := (\<lambda>h p. if map_of (table_after t h) p = None then Some (ExtErr EOther ''not mounted'') else None),
      on_DeviceFromMount := (\<lambda>h p. Inr (device_answer p (table_after t h))),
      on_CleanupMountPoint := (\<lambda>h p. remove_answer stays p (drop_mount p (table_after t h))),
      on_RemoveFile := (\<lambda>h p. remove_answer stays p (table_after t h)),
      on_Stat := (\<lambda>h p. stat_answer (there_answer paths stays h p) p (table_after t h)),
      on_Lstat := (\<lambda>h p. lstat_answer (links p)),
      on_EvalSymlinks := (\<lambda>h p. resolve_answer (links p)),
      on_Glob := (\<lambda>h p. [])\<rparr>"

section \<open>The specification\<close>

definition mounted :: "string \<Rightarrow> mount_table \<Rightarrow> bool" where
  "mounted p t \<longleftrightarrow> map_of t p \<noteq> None"

definition mount_once :: "string \<Rightarrow> string \<Rightarrow> mount_table \<Rightarrow> mount_table" where
  "mount_once p dev t = (if mounted p t then t else (p, dev) # t)"

text \<open>Where a volume of one disk is staged.\<close>

definition staged_at :: "access_type \<Rightarrow> string \<Rightarrow> string \<Rightarrow> string" where
  "staged_at cap staging d = (if cap = BlockAccess then PathJoin [staging, d] else staging)"

text \<open>
  A block volume is staged if anything is mounted where it goes, a file system only if the mount is that of
  the disk.
\<close>

definition spec_stage :: "access_type \<Rightarrow> string \<Rightarrow> string \<Rightarrow> string \<Rightarrow> mount_table \<Rightarrow> mount_table" where
  "spec_stage cap staging d dev t =
     (let p = staged_at cap staging d in
      if cap = BlockAccess then mount_once p (source_device dev t) t
      else if map_of t p = Some dev \<or> map_of t p = Some (disk_link d) then t
      else (p, dev) # t)"

definition spec_publish :: "access_type \<Rightarrow> string \<Rightarrow> string \<Rightarrow> string \<Rightarrow> string \<Rightarrow> mount_table \<Rightarrow> mount_table" where
  "spec_publish cap staging d dev target t =
     (let t1 = (if cap \<noteq> BlockAccess \<and> \<not> mounted staging t then spec_stage cap staging d dev t else t)
      in mount_once target (source_device (staged_at cap staging d) t1) t1)"

definition drop_path :: "string \<Rightarrow> mount_table \<Rightarrow> mount_table" where
  "drop_path p t = (if p = [] then t else drop_mount p t)"

text \<open>The paths of older versions are cleaned one after the other, up to the first that cannot be.\<close>

definition clean_ok :: "(string \<Rightarrow> bool) \<Rightarrow> string \<Rightarrow> mount_table \<Rightarrow> bool" where
  "clean_ok stays p t \<longleftrightarrow> p = [] \<or> \<not> stays p \<and> \<not> mounted p (drop_mount p t)"

fun clean_each :: "(string \<Rightarrow> bool) \<Rightarrow> string list \<Rightarrow> mount_table \<Rightarrow> bool \<times> mount_table" where
  "clean_each stays [] t = (True, t)"
| "clean_each stays (p # ps) t =
     (if clean_ok stays p t then clean_each stays ps (drop_path p t) else (False, drop_path p t))"

text \<open>Whether it succeeds, and the mounts then.\<close>

definition spec_unpublish :: "(string \<Rightarrow> bool) \<Rightarrow> string \<Rightarrow> string \<Rightarrow> string \<Rightarrow> mount_table \<Rightarrow> bool \<times> mount_table" where
  "spec_unpublish stays old d target t =
     (let (ok, t') = clean_each stays [convertToIntreeTargetPath target, convertToIntreeStagingPath target d, old] t
      in (ok, if ok then filter (\<lambda>m. fst m \<noteq> target) t' else t'))"

definition spec_unstage :: "(string \<Rightarrow> bool) \<Rightarrow> string \<Rightarrow> string \<Rightarrow> mount_table \<Rightarrow> bool \<times> mount_table" where
  "spec_unstage stays staging d t =
     (let p = PathJoin [staging, d] in
      if mounted p t then (\<not> stays p \<and> \<not> mounted p (drop_mount p t), drop_mount p t)
      else (True, drop_mount staging t))"

section \<open>The handlers on the reference host\<close>

lemma node_host_simps [simp]:
  "on_NotMountPoint (node_host links paths stays t) h p = probe_answer (there_answer paths stays h p) p (table_after t h)"
  "on_Unmount (node_host links paths stays t) h p =
     (if map_of (table_after t h) p = None then Some (ExtErr EOther ''not mounted'') else None)"
  "on_DeviceFromMount (node_host links paths stays t) h p = Inr (device_answer p (table_after t h))"
  "on_Stat (node_host links paths stays t) h p = stat_answer (there_answer paths stays h p) p (table_after t h)"
  "on_Lstat (node_host links paths stays t) h p = lstat_answer (links p)"
  "on_EvalSymlinks (node_host links paths stays t) h p = resolve_answer (links p)"
  "on_Glob (node_host links paths stays t) h p = []"
  "on_MountCall (node_host links paths stays t) h a p fs opts = None"
  "on_FormatAndMount (node_host links paths stays t) h a p fs opts = None"
  "on_CleanupMountPoint (node_host links paths stays t) h p = remove_answer stays p (drop_mount p (table_after t h))"
  "on_ResizeFs (node_host links paths stays t) h a p = None"
  "on_OpenFile (node_host links paths stays t) h p = None"
  "on_MkdirAll (node_host links paths stays t) h p = None"
  "on_RemoveFile (node_host links paths stays t) h p = remove_answer stays p (table_after t h)"
  by (simp_all add: node_host_def quiet_host_def)

text \<open>\<open>runs t m f\<close>: from every history \<open>m\<close> succeeds, and does \<open>f\<close> to the table.\<close>

definition runs :: "mount_table \<Rightarrow> unit host_action \<Rightarrow> (mount_table \<Rightarrow> mount_table) \<Rightarrow> bool" where
  "runs t m f \<longleftrightarrow> (\<forall>h. \<exists>h'. m h = (Inr (), h') \<and> table_after t h' = f (table_after t h))"

lemma runsD: "runs t m f \<Longrightarrow> \<exists>h'. m h = (Inr (), h') \<and> table_after t h' = f (table_after t h)"
  by (simp add: runs_def)

lemma runs_andThen: "runs t m f \<Longrightarrow> runs t (g ()) f' \<Longrightarrow> runs t (andThen m g) (\<lambda>x. f' (f x))"
  unfolding runs_def by (metis andThen_simps(1))

lemma runs_map_error: "runs t m f \<Longrightarrow> runs t (map_error e m) f"
  unfolding runs_def by (metis map_error_simps(1))

lemma runs_createMountPoint: "runs t (createMountPoint (node_host links paths stays t) p b) (\<lambda>x. x)"
  by (auto simp: runs_def createMountPoint_def stat_answer_def IsNotExist_def split: option.split)

lemma runs_stage_mount:
  "runs t (stage_mount (node_host links paths stays t) cap dev p) (\<lambda>x. (p, dev) # x)"
  by (simp add: runs_def stage_mount_def Let_def)

lemma runs_stage_block:
  "runs t (stage_block (node_host links paths stays t) flags dev p) (\<lambda>x. mount_once p (source_device dev x) x)"
  by (auto simp: runs_def stage_block_def Let_def probe_answer_def IsNotExist_def mount_once_def mounted_def)

lemma findCBSVolume_link:
  "links (disk_link d) = Some dev \<Longrightarrow> HasPrefix dev ''/dev'' \<Longrightarrow>
   findCBSVolume (node_host links paths stays t) d h = (Inr dev, EvalSymlinks (disk_link d) # Lstat (disk_link d) # h)"
  by (simp add: findCBSVolume_def Let_def lstat_answer_def resolve_answer_def)

lemma disk_link_not_Nil: "disk_link d \<noteq> []"
  by (simp add: disk_link_def PathJoin_def Clean_def Let_def)

lemma runs_stage_body:
  assumes "links (disk_link d) = Some dev" "HasPrefix dev ''/dev''" "map_of ctx ''devicemapper'' = None"
  shows "runs t (stage_body (node_host links paths stays t)
      \<lparr>st_VolumeId = d, st_StagingTargetPath = staging, st_VolumeCapability = Some cap, st_VolumeContext = ctx\<rparr> cap)
    (spec_stage cap staging d dev)"
  unfolding runs_def
proof
  fix h
  let ?env = "node_host links paths stays t" and ?p = "staged_at cap staging d" and ?T = "table_after t h"
  obtain h1 where h1: "createMountPoint ?env ?p (cap = BlockAccess) h = (Inr (), h1)" "table_after t h1 = ?T"
    using runsD [OF runs_createMountPoint] by blast
  let ?h2 = "EvalSymlinks (disk_link d) # Lstat (disk_link d) # h1"
  have dev: "dev \<noteq> []" using assms(2) by (auto simp: HasPrefix_def)
  note body = stage_body_def Let_def staged_at_def assms(3) findCBSVolume_link [where links = links and d = d and dev = dev, OF assms(1,2)] h1(1)
  show "\<exists>h'. stage_body ?env \<lparr>st_VolumeId = d, st_StagingTargetPath = staging, st_VolumeCapability = Some cap, st_VolumeContext = ctx\<rparr> cap h =
      (Inr (), h') \<and> table_after t h' = spec_stage cap staging d dev ?T"
  proof (cases "cap = BlockAccess")
    case True
    from runsD [OF runs_stage_block [where links = links and paths = paths and stays = stays and flags = "GetMountFlags cap" and dev = dev and p = ?p and t = t], of ?h2] True h1
    show ?thesis by (auto simp: body spec_stage_def)
  next
    case False
    from runsD [OF runs_stage_mount [where links = links and paths = paths and stays = stays and cap = cap and dev = dev and p = ?p and t = t], of "DeviceFromMount ?p # ?h2"] False h1 dev disk_link_not_Nil
    show ?thesis
      by (cases "map_of ?T ?p") (auto simp: body spec_stage_def device_answer_def)
  qed
qed

text \<open>The request is not in flight, names one disk, and asks for no device mapper.\<close>

definition stage_request :: "string \<Rightarrow> string \<Rightarrow> access_type \<Rightarrow> (string \<times> string) list \<Rightarrow> NodeStageVolumeRequest" where
  "stage_request d staging cap ctx =
     \<lparr>st_VolumeId = d, st_StagingTargetPath = staging, st_VolumeCapability = Some cap, st_VolumeContext = ctx\<rparr>"

lemma stage_refines:
  assumes "links (disk_link d) = Some dev" "HasPrefix dev ''/dev''" "map_of ctx ''devicemapper'' = None"
    and "d \<noteq> []" "staging \<noteq> []" "printed (stage_request d staging cap ctx) \<notin> dom (idemMap idem)"
  shows "\<exists>h'. NodeStageVolume (node_host links paths stays t) printed (stage_request d staging cap ctx) (idem, h) = (Inr (), (idem, h')) \<and>
    table_after t h' = spec_stage cap staging d dev (table_after t h)"
proof -
  let ?env = "node_host links paths stays t" and ?req = "stage_request d staging cap ctx"
  from assms(6) have "fst (Insert (printed ?req) idem)" by (auto simp: Insert_def split: option.splits)
  then obtain idem1 where i: "Insert (printed ?req) idem = (True, idem1)" by (metis prod.collapse)
  from runsD [OF runs_stage_body [where links = links and paths = paths and stays = stays and cap = cap and staging = staging and t = t, OF assms(1-3)], of h]
  obtain h' where "stage_body ?env ?req cap h = (Inr (), h')" "table_after t h' = spec_stage cap staging d dev (table_after t h)"
    by (auto simp: stage_request_def)
  with i Delete_Insert [OF i] assms(4,5) show ?thesis
    by (auto simp: NodeStageVolume_def stage_request_def Let_def)
qed

definition publish_request :: "string \<Rightarrow> string \<Rightarrow> string \<Rightarrow> access_type \<Rightarrow> bool \<Rightarrow> NodePublishVolumeRequest" where
  "publish_request d staging target cap ro =
     \<lparr>np_VolumeId = d, np_StagingTargetPath = staging, np_TargetPath = target, np_VolumeCapability = Some cap, np_Readonly = ro\<rparr>"

lemma runs_publish_mount:
  "runs t (publish_mount (node_host links paths stays t) (publish_request d staging target cap ro) cap)
     (\<lambda>x. mount_once target (source_device (staged_at cap staging d) x) x)"
  unfolding runs_def
proof
  fix h
  let ?env = "node_host links paths stays t" and ?T = "table_after t h"
  obtain h1 where h1: "createMountPoint ?env target (cap = BlockAccess) (NotMountPoint target # h) = (Inr (), h1)" "table_after t h1 = ?T"
    using runsD [OF runs_createMountPoint [where links = links and paths = paths and stays = stays and t = t and p = target and b = "cap = BlockAccess"],
      of "NotMountPoint target # h"] by auto
  show "\<exists>h'. publish_mount ?env (publish_request d staging target cap ro) cap h = (Inr (), h') \<and>
      table_after t h' = mount_once target (source_device (staged_at cap staging d) ?T) ?T"
  proof (cases "mounted target ?T")
    case True
    then show ?thesis
      by (auto simp: publish_mount_def publish_request_def Let_def probe_answer_def mounted_def mount_once_def)
  next
    case False
    with h1 show ?thesis
      by (auto simp: publish_mount_def publish_request_def Let_def probe_answer_def mounted_def mount_once_def IsNotExist_def
          staged_at_def)
  qed
qed

lemma publish_refines:
  assumes "links (disk_link d) = Some dev" "HasPrefix dev ''/dev''" "\<not> Contains d '',''"
    and "d \<noteq> []" "staging \<noteq> []" "target \<noteq> []" "printed (stage_request d staging cap []) \<notin> dom (idemMap idem)"
  shows "\<exists>h'. NodePublishVolume (node_host links paths stays t) printed (publish_request d staging target cap ro) (idem, h) = (Inr (), (idem, h')) \<and>
    table_after t h' = spec_publish cap staging d dev target (table_after t h)"
proof -
  let ?env = "node_host links paths stays t" and ?req = "publish_request d staging target cap ro" and ?T = "table_after t h"
  note mount = runsD [OF runs_publish_mount [where links = links and paths = paths and stays = stays and d = d and staging = staging and
      target = target and cap = cap and ro = ro and t = t]]
  have checked: "\<exists>h1. checkStagingTargetPath ?env printed ?req (idem, h) = (Inr (), (idem, h1)) \<and>
      table_after t h1 = (if mounted staging ?T then ?T else spec_stage cap staging d dev ?T)"
  proof -
    have "\<exists>h0. ensure_mount_dir ?env (Some True) staging h = (Inr (\<not> mounted staging ?T), h0) \<and> table_after t h0 = ?T"
      by (simp add: ensure_mount_dir_def probe_answer_def mounted_def IsNotExist_def)
    then obtain h0 where h0: "ensure_mount_dir ?env (Some True) staging h = (Inr (\<not> mounted staging ?T), h0)" "table_after t h0 = ?T"
      by blast
    show ?thesis
    proof (cases "mounted staging ?T")
      case False
      have "\<exists>h1. NodeStageVolume ?env printed (stage_request d staging cap []) (idem, h0) = (Inr (), (idem, h1)) \<and>
          table_after t h1 = spec_stage cap staging d dev (table_after t h0)"
        using assms by (intro stage_refines) simp_all
      with h0 False assms(3) show ?thesis
        by (auto simp: checkStagingTargetPath_def on_host_def publish_request_def restage_context_def stage_request_def)
    qed (use h0 in \<open>simp add: checkStagingTargetPath_def on_host_def publish_request_def\<close>)
  qed
  show ?thesis
  proof (cases "cap = BlockAccess")
    case True
    with mount [of h] assms(4-6) show ?thesis
      by (auto simp: NodePublishVolume_def on_host_def publish_request_def spec_publish_def Let_def)
  next
    case False
    from checked obtain h1 where h1: "checkStagingTargetPath ?env printed ?req (idem, h) = (Inr (), (idem, h1))"
      "table_after t h1 = (if mounted staging ?T then ?T else spec_stage cap staging d dev ?T)" by blast
    with mount [of h1] False assms(4-6) show ?thesis
      by (auto simp: NodePublishVolume_def on_host_def publish_request_def spec_publish_def Let_def)
  qed
qed

text \<open>Without its device a volume cannot be staged, and nothing is mounted.\<close>

lemma stage_unattached:
  assumes "links (disk_link d) = None" "map_of ctx ''devicemapper'' = None" "d \<noteq> []" "staging \<noteq> []"
    and "printed (stage_request d staging cap ctx) \<notin> dom (idemMap idem)"
  shows "\<exists>h'. NodeStageVolume (node_host links paths stays t) printed (stage_request d staging cap ctx) (idem, h) =
      (Inl (Status Internal), (idem, h')) \<and> table_after t h' = table_after t h"
proof -
  let ?env = "node_host links paths stays t" and ?req = "stage_request d staging cap ctx" and ?p = "staged_at cap staging d"
  from assms(5) have "fst (Insert (printed ?req) idem)" by (auto simp: Insert_def split: option.splits)
  then obtain idem1 where i: "Insert (printed ?req) idem = (True, idem1)" by (metis prod.collapse)
  obtain h1 where h1: "createMountPoint ?env ?p (cap = BlockAccess) h = (Inr (), h1)" "table_after t h1 = table_after t h"
    using runsD [OF runs_createMountPoint [where links = links and paths = paths and stays = stays and t = t and p = ?p and b = "cap = BlockAccess"]]
    by blast
  let ?h2 = "Glob ''/sys/block/*'' # DevicePathNotExist # Lstat (disk_link d) # h1"
  have f: "findCBSVolume ?env d h1 = (Inl PlainMsg, ?h2)"
    using assms(1) by (simp add: findCBSVolume_def getDevicePathsBySerial_def Let_def lstat_answer_def IsNotExist_def)
  have "stage_body ?env ?req cap h = (Inl (Status Internal), ?h2)"
    using h1(1) f assms(2)
    by (cases "cap = BlockAccess") (simp_all add: stage_body_def stage_request_def staged_at_def Let_def as_status_def)
  with i Delete_Insert [OF i] assms(3,4) h1(2) show ?thesis
    by (auto simp: NodeStageVolume_def stage_request_def Let_def)
qed

lemma drop_unmounted: "map_of x p = None \<Longrightarrow> drop_mount p x = x"
  by (induction x) (auto split: if_splits)

text \<open>Cleaning one path: it ends as \<open>clean_ok\<close> says, and one mount is off it.\<close>

lemma clean_path_refines:
  "\<exists>r h'. clean_path (node_host links paths stays t) p h = (r, h') \<and> table_after t h' = drop_path p (table_after t h) \<and>
     (if clean_ok stays p (table_after t h) then r = Inr () else \<exists>e. r = Inl (Plain e))"
proof -
  let ?T = "table_after t h"
  consider "p = []" | "p \<noteq> []" "\<not> stays p" "paths h p = None" "map_of ?T p = None"
    | "p \<noteq> []" "stays p \<or> paths h p \<noteq> None \<or> map_of ?T p \<noteq> None" by blast
  then show ?thesis
  proof cases
    case 3
    then have s: "\<exists>b. stat_answer (there_answer paths stays h p) p ?T = Inr b"
      by (auto simp: stat_answer_def there_answer_def split: option.split)
    with 3(1) show ?thesis
      by (cases "stays p \<or> mounted p (drop_mount p ?T)")
        (auto simp: clean_path_def drop_path_def clean_ok_def remove_answer_def mounted_def PathExists_def)
  qed (auto simp: clean_path_def drop_path_def clean_ok_def mounted_def stat_answer_def there_answer_def PathExists_def
      IsNotExist_def drop_unmounted)
qed

lemma unmounts_listed:
  assumes "map_of x p \<noteq> None"
  shows "filter (\<lambda>m. fst m \<noteq> p) (drop_mount p x) = filter (\<lambda>m. fst m \<noteq> p) x"
    and "length (drop_mount p x) < length x"
  using assms by (induction x) (auto split: if_splits)

lemma unmount_all_refines:
  "\<exists>h'. unmount_all (node_host links paths stays t) p h = Some (Inr (), h') \<and>
     table_after t h' = filter (\<lambda>m. fst m \<noteq> p) (table_after t h)"
proof (induction "length (table_after t h)" arbitrary: h rule: less_induct)
  case less
  let ?env = "node_host links paths stays t" and ?T = "table_after t h"
  show ?case
  proof (cases "map_of ?T p")
    case None
    then have "filter (\<lambda>m. fst m \<noteq> p) ?T = ?T" by (auto simp: map_of_eq_None_iff filter_id_conv)
    with None show ?thesis by (subst unmount_all.simps) (simp add: probe_answer_def IsNotExist_def)
  next
    case (Some dev)
    let ?h = "Unmount p # NotMountPoint p # h"
    have d: "map_of ?T p \<noteq> None" using Some by simp
    from less [of ?h] unmounts_listed(2) [OF d] obtain h' where
      "unmount_all ?env p ?h = Some (Inr (), h')" "table_after t h' = filter (\<lambda>m. fst m \<noteq> p) (table_after t ?h)" by auto
    with Some unmounts_listed(1) [OF d] show ?thesis
      by (subst unmount_all.simps) (simp add: probe_answer_def)
  qed
qed

text \<open>Cleaning several paths.\<close>

lemma unpublish_clean_refines:
  assumes "convertToOldStagingPath target = Some old"
  shows "\<exists>h'. unpublish_clean (node_host links paths stays t) target d h =
      (if fst (clean_each stays [convertToIntreeTargetPath target, convertToIntreeStagingPath target d, old] (table_after t h))
       then Inr () else Inl (Status Internal), h') \<and>
    table_after t h' =
      snd (clean_each stays [convertToIntreeTargetPath target, convertToIntreeStagingPath target d, old] (table_after t h))"
proof -
  let ?env = "node_host links paths stays t" and ?p1 = "convertToIntreeTargetPath target"
    and ?p2 = "convertToIntreeStagingPath target d" and ?T = "table_after t h"
  note c = clean_path_refines [of links paths stays t]
  note defs = unpublish_clean_def cleanIntreePath_def cleanIntreeTargetPath_def cleanIntreeStagingPath_def
    cleanOldStagingPath_def assms as_status_def
  obtain r1 h1 where 1: "clean_path ?env ?p1 h = (r1, h1)" "table_after t h1 = drop_path ?p1 ?T"
    "if clean_ok stays ?p1 ?T then r1 = Inr () else \<exists>e. r1 = Inl (Plain e)" using c by blast
  obtain r2 h2 where 2: "clean_path ?env ?p2 h1 = (r2, h2)" "table_after t h2 = drop_path ?p2 (table_after t h1)"
    "if clean_ok stays ?p2 (table_after t h1) then r2 = Inr () else \<exists>e. r2 = Inl (Plain e)" using c by blast
  obtain r3 h3 where 3: "clean_path ?env old h2 = (r3, h3)" "table_after t h3 = drop_path old (table_after t h2)"
    "if clean_ok stays old (table_after t h2) then r3 = Inr () else \<exists>e. r3 = Inl (Plain e)" using c by blast
  show ?thesis
    using 1 2 3 by (cases "clean_ok stays ?p1 ?T"; cases "clean_ok stays ?p2 (table_after t h1)";
      cases "clean_ok stays old (table_after t h2)") (auto simp: defs)
qed

lemma unpublish_refines:
  assumes "convertToOldStagingPath target = Some old" "target \<noteq> []"
  shows "\<exists>h'. NodeUnpublishVolume (node_host links paths stays t) d target h =
      Some (if fst (spec_unpublish stays old d target (table_after t h)) then Inr () else Inl (Status Internal), h') \<and>
    table_after t h' = snd (spec_unpublish stays old d target (table_after t h))"
proof -
  let ?env = "node_host links paths stays t"
  let ?c = "clean_each stays [convertToIntreeTargetPath target, convertToIntreeStagingPath target d, old] (table_after t h)"
  obtain h1 where h1: "unpublish_clean ?env target d h = (if fst ?c then Inr () else Inl (Status Internal), h1)"
    "table_after t h1 = snd ?c"
    using unpublish_clean_refines [OF assms(1)] by blast
  show ?thesis
  proof (cases "fst ?c")
    case True
    with h1 unmount_all_refines [of links paths stays t target h1] assms(2) show ?thesis
      by (auto simp: NodeUnpublishVolume_def spec_unpublish_def split_beta simp del: clean_each.simps)
  next
    case False
    with h1 assms(2) show ?thesis
      by (auto simp: NodeUnpublishVolume_def spec_unpublish_def split_beta simp del: clean_each.simps)
  qed
qed

lemma runs_unstage_path:
  assumes "\<not> Contains d '',''"
  shows "runs t (unstage_path (node_host links paths stays t) \<lparr>un_VolumeId = d, un_StagingTargetPath = staging\<rparr>) (drop_mount staging)"
  unfolding runs_def
proof
  fix h
  let ?T = "table_after t h"
  show "\<exists>h'. unstage_path (node_host links paths stays t) \<lparr>un_VolumeId = d, un_StagingTargetPath = staging\<rparr> h = (Inr (), h') \<and>
      table_after t h' = drop_mount staging ?T"
  proof (cases "map_of ?T staging")
    case None
    then show ?thesis by (simp add: unstage_path_def Let_def device_answer_def drop_unmounted)
  next
    case (Some dev)
    then have "filter (\<lambda>m. snd m = dev) ?T \<noteq> []" using map_of_SomeD by (force simp: filter_empty_conv)
    with Some assms show ?thesis by (simp add: unstage_path_def Let_def device_answer_def)
  qed
qed

lemma unstage_refines:
  assumes "\<not> Contains d '',''" "d \<noteq> []" "staging \<noteq> []"
  shows "\<exists>h'. NodeUnstageVolume (node_host links paths stays t) \<lparr>un_VolumeId = d, un_StagingTargetPath = staging\<rparr> h =
      (if fst (spec_unstage stays staging d (table_after t h)) then Inr () else Inl (Status Internal), h') \<and>
    table_after t h' = snd (spec_unstage stays staging d (table_after t h))"
proof -
  let ?env = "node_host links paths stays t" and ?T = "table_after t h" and ?tmp = "PathJoin [staging, d]"
  show ?thesis
  proof (cases "mounted ?tmp ?T")
    case True
    with assms show ?thesis
      by (auto simp: NodeUnstageVolume_def Let_def probe_answer_def mounted_def spec_unstage_def remove_answer_def IsNotExist_def)
  next
    case False
    with assms runsD [OF runs_unstage_path [OF assms(1), where links = links and paths = paths and stays = stays and staging = staging and t = t],
        of "NotMountPoint ?tmp # h"]
    show ?thesis
      by (auto simp: NodeUnstageVolume_def Let_def probe_answer_def mounted_def spec_unstage_def IsNotExist_def isInputOutputErr_def)
  qed
qed


definition demo_links :: "string \<Rightarrow> string option" where
  "demo_links = [disk_link ''disk-a'' \<mapsto> ''/dev/vdb'']"

definition demo_staging :: string where
  "demo_staging = ''/plugins/kubernetes.io/csi/pv/pvc-1/globalmount''"

definition demo_target :: "string \<Rightarrow> string" where
  "demo_target pod = ''/pods/'' @ pod @ ''/volumes/kubernetes.io~csi/pvc-1/mount''"


section \<open>The life of a volume on a node\<close>

text \<open>Pods that come and pods that go, one after the other.\<close>

fun publish_each ::
  "host_env \<Rightarrow> (NodeStageVolumeRequest \<Rightarrow> string) \<Rightarrow> (string \<Rightarrow> NodePublishVolumeRequest) \<Rightarrow> string list \<Rightarrow> unit node_action" where
  "publish_each env printed req [] w = (Inr (), w)"
| "publish_each env printed req (p # ps) w =
     (case NodePublishVolume env printed (req p) w of
        (Inl e, w1) \<Rightarrow> (Inl e, w1)
      | (Inr _, w1) \<Rightarrow> publish_each env printed req ps w1)"

fun unpublish_each :: "host_env \<Rightarrow> string \<Rightarrow> string list \<Rightarrow> host_hist \<Rightarrow> ((go_error + unit) \<times> host_hist) option" where
  "unpublish_each env d [] h = Some (Inr (), h)"
| "unpublish_each env d (p # ps) h =
     (case NodeUnpublishVolume env d p h of
        Some (Inr _, h1) \<Rightarrow> unpublish_each env d ps h1
      | r \<Rightarrow> r)"

text \<open>
  The paths of a volume are its own: nothing is mounted there before, the targets are no other path of the
  volume, and the paths of older versions belong to no target. They may be the staging path, as with older
  versions of Kubernetes. The older paths, and the file of a block volume, can be removed.
\<close>

definition own_paths :: "(string \<Rightarrow> bool) \<Rightarrow> access_type \<Rightarrow> string \<Rightarrow> string \<Rightarrow> string \<Rightarrow> string list \<Rightarrow> mount_table \<Rightarrow> bool" where
  "own_paths stays cap d dev staging ps t \<longleftrightarrow>
     \<not> mounted staging t \<and> \<not> mounted (PathJoin [staging, d]) t \<and> \<not> mounted dev t \<and> \<not> stays (PathJoin [staging, d]) \<and> distinct ps \<and>
     list_all (\<lambda>p. p \<noteq> [] \<and> \<not> mounted p t \<and> p \<noteq> staging \<and> p \<noteq> PathJoin [staging, d] \<and>
       (case convertToOldStagingPath p of
          None \<Rightarrow> False
        | Some old \<Rightarrow>
            list_all (\<lambda>q. \<not> mounted q t \<and> \<not> stays q \<and> q \<notin> set ps) [convertToIntreeTargetPath p, convertToIntreeStagingPath p d, old])) ps"

lemma own_pathsD:
  assumes "own_paths stays cap d dev staging ps t" "p \<in> set ps" "convertToOldStagingPath p = Some old"
  shows "p \<noteq> []" "\<not> mounted p t" "p \<noteq> staged_at cap staging d"
    "list_all (\<lambda>q. \<not> mounted q t \<and> \<not> stays q \<and> q \<notin> set ps) [convertToIntreeTargetPath p, convertToIntreeStagingPath p d, old]"
proof -
  from assms(1,2) have "p \<noteq> [] \<and> \<not> mounted p t \<and> p \<noteq> staging \<and> p \<noteq> PathJoin [staging, d] \<and>
      (case convertToOldStagingPath p of
         None \<Rightarrow> False
       | Some old \<Rightarrow>
           list_all (\<lambda>q. \<not> mounted q t \<and> \<not> stays q \<and> q \<notin> set ps) [convertToIntreeTargetPath p, convertToIntreeStagingPath p d, old])"
    unfolding own_paths_def list_all_iff [of _ ps] by blast
  with assms(3) show "p \<noteq> []" "\<not> mounted p t" "p \<noteq> staged_at cap staging d"
    "list_all (\<lambda>q. \<not> mounted q t \<and> \<not> stays q \<and> q \<notin> set ps) [convertToIntreeTargetPath p, convertToIntreeStagingPath p d, old]"
    by (simp_all add: staged_at_def)
qed

lemma own_paths_old:
  assumes "own_paths stays cap d dev staging ps t" "p \<in> set ps"
  obtains old where "convertToOldStagingPath p = Some old"
proof (cases "convertToOldStagingPath p")
  case None
  with assms show ?thesis unfolding own_paths_def list_all_iff [of _ ps] by fastforce
qed (use that in blast)

text \<open>The volume's mounts lie on those that were there: the targets, and its staging path.\<close>

definition volume_mounts :: "access_type \<Rightarrow> string \<Rightarrow> string \<Rightarrow> string \<Rightarrow> string list \<Rightarrow> mount_table \<Rightarrow> mount_table" where
  "volume_mounts cap d dev staging ps t = map (\<lambda>p. (p, dev)) ps @ (staged_at cap staging d, dev) # t"

lemma map_of_volume:
  "map_of (volume_mounts cap d dev staging ps t) q =
     (if q \<in> set ps \<or> q = staged_at cap staging d then Some dev else map_of t q)"
  by (induction ps) (auto simp: volume_mounts_def)

lemma volume_mounts_Cons: "volume_mounts cap d dev staging (p # ps) t = (p, dev) # volume_mounts cap d dev staging ps t"
  by (simp add: volume_mounts_def)

lemma stage_first:
  assumes "own_paths stays cap d dev staging ps t"
  shows "spec_stage cap staging d dev t = volume_mounts cap d dev staging [] t"
  using assms
  by (auto simp: own_paths_def spec_stage_def volume_mounts_def mount_once_def mounted_def source_device_def staged_at_def Let_def)

lemma publish_next:
  assumes "own_paths stays cap d dev staging ps t" "p \<in> set ps" "set xs \<subseteq> set ps" "p \<notin> set xs"
  shows "spec_publish cap staging d dev p (volume_mounts cap d dev staging xs t) = volume_mounts cap d dev staging (p # xs) t"
proof -
  have s: "staged_at cap staging d \<notin> set ps" and p: "\<not> mounted p t" "p \<noteq> staged_at cap staging d"
    using assms(1,2) by (auto simp: own_paths_def list_all_iff staged_at_def)
  then have "staged_at cap staging d \<notin> set xs" using assms(3) by blast
  with p assms(4) show ?thesis
    by (cases "cap = BlockAccess")
      (simp_all add: spec_publish_def mount_once_def mounted_def source_device_def map_of_volume volume_mounts_Cons staged_at_def Let_def)
qed

lemma publish_all:
  assumes "own_paths stays cap d dev staging ps t0" "set qs \<subseteq> set ps" "distinct qs" "set xs \<subseteq> set ps" "set xs \<inter> set qs = {}"
    and "links (disk_link d) = Some dev" "HasPrefix dev ''/dev''" "\<not> Contains d '',''" "d \<noteq> []" "staging \<noteq> []"
    and "printed (stage_request d staging cap []) \<notin> dom (idemMap idem)"
    and "table_after t h = volume_mounts cap d dev staging xs t0"
  shows "\<exists>h'. publish_each (node_host links paths stays t) printed (\<lambda>p. publish_request d staging p cap ro) qs (idem, h) = (Inr (), (idem, h')) \<and>
    table_after t h' = volume_mounts cap d dev staging (rev qs @ xs) t0"
  using assms(2-5,12)
proof (induction qs arbitrary: xs h)
  case (Cons q qs)
  from Cons.prems own_paths_old [OF assms(1), of q] own_pathsD(1) [OF assms(1), of q] have q: "q \<noteq> []" by auto
  from publish_refines [where links = links and paths = paths and stays = stays and t = t and cap = cap and ro = ro and h = h and printed = printed and
      idem = idem and dev = dev, OF assms(6-10) q assms(11)]
  obtain h1 where h1: "NodePublishVolume (node_host links paths stays t) printed (publish_request d staging q cap ro) (idem, h) = (Inr (), (idem, h1))"
      "table_after t h1 = spec_publish cap staging d dev q (table_after t h)" by blast
  with publish_next [OF assms(1), of q xs] Cons.prems have "table_after t h1 = volume_mounts cap d dev staging (q # xs) t0" by simp
  with Cons.IH [of "q # xs" h1] Cons.prems h1(1) show ?case by auto
qed simp

text \<open>On the way down the staging path may already be free, when a target's path of older versions is it.\<close>

definition down_to :: "access_type \<Rightarrow> string \<Rightarrow> string \<Rightarrow> string \<Rightarrow> string list \<Rightarrow> mount_table \<Rightarrow> mount_table \<Rightarrow> bool" where
  "down_to cap d dev staging xs t t' \<longleftrightarrow>
     t' = volume_mounts cap d dev staging xs t \<or> t' = map (\<lambda>p. (p, dev)) xs @ t"

lemma drop_volume:
  assumes "down_to cap d dev staging xs t t'" "q \<notin> set xs" "\<not> mounted q t" "\<not> stays q"
  shows "clean_ok stays q t' \<and> down_to cap d dev staging xs t (drop_path q t')"
proof -
  have drop: "drop_mount q (map (\<lambda>p. (p, dev)) xs @ x) = map (\<lambda>p. (p, dev)) xs @ drop_mount q x" for x
    using assms(2) by (induction xs) auto
  have free: "mounted q (map (\<lambda>p. (p, dev)) xs @ x) = mounted q x" for x
    using assms(2) by (induction xs) (auto simp: mounted_def)
  have t: "drop_mount q t = t" using assms(3) by (simp add: drop_unmounted mounted_def)
  from assms(1) consider "t' = volume_mounts cap d dev staging xs t" | "t' = map (\<lambda>p. (p, dev)) xs @ t"
    unfolding down_to_def by blast
  then show ?thesis
  proof cases
    case 1
    have "drop_mount q ((staged_at cap staging d, dev) # t) =
        (if staged_at cap staging d = q then t else (staged_at cap staging d, dev) # t)" using t by simp
    moreover from this have "\<not> mounted q (drop_mount q ((staged_at cap staging d, dev) # t))"
      using assms(3) by (auto simp: mounted_def)
    ultimately show ?thesis
      using 1 assms(4) unfolding down_to_def drop_path_def clean_ok_def volume_mounts_def by (auto simp: drop free)
  next
    case 2
    with t assms(3,4) show ?thesis unfolding down_to_def drop_path_def clean_ok_def by (simp add: drop free)
  qed
qed

lemma unpublish_next:
  assumes "own_paths stays cap d dev staging ps t" "p \<in> set ps" "convertToOldStagingPath p = Some old" "set xs \<subseteq> set ps"
    and "down_to cap d dev staging xs t t'"
  shows "fst (spec_unpublish stays old d p t') \<and>
    down_to cap d dev staging (filter (\<lambda>x. x \<noteq> p) xs) t (snd (spec_unpublish stays old d p t'))"
proof -
  note p = own_pathsD [OF assms(1-3)]
  let ?p1 = "convertToIntreeTargetPath p" and ?p2 = "convertToIntreeStagingPath p d"
  from p(4) assms(4) have q: "?p1 \<notin> set xs" "?p2 \<notin> set xs" "old \<notin> set xs"
    and free: "\<not> mounted ?p1 t" "\<not> mounted ?p2 t" "\<not> mounted old t" "\<not> stays ?p1" "\<not> stays ?p2" "\<not> stays old" by auto
  note d1 = drop_volume [where stays = stays, OF assms(5) q(1) free(1,4)]
  note d2 = drop_volume [where stays = stays, OF conjunct2 [OF d1] q(2) free(2,5)]
  note d3 = drop_volume [where stays = stays, OF conjunct2 [OF d2] q(3) free(3,6)]
  let ?t = "drop_path old (drop_path ?p2 (drop_path ?p1 t'))"
  have spec: "spec_unpublish stays old d p t' = (True, filter (\<lambda>m. fst m \<noteq> p) ?t)"
    using d1 d2 d3 by (simp add: spec_unpublish_def)
  have "filter (\<lambda>m. fst m \<noteq> p) t = t"
    using p(2) by (auto simp: mounted_def map_of_eq_None_iff filter_id_conv)
  moreover have "filter (\<lambda>m. fst m \<noteq> p) (map (\<lambda>p. (p, dev)) xs) = map (\<lambda>p. (p, dev)) (filter (\<lambda>x. x \<noteq> p) xs)"
    by (simp add: filter_map comp_def)
  ultimately show ?thesis
    using conjunct2 [OF d3] p(3) unfolding spec by (auto simp: down_to_def volume_mounts_def)
qed

lemma unpublish_all:
  assumes "own_paths stays cap d dev staging ps t0" "set qs \<subseteq> set ps" "set xs \<subseteq> set ps"
    and "down_to cap d dev staging xs t0 (table_after t h)"
  shows "\<exists>h'. unpublish_each (node_host links paths stays t) d qs h = Some (Inr (), h') \<and>
    down_to cap d dev staging (filter (\<lambda>x. x \<notin> set qs) xs) t0 (table_after t h')"
  using assms(2-4)
proof (induction qs arbitrary: xs h)
  case (Cons q qs)
  then have "q \<in> set ps" by simp
  with own_paths_old [OF assms(1)] own_pathsD(1) [OF assms(1)] obtain old where q: "q \<noteq> []" "convertToOldStagingPath q = Some old"
    by metis
  from unpublish_refines [OF q(2,1), of links paths stays t d h] obtain h1 where
    u: "NodeUnpublishVolume (node_host links paths stays t) d q h =
        Some (if fst (spec_unpublish stays old d q (table_after t h)) then Inr () else Inl (Status Internal), h1)"
      "table_after t h1 = snd (spec_unpublish stays old d q (table_after t h))" by blast
  have n: "fst (spec_unpublish stays old d q (table_after t h)) \<and>
      down_to cap d dev staging (filter (\<lambda>x. x \<noteq> q) xs) t0 (snd (spec_unpublish stays old d q (table_after t h)))"
    using Cons.prems q by (intro unpublish_next [OF assms(1)]) simp_all
  with u have h1: "NodeUnpublishVolume (node_host links paths stays t) d q h = Some (Inr (), h1)"
    and "down_to cap d dev staging (filter (\<lambda>x. x \<noteq> q) xs) t0 (table_after t h1)" by simp_all
  with Cons.IH [of "filter (\<lambda>x. x \<noteq> q) xs" h1] Cons.prems obtain h' where
    "unpublish_each (node_host links paths stays t) d qs h1 = Some (Inr (), h')"
    "down_to cap d dev staging (filter (\<lambda>x. x \<notin> set qs) (filter (\<lambda>x. x \<noteq> q) xs)) t0 (table_after t h')" by auto
  moreover have "filter (\<lambda>x. x \<notin> set qs) (filter (\<lambda>x. x \<noteq> q) xs) = filter (\<lambda>x. x \<notin> set (q # qs)) xs"
    by (auto simp: filter_filter intro: filter_cong)
  ultimately show ?case using h1 by auto
qed simp

lemma unstage_last:
  assumes "own_paths stays cap d dev staging ps t" "down_to cap d dev staging [] t t'"
  shows "spec_unstage stays staging d t' = (True, t)"
proof -
  have "\<not> mounted staging t" "\<not> mounted (PathJoin [staging, d]) t" "\<not> stays (PathJoin [staging, d])"
    using assms(1) by (simp_all add: own_paths_def)
  then show ?thesis
    using assms(2) by (auto simp: down_to_def volume_mounts_def spec_unstage_def Let_def mounted_def staged_at_def drop_unmounted split: if_splits)
qed

text \<open>
  C8. A volume of one disk that is staged, published to any number of pods, unpublished from all of them in any
  order and unstaged: every call succeeds, each pod finds the disk's device on its target, no target is mounted
  after the pods are gone, and in the end the mounts of the node are what they were.
\<close>

theorem node_lifecycle:
  assumes "links (disk_link d) = Some dev" "HasPrefix dev ''/dev''" "\<not> Contains d '',''" "d \<noteq> []" "staging \<noteq> []"
    and "\<forall>ctx. printed (stage_request d staging cap ctx) \<notin> dom (idemMap idem)" "map_of ctx ''devicemapper'' = None"
    and "own_paths stays cap d dev staging ps (table_after t h)" "set qs = set ps"
  shows "\<exists>h1 h2 h3 h4.
    NodeStageVolume (node_host links paths stays t) printed (stage_request d staging cap ctx) (idem, h) = (Inr (), (idem, h1)) \<and>
    publish_each (node_host links paths stays t) printed (\<lambda>p. publish_request d staging p cap ro) ps (idem, h1) = (Inr (), (idem, h2)) \<and>
    (\<forall>p\<in>set ps. map_of (table_after t h2) p = Some dev) \<and>
    unpublish_each (node_host links paths stays t) d qs h2 = Some (Inr (), h3) \<and>
    (\<forall>p\<in>set ps. \<not> mounted p (table_after t h3)) \<and>
    NodeUnstageVolume (node_host links paths stays t) \<lparr>un_VolumeId = d, un_StagingTargetPath = staging\<rparr> h3 = (Inr (), h4) \<and>
    table_after t h4 = table_after t h"
proof -
  let ?env = "node_host links paths stays t" and ?T = "table_after t h"
  note own = assms(8)
  have ps: "distinct ps" and free: "\<And>p. p \<in> set ps \<Longrightarrow> \<not> mounted p ?T \<and> p \<noteq> staged_at cap staging d"
    using own by (auto simp: own_paths_def list_all_iff staged_at_def)
  obtain h1 where h1: "NodeStageVolume ?env printed (stage_request d staging cap ctx) (idem, h) = (Inr (), (idem, h1))"
    "table_after t h1 = volume_mounts cap d dev staging [] ?T"
    using stage_refines [where links = links and cap = cap and printed = printed and idem = idem and paths = paths and stays = stays and t = t
        and h = h, OF assms(1,2,7,4,5)] assms(6) stage_first [OF own] by auto
  obtain h2 where h2: "publish_each ?env printed (\<lambda>p. publish_request d staging p cap ro) ps (idem, h1) = (Inr (), (idem, h2))"
    "table_after t h2 = volume_mounts cap d dev staging (rev ps) ?T"
    using publish_all [where links = links and paths = paths and stays = stays and printed = printed and idem = idem and t = t and ro = ro,
        OF own subset_refl ps _ _ assms(1-5) _ h1(2)] assms(6) by auto
  obtain h3 where h3: "unpublish_each ?env d qs h2 = Some (Inr (), h3)"
    "down_to cap d dev staging (filter (\<lambda>x. x \<notin> set qs) (rev ps)) ?T (table_after t h3)"
    using unpublish_all [where links = links and paths = paths and stays = stays and t = t and h = h2 and qs = qs and xs = "rev ps", OF own] assms(9) h2(2)
    by (auto simp: down_to_def)
  have gone: "filter (\<lambda>x. x \<notin> set qs) (rev ps) = []" using assms(9) by (auto simp: filter_empty_conv)
  obtain h4 where h4: "NodeUnstageVolume ?env \<lparr>un_VolumeId = d, un_StagingTargetPath = staging\<rparr> h3 = (Inr (), h4)"
    "table_after t h4 = ?T"
    using unstage_refines [where links = links and paths = paths and stays = stays and t = t and h = h3, OF assms(3-5)]
      unstage_last [OF own h3(2) [unfolded gone]] by auto
  have "\<forall>p\<in>set ps. \<not> mounted p (table_after t h3)"
    using h3(2) free unfolding gone by (auto simp: down_to_def volume_mounts_def mounted_def)
  then show ?thesis
    using h1(1) h2 h3(1) h4 by (intro exI [of _ h1] exI [of _ h2] exI [of _ h3] exI [of _ h4]) (simp add: map_of_volume)
qed

text \<open>Two pods, on a node where the staging path is that of older versions.\<close>

theorem node_lifecycle_witness:
  "\<exists>h1 h2 h3. publish_each (node_host demo_links (\<lambda>h p. Some True) (\<lambda>p. False) [(''/'', ''/dev/vda1'')]) (\<lambda>r. ''key'')
      (\<lambda>p. publish_request ''disk-a'' demo_staging p (MountAccess ''ext4'' []) False) [demo_target ''u1'', demo_target ''u2'']
      (NewIdempotent, h1) = (Inr (), (NewIdempotent, h2)) \<and>
    map_of (table_after [(''/'', ''/dev/vda1'')] h2) (demo_target ''u2'') = Some ''/dev/vdb'' \<and>
    unpublish_each (node_host demo_links (\<lambda>h p. Some True) (\<lambda>p. False) [(''/'', ''/dev/vda1'')]) ''disk-a''
      [demo_target ''u2'', demo_target ''u1''] h2 = Some (Inr (), h3)"
proof -
  let ?ps = "[demo_target ''u1'', demo_target ''u2'']" and ?qs = "[demo_target ''u2'', demo_target ''u1'']"
  have l: "demo_links (disk_link ''disk-a'') = Some ''/dev/vdb''" by (simp add: demo_links_def)
  have d: "HasPrefix ''/dev/vdb'' ''/dev''" "\<not> Contains ''disk-a'' '',''" "demo_staging \<noteq> []" by code_simp+
  have o: "own_paths (\<lambda>p. False) (MountAccess ''ext4'' []) ''disk-a'' ''/dev/vdb'' demo_staging ?ps (table_after [(''/'', ''/dev/vda1'')] [])"
    by code_simp
  have f: "\<forall>ctx. (\<lambda>r. ''key'') (stage_request ''disk-a'' demo_staging (MountAccess ''ext4'' []) ctx) \<notin> dom (idemMap NewIdempotent)"
    by (simp add: NewIdempotent_def)
  have s: "set ?qs = set ?ps" by auto
  from node_lifecycle [where links = demo_links and paths = "\<lambda>h p. Some True" and stays = "\<lambda>p. False" and t = "[(''/'', ''/dev/vda1'')]" and h = "[]" and
      ctx = "[]" and printed = "\<lambda>r. ''key''" and cap = "MountAccess ''ext4'' []" and ro = False and qs = ?qs,
      OF l d(1,2) _ d(3) f _ o s]
  show ?thesis by auto
qed

end
