(* ===== verification/CbsEndToEnd.thy ===== *)
theory CbsEndToEnd imports CbsCompletion CbsNodeMachine begin

text \<open>
  The controller and the node together: the reference cloud of \<open>CbsAccount\<close> decides which disks a node has, and
  the reference host of \<open>CbsNodeMachine\<close> sees the link of a disk exactly while the cloud has it attached to the
  node. A volume goes all the way from the account to the pods and back.
\<close>

definition attached_here :: "string \<Rightarrow> cloud_disk option \<Rightarrow> bool" where
  "attached_here inst x = (case x of Some y \<Rightarrow> d_owner y = Some inst | None \<Rightarrow> False)"

definition node_links :: "string \<Rightarrow> string \<Rightarrow> string \<Rightarrow> account \<Rightarrow> string \<Rightarrow> string option" where
  "node_links inst d dev a p = (if p = disk_link d \<and> attached_here inst (a d) then Some dev else None)"

text \<open>What happens on the node while the disk is attached: staged, published, unpublished, unstaged.\<close>

definition used_on_node ::
  "host_env \<Rightarrow> mount_table \<Rightarrow> (NodeStageVolumeRequest \<Rightarrow> string) \<Rightarrow> string \<Rightarrow> string \<Rightarrow> string \<Rightarrow> access_type \<Rightarrow> bool \<Rightarrow>
   string list \<Rightarrow> string list \<Rightarrow> (string \<times> string) list \<Rightarrow> Idempotent \<Rightarrow> host_hist \<Rightarrow> bool" where
  "used_on_node env t printed d dev staging cap ro ps qs ctx idem h \<longleftrightarrow>
     (\<exists>h1 h2 h3 h4.
       NodeStageVolume env printed (stage_request d staging cap ctx) (idem, h) = (Inr (), (idem, h1)) \<and>
       publish_each env printed (\<lambda>p. publish_request d staging p cap ro) ps (idem, h1) = (Inr (), (idem, h2)) \<and>
       (\<forall>p\<in>set ps. map_of (table_after t h2) p = Some dev) \<and>
       unpublish_each env d qs h2 = Some (Inr (), h3) \<and>
       (\<forall>p\<in>set ps. \<not> mounted p (table_after t h3)) \<and>
       NodeUnstageVolume env \<lparr>un_VolumeId = d, un_StagingTargetPath = staging\<rparr> h3 = (Inr (), h4) \<and>
       table_after t h4 = table_after t h)"

definition refused_on_node ::
  "host_env \<Rightarrow> mount_table \<Rightarrow> (NodeStageVolumeRequest \<Rightarrow> string) \<Rightarrow> NodeStageVolumeRequest \<Rightarrow> Idempotent \<Rightarrow> host_hist \<Rightarrow> bool" where
  "refused_on_node env t printed req idem h \<longleftrightarrow>
     (\<exists>h'. NodeStageVolume env printed req (idem, h) = (Inl (Status Internal), (idem, h')) \<and> table_after t h' = table_after t h)"

lemma publish_one:
  assumes "diskIdList d = [d]" "d \<noteq> []" "supported_node inst" "idle (a d)" "\<And>h. k < ticks c h"
    and "a d = Some y" "d_owner y = None"
  shows "\<exists>w. ControllerPublishVolume (\<lambda>i. account_cloud_from k u a c)
      \<lparr>pub_VolumeId = d, pub_NodeId = inst, pub_VolumeCapability = Some ()\<rparr> = (Inr (), [(Inr (), w)]) \<and>
    account_after k a w = a(d := Some (y\<lparr>d_owner := Some inst\<rparr>))"
proof -
  have n: "inst \<noteq> []" using assms(3) by (auto simp: supported_node_def HasPrefix_def)
  obtain w where w: "attachVolume inst (account_cloud_from k u a c) d [] = (Inr (), w)"
    "account_after k a w = a(d := Some (y\<lparr>d_owner := Some inst\<rparr>))"
    using attach_completes [of a d k c inst u, OF assms(4,5)] assms(6,7) by (auto simp: attach_answer_def)
  have "run_workers (\<lambda>i. account_cloud_from k u a c) (attachVolume inst) [d] = [(Inr (), w)]"
    using w(1) by (simp add: run_workers_def)
  then show ?thesis
    using assms(1-3) n w(2) by (simp add: ControllerPublishVolume_def Let_def gather_def)
qed

lemma unpublish_one:
  assumes "diskIdList d = [d]" "d \<noteq> []" "supported_node inst" "idle (a d)" "\<And>h. k < ticks c h"
    and "a d = Some y" "d_owner y = Some inst"
  shows "\<exists>w. ControllerUnpublishVolume (\<lambda>i. account_cloud_from k u a c) \<lparr>unpub_VolumeId = d, unpub_NodeId = inst\<rparr> =
      (Inr (), [(Inr (), w)]) \<and>
    account_after k a w = a(d := Some (y\<lparr>d_owner := None\<rparr>))"
proof -
  have n: "inst \<noteq> []" using assms(3) by (auto simp: supported_node_def HasPrefix_def)
  obtain w where w: "detachVolume inst (account_cloud_from k u a c) d [] = (Inr (), w)"
    "account_after k a w = a(d := Some (y\<lparr>d_owner := None\<rparr>))"
    using detach_completes [of a d k c inst u, OF assms(4,5)] assms(6,7) by (auto simp: detach_answer_def)
  have "run_workers (\<lambda>i. account_cloud_from k u a c) (detachVolume inst) [d] = [(Inr (), w)]"
    using w(1) by (simp add: run_workers_def)
  then show ?thesis
    using assms(1-3) n w(2) by (simp add: ControllerUnpublishVolume_def Let_def gather_def)
qed

text \<open>
  C6. A volume of one free disk from the account to the pods and back. Before the controller publishes it, the
  node cannot stage it and mounts nothing. Publishing succeeds; then staging, publishing to any pods,
  unpublishing from them in any order and unstaging all succeed, every pod has the disk's device on its
  target, and the node's mounts are in the end what they were. Unpublishing by the controller succeeds. The
  publishing changes the owner of this disk and nothing else of the account, the unpublishing brings the whole
  account back to what it was, and then the node can no longer stage the disk.
\<close>

theorem volume_end_to_end:
  assumes "diskIdList d = [d]" "\<not> Contains d '',''" "supported_node inst" "a d = Some y" "d_busy y = None" "d_owner y = None"
    and "\<And>h. k < ticks c h" "HasPrefix dev ''/dev''" "staging \<noteq> []" "map_of ctx ''devicemapper'' = None"
    and "\<forall>ctx. printed (stage_request d staging cap ctx) \<notin> dom (idemMap idem)"
    and "own_paths stays cap d dev staging ps (table_after t h)" "set qs = set ps"
    and "host = (\<lambda>a. node_host (node_links inst d dev a) paths stays t)"
  shows "\<exists>w1 w2.
    refused_on_node (host a) t printed (stage_request d staging cap ctx) idem h \<and>
    ControllerPublishVolume (\<lambda>i. account_cloud_from k u a c)
      \<lparr>pub_VolumeId = d, pub_NodeId = inst, pub_VolumeCapability = Some ()\<rparr> = (Inr (), [(Inr (), w1)]) \<and>
    used_on_node (host (account_after k a w1)) t printed d dev staging cap ro ps qs ctx idem h \<and>
    ControllerUnpublishVolume (\<lambda>i. account_cloud_from k u (account_after k a w1) c)
      \<lparr>unpub_VolumeId = d, unpub_NodeId = inst\<rparr> = (Inr (), [(Inr (), w2)]) \<and>
    account_after k a w1 = a(d := Some (y\<lparr>d_owner := Some inst\<rparr>)) \<and>
    account_after k (account_after k a w1) w2 = a \<and>
    refused_on_node (host (account_after k (account_after k a w1) w2)) t printed (stage_request d staging cap ctx) idem h"
proof -
  let ?req = "stage_request d staging cap ctx"
  have d: "d \<noteq> []" using assms(1) by (auto simp: diskIdList_def HasPrefix_def)
  have free: "printed ?req \<notin> dom (idemMap idem)" using assms(11) by blast
  have refused: "refused_on_node (host b) t printed ?req idem h" if "b d = Some y" for b
    using stage_unattached [where links = "node_links inst d dev b" and printed = printed and cap = cap and idem = idem and paths = paths and stays = stays and
        t = t and h = h, OF _ assms(10) d assms(9) free] that assms(6)
    by (simp add: refused_on_node_def node_links_def attached_here_def assms(14))
  have i: "idle (a d)" using assms(4,5) by (simp add: idle_def)
  obtain w1 where w1: "ControllerPublishVolume (\<lambda>i. account_cloud_from k u a c)
      \<lparr>pub_VolumeId = d, pub_NodeId = inst, pub_VolumeCapability = Some ()\<rparr> = (Inr (), [(Inr (), w1)])"
    "account_after k a w1 = a(d := Some (y\<lparr>d_owner := Some inst\<rparr>))"
    using publish_one [of d inst a k c y u, OF assms(1) d assms(3) i assms(7,4,6)] by blast
  let ?a1 = "account_after k a w1"
  have l: "node_links inst d dev ?a1 (disk_link d) = Some dev" by (simp add: node_links_def attached_here_def w1(2))
  have used: "used_on_node (host ?a1) t printed d dev staging cap ro ps qs ctx idem h"
    using node_lifecycle [where links = "node_links inst d dev ?a1" and paths = paths and stays = stays and t = t and h = h and ctx = ctx and
      printed = printed and cap = cap and ro = ro and qs = qs, OF l assms(8,2) d assms(9,11,10,12,13)]
    by (simp add: used_on_node_def assms(14))
  have i1: "idle (?a1 d)" using w1(2) assms(5) by (simp add: idle_def)
  have a1: "?a1 d = Some (y\<lparr>d_owner := Some inst\<rparr>)" by (simp add: w1(2))
  obtain w2 where w2: "ControllerUnpublishVolume (\<lambda>i. account_cloud_from k u ?a1 c) \<lparr>unpub_VolumeId = d, unpub_NodeId = inst\<rparr> =
      (Inr (), [(Inr (), w2)])" "account_after k ?a1 w2 = ?a1(d := Some (y\<lparr>d_owner := Some inst, d_owner := None\<rparr>))"
    using unpublish_one [of d inst ?a1 k c _ u, OF assms(1) d assms(3) i1 assms(7) a1] by auto
  have "y\<lparr>d_owner := Some inst, d_owner := None\<rparr> = y" using assms(6) by (cases y) simp
  with w2(2) have restored: "account_after k ?a1 w2 = a" by (simp add: w1(2) fun_upd_idem assms(4))
  show ?thesis
    using refused [of a, OF assms(4)] w1(1) used w2(1) restored w1(2)
    by (intro exI [of _ w1] exI [of _ w2]) simp
qed

theorem volume_end_to_end_witness:
  "\<exists>w1. ControllerPublishVolume (\<lambda>i. account_cloud_from 1 [] one_disk (small_cloud None))
      \<lparr>pub_VolumeId = ''disk-a'', pub_NodeId = ''ins-12345678'', pub_VolumeCapability = Some ()\<rparr> = (Inr (), [(Inr (), w1)]) \<and>
    used_on_node (node_host (node_links ''ins-12345678'' ''disk-a'' ''/dev/vdb'' (account_after 1 one_disk w1)) (\<lambda>h p. Some True) (\<lambda>p. False) [])
      [] (\<lambda>r. ''key'') ''disk-a'' ''/dev/vdb'' demo_staging BlockAccess False
      [demo_target ''u1'', demo_target ''u2''] [demo_target ''u2'', demo_target ''u1''] [] NewIdempotent []"
proof -
  let ?ps = "[demo_target ''u1'', demo_target ''u2'']" and ?qs = "[demo_target ''u2'', demo_target ''u1'']"
  have v: "diskIdList ''disk-a'' = [''disk-a'']" "\<not> Contains ''disk-a'' '',''" "supported_node ''ins-12345678''"
    "HasPrefix ''/dev/vdb'' ''/dev''" "demo_staging \<noteq> []" by code_simp+
  have a: "one_disk ''disk-a'' = Some \<lparr>d_size = 10, d_owner = None, d_busy = None\<rparr>" by (simp add: one_disk_def)
  have t: "1 < ticks (small_cloud None) h" for h by (simp add: small_cloud_def)
  have o: "own_paths (\<lambda>p. False) BlockAccess ''disk-a'' ''/dev/vdb'' demo_staging ?ps (table_after [] [])" by code_simp
  have f: "\<forall>ctx. (\<lambda>r. ''key'') (stage_request ''disk-a'' demo_staging BlockAccess ctx) \<notin> dom (idemMap NewIdempotent)"
    by (simp add: NewIdempotent_def)
  have s: "set ?qs = set ?ps" by auto
  from volume_end_to_end [where ro = False and h = "[]" and ctx = "[]" and printed = "\<lambda>r. ''key''" and u = "[]" and t = "[]" and k = 1 and
      c = "small_cloud None" and a = one_disk and paths = "\<lambda>h p. Some True" and stays = "\<lambda>p. False" and dev = "''/dev/vdb''" and
      host = "\<lambda>a. node_host (node_links ''ins-12345678'' ''disk-a'' ''/dev/vdb'' a) (\<lambda>h p. Some True) (\<lambda>p. False) []",
      OF v(1-3) a _ _ t v(4,5) _ f o s refl]
  show ?thesis by auto
qed

end
