(* ===== verification/Json.thy ===== *)
theory Json imports GoStrings begin

text \<open>
  The texts of \<open>encoding/json\<close>: values, \<open>Marshal\<close> to a text and the parser of \<open>Unmarshal\<close>. A number is
  kept as its literal, as the library does until the type of the target is known. Strings are bytes;
  bytes above 127 are copied, which is what the library does with well-formed UTF-8 other than U+2028
  and U+2029, so the properties that rest on the writer ask for ASCII. The limit on nesting of the
  newer versions of the library is left out. The lemmas give the round trip of the texts, and that the
  fuel of the parser is enough.
\<close>

datatype json =
    JNull
  | JBool bool
  | JLit string                       \<comment> \<open>a number, as it is written\<close>
  | JText string
  | JArray "json list"
  | JObject "(string \<times> json) list"

section \<open>Writing\<close>

definition hex_digit :: "nat \<Rightarrow> char" where
  "hex_digit n = (if n < 10 then char_of (48 + n) else char_of (87 + n))"

text \<open>Quotes, control characters, and the three characters that \<open>Marshal\<close> escapes for HTML.\<close>

definition esc_char :: "char \<Rightarrow> string" where
  "esc_char c =
     (if c = CHR 0x22 \<or> c = CHR 0x5C then [CHR 0x5C, c]
      else if c = CHR 0x0A then [CHR 0x5C, CHR ''n'']
      else if c = CHR 0x0D then [CHR 0x5C, CHR ''r'']
      else if c = CHR 0x09 then [CHR 0x5C, CHR ''t'']
      else if of_char c < (32::nat) \<or> c \<in> {CHR ''<'', CHR ''>'', CHR ''&''}
      then [CHR 0x5C, CHR ''u'', CHR ''0'', CHR ''0'', hex_digit (of_char c div 16), hex_digit (of_char c mod 16)]
      else [c])"

definition quoted :: "string \<Rightarrow> string" where
  "quoted s = CHR 0x22 # concat (map esc_char s) @ [CHR 0x22]"

fun enc :: "json \<Rightarrow> string"
  and enc_elems :: "json list \<Rightarrow> string"
  and enc_members :: "(string \<times> json) list \<Rightarrow> string" where
  "enc JNull = ''null''"
| "enc (JBool b) = (if b then ''true'' else ''false'')"
| "enc (JLit n) = n"
| "enc (JText s) = quoted s"
| "enc (JArray js) = ''['' @ enc_elems js @ '']''"
| "enc (JObject ms) = ''{'' @ enc_members ms @ ''}''"
| "enc_elems [] = []"
| "enc_elems [j] = enc j"
| "enc_elems (j # js) = enc j @ '','' @ enc_elems js"
| "enc_members [] = []"
| "enc_members [(k, v)] = quoted k @ '':'' @ enc v"
| "enc_members ((k, v) # ms) = quoted k @ '':'' @ enc v @ '','' @ enc_members ms"

section \<open>Reading\<close>

definition is_ws :: "char \<Rightarrow> bool" where
  "is_ws c \<longleftrightarrow> c \<in> {CHR 0x20, CHR 0x09, CHR 0x0A, CHR 0x0D}"

definition skip :: "string \<Rightarrow> string" where
  "skip s = dropWhile is_ws s"

definition hex_val :: "char \<Rightarrow> nat option" where
  "hex_val c =
     (let n = of_char c in
      if 48 \<le> n \<and> n \<le> 57 then Some (n - 48)
      else if 97 \<le> n \<and> n \<le> 102 then Some (n - 87)
      else if 65 \<le> n \<and> n \<le> 70 then Some (n - 55)
      else None)"

fun hex4 :: "string \<Rightarrow> (nat \<times> string) option" where
  "hex4 (a # b # c # d # s) =
     (case (hex_val a, hex_val b, hex_val c, hex_val d) of
        (Some w, Some x, Some y, Some z) \<Rightarrow> Some (((w * 16 + x) * 16 + y) * 16 + z, s)
      | _ \<Rightarrow> None)"
| "hex4 _ = None"

text \<open>\<open>utf8.EncodeRune\<close>\<close>

definition utf8 :: "nat \<Rightarrow> string" where
  "utf8 n =
     (if n < 0x80 then [char_of n]
      else if n < 0x800 then [char_of (0xC0 + n div 64), char_of (0x80 + n mod 64)]
      else if n < 0x10000 then [char_of (0xE0 + n div 4096), char_of (0x80 + n div 64 mod 64), char_of (0x80 + n mod 64)]
      else [char_of (0xF0 + n div 262144), char_of (0x80 + n div 4096 mod 64), char_of (0x80 + n div 64 mod 64),
            char_of (0x80 + n mod 64)])"

text \<open>After \<^verbatim>\<open>\u\<close>: a surrogate needs its partner, otherwise it is the replacement character.\<close>

definition unicode_escape :: "string \<Rightarrow> (string \<times> string) option" where
  "unicode_escape s =
     (case hex4 s of
        None \<Rightarrow> None
      | Some (n, r) \<Rightarrow>
          if n < 0xD800 \<or> 0xDFFF < n then Some (utf8 n, r)
          else case r of
            b # u # r1 \<Rightarrow>
              (case hex4 r1 of
                 Some (m, r2) \<Rightarrow>
                   if b = CHR 0x5C \<and> u = CHR ''u'' \<and> n < 0xDC00 \<and> 0xDC00 \<le> m \<and> m \<le> 0xDFFF
                   then Some (utf8 (0x10000 + (n - 0xD800) * 0x400 + (m - 0xDC00)), r2)
                   else Some (utf8 0xFFFD, r)
               | None \<Rightarrow> Some (utf8 0xFFFD, r))
          | _ \<Rightarrow> Some (utf8 0xFFFD, r))"

text \<open>One character of a string, with the bytes it stands for.\<close>

fun scan_char :: "string \<Rightarrow> (string \<times> string) option" where
  "scan_char [] = None"
| "scan_char (c # s) =
     (if c = CHR 0x5C then
        (case s of
           [] \<Rightarrow> None
         | e # r \<Rightarrow>
             if e \<in> {CHR 0x22, CHR 0x5C, CHR ''/''} then Some ([e], r)
             else if e = CHR ''b'' then Some ([CHR 0x08], r)
             else if e = CHR ''f'' then Some ([CHR 0x0C], r)
             else if e = CHR ''n'' then Some ([CHR 0x0A], r)
             else if e = CHR ''r'' then Some ([CHR 0x0D], r)
             else if e = CHR ''t'' then Some ([CHR 0x09], r)
             else if e = CHR ''u'' then unicode_escape r
             else None)
      else if of_char c < (32::nat) then None
      else Some ([c], s))"

lemma hex4_shorter: "hex4 s = Some (n, r) \<Longrightarrow> length r < length s"
  by (cases s rule: hex4.cases) (auto split: option.splits)

lemma unicode_escape_shorter: "unicode_escape s = Some (bs, r) \<Longrightarrow> length r < length s"
  by (auto simp: unicode_escape_def dest!: hex4_shorter split: option.splits if_splits list.splits)

lemma scan_char_shorter: "scan_char s = Some (bs, r) \<Longrightarrow> length r < length s"
  by (cases s) (auto dest: unicode_escape_shorter split: list.splits if_splits)

function pstring :: "string \<Rightarrow> (string \<times> string) option" where
  "pstring s =
     (case s of
        [] \<Rightarrow> None
      | c # r \<Rightarrow>
          if c = CHR 0x22 then Some ([], r)
          else case scan_char s of
            None \<Rightarrow> None
          | Some (bs, r') \<Rightarrow> (case pstring r' of None \<Rightarrow> None | Some (t, r'') \<Rightarrow> Some (bs @ t, r'')))"
  by auto
termination by (relation "measure length") (auto dest: scan_char_shorter simp del: scan_char.simps)

declare pstring.simps [simp del]

lemma pstring_shorter: "pstring s = Some (t, r) \<Longrightarrow> length r < length s"
proof (induction s arbitrary: t r rule: pstring.induct)
  case (1 s)
  show ?case
  proof (cases s)
    case Nil
    with "1.prems" show ?thesis by (simp add: pstring.simps)
  next
    case (Cons c r0)
    show ?thesis
    proof (cases "c = CHR 0x22")
      case True
      with "1.prems" Cons show ?thesis by (simp add: pstring.simps)
    next
      case False
      with "1.prems" Cons obtain bs r' t' where s: "scan_char s = Some (bs, r')" "pstring r' = Some (t', r)"
        by (subst (asm) pstring.simps) (auto split: option.splits)
      from "1.IH" [OF Cons False s(1) refl s(2)] scan_char_shorter [OF s(1)] show ?thesis by simp
    qed
  qed
qed

definition number_char :: "char \<Rightarrow> bool" where
  "number_char c \<longleftrightarrow> is_digit c \<or> c \<in> {CHR ''-'', CHR ''+'', CHR ''.'', CHR ''e'', CHR ''E''}"

text \<open>The grammar of a number: an integer without leading zeros, a fraction, an exponent.\<close>

definition exponent_ok :: "string \<Rightarrow> bool" where
  "exponent_ok s \<longleftrightarrow>
     (case s of
        [] \<Rightarrow> True
      | c # r \<Rightarrow> c \<in> {CHR ''e'', CHR ''E''} \<and>
          (let ds = (case r of d # r' \<Rightarrow> if d = CHR ''+'' \<or> d = CHR ''-'' then r' else r | [] \<Rightarrow> [])
           in ds \<noteq> [] \<and> list_all is_digit ds))"

definition fraction_ok :: "string \<Rightarrow> bool" where
  "fraction_ok s \<longleftrightarrow>
     (case s of
        [] \<Rightarrow> True
      | c # r \<Rightarrow>
          if c = CHR ''.'' then takeWhile is_digit r \<noteq> [] \<and> exponent_ok (dropWhile is_digit r)
          else exponent_ok s)"

definition valid_number :: "string \<Rightarrow> bool" where
  "valid_number s \<longleftrightarrow>
     (let t = (case s of c # r \<Rightarrow> if c = CHR ''-'' then r else s | [] \<Rightarrow> []);
          ds = takeWhile is_digit t
      in ds \<noteq> [] \<and> (hd ds = CHR ''0'' \<longrightarrow> length ds = 1) \<and> fraction_ok (dropWhile is_digit t))"

definition pliteral :: "string \<Rightarrow> json \<Rightarrow> string \<Rightarrow> (json \<times> string) option" where
  "pliteral w j s = (if prefix w s then Some (j, drop (length w) s) else None)"

definition pnumber :: "string \<Rightarrow> (json \<times> string) option" where
  "pnumber s =
     (let n = takeWhile number_char s in if valid_number n then Some (JLit n, dropWhile number_char s) else None)"

text \<open>Values, elements after \<^verbatim>\<open>[\<close> and members after \<^verbatim>\<open>{\<close>; the first argument is fuel.\<close>

fun pvalue :: "nat \<Rightarrow> string \<Rightarrow> (json \<times> string) option"
  and pelems :: "nat \<Rightarrow> string \<Rightarrow> (json list \<times> string) option"
  and pmembers :: "nat \<Rightarrow> string \<Rightarrow> ((string \<times> json) list \<times> string) option" where
  "pvalue 0 s = None"
| "pvalue (Suc n) s =
     (case skip s of
        [] \<Rightarrow> None
      | c # r \<Rightarrow>
          if c = CHR 0x22 then map_option (apfst JText) (pstring r)
          else if c = CHR ''['' then
            (case skip r of
               [] \<Rightarrow> None
             | d # r' \<Rightarrow> if d = CHR '']'' then Some (JArray [], r') else map_option (apfst JArray) (pelems n r))
          else if c = CHR ''{'' then
            (case skip r of
               [] \<Rightarrow> None
             | d # r' \<Rightarrow> if d = CHR ''}'' then Some (JObject [], r') else map_option (apfst JObject) (pmembers n r))
          else if c = CHR ''t'' then pliteral ''true'' (JBool True) (c # r)
          else if c = CHR ''f'' then pliteral ''false'' (JBool False) (c # r)
          else if c = CHR ''n'' then pliteral ''null'' JNull (c # r)
          else pnumber (c # r))"
| "pelems 0 s = None"
| "pelems (Suc n) s =
     (case pvalue n s of
        None \<Rightarrow> None
      | Some (j, r) \<Rightarrow>
          (case skip r of
             [] \<Rightarrow> None
           | c # r' \<Rightarrow>
               if c = CHR '']'' then Some ([j], r')
               else if c = CHR '','' then map_option (apfst (Cons j)) (pelems n r')
               else None))"
| "pmembers 0 s = None"
| "pmembers (Suc n) s =
     (case skip s of
        [] \<Rightarrow> None
      | q # r \<Rightarrow>
          if q \<noteq> CHR 0x22 then None
          else case pstring r of
            None \<Rightarrow> None
          | Some (k, r1) \<Rightarrow>
              (case skip r1 of
                 [] \<Rightarrow> None
               | c # r2 \<Rightarrow>
                   if c \<noteq> CHR '':'' then None
                   else case pvalue n r2 of
                     None \<Rightarrow> None
                   | Some (v, r3) \<Rightarrow>
                       (case skip r3 of
                          [] \<Rightarrow> None
                        | d # r4 \<Rightarrow>
                            if d = CHR ''}'' then Some ([(k, v)], r4)
                            else if d = CHR '','' then map_option (apfst (Cons (k, v))) (pmembers n r4)
                            else None)))"

definition parse_json :: "string \<Rightarrow> json option" where
  "parse_json s =
     (case pvalue (Suc (2 * length s)) s of
        Some (j, r) \<Rightarrow> if skip r = [] then Some j else None
      | None \<Rightarrow> None)"

section \<open>What is written is read back\<close>

lemma hex_val_digit [simp]: "n < 16 \<Longrightarrow> hex_val (hex_digit n) = Some n"
  by (auto simp: hex_val_def hex_digit_def of_char_of Let_def)

lemma hex4_u00: "n < 256 \<Longrightarrow> hex4 (CHR ''0'' # CHR ''0'' # hex_digit (n div 16) # hex_digit (n mod 16) # r) = Some (n, r)"
  by (simp add: hex_val_def [of "CHR ''0''"] Let_def)

lemma html_chars: "char_of (60::nat) = CHR ''<''" "char_of (62::nat) = CHR ''>''" "char_of (38::nat) = CHR ''&''"
  by code_simp+

lemma scan_esc_char: "scan_char (esc_char c @ s) = Some ([c], s)"
proof -
  have "of_char c < (256::nat)" by simp
  moreover have "c = CHR ''<'' \<or> c = CHR ''>'' \<or> c = CHR ''&'' \<Longrightarrow> of_char c < (128::nat)" by auto
  ultimately show ?thesis
    by (auto simp: esc_char_def unicode_escape_def hex4_u00 utf8_def html_chars simp del: hex4.simps)
qed

lemma esc_char_head: "hd (esc_char c) \<noteq> CHR 0x22 \<and> esc_char c \<noteq> []"
  by (simp add: esc_char_def)

lemma pstring_quoted: "pstring (concat (map esc_char t) @ CHR 0x22 # s) = Some (t, s)"
proof (induction t)
  case Nil
  then show ?case by (simp add: pstring.simps)
next
  case (Cons c t)
  obtain d r where d: "esc_char c @ concat (map esc_char t) @ CHR 0x22 # s = d # r" "d \<noteq> CHR 0x22"
    using esc_char_head [of c] by (cases "esc_char c") auto
  from scan_esc_char [of c "concat (map esc_char t) @ CHR 0x22 # s"] d(1)
  have "scan_char (d # r) = Some ([c], concat (map esc_char t) @ CHR 0x22 # s)" by simp
  with d Cons.IH show ?case by (simp add: pstring.simps [of "d # r"] del: scan_char.simps)
qed

lemma skip_Cons [simp]: "\<not> is_ws c \<Longrightarrow> skip (c # s) = c # s"
  by (simp add: skip_def)

lemma ws_chars [simp]:
  "\<not> is_ws (CHR 0x22)" "\<not> is_ws (CHR ''['')" "\<not> is_ws (CHR '']'')" "\<not> is_ws (CHR ''{'')" "\<not> is_ws (CHR ''}'')"
  "\<not> is_ws (CHR '','')" "\<not> is_ws (CHR '':'')" "\<not> is_ws (CHR ''t'')" "\<not> is_ws (CHR ''f'')" "\<not> is_ws (CHR ''n'')"
  by (simp_all add: is_ws_def)

lemma number_not_ws: "number_char c \<Longrightarrow> \<not> is_ws c"
  by (auto simp: number_char_def is_ws_def is_digit_def)

text \<open>A value that can be written: its literals are numbers.\<close>

fun writable :: "json \<Rightarrow> bool" where
  "writable (JLit n) = (valid_number n \<and> list_all number_char n)"
| "writable (JArray js) = list_all writable js"
| "writable (JObject ms) = list_all (\<lambda>(k, v). writable v) ms"
| "writable _ = True"

definition ends_number :: "string \<Rightarrow> bool" where
  "ends_number s \<longleftrightarrow> (case s of [] \<Rightarrow> True | c # r \<Rightarrow> \<not> number_char c)"

lemma ends_number_simps [simp]:
  "ends_number []" "ends_number (CHR '']'' # s)" "ends_number (CHR ''}'' # s)" "ends_number (CHR '','' # s)"
  by (simp_all add: ends_number_def number_char_def is_digit_def)

lemma valid_number_not_Nil: "valid_number n \<Longrightarrow> n \<noteq> []"
  by (auto simp: valid_number_def)

lemma pnumber_literal:
  "list_all number_char n \<Longrightarrow> valid_number n \<Longrightarrow> ends_number s \<Longrightarrow> pnumber (n @ s) = Some (JLit n, s)"
proof -
  assume "list_all number_char n" "valid_number n" "ends_number s"
  moreover from this have "takeWhile number_char (n @ s) = n" "dropWhile number_char (n @ s) = s"
    by (cases s; simp add: ends_number_def list_all_iff)+
  ultimately show ?thesis by (simp add: pnumber_def)
qed

lemma number_char_head:
  "number_char c \<Longrightarrow> c \<noteq> CHR 0x22 \<and> c \<noteq> CHR ''['' \<and> c \<noteq> CHR ''{'' \<and> c \<noteq> CHR ''t'' \<and> c \<noteq> CHR ''f'' \<and> c \<noteq> CHR ''n''"
  by (auto simp: number_char_def is_digit_def)

text \<open>The first character of a text that was written.\<close>

lemma enc_head: "writable j \<Longrightarrow> \<exists>c r. enc j = c # r \<and> \<not> is_ws c \<and> c \<noteq> CHR '']''"
proof (cases j)
  case (JLit n)
  assume "writable j"
  with JLit obtain c r where c: "n = c # r" "number_char c" by (cases n) (auto dest: valid_number_not_Nil)
  then have "\<not> is_ws c" "c \<noteq> CHR '']''" by (simp add: number_not_ws, auto simp: number_char_def is_digit_def)
  with JLit c show ?thesis by simp
qed (auto simp: quoted_def is_ws_def)

lemma array_written:
  assumes "list_all writable js" "js \<noteq> [] \<Longrightarrow> pelems n (enc_elems js @ CHR '']'' # s) = Some (js, s)"
  shows "pvalue (Suc n) (enc (JArray js) @ s) = Some (JArray js, s)"
proof (cases js)
  case (Cons j js')
  with enc_head [of j] assms(1) obtain c r where "enc_elems js = c # r" "\<not> is_ws c" "c \<noteq> CHR '']''"
    by (cases js') auto
  with assms(2) Cons show ?thesis by simp
qed simp

lemma object_written:
  assumes "ms \<noteq> [] \<Longrightarrow> pmembers n (enc_members ms @ CHR ''}'' # s) = Some (ms, s)"
  shows "pvalue (Suc n) (enc (JObject ms) @ s) = Some (JObject ms, s)"
proof (cases ms)
  case (Cons kv ms')
  then obtain r where "enc_members ms = CHR 0x22 # r" by (cases kv; cases ms') (auto simp: quoted_def)
  with assms Cons show ?thesis by simp
qed simp

lemma parse_written:
  "writable j \<Longrightarrow> ends_number s \<Longrightarrow> length (enc j) < n \<Longrightarrow> pvalue n (enc j @ s) = Some (j, s)"
  "list_all writable js \<Longrightarrow> js \<noteq> [] \<Longrightarrow> Suc (length (enc_elems js)) < n \<Longrightarrow>
    pelems n (enc_elems js @ CHR '']'' # s) = Some (js, s)"
  "list_all (\<lambda>(k, v). writable v) ms \<Longrightarrow> ms \<noteq> [] \<Longrightarrow> Suc (length (enc_members ms)) < n \<Longrightarrow>
    pmembers n (enc_members ms @ CHR ''}'' # s) = Some (ms, s)"
proof (induction j and js and ms arbitrary: n s and n s and n s rule: enc_enc_elems_enc_members.induct)
  case 1
  then obtain m where "n = Suc m" by (cases n) auto
  then show ?case by (simp add: pliteral_def)
next
  case (2 b)
  then obtain m where "n = Suc m" by (cases n) auto
  then show ?case by (simp add: pliteral_def)
next
  case (3 l)
  then obtain m c r where "n = Suc m" "l = c # r" by (cases n; cases l) (auto dest: valid_number_not_Nil)
  with 3 number_char_head [of c] number_not_ws [of c] pnumber_literal [of l s] show ?case by simp
next
  case (4 t)
  then obtain m where "n = Suc m" by (cases n) auto
  with pstring_quoted [of t s] show ?case by (simp add: quoted_def)
next
  case (5 js)
  then obtain m where "n = Suc m" by (cases n) auto
  with 5 array_written [of js m s] show ?case by simp
next
  case (6 ms)
  then obtain m where "n = Suc m" by (cases n) auto
  with 6 object_written [of ms m s] show ?case by simp
next
  case (8 j)
  then obtain m where n: "n = Suc m" by (cases n) auto
  with 8 show ?case by simp
next
  case (9 j j' js)
  then obtain m where n: "n = Suc m" by (cases n) auto
  have "enc j \<noteq> []" using enc_head [of j] 9 by auto
  with 9 n show ?case by simp
next
  case (11 k v)
  then obtain m where n: "n = Suc m" by (cases n) auto
  with 11 pstring_quoted [of k] show ?case by (simp add: quoted_def)
next
  case (12 k v kv ms)
  then obtain m where n: "n = Suc m" by (cases n) auto
  with 12 pstring_quoted [of k] show ?case by (simp add: quoted_def)
qed simp_all

theorem parse_json_enc: "writable j \<Longrightarrow> parse_json (enc j) = Some j"
  using parse_written(1) [of j "[]" "Suc (2 * length (enc j))"] by (simp add: parse_json_def skip_def)

section \<open>The fuel is enough\<close>

lemma skip_shorter: "length (skip s) \<le> length s"
  by (simp add: skip_def length_dropWhile_le)

lemma skip_ConsD: "skip s = c # r \<Longrightarrow> length r < length s"
  using skip_shorter [of s] by simp

lemma pliteral_shorter: "pliteral w j s = Some (v, r) \<Longrightarrow> w \<noteq> [] \<Longrightarrow> length r < length s"
  by (auto simp: pliteral_def prefix_def split: if_splits)

lemma pnumber_shorter: "pnumber s = Some (v, r) \<Longrightarrow> length r < length s"
proof -
  assume a: "pnumber s = Some (v, r)"
  then have "takeWhile number_char s \<noteq> []" "r = dropWhile number_char s"
    using valid_number_not_Nil [of "[]"] by (auto simp: pnumber_def Let_def split: if_splits)
  then show ?thesis
    using takeWhile_dropWhile_id [of number_char s] by (metis length_append length_greater_0_conv less_add_same_cancel2)
qed

lemma parse_shorter:
  "pvalue n s = Some (j, r) \<Longrightarrow> length r < length s"
  "pelems n s = Some (js, r) \<Longrightarrow> length r < length s"
  "pmembers n s = Some (ms, r) \<Longrightarrow> length r < length s"
proof (induction n s and n s and n s arbitrary: j r and js r and ms r rule: pvalue_pelems_pmembers.induct)
  case (2 n s)
  then show ?case
    by (force dest!: skip_ConsD pstring_shorter pliteral_shorter pnumber_shorter
        split: list.splits if_splits option.splits)
next
  case (4 n s)
  then show ?case
    by (fastforce dest!: skip_ConsD split: list.splits if_splits option.splits)
next
  case (6 n s)
  then show ?case
    by (fastforce dest!: skip_ConsD pstring_shorter split: list.splits if_splits option.splits)
qed simp_all

text \<open>From twice the length of the text on, more fuel changes nothing.\<close>

lemma pvalue_cong:
  assumes "\<And>r d r'. skip s = CHR ''['' # r \<Longrightarrow> skip r = d # r' \<Longrightarrow> d \<noteq> CHR '']'' \<Longrightarrow> pelems n r = pelems m r"
    and "\<And>r d r'. skip s = CHR ''{'' # r \<Longrightarrow> skip r = d # r' \<Longrightarrow> d \<noteq> CHR ''}'' \<Longrightarrow> pmembers n r = pmembers m r"
  shows "pvalue (Suc n) s = pvalue (Suc m) s"
proof (cases "skip s")
  case (Cons c r)
  with assms [of r] show ?thesis unfolding pvalue.simps Cons by (simp split: list.split)
qed simp

lemma pelems_cong:
  assumes v: "pvalue n s = pvalue m s"
    and "\<And>j r r'. pvalue n s = Some (j, r) \<Longrightarrow> skip r = CHR '','' # r' \<Longrightarrow> pelems n r' = pelems m r'"
  shows "pelems (Suc n) s = pelems (Suc m) s"
  unfolding pelems.simps v [symmetric] using assms(2) by (auto split: option.split list.split)

lemma pmembers_cong:
  assumes v: "\<And>r k r1 r2. skip s = CHR 0x22 # r \<Longrightarrow> pstring r = Some (k, r1) \<Longrightarrow> skip r1 = CHR '':'' # r2 \<Longrightarrow>
      pvalue n r2 = pvalue m r2"
    and "\<And>r k r1 r2 j r3 r4. skip s = CHR 0x22 # r \<Longrightarrow> pstring r = Some (k, r1) \<Longrightarrow> skip r1 = CHR '':'' # r2 \<Longrightarrow>
      pvalue n r2 = Some (j, r3) \<Longrightarrow> skip r3 = CHR '','' # r4 \<Longrightarrow> pmembers n r4 = pmembers m r4"
  shows "pmembers (Suc n) s = pmembers (Suc m) s"
proof (cases "\<exists>r k r1 r2. skip s = CHR 0x22 # r \<and> pstring r = Some (k, r1) \<and> skip r1 = CHR '':'' # r2")
  case True
  then obtain r k r1 r2 where o: "skip s = CHR 0x22 # r" "pstring r = Some (k, r1)" "skip r1 = CHR '':'' # r2" by blast
  from v [OF o] have "pvalue m r2 = pvalue n r2" by simp
  with o assms(2) [OF o] show ?thesis by (auto split: option.split list.split)
next
  case False
  then show ?thesis unfolding pmembers.simps by (auto split: list.split option.split)
qed

lemma parse_fuel:
  "2 * length s < n \<Longrightarrow> 2 * length s < m \<Longrightarrow> pvalue n s = pvalue m s"
  "Suc (2 * length s) < n \<Longrightarrow> Suc (2 * length s) < m \<Longrightarrow> pelems n s = pelems m s"
  "Suc (2 * length s) < n \<Longrightarrow> Suc (2 * length s) < m \<Longrightarrow> pmembers n s = pmembers m s"
proof (induction n s and n s and n s arbitrary: m and m and m rule: pvalue_pelems_pmembers.induct)
  case (2 n s)
  from "2.prems"(2) obtain m' where m: "m = Suc m'" by (cases m) auto
  have l: "Suc (2 * length r) < n" "Suc (2 * length r) < m'" if "skip s = c # r" for c r
    using skip_ConsD [OF that] "2.prems" m by simp_all
  show ?case unfolding m
  proof (rule pvalue_cong)
    fix r d r' assume s: "skip s = CHR ''['' # r" "skip r = d # r'" "d \<noteq> CHR '']''"
    show "pelems n r = pelems m' r" by (rule "2.IH"(1) [OF s(1) _ refl s(2,3) l [OF s(1)]]) simp
  next
    fix r d r' assume s: "skip s = CHR ''{'' # r" "skip r = d # r'" "d \<noteq> CHR ''}''"
    show "pmembers n r = pmembers m' r" by (rule "2.IH"(2) [OF s(1) _ _ refl s(2,3) l [OF s(1)]]) simp_all
  qed
next
  case (4 n s)
  from "4.prems"(2) obtain m' where m: "m = Suc m'" by (cases m) auto
  show ?case unfolding m
  proof (rule pelems_cong)
    show "pvalue n s = pvalue m' s" using "4.prems" m by (intro "4.IH"(1)) simp_all
    fix j r r' assume jr: "pvalue n s = Some (j, r)" and c: "skip r = CHR '','' # r'"
    with skip_ConsD [OF c] parse_shorter(1) [OF jr] "4.prems" m
    show "pelems n r' = pelems m' r'" by (intro "4.IH"(2) [OF jr refl c]) simp_all
  qed
next
  case (6 n s)
  from "6.prems"(2) obtain m' where m: "m = Suc m'" by (cases m) auto
  show ?case unfolding m
  proof (rule pmembers_cong)
    fix r k r1 r2 assume o: "skip s = CHR 0x22 # r" "pstring r = Some (k, r1)" "skip r1 = CHR '':'' # r2"
    with skip_ConsD [OF o(1)] pstring_shorter [OF o(2)] skip_ConsD [OF o(3)] have l: "length r2 < length s" by simp
    then show "pvalue n r2 = pvalue m' r2"
      using "6.prems" m by (intro "6.IH"(1) [OF o(1) _ o(2) refl o(3)]) simp_all
    fix j r3 r4 assume jr: "pvalue n r2 = Some (j, r3)" and c: "skip r3 = CHR '','' # r4"
    with skip_ConsD [OF c] parse_shorter(1) [OF jr] l "6.prems" m
    show "pmembers n r4 = pmembers m' r4"
      by (intro "6.IH"(2) [OF o(1) _ o(2) refl o(3) _ jr refl c]) simp_all
  qed
qed simp_all

end
