(* ===== verification/GoFloat.thy ===== *)
theory GoFloat imports Json Complex_Main begin

text \<open>
  The numbers of type \<open>float64\<close> in the answers of the cloud: \<open>strconv.ParseFloat\<close> on the literal of a number
  and the text that \<open>encoding/json\<close> writes for one. A finite number is its sign, mantissa and exponent; the
  others have no JSON text. The lemmas say that reading gives a number of the format, the one closest to
  the literal, and that a number is read back as it was written.
\<close>

section \<open>Numbers of the format\<close>

datatype float64 = Float64 (f_neg: bool) (f_mant: nat) (f_exp: int)

definition float64_ok :: "float64 \<Rightarrow> bool" where
  "float64_ok f \<longleftrightarrow> f_mant f < 2 ^ 53 \<and> - 1074 \<le> f_exp f \<and> f_exp f \<le> 971 \<and>
     (2 ^ 52 \<le> f_mant f \<or> f_exp f = - 1074)"

definition magnitude :: "float64 \<Rightarrow> rat" where
  "magnitude f = of_nat (f_mant f) * 2 powi f_exp f"

section \<open>Rounding to nearest\<close>

fun ilog :: "nat \<Rightarrow> nat \<Rightarrow> nat" where
  "ilog b n = (if n < b \<or> b \<le> 1 then 0 else Suc (ilog b (n div b)))"

declare ilog.simps [simp del]

text \<open>The power of \<open>b\<close> at or below a positive number.\<close>

definition order_of :: "nat \<Rightarrow> rat \<Rightarrow> int" where
  "order_of b x =
     (let q = quotient_of x; e = int (ilog b (nat (fst q))) - int (ilog b (nat (snd q)))
      in if x < of_nat b powi e then e - 1 else e)"

definition round_even :: "rat \<Rightarrow> nat" where
  "round_even x =
     (let n = nat \<lfloor>x\<rfloor>; r = x - of_nat n in if r < 1 / 2 \<or> r = 1 / 2 \<and> even n then n else Suc n)"

text \<open>The closest number, the even one of two; \<open>None\<close> is \<open>ErrRange\<close>.\<close>

definition nearest_float :: "bool \<Rightarrow> rat \<Rightarrow> float64 option" where
  "nearest_float neg x =
     (if x = 0 then Some (Float64 neg 0 (- 1074))
      else
        let e = max (- 1074) (order_of 2 x - 52); m = round_even (x / 2 powi e);
            f = (if m = 2 ^ 53 then Float64 neg (2 ^ 52) (e + 1) else Float64 neg m e)
        in if f_exp f \<le> 971 then Some f else None)"

section \<open>Reading a literal\<close>

text \<open>The digits of the exponent; from five digits on the library drops the rest.\<close>

definition exponent_val :: "string \<Rightarrow> nat" where
  "exponent_val ds = foldl (\<lambda>e c. if e < 10000 then 10 * e + (of_char c - 48) else e) 0 ds"

definition exponent_of :: "string \<Rightarrow> int" where
  "exponent_of s =
     (case s of
        [] \<Rightarrow> 0
      | c # r \<Rightarrow>
          (case r of
             [] \<Rightarrow> 0
           | d # r' \<Rightarrow>
               if d = CHR ''-'' then - int (exponent_val r')
               else if d = CHR ''+'' then int (exponent_val r')
               else int (exponent_val r)))"

text \<open>Sign, digits and the power of ten of the last digit.\<close>

definition decimal_of :: "string \<Rightarrow> bool \<times> nat \<times> int" where
  "decimal_of s =
     (let neg = (s \<noteq> [] \<and> hd s = CHR ''-''); t = (if neg then tl s else s);
          ip = takeWhile is_digit t; r = dropWhile is_digit t;
          point = (r \<noteq> [] \<and> hd r = CHR ''.'');
          fp = (if point then takeWhile is_digit (tl r) else []);
          ex = (if point then dropWhile is_digit (tl r) else r)
      in (neg, nat (digits_val (ip @ fp)), exponent_of ex - int (length fp)))"

definition decimal_value :: "nat \<Rightarrow> int \<Rightarrow> rat" where
  "decimal_value d k = of_nat d * 10 powi k"

definition parse_float64 :: "string \<Rightarrow> float64 option" where
  "parse_float64 s =
     (if valid_number s then (case decimal_of s of (neg, d, k) \<Rightarrow> nearest_float neg (decimal_value d k)) else None)"

section \<open>Writing\<close>

fun trim_zeros :: "nat \<Rightarrow> int \<Rightarrow> nat \<times> int" where
  "trim_zeros d k = (if 0 < d \<and> d mod 10 = 0 then trim_zeros (d div 10) (k + 1) else (d, k))"

declare trim_zeros.simps [simp del]

text \<open>
  With \<open>n\<close> digits: the decimal closest to the number, or else the one on its other side, if it is read as
  the number again.
\<close>

definition with_digits :: "float64 \<Rightarrow> nat \<Rightarrow> (nat \<times> int) option" where
  "with_digits f n =
     (let x = magnitude f; k = order_of 10 x + 1 - int n; y = x / 10 powi k; c = round_even y;
          other = (if nat \<lfloor>y\<rfloor> = c then Suc c else c - 1);
          reads = (\<lambda>d. nearest_float (f_neg f) (decimal_value d k) = Some f)
      in if reads c then Some (c, k) else if reads other then Some (other, k) else None)"

definition all_digits :: "float64 \<Rightarrow> nat \<times> int" where
  "all_digits f =
     (if 0 \<le> f_exp f then (f_mant f * 2 ^ nat (f_exp f), 0) else (f_mant f * 5 ^ nat (- f_exp f), f_exp f))"

text \<open>
  The shortest decimal that is read as the number again. Seventeen digits are enough for every number of the
  format; the definition does not rest on it and has all digits as its last case.
\<close>

fun shortest_from :: "float64 \<Rightarrow> nat list \<Rightarrow> nat \<times> int" where
  "shortest_from f [] = all_digits f"
| "shortest_from f (n # ns) = (case with_digits f n of Some p \<Rightarrow> p | None \<Rightarrow> shortest_from f ns)"

definition shortest :: "float64 \<Rightarrow> nat \<times> int" where
  "shortest f = (case shortest_from f [1..<18] of (d, k) \<Rightarrow> trim_zeros d k)"

definition plain_text :: "nat \<Rightarrow> int \<Rightarrow> string" where
  "plain_text d k =
     (let ds = show_nat d; p = int (length ds) + k
      in if 0 \<le> k then ds @ replicate (nat k) CHR ''0''
         else if p \<le> 0 then ''0.'' @ replicate (nat (- p)) CHR ''0'' @ ds
         else take (nat p) ds @ ''.'' @ drop (nat p) ds)"

definition exponent_text :: "nat \<Rightarrow> int \<Rightarrow> string" where
  "exponent_text d k =
     (let ds = show_nat d; e = int (length ds) + k - 1
      in hd ds # (if tl ds = [] then [] else ''.'' @ tl ds) @ (if e < 0 then ''e-'' else ''e+'') @ show_nat (nat \<bar>e\<bar>))"

text \<open>\<open>floatEncoder\<close>: the form with an exponent below a millionth and from \<open>10\<^sup>2\<^sup>1\<close> on.\<close>

definition float_text :: "float64 \<Rightarrow> string" where
  "float_text f =
     (if f_neg f then ''-'' else []) @
     (if f_mant f = 0 then ''0''
      else case shortest f of (d, k) \<Rightarrow>
        if magnitude f < 10 powi (- 6) \<or> 10 ^ 21 \<le> magnitude f then exponent_text d k else plain_text d k)"

section \<open>Reading gives the closest number\<close>

lemma ilog_bounds: "1 < b \<Longrightarrow> 0 < n \<Longrightarrow> b ^ ilog b n \<le> n \<and> n < b ^ Suc (ilog b n)"
proof (induction b n rule: ilog.induct)
  case (1 b n)
  show ?case
  proof (cases "n < b")
    case True
    with 1 show ?thesis by (simp add: ilog.simps [of b n])
  next
    case False
    with 1 have "b ^ ilog b (n div b) \<le> n div b" "n div b < b ^ Suc (ilog b (n div b))"
      by (simp_all add: div_greater_zero_iff)
    then have "b * b ^ ilog b (n div b) \<le> n" "n < b * b ^ Suc (ilog b (n div b))"
      using 1 by (simp_all add: less_eq_div_iff_mult_less_eq div_less_iff_less_mult mult.commute)
    with False 1 show ?thesis by (simp add: ilog.simps [of b n])
  qed
qed

lemma rat_parts:
  assumes "0 < x"
  obtains n d where "quotient_of x = (int n, int d)" "0 < n" "0 < d" "x = of_nat n / of_nat d"
proof -
  obtain a b where q: "quotient_of x = (a, b)" by fastforce
  then have b: "0 < b" "x = of_int a / of_int b" by (simp_all add: quotient_of_denom_pos quotient_of_div)
  with assms have "0 < a" by (simp add: zero_less_divide_iff)
  with b q show thesis by (intro that [of "nat a" "nat b"]) simp_all
qed

lemma order_of_bounds:
  assumes "1 < b" "0 < x"
  shows "of_nat b powi order_of b x \<le> x \<and> x < of_nat b powi (order_of b x + 1)"
proof -
  obtain n d where x: "quotient_of x = (int n, int d)" "0 < n" "0 < d" "x = of_nat n / of_nat d"
    using rat_parts [OF assms(2)] .
  define i j where "i = ilog b n" and "j = ilog b d"
  have "b ^ i \<le> n" "n < b ^ Suc i" "b ^ j \<le> d" "d < b ^ Suc j"
    using ilog_bounds [OF assms(1)] x unfolding i_def j_def by auto
  then have w: "of_nat b ^ i \<le> (of_nat n :: rat)" "of_nat n < (of_nat b :: rat) ^ Suc i"
    "of_nat b ^ j \<le> (of_nat d :: rat)" "of_nat d < (of_nat b :: rat) ^ Suc j"
    by (metis of_nat_le_iff of_nat_less_iff of_nat_power)+
  define e where "e = int i - int j"
  have b: "0 < (of_nat b :: rat)" using assms(1) by simp
  have "(of_nat b :: rat) powi (e - 1) = of_nat b ^ i / of_nat b ^ Suc j"
    using b by (simp add: e_def power_int_diff power_int_add)
  moreover have "(of_nat b :: rat) ^ i / of_nat b ^ Suc j \<le> of_nat n / of_nat d"
    using w b x by (intro frac_le) (simp_all add: less_imp_le)
  moreover have "(of_nat b :: rat) powi (e + 1) = of_nat b ^ Suc i / of_nat b ^ j"
    using b by (simp add: e_def power_int_diff power_int_add)
  moreover have "of_nat n / of_nat d < (of_nat b :: rat) ^ Suc i / of_nat b ^ j"
    using w b x by (intro frac_less) (simp_all add: less_imp_le)
  ultimately have "of_nat b powi (e - 1) \<le> x" "x < of_nat b powi (e + 1)" using x by simp_all
  moreover have "order_of b x = (if x < of_nat b powi e then e - 1 else e)"
    using x by (simp add: order_of_def e_def i_def j_def Let_def)
  ultimately show ?thesis by (simp add: not_less)
qed

lemma powi_less: "1 < b \<Longrightarrow> b powi m < b powi n \<Longrightarrow> m < (n :: int)" for b :: rat
  by (meson less_imp_le not_le power_int_increasing)

lemma order_of_unique:
  assumes "1 < b" "of_nat b powi e \<le> x" "x < of_nat b powi (e + 1)"
  shows "order_of b x = e"
proof -
  have b: "1 < (of_nat b :: rat)" using assms(1) by simp
  then have "0 < (of_nat b :: rat) powi e" by (intro zero_less_power_int) simp
  with assms(2) have "0 < x" by linarith
  from order_of_bounds [OF assms(1) this] assms
  have "(of_nat b :: rat) powi order_of b x < of_nat b powi (e + 1)" "(of_nat b :: rat) powi e < of_nat b powi (order_of b x + 1)"
    by linarith+
  with powi_less [OF b] have "order_of b x < e + 1" "e < order_of b x + 1" by blast+
  then show ?thesis by simp
qed

lemma round_even_of_nat [simp]: "round_even (of_nat n) = n"
  by (simp add: round_even_def)

lemma round_even_floor:
  assumes "0 \<le> x"
  obtains n r where "x = of_nat n + r" "0 \<le> r" "r < 1" "round_even x = (if r < 1 / 2 \<or> r = 1 / 2 \<and> even n then n else Suc n)"
proof -
  have "of_nat (nat \<lfloor>x\<rfloor>) = (of_int \<lfloor>x\<rfloor> :: rat)" using assms by simp
  moreover have "of_int \<lfloor>x\<rfloor> \<le> x" "x < of_int \<lfloor>x\<rfloor> + 1" by linarith+
  ultimately show thesis
    by (intro that [of "nat \<lfloor>x\<rfloor>" "x - of_nat (nat \<lfloor>x\<rfloor>)"]) (auto simp: round_even_def Let_def)
qed

lemma round_even_closest:
  assumes "0 \<le> x"
  shows "\<bar>of_nat (round_even x) - x\<bar> \<le> \<bar>of_nat k - x\<bar>"
proof -
  obtain n r where x: "x = of_nat n + r" "0 \<le> r" "r < 1"
    "round_even x = (if r < 1 / 2 \<or> r = 1 / 2 \<and> even n then n else Suc n)"
    using round_even_floor [OF assms] .
  consider "k \<le> n" | "Suc n \<le> k" by linarith
  then have "of_nat k \<le> (of_nat n :: rat) \<or> of_nat n + 1 \<le> (of_nat k :: rat)"
    by cases (use of_nat_le_iff [of k n, where ?'a = rat] of_nat_le_iff [of "Suc n" k, where ?'a = rat] in simp_all)
  with x show ?thesis by (auto simp: not_less)
qed

lemma round_even_bounds:
  assumes "0 \<le> x"
  shows "of_nat a \<le> x \<Longrightarrow> a \<le> round_even x" "x \<le> of_nat a \<Longrightarrow> round_even x \<le> a"
proof -
  obtain n r where x: "x = of_nat n + r" "0 \<le> r" "r < 1"
    "round_even x = (if r < 1 / 2 \<or> r = 1 / 2 \<and> even n then n else Suc n)"
    using round_even_floor [OF assms] .
  show "a \<le> round_even x" if "of_nat a \<le> x"
  proof -
    from that x have "of_nat a < (of_nat (Suc n) :: rat)" by simp
    then have "a < Suc n" by (simp only: of_nat_less_iff)
    with x show ?thesis by simp
  qed
  show "round_even x \<le> a" if "x \<le> of_nat a"
  proof -
    from that x have "of_nat n \<le> (of_nat a :: rat)" "r = 0 \<or> of_nat n < (of_nat a :: rat)" by auto
    then have "n \<le> a" "r = 0 \<or> n < a" by simp_all
    with x show ?thesis by auto
  qed
qed

lemma magnitude_nonneg: "0 \<le> magnitude f"
  by (simp add: magnitude_def)

text \<open>What is rounded, as the number's mantissa and the power of two it is counted in.\<close>

lemma nearest_float_cases:
  assumes "0 < x" "nearest_float neg x = Some f"
  obtains e y where "x = y * 2 powi e" "0 < y" "y < 2 ^ 53" "- 1074 \<le> e" "e \<le> 971" "e = - 1074 \<or> 2 ^ 52 \<le> y"
    "f = (if round_even y = 2 ^ 53 then Float64 neg (2 ^ 52) (e + 1) else Float64 neg (round_even y) e)" "f_exp f \<le> 971"
proof -
  define e where "e = max (- 1074) (order_of 2 x - 52)"
  define y where "y = x / 2 powi e"
  have u: "0 < (2 :: rat) powi e" by simp
  have b: "2 powi order_of 2 x \<le> x" "x < 2 powi (order_of 2 x + 1)"
    using order_of_bounds [of 2 x] assms(1) by simp_all
  have "(2 :: rat) powi (order_of 2 x + 1) \<le> 2 powi (53 + e)"
    by (intro power_int_increasing) (simp_all add: e_def)
  also have "\<dots> = 2 ^ 53 * 2 powi e" by (simp add: power_int_add)
  finally have y: "y < 2 ^ 53" using b u by (simp add: y_def pos_divide_less_eq)
  have "e = - 1074 \<or> 2 ^ 52 \<le> y"
  proof (cases "e = - 1074")
    case False
    then have "order_of 2 x = 52 + e" by (simp add: e_def)
    with b have "2 ^ 52 * 2 powi e \<le> x" by (simp add: power_int_add)
    with u show ?thesis by (simp add: y_def pos_le_divide_eq)
  qed simp
  moreover have f: "f = (if round_even y = 2 ^ 53 then Float64 neg (2 ^ 52) (e + 1) else Float64 neg (round_even y) e)"
    "f_exp f \<le> 971"
    using assms unfolding nearest_float_def e_def [symmetric] y_def [symmetric] Let_def by (simp_all split: if_splits)
  moreover have "e \<le> 971" using f by (simp split: if_splits)
  ultimately show thesis
    using y u assms(1) by (intro that [of y e]) (simp_all add: y_def e_def)
qed

lemma nearest_float_ok:
  assumes "0 \<le> x" "nearest_float neg x = Some f"
  shows "float64_ok f \<and> f_neg f = neg"
proof (cases "x = 0")
  case True
  with assms(2) show ?thesis by (auto simp: nearest_float_def float64_ok_def)
next
  case False
  with assms obtain e y where y: "0 < y" "y < 2 ^ 53" "- 1074 \<le> e" "e \<le> 971" "e = - 1074 \<or> 2 ^ 52 \<le> y"
    "f = (if round_even y = 2 ^ 53 then Float64 neg (2 ^ 52) (e + 1) else Float64 neg (round_even y) e)" "f_exp f \<le> 971"
    using nearest_float_cases [of x neg f] by (metis order_le_less)
  have "round_even y \<le> 2 ^ 53" using y by (intro round_even_bounds(2)) simp_all
  moreover have "e = - 1074 \<or> 2 ^ 52 \<le> round_even y"
    using y round_even_bounds(1) [of y "2 ^ 52"] by auto
  ultimately show ?thesis using y(3,4,6,7) by (auto simp: float64_ok_def split: if_splits)
qed

text \<open>No number of the format is closer.\<close>

lemma nearest_float_closest:
  assumes "0 < x" "nearest_float neg x = Some f" "float64_ok g"
  shows "\<bar>magnitude f - x\<bar> \<le> \<bar>magnitude g - x\<bar>"
proof -
  obtain e y where y: "x = y * 2 powi e" "0 < y" "- 1074 \<le> e" "e = - 1074 \<or> 2 ^ 52 \<le> y"
    "f = (if round_even y = 2 ^ 53 then Float64 neg (2 ^ 52) (e + 1) else Float64 neg (round_even y) e)"
    using nearest_float_cases [OF assms(1,2)] by metis
  have u: "0 < (2 :: rat) powi e" by simp
  have f: "magnitude f = of_nat (round_even y) * 2 powi e"
    using y(5) by (simp add: magnitude_def power_int_add split: if_splits)
  have close: "\<bar>magnitude f - x\<bar> \<le> \<bar>of_nat k * 2 powi e - x\<bar>" for k
  proof -
    have "\<bar>of_nat (round_even y) - y\<bar> * 2 powi e \<le> \<bar>of_nat k - y\<bar> * 2 powi e"
      using round_even_closest [of y k] y(2) u by (intro mult_right_mono) simp_all
    with u show ?thesis unfolding f y(1) left_diff_distrib [symmetric] abs_mult by simp
  qed
  show ?thesis
  proof (cases "e \<le> f_exp g")
    case True
    then have "(2 :: rat) powi f_exp g = 2 powi (int (nat (f_exp g - e)) + e)" by simp
    also have "\<dots> = 2 ^ nat (f_exp g - e) * 2 powi e" by (subst power_int_add) (simp_all only: power_int_of_nat, simp)
    finally have "(2 :: rat) powi f_exp g = 2 ^ nat (f_exp g - e) * 2 powi e" .
    then have "magnitude g = of_nat (f_mant g * 2 ^ nat (f_exp g - e)) * 2 powi e"
      by (simp add: magnitude_def)
    with close show ?thesis by metis
  next
    case False
    with assms(3) y(3,4) have "2 ^ 52 \<le> y" by (auto simp: float64_ok_def)
    then have top: "2 ^ 52 * 2 powi e \<le> x" using u unfolding y(1) by (intro mult_right_mono) simp_all
    have "of_nat (f_mant g) \<le> (2 ^ 53 :: rat)"
      using assms(3) of_nat_less_iff [of "f_mant g" "2 ^ 53", where ?'a = rat] by (simp add: float64_ok_def)
    moreover have "(2 :: rat) powi f_exp g \<le> 2 powi (e - 1)" using False by (intro power_int_increasing) simp_all
    ultimately have "magnitude g \<le> 2 ^ 53 * 2 powi (e - 1)"
      unfolding magnitude_def by (intro mult_mono) simp_all
    then have "magnitude g \<le> 2 ^ 52 * 2 powi e" by (simp add: power_int_diff)
    with top close [of "2 ^ 52"] show ?thesis by simp
  qed
qed

lemma nearest_float_exact:
  assumes "float64_ok f"
  shows "nearest_float (f_neg f) (magnitude f) = Some f"
proof (cases "f_mant f = 0")
  case True
  with assms show ?thesis by (cases f) (simp add: float64_ok_def nearest_float_def magnitude_def)
next
  case False
  let ?x = "magnitude f" and ?e = "f_exp f"
  have u: "0 < (2 :: rat) powi ?e" by simp
  have pos: "0 < ?x" using False by (simp add: magnitude_def)
  have m: "of_nat (f_mant f) < (2 ^ 53 :: rat)"
    using assms of_nat_less_iff [of "f_mant f" "2 ^ 53", where ?'a = rat] by (simp add: float64_ok_def)
  have "?x < 2 ^ 53 * 2 powi ?e" using m u unfolding magnitude_def by (intro mult_strict_right_mono) simp_all
  then have top: "?x < 2 powi (?e + 52 + 1)" by (simp add: power_int_add)
  have "max (- 1074) (order_of 2 ?x - 52) = ?e"
  proof (cases "2 ^ 52 \<le> f_mant f")
    case True
    then have "(2 ^ 52 :: rat) \<le> of_nat (f_mant f)"
      using of_nat_le_iff [of "2 ^ 52" "f_mant f", where ?'a = rat] by simp
    then have "2 ^ 52 * 2 powi ?e \<le> ?x" using u unfolding magnitude_def by (intro mult_right_mono) simp_all
    then have "2 powi (?e + 52) \<le> ?x" by (simp add: power_int_add)
    with top have "order_of 2 ?x = ?e + 52" by (intro order_of_unique) simp_all
    with assms show ?thesis by (simp add: float64_ok_def)
  next
    case small: False
    with assms have e: "?e = - 1074" by (simp add: float64_ok_def)
    have "of_nat (f_mant f) < (2 ^ 52 :: rat)"
      using small of_nat_less_iff [of "f_mant f" "2 ^ 52", where ?'a = rat] by simp
    then have "?x < 2 ^ 52 * 2 powi ?e" using u unfolding magnitude_def by (intro mult_strict_right_mono) simp_all
    also have "2 ^ 52 * 2 powi ?e = (2 :: rat) powi (?e + 52)" by (simp add: power_int_add)
    finally have "?x < 2 powi (?e + 52)" .
    with order_of_bounds [of 2 ?x] pos have "(2 :: rat) powi order_of 2 ?x < 2 powi (?e + 52)" by simp
    then have "order_of 2 ?x < ?e + 52" by (rule powi_less [rotated]) simp
    with e show ?thesis by simp
  qed
  moreover have "?x / 2 powi ?e = of_nat (f_mant f)" using u by (simp add: magnitude_def)
  ultimately show ?thesis
    using pos assms by (simp add: nearest_float_def float64_ok_def Let_def)
qed

section \<open>What is written is read back\<close>

lemma digit_int: "is_digit c \<Longrightarrow> 48 \<le> (of_char c :: int)"
proof -
  assume "is_digit c"
  then have "48 \<le> (of_char c :: nat)" by (simp add: is_digit_def)
  then have "int 48 \<le> int (of_char c)" by (simp only: of_nat_le_iff)
  then show ?thesis by (simp only: of_nat_of_char of_nat_numeral)
qed

lemma digits_val_nonneg: "list_all is_digit s \<Longrightarrow> 0 \<le> digits_val s"
proof (induction s rule: rev_induct)
  case (snoc c s)
  with digit_int [of c] show ?case by (simp add: digits_val_snoc)
qed (simp add: digits_val_def)

lemma digit_not_minus: "is_digit c \<Longrightarrow> c \<noteq> CHR ''-''"
  by (auto simp: is_digit_def)

lemma hd_show_nat: "0 < n \<Longrightarrow> hd (show_nat n) \<noteq> CHR ''0''"
proof (induction n rule: show_nat.induct)
  case (1 n)
  show ?case
  proof (cases "n < 10")
    case True
    then have "of_char (char_of (48 + n) :: char) \<noteq> (of_char (CHR ''0'') :: nat)"
      using 1 of_char_digit [OF True] by simp
    then have "char_of (48 + n) \<noteq> CHR ''0''" by metis
    with True show ?thesis by (subst show_nat.simps) simp
  next
    case False
    moreover have "show_nat (n div 10) \<noteq> []" using show_nat_digits by blast
    ultimately show ?thesis using 1 by (subst show_nat.simps) simp
  qed
qed

lemma digits_valid:
  assumes "list_all is_digit ds" "ds \<noteq> []" "hd ds = CHR ''0'' \<longrightarrow> length ds = 1"
  shows "valid_number ds" "valid_number (CHR ''-'' # ds)"
proof -
  obtain c r where c: "ds = c # r" "is_digit c" using assms(1,2) by (cases ds) auto
  then have "c \<noteq> CHR ''-''" by (blast dest: digit_not_minus)
  moreover have "takeWhile is_digit ds = ds" "dropWhile is_digit ds = []"
    using assms(1) by (auto simp: list_all_iff takeWhile_eq_all_conv dropWhile_eq_Nil_conv)
  ultimately show "valid_number ds" "valid_number (CHR ''-'' # ds)"
    using assms(2,3) c(1) by (auto simp: valid_number_def fraction_ok_def Let_def)
qed

lemma show_nat_zero: "hd (show_nat n) = CHR ''0'' \<longrightarrow> length (show_nat n) = 1"
  using hd_show_nat [of n] by (cases "n = 0") (auto simp: show_nat.simps [of 0])

lemma number_chars: "list_all is_digit ds \<Longrightarrow> list_all number_char ds"
  by (auto simp: list_all_iff number_char_def)

lemma digit_zero: "is_digit CHR ''0''"
  by (simp add: is_digit_def)

lemma digits_val_replicate: "digits_val (ds @ replicate n CHR ''0'') = digits_val ds * 10 ^ n"
proof (induction n)
  case (Suc n)
  have "digits_val (ds @ replicate (Suc n) CHR ''0'') = digits_val ((ds @ replicate n CHR ''0'') @ [CHR ''0''])"
    by (simp add: replicate_append_same)
  with Suc show ?case unfolding digits_val_snoc by simp
qed simp

lemma digits_val_zeros: "digits_val (replicate n CHR ''0'' @ ds) = digits_val ds"
  by (induction n) (simp_all add: digits_val_def)

text \<open>A number's text from its parts: digits, digits after the point, exponent.\<close>

definition exponent_part :: "string \<Rightarrow> bool" where
  "exponent_part ex \<longleftrightarrow> ex = [] \<or> (\<exists>sg es. ex = CHR ''e'' # sg # es \<and> sg \<in> {CHR ''+'', CHR ''-''} \<and> es \<noteq> [] \<and> list_all is_digit es)"

lemma exponent_partD:
  assumes "exponent_part ex"
  shows "exponent_ok ex" "list_all number_char ex" "takeWhile is_digit ex = []" "dropWhile is_digit ex = ex"
    "ex \<noteq> [] \<Longrightarrow> hd ex \<noteq> CHR ''.''"
  using assms by (auto simp: exponent_part_def exponent_ok_def number_chars number_char_def is_digit_def Let_def)

lemma number_text:
  assumes "list_all is_digit ip" "ip \<noteq> []" "hd ip = CHR ''0'' \<longrightarrow> length ip = 1" "list_all is_digit fp" "exponent_part ex"
  defines "t \<equiv> ip @ (if fp = [] then [] else ''.'' @ fp) @ ex"
  shows "valid_number ((if neg then ''-'' else []) @ t)" (is ?valid)
    and "list_all number_char ((if neg then ''-'' else []) @ t)" (is ?chars)
    and "decimal_of ((if neg then ''-'' else []) @ t) = (neg, nat (digits_val (ip @ fp)), exponent_of ex - int (length fp))" (is ?parts)
proof -
  obtain c r where c: "ip = c # r" "is_digit c" using assms(1,2) by (cases ip) auto
  then have minus: "c \<noteq> CHR ''-''" by (blast dest: digit_not_minus)
  have dot: "\<not> is_digit CHR ''.''" by (simp add: is_digit_def)
  have all: "\<And>x. x \<in> set ip \<Longrightarrow> is_digit x" "\<And>x. x \<in> set fp \<Longrightarrow> is_digit x"
    using assms(1,4) by (auto simp: list_all_iff)
  note ex = exponent_partD [OF assms(5)]
  define rest where "rest = (if fp = [] then [] else ''.'' @ fp) @ ex"
  have stop: "takeWhile is_digit rest = []" "dropWhile is_digit rest = rest"
    using ex dot by (auto simp: rest_def)
  have t: "takeWhile is_digit t = ip" "dropWhile is_digit t = rest"
    unfolding t_def rest_def [symmetric] using all stop by (simp_all add: takeWhile_append2 dropWhile_append2)
  have fp: "takeWhile is_digit (fp @ ex) = fp" "dropWhile is_digit (fp @ ex) = ex"
    using all ex by (simp_all add: takeWhile_append2 dropWhile_append2)
  have hd_t: "t \<noteq> [] \<and> hd t = c" by (simp add: t_def c)
  have "fraction_ok rest"
  proof (cases "fp = []")
    case True
    with ex show ?thesis by (cases ex) (auto simp: rest_def fraction_ok_def)
  next
    case False
    with ex(1) show ?thesis by (simp add: rest_def fraction_ok_def fp)
  qed
  then have v: "takeWhile is_digit t \<noteq> [] \<and> (hd (takeWhile is_digit t) = CHR ''0'' \<longrightarrow> length (takeWhile is_digit t) = 1) \<and>
      fraction_ok (dropWhile is_digit t)"
    using t assms(2,3) by simp
  obtain t' where t': "t = c # t'" using hd_t by (cases t) auto
  show ?valid
    using v minus unfolding t' by (simp add: valid_number_def Let_def)
  show ?chars
    using ex(2) number_chars [OF assms(1)] number_chars [OF assms(4)] by (simp add: t_def number_char_def)
  define s where "s = (if neg then ''-'' else []) @ t"
  have sign: "(s \<noteq> [] \<and> hd s = CHR ''-'') = neg" "(if neg then tl s else s) = t"
    using hd_t minus by (simp_all add: s_def)
  have point: "(if rest \<noteq> [] \<and> hd rest = CHR ''.'' then takeWhile is_digit (tl rest) else []) = fp"
    "(if rest \<noteq> [] \<and> hd rest = CHR ''.'' then dropWhile is_digit (tl rest) else rest) = ex"
    using ex(5) fp by (auto simp: rest_def)
  show ?parts
    unfolding s_def [symmetric] decimal_of_def Let_def sign t point ..
qed


section \<open>The two forms\<close>

lemma decimal_value_shift: "decimal_value (d * 10 ^ n) (k - int n) = decimal_value d k"
  by (simp add: decimal_value_def power_int_diff)

lemma trim_zeros_value:
  "trim_zeros d k = (d', k') \<Longrightarrow> 0 < d \<Longrightarrow> 0 < d' \<and> decimal_value d' k' = decimal_value d k"
proof (induction d k rule: trim_zeros.induct)
  case (1 d k)
  show ?case
  proof (cases "d mod 10 = 0")
    case True
    then have "decimal_value d k = decimal_value (d div 10) (k + 1)" "0 < d div 10"
      using 1(3) decimal_value_shift [of "d div 10" 1 "k + 1"] by auto
    with True 1 show ?thesis by (simp add: trim_zeros.simps [of d k])
  next
    case False
    with 1 show ?thesis by (simp add: trim_zeros.simps [of d k])
  qed
qed

lemma length_show_nat: "0 < n \<Longrightarrow> 10 ^ (length (show_nat n) - 1) \<le> n \<and> n < 10 ^ length (show_nat n)"
proof (induction n rule: show_nat.induct)
  case (1 n)
  show ?case
  proof (cases "n < 10")
    case True
    with 1 show ?thesis by (simp add: show_nat.simps [of n])
  next
    case False
    let ?l = "length (show_nat (n div 10))"
    from False 1 have "10 ^ (?l - 1) \<le> n div 10" "n div 10 < 10 ^ ?l" by simp_all
    then have "10 * 10 ^ (?l - 1) \<le> n" "n < 10 * 10 ^ ?l" by linarith+
    moreover have "0 < ?l" using show_nat_digits by simp
    then have "10 * 10 ^ (?l - 1) = (10 :: nat) ^ ?l" by (simp flip: power_Suc)
    ultimately show ?thesis using False by (simp add: show_nat.simps [of n])
  qed
qed

lemma exponent_val_show: "n < 100000 \<Longrightarrow> exponent_val (show_nat n) = n"
proof (induction n rule: show_nat.induct)
  case (1 n)
  show ?case
  proof (cases "n < 10")
    case True
    then show ?thesis by (subst show_nat.simps) (simp add: exponent_val_def of_char_digit)
  next
    case False
    with 1 have "exponent_val (show_nat (n div 10)) = n div 10" "n div 10 < 10000" by simp_all
    moreover have "exponent_val (s @ [c]) = (if exponent_val s < 10000 then 10 * exponent_val s + (of_char c - 48) else exponent_val s)" for s c
      by (simp add: exponent_val_def)
    ultimately show ?thesis using False by (subst show_nat.simps) (simp add: of_char_digit)
  qed
qed

lemma plain_text_read:
  assumes "0 < d"
  shows "valid_number ((if neg then ''-'' else []) @ plain_text d k)"
    and "list_all number_char ((if neg then ''-'' else []) @ plain_text d k)"
    and "\<exists>d' k'. decimal_of ((if neg then ''-'' else []) @ plain_text d k) = (neg, d', k') \<and> decimal_value d' k' = decimal_value d k"
proof -
  let ?ds = "show_nat d"
  let ?p = "int (length ?ds) + k"
  have ds: "list_all is_digit ?ds" "?ds \<noteq> []" "hd ?ds \<noteq> CHR ''0''"
    using show_nat_digits hd_show_nat [OF assms] by blast+
  have zeros: "list_all is_digit (replicate n CHR ''0'')" for n by (simp add: list_all_iff digit_zero)
  consider (whole) "0 \<le> k" | (below) "k < 0" "?p \<le> 0" | (inside) "k < 0" "0 < ?p" by linarith
  then obtain ip fp where t: "plain_text d k = ip @ (if fp = [] then [] else ''.'' @ fp) @ []"
    and ip: "list_all is_digit ip" "ip \<noteq> []" "hd ip = CHR ''0'' \<longrightarrow> length ip = 1" "list_all is_digit fp"
    and v: "decimal_value (nat (digits_val (ip @ fp))) (- int (length fp)) = decimal_value d k"
  proof cases
    case whole
    then have "decimal_value (nat (digits_val (?ds @ replicate (nat k) CHR ''0''))) 0 = decimal_value d k"
      using decimal_value_shift [of d "nat k" k] by (simp add: digits_val_replicate digits_val_show_nat nat_mult_distrib nat_power_eq)
    with whole ds zeros show thesis
      by (intro that [of "?ds @ replicate (nat k) CHR ''0''" "[]"]) (simp_all add: plain_text_def)
  next
    case below
    have "digits_val (''0'' @ replicate (nat (- ?p)) CHR ''0'' @ ?ds) = int d"
      using digits_val_zeros [of "Suc (nat (- ?p))" ?ds] by (simp add: digits_val_show_nat)
    with below ds zeros show thesis
      by (intro that [of "''0''" "replicate (nat (- ?p)) CHR ''0'' @ ?ds"]) (simp_all add: plain_text_def Let_def digit_zero)
  next
    case inside
    then have "nat ?p < length ?ds" by linarith
    with inside ds show thesis
      by (intro that [of "take (nat ?p) ?ds" "drop (nat ?p) ?ds"])
        (auto simp: plain_text_def Let_def digits_val_show_nat list_all_iff dest: in_set_takeD in_set_dropD)
  qed
  note r = number_text [OF ip, of "[]" neg]
  show "valid_number ((if neg then ''-'' else []) @ plain_text d k)"
    "list_all number_char ((if neg then ''-'' else []) @ plain_text d k)"
    "\<exists>d' k'. decimal_of ((if neg then ''-'' else []) @ plain_text d k) = (neg, d', k') \<and> decimal_value d' k' = decimal_value d k"
    using r v unfolding t by (simp_all add: exponent_part_def exponent_of_def)
qed

lemma exponent_text_parts:
  fixes k :: int
  assumes "0 < d"
  defines "e \<equiv> int (length (show_nat d)) + k - 1"
  shows "valid_number ((if neg then ''-'' else []) @ exponent_text d k)"
    and "list_all number_char ((if neg then ''-'' else []) @ exponent_text d k)"
    and "\<bar>e\<bar> < 100000 \<Longrightarrow> decimal_of ((if neg then ''-'' else []) @ exponent_text d k) = (neg, d, k)"
proof -
  let ?ds = "show_nat d"
  let ?ex = "(if e < 0 then ''e-'' else ''e+'') @ show_nat (nat \<bar>e\<bar>)"
  obtain c r where ds: "?ds = c # r" "is_digit c" "list_all is_digit r"
    using show_nat_digits [of d] by (cases ?ds) auto
  have ex: "exponent_part ?ex" using show_nat_digits by (simp add: exponent_part_def)
  have t: "exponent_text d k = [c] @ (if r = [] then [] else ''.'' @ r) @ ?ex"
    by (simp add: exponent_text_def Let_def e_def ds)
  note r = number_text [of "[c]" r ?ex neg, folded t]
  show "valid_number ((if neg then ''-'' else []) @ exponent_text d k)"
    "list_all number_char ((if neg then ''-'' else []) @ exponent_text d k)"
    using r ds ex by simp_all
  assume e: "\<bar>e\<bar> < 100000"
  have "exponent_val (show_nat (nat e)) = nat e" "exponent_val (show_nat (nat (- e))) = nat (- e)"
    using e by (simp_all add: exponent_val_show)
  then have "exponent_of ?ex = e" by (simp add: exponent_of_def)
  moreover have "e - int (length r) = k" by (simp add: e_def ds)
  moreover have "nat (digits_val ([c] @ r)) = d" using digits_val_show_nat [of d] by (simp add: ds)
  ultimately show "decimal_of ((if neg then ''-'' else []) @ exponent_text d k) = (neg, d, k)"
    using r(3) ds ex by simp
qed

text \<open>The digits: there is one, and they are read as the number.\<close>

lemma with_digits_reads:
  "with_digits f n = Some (d, k) \<Longrightarrow> nearest_float (f_neg f) (decimal_value d k) = Some f"
  by (auto simp: with_digits_def Let_def split: if_splits)

lemma nearest_float_zero: "nearest_float neg (decimal_value 0 k) = Some f \<Longrightarrow> f_mant f = 0"
  by (auto simp: nearest_float_def decimal_value_def)

lemma all_digits_value: "all_digits f = (d, k) \<Longrightarrow> decimal_value d k = magnitude f"
proof -
  have "(5 :: rat) ^ n * 10 powi (- int n) = 2 powi (- int n)" for n
    by (simp add: power_int_minus field_simps flip: power_mult_distrib)
  from this [of "nat (- f_exp f)"] show "all_digits f = (d, k) \<Longrightarrow> decimal_value d k = magnitude f"
    by (auto simp: all_digits_def decimal_value_def magnitude_def power_int_def split: if_splits)
qed

lemma shortest_from_pos:
  "shortest_from f ns = (d, k) \<Longrightarrow> 0 < f_mant f \<Longrightarrow> 0 < d"
proof (induction ns)
  case Nil
  then show ?case by (auto simp: all_digits_def split: if_splits)
next
  case (Cons n ns)
  show ?case
  proof (cases "with_digits f n")
    case (Some p)
    with Cons.prems with_digits_reads [of f n d k] nearest_float_zero [of "f_neg f" k f] show ?thesis
      by (cases d) auto
  qed (use Cons in simp)
qed

lemma shortest_from_reads:
  "shortest_from f ns = (d, k) \<Longrightarrow> float64_ok f \<Longrightarrow> nearest_float (f_neg f) (decimal_value d k) = Some f"
  by (induction ns) (auto simp: nearest_float_exact all_digits_value dest: with_digits_reads split: option.splits)

lemma shortest_pos: "0 < f_mant f \<Longrightarrow> shortest f = (d, k) \<Longrightarrow> 0 < d"
  by (auto simp: shortest_def dest!: shortest_from_pos trim_zeros_value split: prod.splits)

lemma shortest_reads:
  assumes "float64_ok f" "0 < f_mant f" "shortest f = (d, k)"
  shows "nearest_float (f_neg f) (decimal_value d k) = Some f"
proof -
  obtain d' k' where s: "shortest_from f [1..<18] = (d', k')" "trim_zeros d' k' = (d, k)"
    using assms(3) by (auto simp: shortest_def split: prod.splits)
  from shortest_from_reads [OF s(1) assms(1)] trim_zeros_value [OF s(2)] shortest_from_pos [OF s(1) assms(2)]
  show ?thesis by simp
qed

lemma shortest_order:
  assumes "float64_ok f" "0 < f_mant f" "shortest f = (d, k)"
  shows "\<bar>int (length (show_nat d)) + k - 1\<bar> < 100000"
proof -
  let ?x = "decimal_value d k" and ?l = "length (show_nat d)"
  have d: "0 < d" "0 < ?l" using shortest_pos [OF assms(2,3)] show_nat_digits [of d] by auto
  then have pos: "0 < ?x" by (simp add: decimal_value_def)
  obtain e y where y: "?x = y * 2 powi e" "0 < y" "y < 2 ^ 53" "- 1074 \<le> e" "e \<le> 971"
    "f = (if round_even y = 2 ^ 53 then Float64 (f_neg f) (2 ^ 52) (e + 1) else Float64 (f_neg f) (round_even y) e)"
    using nearest_float_cases [OF pos shortest_reads [OF assms]] by metis
  have "(10 ^ (?l - 1) :: rat) \<le> of_nat d" "of_nat d < (10 ^ ?l :: rat)"
    using length_show_nat [OF d(1)] of_nat_le_iff [of "10 ^ (?l - 1)" d, where ?'a = rat]
      of_nat_less_iff [of d "10 ^ ?l", where ?'a = rat] by simp_all
  then have x: "10 ^ (?l - 1) * 10 powi k \<le> ?x" "?x < 10 ^ ?l * 10 powi k"
    unfolding decimal_value_def by (simp_all add: mult_right_mono)
  have p: "(10 :: rat) ^ n * 10 powi k = 10 powi (int n + k)" for n by (simp add: power_int_add)
  have "?x < 2 ^ 53 * 2 powi e" unfolding y(1) using y(3) by simp
  also have "\<dots> \<le> 2 ^ 53 * 2 powi 971" using y(5) by (intro mult_left_mono power_int_increasing) simp_all
  also have "\<dots> = (2 :: rat) powi 1024" using power_int_add [of "2 :: rat" 53 971] by simp
  also have "\<dots> \<le> (10 :: rat) powi 1024" by (intro power_int_mono) simp_all
  finally have "10 powi (int (?l - 1) + k) < (10 :: rat) powi 1024" by (rule le_less_trans [OF x(1) [unfolded p]])
  then have "int (?l - 1) + k < 1024" by (rule powi_less [rotated]) simp
  moreover have "- 1075 < int ?l + k"
  proof -
    have "0 < round_even y" using y(6) assms(2) by (cases f) (auto split: if_splits)
    then have "1 \<le> (of_nat (round_even y) :: rat)" by linarith
    with round_even_closest [of y 0] y(2) have half: "1 / 2 \<le> y" by simp
    have "(10 :: rat) powi (- 1075) \<le> 2 powi (- 1075)"
      unfolding power_int_minus by (intro le_imp_inverse_le power_int_mono) simp_all
    also have "\<dots> = 1 / 2 * 2 powi (- 1074)"
      using power_int_add [of "2 :: rat" "- 1" "- 1074"] by (simp only: power_int_minus) simp
    also have "\<dots> \<le> 1 / 2 * 2 powi e" using y(4) by (intro mult_left_mono power_int_increasing) simp_all
    also have "\<dots> \<le> ?x" unfolding y(1) using half by (intro mult_right_mono) simp_all
    also note x(2) [unfolded p]
    finally have "(10 :: rat) powi (- 1075) < 10 powi (int ?l + k)" .
    then show ?thesis by (rule powi_less [rotated]) simp
  qed
  ultimately show ?thesis using d(2) by linarith
qed

section \<open>The text of a number\<close>

lemma zero_text:
  "valid_number ((if neg then ''-'' else []) @ ''0'')" "list_all number_char ((if neg then ''-'' else []) @ ''0'')"
  "decimal_of ((if neg then ''-'' else []) @ ''0'') = (neg, 0, 0)"
  using number_text [of "''0''" "[]" "[]" neg] by (simp_all add: digit_zero exponent_part_def exponent_of_def digits_val_def)

lemma float_text_form:
  assumes "shortest f = (d, k)"
  obtains "f_mant f = 0" "float_text f = (if f_neg f then ''-'' else []) @ ''0''"
  | "0 < f_mant f" "0 < d" "float_text f = (if f_neg f then ''-'' else []) @ plain_text d k"
  | "0 < f_mant f" "0 < d" "float_text f = (if f_neg f then ''-'' else []) @ exponent_text d k"
  using assms shortest_pos [OF _ assms] unfolding float_text_def
  by (cases "f_mant f = 0"; cases "magnitude f < 10 powi (- 6) \<or> 10 ^ 21 \<le> magnitude f") simp_all

lemma float_text_number: "valid_number (float_text f)" "list_all number_char (float_text f)"
proof -
  obtain d k where s: "shortest f = (d, k)" by fastforce
  show "valid_number (float_text f)" "list_all number_char (float_text f)"
    by (rule float_text_form [OF s]; simp only: zero_text plain_text_read exponent_text_parts)+
qed

theorem parse_float_text:
  assumes "float64_ok f"
  shows "parse_float64 (float_text f) = Some f"
proof -
  obtain d k where s: "shortest f = (d, k)" by fastforce
  have "\<exists>d' k'. decimal_of (float_text f) = (f_neg f, d', k') \<and> nearest_float (f_neg f) (decimal_value d' k') = Some f"
  proof (rule float_text_form [OF s])
    assume "f_mant f = 0" "float_text f = (if f_neg f then ''-'' else []) @ ''0''"
    with assms show ?thesis
      using zero_text [of "f_neg f"] by (cases f) (simp add: float64_ok_def nearest_float_def decimal_value_def)
  next
    assume "0 < f_mant f" "0 < d" "float_text f = (if f_neg f then ''-'' else []) @ plain_text d k"
    with plain_text_read(3) [of d "f_neg f" k] shortest_reads [OF assms _ s] show ?thesis by metis
  next
    assume "0 < f_mant f" "0 < d" "float_text f = (if f_neg f then ''-'' else []) @ exponent_text d k"
    with exponent_text_parts(3) [of d k "f_neg f"] shortest_reads [OF assms _ s] shortest_order [OF assms _ s]
    show ?thesis by metis
  qed
  with float_text_number(1) show ?thesis by (auto simp: parse_float64_def)
qed

text \<open>What reading gives: a number of the format, and none is closer to the literal.\<close>

lemma parse_float64_ok: "parse_float64 s = Some f \<Longrightarrow> float64_ok f"
  by (auto simp: parse_float64_def decimal_value_def split: if_splits prod.splits dest!: nearest_float_ok [rotated])

lemma parse_float64_closest:
  assumes "parse_float64 s = Some f" "decimal_of s = (neg, d, k)" "0 < d" "float64_ok g"
  shows "\<bar>magnitude f - decimal_value d k\<bar> \<le> \<bar>magnitude g - decimal_value d k\<bar>"
proof (rule nearest_float_closest)
  show "0 < decimal_value d k" using assms(3) by (simp add: decimal_value_def)
  show "nearest_float neg (decimal_value d k) = Some f" using assms by (simp add: parse_float64_def split: if_splits)
qed fact

end
