(* ===== verification/GoStruct.thy ===== *)
theory GoStruct imports GoFloat begin

text \<open>
  Structs of the cloud API as \<open>encoding/json\<close> sees them. Every field of these structs is a pointer or a
  slice of pointers; its tag gives the name in the JSON object and whether an empty field is left out.
  \<open>marshal\<close> and \<open>unmarshal\<close> are the two directions, for the types that occur in \<^verbatim>\<open>v20170312/models.go\<close>.
  The lemmas say that what is read has the type it is read into, and that a value is read back as it
  was written, but for empty slices, which become nil.
\<close>

section \<open>Types and values\<close>

datatype gtype =
    GStr | GBool | GUint64 | GInt64 | GFloat64   \<comment> \<open>pointers to a string, a bool, a number\<close>
  | GStrs | GUints                         \<comment> \<open>slices of pointers to strings, to numbers\<close>
  | GStruct "(string \<times> bool \<times> gtype) list"      \<comment> \<open>a pointer to a struct: name, omitempty, type\<close>
  | GStructs "(string \<times> bool \<times> gtype) list"     \<comment> \<open>a slice of pointers to structs\<close>

type_synonym fields = "(string \<times> bool \<times> gtype) list"

datatype gval =
    VNil
  | VStr string
  | VBool bool
  | VUint nat
  | VInt int
  | VFloat float64
  | VStrs "string option list"
  | VUints "nat option list"
  | VStruct "gval list"
  | VStructs "gval list"

definition elem_fits :: "nat option \<Rightarrow> bool" where
  "elem_fits x = (case x of None \<Rightarrow> True | Some n \<Rightarrow> n < 2 ^ 64)"

text \<open>The types a value can have: a number fits its 64 bits, a struct has a value for each field.\<close>

fun typed :: "gtype \<Rightarrow> gval \<Rightarrow> bool"
  and typed_fields :: "fields \<Rightarrow> gval list \<Rightarrow> bool"
  and typed_elems :: "fields \<Rightarrow> gval list \<Rightarrow> bool" where
  "typed t VNil = True"
| "typed t (VStr s) = (t = GStr)"
| "typed t (VBool b) = (t = GBool)"
| "typed t (VUint n) = (t = GUint64 \<and> n < 2 ^ 64)"
| "typed t (VInt i) = (t = GInt64 \<and> - (2 ^ 63) \<le> i \<and> i < 2 ^ 63)"
| "typed t (VFloat f) = (t = GFloat64 \<and> float64_ok f)"
| "typed t (VStrs xs) = (t = GStrs)"
| "typed t (VUints xs) = (t = GUints \<and> list_all elem_fits xs)"
| "typed t (VStruct vs) = (case t of GStruct fs \<Rightarrow> typed_fields fs vs | _ \<Rightarrow> False)"
| "typed t (VStructs vs) = (case t of GStructs fs \<Rightarrow> typed_elems fs vs | _ \<Rightarrow> False)"
| "typed_fields [] [] = True"
| "typed_fields ((n, om, t) # fs) (v # vs) = (typed t v \<and> typed_fields fs vs)"
| "typed_fields _ _ = False"
| "typed_elems fs [] = True"
| "typed_elems fs (v # vs) = (typed (GStruct fs) v \<and> typed_elems fs vs)"

text \<open>The struct that \<open>new\<close> makes.\<close>

definition zero :: "fields \<Rightarrow> gval list" where
  "zero fs = map (\<lambda>_. VNil) fs"

section \<open>Marshal\<close>

definition is_empty :: "gval \<Rightarrow> bool" where
  "is_empty v \<longleftrightarrow> v = VNil \<or> v = VStrs [] \<or> v = VUints [] \<or> v = VStructs []"

definition number_or_null :: "nat option \<Rightarrow> json" where
  "number_or_null x = (case x of None \<Rightarrow> JNull | Some n \<Rightarrow> JLit (show_nat n))"

definition text_or_null :: "string option \<Rightarrow> json" where
  "text_or_null x = (case x of None \<Rightarrow> JNull | Some s \<Rightarrow> JText s)"

fun marshal :: "gtype \<Rightarrow> gval \<Rightarrow> json"
  and marshal_fields :: "fields \<Rightarrow> gval list \<Rightarrow> (string \<times> json) list"
  and marshal_elems :: "fields \<Rightarrow> gval list \<Rightarrow> json list" where
  "marshal t VNil = JNull"
| "marshal t (VStr s) = JText s"
| "marshal t (VBool b) = JBool b"
| "marshal t (VUint n) = JLit (show_nat n)"
| "marshal t (VInt i) = JLit (show_int i)"
| "marshal t (VFloat f) = JLit (float_text f)"
| "marshal t (VStrs xs) = JArray (map text_or_null xs)"
| "marshal t (VUints xs) = JArray (map number_or_null xs)"
| "marshal t (VStruct vs) = (case t of GStruct fs \<Rightarrow> JObject (marshal_fields fs vs) | _ \<Rightarrow> JNull)"
| "marshal t (VStructs vs) = (case t of GStructs fs \<Rightarrow> JArray (marshal_elems fs vs) | _ \<Rightarrow> JNull)"
| "marshal_fields ((n, om, t) # fs) (v # vs) =
     (if om \<and> is_empty v then marshal_fields fs vs else (n, marshal t v) # marshal_fields fs vs)"
| "marshal_fields _ _ = []"
| "marshal_elems fs [] = []"
| "marshal_elems fs (v # vs) = marshal (GStruct fs) v # marshal_elems fs vs"

section \<open>Unmarshal\<close>

text \<open>\<open>strconv.ParseUint\<close> and \<open>ParseInt\<close> on the literal of a number, for 64 bits.\<close>

definition parse_uint64 :: "string \<Rightarrow> nat option" where
  "parse_uint64 s =
     (if s \<noteq> [] \<and> list_all is_digit s \<and> digits_val s < 2 ^ 64 then Some (nat (digits_val s)) else None)"

definition parse_int64 :: "string \<Rightarrow> int option" where
  "parse_int64 s =
     (let neg = (s \<noteq> [] \<and> hd s = CHR ''-''); t = (if neg then tl s else s);
          i = (if neg then - digits_val t else digits_val t)
      in if t \<noteq> [] \<and> list_all is_digit t \<and> - (2 ^ 63) \<le> i \<and> i < 2 ^ 63 then Some i else None)"

text \<open>
  The field of a member: the one with its name, or else the first whose name is the same but for the
  case of the letters.
\<close>

fun field_index :: "(string \<Rightarrow> bool) \<Rightarrow> fields \<Rightarrow> nat option" where
  "field_index P [] = None"
| "field_index P ((n, om, t) # fs) = (if P n then Some 0 else map_option Suc (field_index P fs))"

definition field_of :: "fields \<Rightarrow> string \<Rightarrow> nat option" where
  "field_of fs k =
     (case field_index (\<lambda>n. n = k) fs of
        Some i \<Rightarrow> Some i
      | None \<Rightarrow> field_index (\<lambda>n. ToLower n = ToLower k) fs)"

lemma field_index_less: "field_index P fs = Some i \<Longrightarrow> i < length fs"
  by (induction fs arbitrary: i) (auto split: if_splits)

lemma field_of_less: "field_of fs k = Some i \<Longrightarrow> i < length fs"
  by (auto simp: field_of_def dest: field_index_less split: option.splits)

text \<open>The elements of a slice; one that cannot be read makes the slice fail.\<close>

definition text_elem :: "json \<Rightarrow> string option option" where
  "text_elem j = (case j of JText s \<Rightarrow> Some (Some s) | JNull \<Rightarrow> Some None | _ \<Rightarrow> None)"

definition number_elem :: "json \<Rightarrow> nat option option" where
  "number_elem j = (case j of JLit n \<Rightarrow> map_option Some (parse_uint64 n) | JNull \<Rightarrow> Some None | _ \<Rightarrow> None)"

fun elems_of :: "(json \<Rightarrow> 'a option) \<Rightarrow> json list \<Rightarrow> 'a list option" where
  "elems_of f [] = Some []"
| "elems_of f (j # js) = (case (f j, elems_of f js) of (Some x, Some xs) \<Rightarrow> Some (x # xs) | _ \<Rightarrow> None)"

text \<open>
  \<open>unmarshal t old j\<close> reads into a field that holds \<open>old\<close>: an object goes into the struct that is there,
  or into a new one; every other value replaces the field. \<open>None\<close> is a value of the wrong kind or out
  of range; the library reports it after it has read the rest, and no code looks at what it has read.
\<close>

fun unmarshal :: "gtype \<Rightarrow> gval \<Rightarrow> json \<Rightarrow> gval option"
  and unmarshal_members :: "fields \<Rightarrow> gval list \<Rightarrow> (string \<times> json) list \<Rightarrow> gval list option"
  and unmarshal_elems :: "fields \<Rightarrow> json list \<Rightarrow> gval list option" where
  "unmarshal t old JNull = Some VNil"
| "unmarshal t old (JBool b) = (if t = GBool then Some (VBool b) else None)"
| "unmarshal t old (JText s) = (if t = GStr then Some (VStr s) else None)"
| "unmarshal t old (JLit n) =
     (case t of
        GUint64 \<Rightarrow> map_option VUint (parse_uint64 n)
      | GInt64 \<Rightarrow> map_option VInt (parse_int64 n)
      | GFloat64 \<Rightarrow> map_option VFloat (parse_float64 n)
      | _ \<Rightarrow> None)"
| "unmarshal t old (JArray js) =
     (case t of
        GStrs \<Rightarrow> map_option VStrs (elems_of text_elem js)
      | GUints \<Rightarrow> map_option VUints (elems_of number_elem js)
      | GStructs fs \<Rightarrow> map_option VStructs (unmarshal_elems fs js)
      | _ \<Rightarrow> None)"
| "unmarshal t old (JObject ms) =
     (case t of
        GStruct fs \<Rightarrow>
          map_option VStruct (unmarshal_members fs (case old of VStruct vs \<Rightarrow> vs | _ \<Rightarrow> zero fs) ms)
      | _ \<Rightarrow> None)"
| "unmarshal_members fs vs [] = Some vs"
| "unmarshal_members fs vs ((k, j) # ms) =
     (case field_of fs k of
        None \<Rightarrow> unmarshal_members fs vs ms
      | Some i \<Rightarrow>
          (case unmarshal (snd (snd (fs ! i))) (vs ! i) j of
             None \<Rightarrow> None
           | Some v \<Rightarrow> unmarshal_members fs (vs[i := v]) ms))"
| "unmarshal_elems fs [] = Some []"
| "unmarshal_elems fs (j # js) =
     (case (unmarshal (GStruct fs) VNil j, unmarshal_elems fs js) of
        (Some v, Some vs) \<Rightarrow> Some (v # vs)
      | _ \<Rightarrow> None)"

section \<open>What is read has its type\<close>

lemma parse_uint64_less: "parse_uint64 s = Some n \<Longrightarrow> n < 2 ^ 64"
  by (auto simp: parse_uint64_def nat_less_iff digits_val_nonneg split: if_splits)

lemma parse_int64_range: "parse_int64 s = Some i \<Longrightarrow> - (2 ^ 63) \<le> i \<and> i < 2 ^ 63"
  by (auto simp: parse_int64_def Let_def split: if_splits)

lemma typed_fields_nth:
  "typed_fields fs vs \<longleftrightarrow> length vs = length fs \<and> (\<forall>i<length fs. typed (snd (snd (fs ! i))) (vs ! i))"
proof (induction fs arbitrary: vs)
  case (Cons f fs)
  then show ?case by (cases f; cases vs) (auto simp: less_Suc_eq_0_disj)
next
  case Nil
  then show ?case by (cases vs) auto
qed

lemma typed_zero: "typed_fields fs (zero fs)"
  by (simp add: typed_fields_nth zero_def)

lemma number_elem_fits: "number_elem j = Some x \<Longrightarrow> elem_fits x"
  by (auto simp: number_elem_def elem_fits_def dest: parse_uint64_less split: json.splits)

lemma number_elems_typed: "elems_of number_elem js = Some xs \<Longrightarrow> list_all elem_fits xs"
  by (induction js arbitrary: xs) (auto dest: number_elem_fits split: option.splits)

lemma unmarshal_typed:
  "typed t old \<Longrightarrow> unmarshal t old j = Some v \<Longrightarrow> typed t v"
  "typed_fields fs vs \<Longrightarrow> unmarshal_members fs vs ms = Some vs' \<Longrightarrow> typed_fields fs vs'"
  "unmarshal_elems fs js = Some ws \<Longrightarrow> typed_elems fs ws"
proof (induction t old j and fs vs ms and fs js arbitrary: v and vs' and ws
    rule: unmarshal_unmarshal_members_unmarshal_elems.induct)
  case (4 t old n)
  then show ?case by (auto split: gtype.splits dest: parse_uint64_less parse_int64_range parse_float64_ok)
next
  case (5 t old js)
  then show ?case by (auto split: gtype.splits dest: number_elems_typed)
next
  case (6 t old ms)
  from "6.prems"(2) obtain fs ws where o: "t = GStruct fs" "v = VStruct ws"
    "unmarshal_members fs (case old of VStruct vs \<Rightarrow> vs | _ \<Rightarrow> zero fs) ms = Some ws"
    by (auto split: gtype.splits)
  have "typed_fields fs (case old of VStruct vs \<Rightarrow> vs | _ \<Rightarrow> zero fs)"
    using "6.prems"(1) o(1) by (auto simp: typed_zero split: gval.splits)
  from "6.IH" [OF o(1) this o(3)] o show ?case by simp
next
  case (8 fs vs k j ms)
  show ?case
  proof (cases "field_of fs k")
    case None
    with 8 show ?thesis by simp
  next
    case (Some i)
    with "8.prems"(2) obtain w where w: "unmarshal (snd (snd (fs ! i))) (vs ! i) j = Some w"
      "unmarshal_members fs (vs[i := w]) ms = Some vs'" by (auto split: option.splits)
    have i: "i < length fs" using field_of_less [OF Some] .
    with "8.prems"(1) have "typed (snd (snd (fs ! i))) (vs ! i)" by (simp add: typed_fields_nth)
    from "8.IH"(2) [OF Some this w(1)] "8.prems"(1) i have "typed_fields fs (vs[i := w])"
      by (auto simp: typed_fields_nth nth_list_update)
    from "8.IH"(3) [OF Some w(1) this w(2)] show ?thesis .
  qed
next
  case (10 fs j js)
  then show ?case by (auto split: option.splits)
qed (auto split: if_splits)

section \<open>What is written is read back\<close>

text \<open>Names that tell the fields apart whatever the case of a letter, in all structs of a type.\<close>

fun distinct_names :: "gtype \<Rightarrow> bool" where
  "distinct_names (GStruct fs) =
     (distinct (map (\<lambda>f. ToLower (fst f)) fs) \<and> list_all (\<lambda>f. distinct_names (snd (snd f))) fs)"
| "distinct_names (GStructs fs) =
     (distinct (map (\<lambda>f. ToLower (fst f)) fs) \<and> list_all (\<lambda>f. distinct_names (snd (snd f))) fs)"
| "distinct_names _ = True"

text \<open>
  What reading makes of a value that was written: an empty slice that was left out is nil. A slice that is
  empty and not left out stays.
\<close>

fun dropped :: "gtype \<Rightarrow> gval \<Rightarrow> gval"
  and dropped_fields :: "fields \<Rightarrow> gval list \<Rightarrow> gval list"
  and dropped_elems :: "fields \<Rightarrow> gval list \<Rightarrow> gval list" where
  "dropped t (VStruct vs) = (case t of GStruct fs \<Rightarrow> VStruct (dropped_fields fs vs) | _ \<Rightarrow> VNil)"
| "dropped t (VStructs vs) = (case t of GStructs fs \<Rightarrow> VStructs (dropped_elems fs vs) | _ \<Rightarrow> VNil)"
| "dropped t v = v"
| "dropped_fields ((n, om, t) # fs) (v # vs) =
     (if om \<and> is_empty v then VNil else dropped t v) # dropped_fields fs vs"
| "dropped_fields _ _ = []"
| "dropped_elems fs [] = []"
| "dropped_elems fs (v # vs) = dropped (GStruct fs) v # dropped_elems fs vs"

lemma parse_uint64_show: "n < 2 ^ 64 \<Longrightarrow> parse_uint64 (show_nat n) = Some n"
  using show_nat_digits [of n] by (simp add: parse_uint64_def digits_val_show_nat)

lemma parse_int64_show: "- (2 ^ 63) \<le> i \<Longrightarrow> i < 2 ^ 63 \<Longrightarrow> parse_int64 (show_int i) = Some i"
proof -
  assume i: "- (2 ^ 63) \<le> i" "i < 2 ^ 63"
  show ?thesis
  proof (cases "i < 0")
    case True
    with i show_nat_digits [of "nat (- i)"] show ?thesis
      by (simp add: parse_int64_def show_int_def digits_val_show_nat Let_def)
  next
    case False
    obtain c r where c: "show_nat (nat i) = c # r" "is_digit c"
      using show_nat_digits [of "nat i"] by (cases "show_nat (nat i)") auto
    with i False show_nat_digits [of "nat i"] digit_not_minus [OF c(2)] digits_val_show_nat [of "nat i"] show ?thesis
      by (simp add: parse_int64_def show_int_def Let_def)
  qed
qed

lemma text_elems_written: "elems_of text_elem (map text_or_null xs) = Some xs"
  by (induction xs) (auto simp: text_or_null_def text_elem_def split: option.split)

lemma number_elems_written:
  "list_all elem_fits xs \<Longrightarrow> elems_of number_elem (map number_or_null xs) = Some xs"
  by (induction xs) (auto simp: number_or_null_def number_elem_def elem_fits_def parse_uint64_show split: option.splits)

lemma field_of_nth:
  assumes "distinct (map (\<lambda>f. ToLower (fst f)) fs)" "i < length fs"
  shows "field_of fs (fst (fs ! i)) = Some i"
proof -
  have "field_index (\<lambda>n. n = fst (fs ! i)) fs = Some i"
    using assms
  proof (induction fs arbitrary: i)
    case (Cons f fs)
    obtain n om t where f: "f = (n, om, t)" by (cases f)
    show ?case
    proof (cases i)
      case (Suc j)
      with Cons.prems have j: "j < length fs" by simp
      then have "fs ! j \<in> set fs" by simp
      then have "fst (fs ! j) \<noteq> n" using Cons.prems(1) f by (force simp: image_iff)
      with Cons.IH [of j] Cons.prems f j Suc show ?thesis by auto
    qed (simp add: f)
  qed simp
  then show ?thesis by (simp add: field_of_def)
qed

text \<open>The members of a struct that was written, read into the struct where they are still missing.\<close>

lemma unmarshal_members_skip:
  assumes "distinct (map (\<lambda>f. ToLower (fst f)) (fs1 @ fs2))" "length ws = length fs1" "length fs2 = length vs"
    and "\<And>i. i < length fs2 \<Longrightarrow> \<not> (fst (snd (fs2 ! i)) \<and> is_empty (vs ! i)) \<Longrightarrow>
      unmarshal (snd (snd (fs2 ! i))) VNil (marshal (snd (snd (fs2 ! i))) (vs ! i)) = Some (dropped (snd (snd (fs2 ! i))) (vs ! i))"
  shows "unmarshal_members (fs1 @ fs2) (ws @ zero fs2) (marshal_fields fs2 vs) = Some (ws @ dropped_fields fs2 vs)"
  using assms
proof (induction fs2 arbitrary: fs1 ws vs)
  case Nil
  then show ?case by (simp add: zero_def)
next
  case (Cons f fs2)
  obtain n om t where f: "f = (n, om, t)" by (cases f)
  from Cons.prems(3) obtain v vs' where vs: "vs = v # vs'" "length fs2 = length vs'" by (cases vs) auto
  let ?w = "if om \<and> is_empty v then VNil else dropped t v"
  have rest: "unmarshal_members ((fs1 @ [f]) @ fs2) ((ws @ [?w]) @ zero fs2) (marshal_fields fs2 vs') =
      Some ((ws @ [?w]) @ dropped_fields fs2 vs')"
  proof (rule Cons.IH)
    fix i assume "i < length fs2" "\<not> (fst (snd (fs2 ! i)) \<and> is_empty (vs' ! i))"
    with Cons.prems(4) [of "Suc i"] vs f
    show "unmarshal (snd (snd (fs2 ! i))) VNil (marshal (snd (snd (fs2 ! i))) (vs' ! i)) = Some (dropped (snd (snd (fs2 ! i))) (vs' ! i))"
      by simp
  qed (use Cons.prems vs in simp_all)
  have z: "zero (f # fs2) = VNil # zero fs2" by (simp add: zero_def)
  show ?case
  proof (cases "om \<and> is_empty v")
    case True
    with rest f vs z show ?thesis by simp
  next
    case False
    from field_of_nth [OF Cons.prems(1), of "length fs1"] f
    have i: "field_of (fs1 @ f # fs2) n = Some (length fs1)" by (simp add: nth_append)
    from Cons.prems(4) [of 0] False f vs have "unmarshal t VNil (marshal t v) = Some (dropped t v)" by auto
    moreover note rest [unfolded if_not_P [OF False]]
    ultimately show ?thesis
      unfolding f vs marshal_fields.simps dropped_fields.simps if_not_P [OF False]
      using f z i Cons.prems(2) by (simp add: nth_append list_update_append)
  qed
qed

lemma marshal_unmarshal:
  "typed t v \<Longrightarrow> distinct_names t \<Longrightarrow> unmarshal t VNil (marshal t v) = Some (dropped t v)"
proof (induction v arbitrary: t)
  case (VStruct vs)
  then obtain fs where fs: "t = GStruct fs" "typed_fields fs vs" by (auto split: gtype.splits)
  have "unmarshal_members ([] @ fs) ([] @ zero fs) (marshal_fields fs vs) = Some ([] @ dropped_fields fs vs)"
  proof (rule unmarshal_members_skip)
    fix i assume "i < length fs"
    with VStruct fs show "unmarshal (snd (snd (fs ! i))) VNil (marshal (snd (snd (fs ! i))) (vs ! i)) =
        Some (dropped (snd (snd (fs ! i))) (vs ! i))"
      by (intro VStruct.IH) (simp_all add: typed_fields_nth list_all_length)
  qed (use VStruct.prems fs in \<open>simp_all add: typed_fields_nth\<close>)
  with fs show ?case by simp
next
  case (VStructs vs)
  then obtain fs where fs: "t = GStructs fs" "typed_elems fs vs" by (auto split: gtype.splits)
  have "unmarshal_elems fs (marshal_elems fs vs) = Some (dropped_elems fs vs)"
    using fs(2) VStructs.IH VStructs.prems(2) unfolding fs(1)
    by (induction vs) auto
  with fs show ?case by simp
qed (auto simp: parse_uint64_show parse_int64_show parse_float_text text_elems_written number_elems_written split: gtype.splits)

section \<open>The text of a struct\<close>

lemma show_nat_writable: "writable (JLit (show_nat n))"
  using show_nat_digits [of n] digits_valid [OF _ _ show_nat_zero [of n]] by (simp add: number_chars)

lemma show_int_writable: "writable (JLit (show_int i))"
  using show_nat_digits [of "nat i"] digits_valid(1) [OF _ _ show_nat_zero [of "nat i"]]
    show_nat_digits [of "nat (- i)"] digits_valid(2) [OF _ _ show_nat_zero [of "nat (- i)"]]
  by (simp add: show_int_def number_chars) (simp add: number_char_def)

lemma marshal_writable:
  "writable (marshal t v)"
  "list_all (\<lambda>(k, j). writable j) (marshal_fields fs vs)"
  "list_all writable (marshal_elems fs ws)"
proof (induction t v and fs vs and fs ws rule: marshal_marshal_fields_marshal_elems.induct)
  case (4 t n)
  show ?case using show_nat_writable by simp
next
  case (5 t i)
  show ?case using show_int_writable by simp
next
  case (6 t f)
  show ?case using float_text_number by simp
next
  case (7 t xs)
  show ?case by (auto simp: list_all_iff text_or_null_def split: option.split)
next
  case (8 t xs)
  show ?case using show_nat_writable by (auto simp: list_all_iff number_or_null_def split: option.split)
qed (auto split: gtype.split)

text \<open>
  The methods \<open>ToJsonString\<close> and \<open>FromJsonString\<close> that every message has: \<open>json.Marshal\<close> of the struct,
  and \<open>json.Unmarshal\<close> into the struct the method is called on, with the values \<open>old\<close>. A text \<^verbatim>\<open>null\<close> only
  changes the pointer that the method has.
\<close>

definition to_json :: "fields \<Rightarrow> gval list \<Rightarrow> string" where
  "to_json fs vs = enc (JObject (marshal_fields fs vs))"

definition from_json :: "fields \<Rightarrow> gval list \<Rightarrow> string \<Rightarrow> gval list option" where
  "from_json fs old s =
     (case parse_json s of
        Some (JObject ms) \<Rightarrow> unmarshal_members fs old ms
      | Some JNull \<Rightarrow> Some old
      | _ \<Rightarrow> None)"

lemma parse_to_json: "parse_json (to_json fs vs) = Some (JObject (marshal_fields fs vs))"
  unfolding to_json_def by (rule parse_json_enc) (simp add: marshal_writable)

lemma from_to_json:
  assumes "typed_fields fs vs" "distinct_names (GStruct fs)"
  shows "from_json fs (zero fs) (to_json fs vs) = Some (dropped_fields fs vs)"
proof -
  have "unmarshal (GStruct fs) VNil (marshal (GStruct fs) (VStruct vs)) = Some (dropped (GStruct fs) (VStruct vs))"
    using assms by (intro marshal_unmarshal) simp_all
  then show ?thesis by (auto simp: from_json_def parse_to_json)
qed

lemma from_json_typed:
  assumes "typed_fields fs old" "from_json fs old s = Some vs"
  shows "typed_fields fs vs"
  using assms unmarshal_typed(2) [OF assms(1)]
  by (auto simp: from_json_def split: option.splits json.splits)

end
