(* ===== verification/CbsModels.thy ===== *)
theory CbsModels imports GoStruct begin

text \<open>
  The messages of \<^verbatim>\<open>v20170312/models.go\<close> that the driver sends and receives: for each struct the JSON
  name, the \<open>omitempty\<close> tag and the type of its fields, in their order, and for each message its two methods.
  Every field is exported and tagged with its own name; the embedded \<open>BaseRequest\<close> and \<open>BaseResponse\<close> have
  no exported fields. The lemma at the end says that no two fields of a struct differ only in case, so that
  every message is read back as it was written.
\<close>

section \<open>Messages\<close>

record message =
  msg_fields :: fields
  ToJsonString :: "gval list \<Rightarrow> string"
  FromJsonString :: "gval list \<Rightarrow> string \<Rightarrow> gval list option"

definition json_message :: "fields \<Rightarrow> message" where
  "json_message fs = \<lparr>msg_fields = fs, ToJsonString = to_json fs, FromJsonString = from_json fs\<rparr>"

lemma json_message_simps [simp]:
  "msg_fields (json_message fs) = fs" "ToJsonString (json_message fs) = to_json fs"
  "FromJsonString (json_message fs) = from_json fs"
  by (simp_all add: json_message_def)

section \<open>Structs inside the messages\<close>

definition Placement_fields :: fields where
  "Placement_fields =
     [(''Zone'', True, GStr), (''ProjectId'', True, GUint64), (''CdcId'', True, GStr),
      (''CageId'', True, GStr), (''CdcName'', True, GStr)]"

definition DiskChargePrepaid_fields :: fields where
  "DiskChargePrepaid_fields =
     [(''Period'', True, GUint64), (''RenewFlag'', True, GStr),
      (''CurInstanceDeadline'', True, GStr)]"

definition Tag_fields :: fields where
  "Tag_fields =
     [(''Key'', True, GStr), (''Value'', True, GStr)]"

definition DiskConfig_fields :: fields where
  "DiskConfig_fields =
     [(''Available'', True, GBool), (''DiskType'', True, GStr), (''DiskUsage'', True, GStr),
      (''DiskChargeType'', True, GStr), (''MaxDiskSize'', True, GUint64),
      (''MinDiskSize'', True, GUint64), (''Zone'', True, GStr),
      (''DeviceClass'', True, GStr), (''InstanceFamily'', True, GStr)]"

definition Filter_fields :: fields where
  "Filter_fields =
     [(''Name'', True, GStr), (''Values'', True, GStrs)]"

definition Disk_fields :: fields where
  "Disk_fields =
     [(''DiskId'', True, GStr), (''DiskUsage'', True, GStr),
      (''DiskChargeType'', True, GStr), (''Portable'', True, GBool),
      (''Placement'', True, GStruct Placement_fields), (''SnapshotAbility'', True, GBool),
      (''DiskName'', True, GStr), (''DiskSize'', True, GUint64), (''DiskState'', True, GStr),
      (''DiskType'', True, GStr), (''Attached'', True, GBool), (''InstanceId'', True, GStr),
      (''CreateTime'', True, GStr), (''DeadlineTime'', True, GStr),
      (''Rollbacking'', True, GBool), (''RollbackPercent'', True, GUint64),
      (''Encrypt'', True, GBool), (''AutoRenewFlagError'', True, GBool),
      (''RenewFlag'', True, GStr), (''DeadlineError'', True, GBool),
      (''IsReturnable'', True, GBool), (''ReturnFailCode'', True, GInt64),
      (''AutoSnapshotPolicyIds'', True, GStrs), (''Tags'', True, GStructs Tag_fields),
      (''DeleteWithInstance'', True, GBool), (''DifferDaysOfDeadline'', True, GInt64),
      (''Migrating'', True, GBool), (''MigratePercent'', True, GUint64),
      (''Shareable'', True, GBool), (''InstanceIdList'', True, GStrs),
      (''SnapshotCount'', True, GInt64), (''SnapshotSize'', True, GUint64),
      (''BackupDisk'', True, GBool), (''ThroughputPerformance'', True, GUint64)]"

definition AttachDetail_fields :: fields where
  "AttachDetail_fields =
     [(''InstanceId'', True, GStr), (''AttachedDiskCount'', True, GUint64),
      (''MaxAttachCount'', True, GUint64)]"

definition Image_fields :: fields where
  "Image_fields =
     [(''ImageId'', True, GStr), (''ImageName'', True, GStr)]"

definition Snapshot_fields :: fields where
  "Snapshot_fields =
     [(''SnapshotId'', True, GStr), (''Placement'', True, GStruct Placement_fields),
      (''DiskUsage'', True, GStr), (''DiskId'', True, GStr), (''DiskSize'', True, GUint64),
      (''SnapshotState'', True, GStr), (''SnapshotName'', True, GStr),
      (''Percent'', True, GUint64), (''CreateTime'', True, GStr),
      (''DeadlineTime'', True, GStr), (''Encrypt'', True, GBool),
      (''IsPermanent'', True, GBool), (''CopyingToRegions'', True, GStrs),
      (''CopyFromRemote'', True, GBool), (''Images'', True, GStructs Image_fields),
      (''ImageCount'', True, GUint64), (''SnapshotType'', True, GStr),
      (''ShareReference'', True, GUint64), (''TimeStartShare'', True, GStr)]"


section \<open>Requests and responses\<close>

definition AttachDisksRequest_message :: message where
  "AttachDisksRequest_message = json_message
     [(''DiskIds'', True, GStrs), (''InstanceId'', True, GStr),
      (''DeleteWithInstance'', True, GBool), (''InstanceType'', True, GStr)]"

definition AttachDisksResponse_message :: message where
  "AttachDisksResponse_message = json_message
     [(''Response'', False, GStruct [(''RequestId'', True, GStr)])]"

definition BindAutoSnapshotPolicyRequest_message :: message where
  "BindAutoSnapshotPolicyRequest_message = json_message
     [(''AutoSnapshotPolicyId'', True, GStr), (''DiskIds'', True, GStrs)]"

definition BindAutoSnapshotPolicyResponse_message :: message where
  "BindAutoSnapshotPolicyResponse_message = json_message
     [(''Response'', False, GStruct [(''RequestId'', True, GStr)])]"

definition CreateDisksRequest_message :: message where
  "CreateDisksRequest_message = json_message
     [(''DiskType'', True, GStr), (''DiskChargeType'', True, GStr),
      (''Placement'', True, GStruct Placement_fields), (''DiskName'', True, GStr),
      (''DiskCount'', True, GUint64),
      (''DiskChargePrepaid'', True, GStruct DiskChargePrepaid_fields),
      (''DiskSize'', True, GUint64), (''SnapshotId'', True, GStr),
      (''ClientToken'', True, GStr), (''Encrypt'', True, GStr),
      (''Tags'', True, GStructs Tag_fields), (''Shareable'', True, GBool),
      (''ThroughputPerformance'', True, GUint64)]"

definition CreateDisksResponse_message :: message where
  "CreateDisksResponse_message = json_message
     [
      (''Response'', False, GStruct [(''DiskIdSet'', True, GStrs), (''RequestId'', True, GStr)])]"

definition CreateSnapshotRequest_message :: message where
  "CreateSnapshotRequest_message = json_message
     [(''DiskId'', True, GStr), (''SnapshotName'', True, GStr), (''Deadline'', True, GStr)]"

definition CreateSnapshotResponse_message :: message where
  "CreateSnapshotResponse_message = json_message
     [
      (''Response'', False, GStruct [(''SnapshotId'', True, GStr), (''RequestId'', True, GStr)])]"

definition DeleteSnapshotsRequest_message :: message where
  "DeleteSnapshotsRequest_message = json_message
     [(''SnapshotIds'', True, GStrs)]"

definition DeleteSnapshotsResponse_message :: message where
  "DeleteSnapshotsResponse_message = json_message
     [(''Response'', False, GStruct [(''RequestId'', True, GStr)])]"

definition DescribeDiskConfigQuotaRequest_message :: message where
  "DescribeDiskConfigQuotaRequest_message = json_message
     [(''InquiryType'', True, GStr), (''Zones'', True, GStrs),
      (''DiskChargeType'', True, GStr), (''DiskTypes'', True, GStrs),
      (''DiskUsage'', True, GStr), (''InstanceFamilies'', True, GStrs),
      (''CPU'', True, GUint64), (''Memory'', True, GUint64)]"

definition DescribeDiskConfigQuotaResponse_message :: message where
  "DescribeDiskConfigQuotaResponse_message = json_message
     [
      (''Response'', False, GStruct [(''DiskConfigSet'', True, GStructs DiskConfig_fields),
      (''RequestId'', True, GStr)])]"

definition DescribeDisksRequest_message :: message where
  "DescribeDisksRequest_message = json_message
     [(''DiskIds'', True, GStrs), (''Filters'', True, GStructs Filter_fields),
      (''Offset'', True, GUint64), (''Limit'', True, GUint64), (''Order'', True, GStr),
      (''OrderField'', True, GStr), (''ReturnBindAutoSnapshotPolicy'', True, GBool)]"

definition DescribeDisksResponse_message :: message where
  "DescribeDisksResponse_message = json_message
     [
      (''Response'', False, GStruct [(''TotalCount'', True, GUint64), (''DiskSet'', True, GStructs
      Disk_fields),
      (''RequestId'', True, GStr)])]"

definition DescribeInstancesDiskNumRequest_message :: message where
  "DescribeInstancesDiskNumRequest_message = json_message
     [(''InstanceIds'', True, GStrs)]"

definition DescribeInstancesDiskNumResponse_message :: message where
  "DescribeInstancesDiskNumResponse_message = json_message
     [
      (''Response'', False, GStruct [(''AttachDetail'', True, GStructs AttachDetail_fields),
      (''RequestId'', True, GStr)])]"

definition DescribeSnapshotsRequest_message :: message where
  "DescribeSnapshotsRequest_message = json_message
     [(''SnapshotIds'', True, GStrs), (''Filters'', True, GStructs Filter_fields),
      (''Offset'', True, GUint64), (''Limit'', True, GUint64), (''Order'', True, GStr),
      (''OrderField'', True, GStr)]"

definition DescribeSnapshotsResponse_message :: message where
  "DescribeSnapshotsResponse_message = json_message
     [
      (''Response'', False, GStruct [(''TotalCount'', True, GUint64), (''SnapshotSet'', True,
      GStructs Snapshot_fields),
      (''RequestId'', True, GStr)])]"

definition DetachDisksRequest_message :: message where
  "DetachDisksRequest_message = json_message
     [(''DiskIds'', True, GStrs), (''InstanceId'', True, GStr),
      (''InstanceType'', True, GStr)]"

definition DetachDisksResponse_message :: message where
  "DetachDisksResponse_message = json_message
     [(''Response'', False, GStruct [(''RequestId'', True, GStr)])]"

definition ResizeDiskRequest_message :: message where
  "ResizeDiskRequest_message = json_message
     [(''DiskId'', True, GStr), (''DiskSize'', True, GUint64)]"

definition ResizeDiskResponse_message :: message where
  "ResizeDiskResponse_message = json_message
     [(''Response'', False, GStruct [(''RequestId'', True, GStr)])]"

definition TerminateDisksRequest_message :: message where
  "TerminateDisksRequest_message = json_message
     [(''DiskIds'', True, GStrs)]"

definition TerminateDisksResponse_message :: message where
  "TerminateDisksResponse_message = json_message
     [(''Response'', False, GStruct [(''RequestId'', True, GStr)])]"

section \<open>Every message is read back\<close>

lemmas struct_fields =
  Placement_fields_def DiskChargePrepaid_fields_def Tag_fields_def DiskConfig_fields_def
  Filter_fields_def Disk_fields_def AttachDetail_fields_def Image_fields_def Snapshot_fields_def

lemmas message_defs =
  AttachDisksRequest_message_def AttachDisksResponse_message_def
      BindAutoSnapshotPolicyRequest_message_def BindAutoSnapshotPolicyResponse_message_def
      CreateDisksRequest_message_def CreateDisksResponse_message_def
      CreateSnapshotRequest_message_def CreateSnapshotResponse_message_def
      DeleteSnapshotsRequest_message_def DeleteSnapshotsResponse_message_def
      DescribeDiskConfigQuotaRequest_message_def DescribeDiskConfigQuotaResponse_message_def
      DescribeDisksRequest_message_def DescribeDisksResponse_message_def
      DescribeInstancesDiskNumRequest_message_def DescribeInstancesDiskNumResponse_message_def
      DescribeSnapshotsRequest_message_def DescribeSnapshotsResponse_message_def
      DetachDisksRequest_message_def DetachDisksResponse_message_def ResizeDiskRequest_message_def
      ResizeDiskResponse_message_def TerminateDisksRequest_message_def
      TerminateDisksResponse_message_def

definition messages :: "message list" where
  "messages =
     [AttachDisksRequest_message, AttachDisksResponse_message,
      BindAutoSnapshotPolicyRequest_message, BindAutoSnapshotPolicyResponse_message,
      CreateDisksRequest_message, CreateDisksResponse_message, CreateSnapshotRequest_message,
      CreateSnapshotResponse_message, DeleteSnapshotsRequest_message,
      DeleteSnapshotsResponse_message, DescribeDiskConfigQuotaRequest_message,
      DescribeDiskConfigQuotaResponse_message, DescribeDisksRequest_message,
      DescribeDisksResponse_message, DescribeInstancesDiskNumRequest_message,
      DescribeInstancesDiskNumResponse_message, DescribeSnapshotsRequest_message,
      DescribeSnapshotsResponse_message, DetachDisksRequest_message, DetachDisksResponse_message,
      ResizeDiskRequest_message, ResizeDiskResponse_message, TerminateDisksRequest_message,
      TerminateDisksResponse_message]"

lemma lower_letters:
  "lower_char (CHR ''A'') = CHR ''a''" "lower_char (CHR ''B'') = CHR ''b''" "lower_char (CHR ''C'') = CHR ''c''"
  "lower_char (CHR ''D'') = CHR ''d''" "lower_char (CHR ''E'') = CHR ''e''" "lower_char (CHR ''F'') = CHR ''f''"
  "lower_char (CHR ''G'') = CHR ''g''" "lower_char (CHR ''H'') = CHR ''h''" "lower_char (CHR ''I'') = CHR ''i''"
  "lower_char (CHR ''J'') = CHR ''j''" "lower_char (CHR ''K'') = CHR ''k''" "lower_char (CHR ''L'') = CHR ''l''"
  "lower_char (CHR ''M'') = CHR ''m''" "lower_char (CHR ''N'') = CHR ''n''" "lower_char (CHR ''O'') = CHR ''o''"
  "lower_char (CHR ''P'') = CHR ''p''" "lower_char (CHR ''Q'') = CHR ''q''" "lower_char (CHR ''R'') = CHR ''r''"
  "lower_char (CHR ''S'') = CHR ''s''" "lower_char (CHR ''T'') = CHR ''t''" "lower_char (CHR ''U'') = CHR ''u''"
  "lower_char (CHR ''V'') = CHR ''v''" "lower_char (CHR ''W'') = CHR ''w''" "lower_char (CHR ''X'') = CHR ''x''"
  "lower_char (CHR ''Y'') = CHR ''y''" "lower_char (CHR ''Z'') = CHR ''z''" "lower_char (CHR ''a'') = CHR ''a''"
  "lower_char (CHR ''b'') = CHR ''b''" "lower_char (CHR ''c'') = CHR ''c''" "lower_char (CHR ''d'') = CHR ''d''"
  "lower_char (CHR ''e'') = CHR ''e''" "lower_char (CHR ''f'') = CHR ''f''" "lower_char (CHR ''g'') = CHR ''g''"
  "lower_char (CHR ''h'') = CHR ''h''" "lower_char (CHR ''i'') = CHR ''i''" "lower_char (CHR ''j'') = CHR ''j''"
  "lower_char (CHR ''k'') = CHR ''k''" "lower_char (CHR ''l'') = CHR ''l''" "lower_char (CHR ''m'') = CHR ''m''"
  "lower_char (CHR ''n'') = CHR ''n''" "lower_char (CHR ''o'') = CHR ''o''" "lower_char (CHR ''p'') = CHR ''p''"
  "lower_char (CHR ''q'') = CHR ''q''" "lower_char (CHR ''r'') = CHR ''r''" "lower_char (CHR ''s'') = CHR ''s''"
  "lower_char (CHR ''t'') = CHR ''t''" "lower_char (CHR ''u'') = CHR ''u''" "lower_char (CHR ''v'') = CHR ''v''"
  "lower_char (CHR ''w'') = CHR ''w''" "lower_char (CHR ''x'') = CHR ''x''" "lower_char (CHR ''y'') = CHR ''y''"
  "lower_char (CHR ''z'') = CHR ''z''"
  by code_simp+

lemmas name_eval = ToLower_def lower_letters

lemma message_names: "list_all (\<lambda>m. distinct_names (GStruct (msg_fields m))) messages"
  by (simp add: messages_def message_defs struct_fields name_eval)

lemma message_methods: "m \<in> set messages \<Longrightarrow> m = json_message (msg_fields m)"
  by (auto simp: messages_def message_defs)

end
