(* ===== verification/CbsClient.thy ===== *)
theory CbsClient imports CbsModels CbsTypes begin

text \<open>
  The client of the CBS API: \<^verbatim>\<open>v20170312/client.go\<close>, for the actions the driver calls, on \<open>Send\<close> of the SDK's
  \<^verbatim>\<open>common\<close> package, which posts the request as JSON and reads the response. The driver takes the method, the
  scheme and the signature of \<open>NewClientProfile\<close> as they are, so it is this way through \<open>Send\<close> that is modelled.
  The signature, the time and the nonce of a request are left out; the HTTP client is an argument.
\<close>

section \<open>The SDK below the client\<close>

record client_profile =
  Endpoint :: string
  RootDomain :: string
  Language :: string

definition NewClientProfile :: client_profile where
  "NewClientProfile = \<lparr>Endpoint = [], RootDomain = [], Language = ''zh-CN''\<rparr>"

record sdk_client =
  c_region :: string
  c_credential :: Credential
  c_profile :: client_profile

record sdk_request =
  rq_service :: string
  rq_version :: string
  rq_action :: string
  rq_message :: message
  rq_value :: "gval list"

record sdk_response =
  rs_message :: message
  rs_value :: "gval list"

text \<open>What goes over the wire; a header that is not sent is \<open>None\<close>.\<close>

record http_request =
  hr_method :: string
  hr_url :: string
  hr_host :: string
  hr_action :: string
  hr_version :: string
  hr_language :: string
  hr_region :: "string option"
  hr_token :: "string option"
  hr_content_type :: string
  hr_payload :: string

datatype http_answer =
    NetworkError string
  | ReadError string
  | Answer nat string string           \<comment> \<open>status code, status line, body\<close>

text \<open>The HTTP client, and the text of \<open>encoding/json\<close>'s error for a body.\<close>

record transport =
  http_do :: "http_request \<Rightarrow> http_answer"
  json_error :: "string \<Rightarrow> string"

definition sdk_error :: "string \<Rightarrow> string \<Rightarrow> string \<Rightarrow> ext_err" where
  "sdk_error code message requestId =
     ExtErr (ESdk code)
       (''[TencentCloudSDKError] Code='' @ code @ '', Message='' @ message @ '', RequestId='' @ requestId)"

definition domain_of :: "client_profile \<Rightarrow> string \<Rightarrow> string" where
  "domain_of p service =
     (if Endpoint p \<noteq> [] then Endpoint p
      else service @ ''.'' @ (if RootDomain p \<noteq> [] then RootDomain p else ''tencentcloudapi.com''))"

definition header :: "string \<Rightarrow> string option" where
  "header s = (if s = [] then None else Some s)"

definition http_request_of :: "sdk_client \<Rightarrow> sdk_request \<Rightarrow> http_request" where
  "http_request_of c r =
     (let domain = domain_of (c_profile c) (rq_service r) in
      \<lparr>hr_method = ''POST'', hr_url = ''https://'' @ domain @ ''/'', hr_host = domain, hr_action = rq_action r,
       hr_version = rq_version r, hr_language = Language (c_profile c), hr_region = header (c_region c),
       hr_token = header (Token (c_credential c)), hr_content_type = ''application/json'',
       hr_payload = ToJsonString (rq_message r) (rq_value r)\<rparr>)"

subsection \<open>Errors in the body\<close>

text \<open>
  The structs of \<^verbatim>\<open>common/http/response.go\<close>. Their fields are values, not pointers: what is absent or null
  reads as the empty text or 0.
\<close>

definition Error_fields :: fields where
  "Error_fields = [(''Code'', False, GStr), (''Message'', False, GStr)]"

definition ErrorResponse_inner :: fields where
  "ErrorResponse_inner = [(''Error'', True, GStruct Error_fields), (''RequestId'', False, GStr)]"

definition ErrorResponse_fields :: fields where
  "ErrorResponse_fields = [(''Response'', False, GStruct ErrorResponse_inner)]"

definition DeprecatedAPIErrorResponse_fields :: fields where
  "DeprecatedAPIErrorResponse_fields =
     [(''code'', False, GInt64), (''message'', False, GStr), (''codeDesc'', False, GStr)]"

definition get :: "fields \<Rightarrow> gval list \<Rightarrow> string \<Rightarrow> gval" where
  "get fs vs name =
     (case field_index (\<lambda>n. n = name) fs of
        Some i \<Rightarrow> if i < length vs then vs ! i else VNil
      | None \<Rightarrow> VNil)"

definition members_of :: "gval \<Rightarrow> gval list" where
  "members_of v = (case v of VStruct vs \<Rightarrow> vs | _ \<Rightarrow> [])"

definition text_of :: "gval \<Rightarrow> string" where
  "text_of v = (case v of VStr s \<Rightarrow> s | _ \<Rightarrow> [])"

definition parse_failure :: "transport \<Rightarrow> string \<Rightarrow> ext_err" where
  "parse_failure http body =
     sdk_error ''ClientError.ParseJsonError''
       (''Fail to parse json content: '' @ body @ '', because: '' @ json_error http body) []"

definition ParseErrorFromHTTPResponse :: "transport \<Rightarrow> string \<Rightarrow> ext_err option" where
  "ParseErrorFromHTTPResponse http body =
     (case from_json ErrorResponse_fields (zero ErrorResponse_fields) body of
        None \<Rightarrow> Some (parse_failure http body)
      | Some vs \<Rightarrow>
          let inner = members_of (get ErrorResponse_fields vs ''Response'');
              err = members_of (get ErrorResponse_inner inner ''Error'');
              code = text_of (get Error_fields err ''Code'')
          in if code \<noteq> []
             then Some (sdk_error code (text_of (get Error_fields err ''Message''))
                          (text_of (get ErrorResponse_inner inner ''RequestId'')))
             else case from_json DeprecatedAPIErrorResponse_fields (zero DeprecatedAPIErrorResponse_fields) body of
               None \<Rightarrow> Some (parse_failure http body)
             | Some ws \<Rightarrow>
                 if get DeprecatedAPIErrorResponse_fields ws ''code'' \<in> {VNil, VInt 0} then None
                 else Some (sdk_error (text_of (get DeprecatedAPIErrorResponse_fields ws ''codeDesc''))
                              (text_of (get DeprecatedAPIErrorResponse_fields ws ''message'')) []))"

definition ParseFromHttpResponse :: "transport \<Rightarrow> http_answer \<Rightarrow> sdk_response \<Rightarrow> ext_err + gval list" where
  "ParseFromHttpResponse http answer response =
     (case answer of
        NetworkError err \<Rightarrow> Inl (sdk_error ''ClientError.NetworkError'' (''Fail to get response because '' @ err) [])
      | ReadError err \<Rightarrow> Inl (sdk_error ''ClientError.IOError'' (''Fail to read response body because '' @ err) [])
      | Answer code status body \<Rightarrow>
          if code \<noteq> 200
          then Inl (sdk_error ''ClientError.HttpStatusCodeError''
                 (''Request fail with http status code: '' @ status @ '', with body: '' @ body) [])
          else case ParseErrorFromHTTPResponse http body of
            Some err \<Rightarrow> Inl err
          | None \<Rightarrow>
              (case FromJsonString (rs_message response) (rs_value response) body of
                 None \<Rightarrow> Inl (parse_failure http body)
               | Some vs \<Rightarrow> Inr vs))"

definition Send :: "transport \<Rightarrow> sdk_client \<Rightarrow> sdk_request \<Rightarrow> sdk_response \<Rightarrow> ext_err + gval list" where
  "Send http c request response =
     ParseFromHttpResponse http (http_do http (http_request_of c request)) response"

section \<open>The client\<close>

definition APIVersion :: string where "APIVersion = ''2017-03-12''"

definition NewClient :: "Credential \<Rightarrow> string \<Rightarrow> client_profile \<Rightarrow> sdk_client" where
  "NewClient cred region profile = \<lparr>c_region = region, c_credential = cred, c_profile = profile\<rparr>"

definition NewClientWithSecretId :: "string \<Rightarrow> string \<Rightarrow> string \<Rightarrow> sdk_client" where
  "NewClientWithSecretId secretId secretKey region =
     \<lparr>c_region = region, c_credential = \<lparr>SecretId = secretId, SecretKey = secretKey, Token = []\<rparr>,
      c_profile = NewClientProfile\<rparr>"

text \<open>
  The three functions of an action. A new request carries the names of the API and an empty struct, a
  method makes a request if it is given nil.
\<close>

definition new_request :: "string \<Rightarrow> message \<Rightarrow> sdk_request" where
  "new_request action m =
     \<lparr>rq_service = ''cbs'', rq_version = APIVersion, rq_action = action, rq_message = m, rq_value = zero (msg_fields m)\<rparr>"

definition new_response :: "message \<Rightarrow> sdk_response" where
  "new_response m = \<lparr>rs_message = m, rs_value = zero (msg_fields m)\<rparr>"

definition NewAttachDisksRequest :: sdk_request where
  "NewAttachDisksRequest = new_request ''AttachDisks'' AttachDisksRequest_message"

definition NewAttachDisksResponse :: sdk_response where
  "NewAttachDisksResponse = new_response AttachDisksResponse_message"

definition Client_AttachDisks :: "transport \<Rightarrow> sdk_client \<Rightarrow> sdk_request option \<Rightarrow> ext_err + gval list" where
  "Client_AttachDisks http c request =
     Send http c (case request of None \<Rightarrow> NewAttachDisksRequest | Some r \<Rightarrow> r) NewAttachDisksResponse"

definition NewBindAutoSnapshotPolicyRequest :: sdk_request where
  "NewBindAutoSnapshotPolicyRequest = new_request ''BindAutoSnapshotPolicy'' BindAutoSnapshotPolicyRequest_message"

definition NewBindAutoSnapshotPolicyResponse :: sdk_response where
  "NewBindAutoSnapshotPolicyResponse = new_response BindAutoSnapshotPolicyResponse_message"

definition Client_BindAutoSnapshotPolicy :: "transport \<Rightarrow> sdk_client \<Rightarrow> sdk_request option \<Rightarrow> ext_err + gval list" where
  "Client_BindAutoSnapshotPolicy http c request =
     Send http c (case request of None \<Rightarrow> NewBindAutoSnapshotPolicyRequest | Some r \<Rightarrow> r) NewBindAutoSnapshotPolicyResponse"

definition NewCreateDisksRequest :: sdk_request where
  "NewCreateDisksRequest = new_request ''CreateDisks'' CreateDisksRequest_message"

definition NewCreateDisksResponse :: sdk_response where
  "NewCreateDisksResponse = new_response CreateDisksResponse_message"

definition Client_CreateDisks :: "transport \<Rightarrow> sdk_client \<Rightarrow> sdk_request option \<Rightarrow> ext_err + gval list" where
  "Client_CreateDisks http c request =
     Send http c (case request of None \<Rightarrow> NewCreateDisksRequest | Some r \<Rightarrow> r) NewCreateDisksResponse"

definition NewCreateSnapshotRequest :: sdk_request where
  "NewCreateSnapshotRequest = new_request ''CreateSnapshot'' CreateSnapshotRequest_message"

definition NewCreateSnapshotResponse :: sdk_response where
  "NewCreateSnapshotResponse = new_response CreateSnapshotResponse_message"

definition Client_CreateSnapshot :: "transport \<Rightarrow> sdk_client \<Rightarrow> sdk_request option \<Rightarrow> ext_err + gval list" where
  "Client_CreateSnapshot http c request =
     Send http c (case request of None \<Rightarrow> NewCreateSnapshotRequest | Some r \<Rightarrow> r) NewCreateSnapshotResponse"

definition NewDeleteSnapshotsRequest :: sdk_request where
  "NewDeleteSnapshotsRequest = new_request ''DeleteSnapshots'' DeleteSnapshotsRequest_message"

definition NewDeleteSnapshotsResponse :: sdk_response where
  "NewDeleteSnapshotsResponse = new_response DeleteSnapshotsResponse_message"

definition Client_DeleteSnapshots :: "transport \<Rightarrow> sdk_client \<Rightarrow> sdk_request option \<Rightarrow> ext_err + gval list" where
  "Client_DeleteSnapshots http c request =
     Send http c (case request of None \<Rightarrow> NewDeleteSnapshotsRequest | Some r \<Rightarrow> r) NewDeleteSnapshotsResponse"

definition NewDescribeDiskConfigQuotaRequest :: sdk_request where
  "NewDescribeDiskConfigQuotaRequest = new_request ''DescribeDiskConfigQuota'' DescribeDiskConfigQuotaRequest_message"

definition NewDescribeDiskConfigQuotaResponse :: sdk_response where
  "NewDescribeDiskConfigQuotaResponse = new_response DescribeDiskConfigQuotaResponse_message"

definition Client_DescribeDiskConfigQuota :: "transport \<Rightarrow> sdk_client \<Rightarrow> sdk_request option \<Rightarrow> ext_err + gval list" where
  "Client_DescribeDiskConfigQuota http c request =
     Send http c (case request of None \<Rightarrow> NewDescribeDiskConfigQuotaRequest | Some r \<Rightarrow> r) NewDescribeDiskConfigQuotaResponse"

definition NewDescribeDisksRequest :: sdk_request where
  "NewDescribeDisksRequest = new_request ''DescribeDisks'' DescribeDisksRequest_message"

definition NewDescribeDisksResponse :: sdk_response where
  "NewDescribeDisksResponse = new_response DescribeDisksResponse_message"

definition Client_DescribeDisks :: "transport \<Rightarrow> sdk_client \<Rightarrow> sdk_request option \<Rightarrow> ext_err + gval list" where
  "Client_DescribeDisks http c request =
     Send http c (case request of None \<Rightarrow> NewDescribeDisksRequest | Some r \<Rightarrow> r) NewDescribeDisksResponse"

definition NewDescribeInstancesDiskNumRequest :: sdk_request where
  "NewDescribeInstancesDiskNumRequest = new_request ''DescribeInstancesDiskNum'' DescribeInstancesDiskNumRequest_message"

definition NewDescribeInstancesDiskNumResponse :: sdk_response where
  "NewDescribeInstancesDiskNumResponse = new_response DescribeInstancesDiskNumResponse_message"

definition Client_DescribeInstancesDiskNum :: "transport \<Rightarrow> sdk_client \<Rightarrow> sdk_request option \<Rightarrow> ext_err + gval list" where
  "Client_DescribeInstancesDiskNum http c request =
     Send http c (case request of None \<Rightarrow> NewDescribeInstancesDiskNumRequest | Some r \<Rightarrow> r) NewDescribeInstancesDiskNumResponse"

definition NewDescribeSnapshotsRequest :: sdk_request where
  "NewDescribeSnapshotsRequest = new_request ''DescribeSnapshots'' DescribeSnapshotsRequest_message"

definition NewDescribeSnapshotsResponse :: sdk_response where
  "NewDescribeSnapshotsResponse = new_response DescribeSnapshotsResponse_message"

definition Client_DescribeSnapshots :: "transport \<Rightarrow> sdk_client \<Rightarrow> sdk_request option \<Rightarrow> ext_err + gval list" where
  "Client_DescribeSnapshots http c request =
     Send http c (case request of None \<Rightarrow> NewDescribeSnapshotsRequest | Some r \<Rightarrow> r) NewDescribeSnapshotsResponse"

definition NewDetachDisksRequest :: sdk_request where
  "NewDetachDisksRequest = new_request ''DetachDisks'' DetachDisksRequest_message"

definition NewDetachDisksResponse :: sdk_response where
  "NewDetachDisksResponse = new_response DetachDisksResponse_message"

definition Client_DetachDisks :: "transport \<Rightarrow> sdk_client \<Rightarrow> sdk_request option \<Rightarrow> ext_err + gval list" where
  "Client_DetachDisks http c request =
     Send http c (case request of None \<Rightarrow> NewDetachDisksRequest | Some r \<Rightarrow> r) NewDetachDisksResponse"

definition NewResizeDiskRequest :: sdk_request where
  "NewResizeDiskRequest = new_request ''ResizeDisk'' ResizeDiskRequest_message"

definition NewResizeDiskResponse :: sdk_response where
  "NewResizeDiskResponse = new_response ResizeDiskResponse_message"

definition Client_ResizeDisk :: "transport \<Rightarrow> sdk_client \<Rightarrow> sdk_request option \<Rightarrow> ext_err + gval list" where
  "Client_ResizeDisk http c request =
     Send http c (case request of None \<Rightarrow> NewResizeDiskRequest | Some r \<Rightarrow> r) NewResizeDiskResponse"

definition NewTerminateDisksRequest :: sdk_request where
  "NewTerminateDisksRequest = new_request ''TerminateDisks'' TerminateDisksRequest_message"

definition NewTerminateDisksResponse :: sdk_response where
  "NewTerminateDisksResponse = new_response TerminateDisksResponse_message"

definition Client_TerminateDisks :: "transport \<Rightarrow> sdk_client \<Rightarrow> sdk_request option \<Rightarrow> ext_err + gval list" where
  "Client_TerminateDisks http c request =
     Send http c (case request of None \<Rightarrow> NewTerminateDisksRequest | Some r \<Rightarrow> r) NewTerminateDisksResponse"

end
