(* ===== verification/CbsWire.thy ===== *)
theory CbsWire imports CbsClient CbsDiskProps begin

text \<open>
  The calls of the controller and the node on the wire: how \<open>controller.go\<close> and \<open>node.go\<close> fill in the request
  of each call, and what the server reads from the posted JSON. The properties: the server reads exactly
  the call that the model records as an event, the controller gets the listing that the server sent, and which
  answers are errors, with which code.
\<close>

section \<open>Filling in a request\<close>

text \<open>\<open>request.Name = v\<close>\<close>

definition put :: "string \<times> gval \<Rightarrow> sdk_request \<Rightarrow> sdk_request" where
  "put nv r =
     (case field_index (\<lambda>n. n = fst nv) (msg_fields (rq_message r)) of
        Some i \<Rightarrow> r\<lparr>rq_value := (rq_value r)[i := snd nv]\<rparr>
      | None \<Rightarrow> r)"

definition StringPtrs :: "string list \<Rightarrow> gval" where
  "StringPtrs ss = VStrs (map Some ss)"

definition opt_val :: "('a \<Rightarrow> gval) \<Rightarrow> 'a option \<Rightarrow> gval" where
  "opt_val f x = (case x of None \<Rightarrow> VNil | Some a \<Rightarrow> f a)"

definition placement_value :: "Placement \<Rightarrow> gval" where
  "placement_value p = VStruct [VStr (Zone p), VUint (ProjectId p), opt_val VStr (CdcId p), VNil, VNil]"

definition prepaid_value :: "DiskChargePrepaid \<Rightarrow> gval" where
  "prepaid_value p = VStruct [VUint (Period p), VStr (RenewFlag p), VNil]"

definition tag_value :: "string \<times> string \<Rightarrow> gval" where
  "tag_value t = VStruct [VStr (fst t), VStr (snd t)]"

definition create_disks_fields :: "CreateDisksRequest \<Rightarrow> (string \<times> gval) list" where
  "create_disks_fields q =
     [(''DiskName'', VStr (cd_DiskName q)), (''ClientToken'', VStr (cd_ClientToken q)), (''DiskType'', VStr (cd_DiskType q)),
      (''DiskChargeType'', VStr (cd_DiskChargeType q)), (''DiskSize'', VUint (cd_DiskSize q)),
      (''ThroughputPerformance'', opt_val VUint (cd_ThroughputPerformance q)),
      (''DiskChargePrepaid'', opt_val prepaid_value (cd_DiskChargePrepaid q)), (''Encrypt'', opt_val VStr (cd_Encrypt q)),
      (''Placement'', placement_value (cd_Placement q)), (''SnapshotId'', opt_val VStr (cd_SnapshotId q)),
      (''Tags'', VStructs (map tag_value (cd_Tags q))), (''DiskCount'', VUint (cd_DiskCount q))]"

text \<open>The request of each call of the controller and the node.\<close>

definition describe_disks_request :: "string list \<Rightarrow> sdk_request" where
  "describe_disks_request ids = put (''DiskIds'', StringPtrs ids) NewDescribeDisksRequest"

definition create_disks_request :: "CreateDisksRequest \<Rightarrow> sdk_request" where
  "create_disks_request q = fold put (create_disks_fields q) NewCreateDisksRequest"

definition terminate_disks_request :: "string list \<Rightarrow> sdk_request" where
  "terminate_disks_request ids = put (''DiskIds'', StringPtrs ids) NewTerminateDisksRequest"

definition attach_disks_request :: "string list \<Rightarrow> string \<Rightarrow> string option \<Rightarrow> sdk_request" where
  "attach_disks_request ids inst ty =
     fold put [(''DiskIds'', StringPtrs ids), (''InstanceId'', VStr inst), (''InstanceType'', opt_val VStr ty)]
       NewAttachDisksRequest"

definition detach_disks_request :: "string list \<Rightarrow> string option \<Rightarrow> sdk_request" where
  "detach_disks_request ids ty =
     fold put [(''DiskIds'', StringPtrs ids), (''InstanceType'', opt_val VStr ty)] NewDetachDisksRequest"

definition resize_disk_request :: "string \<Rightarrow> nat \<Rightarrow> sdk_request" where
  "resize_disk_request d sz = fold put [(''DiskId'', VStr d), (''DiskSize'', VUint sz)] NewResizeDiskRequest"

definition bind_policy_request :: "string \<Rightarrow> string list \<Rightarrow> sdk_request" where
  "bind_policy_request p ids =
     fold put [(''AutoSnapshotPolicyId'', VStr p), (''DiskIds'', StringPtrs ids)] NewBindAutoSnapshotPolicyRequest"

definition quota_request :: "string \<Rightarrow> string \<Rightarrow> sdk_request" where
  "quota_request zone paymode =
     fold put [(''InquiryType'', VStr ''INQUIRY_CBS_CONFIG''), (''Zones'', StringPtrs [zone]), (''DiskChargeType'', VStr paymode)]
       NewDescribeDiskConfigQuotaRequest"

definition disk_num_request :: "string list \<Rightarrow> sdk_request" where
  "disk_num_request ids = put (''InstanceIds'', StringPtrs ids) NewDescribeInstancesDiskNumRequest"

definition describe_snapshots_request :: "string list \<Rightarrow> sdk_request" where
  "describe_snapshots_request ids = put (''SnapshotIds'', StringPtrs ids) NewDescribeSnapshotsRequest"

definition create_snapshot_request :: "string \<Rightarrow> string \<Rightarrow> sdk_request" where
  "create_snapshot_request d name = fold put [(''DiskId'', VStr d), (''SnapshotName'', VStr name)] NewCreateSnapshotRequest"

definition delete_snapshots_request :: "string list \<Rightarrow> sdk_request" where
  "delete_snapshots_request ids = put (''SnapshotIds'', StringPtrs ids) NewDeleteSnapshotsRequest"

text \<open>The calls of the history that go to this client; the others go to clients of other packages.\<close>

fun request_of :: "cbs_event \<Rightarrow> sdk_request option" where
  "request_of (DescribeDisks ids) = Some (describe_disks_request ids)"
| "request_of (CreateDisks q) = Some (create_disks_request q)"
| "request_of (TerminateDisks ids) = Some (terminate_disks_request ids)"
| "request_of (AttachDisks ids inst ty) = Some (attach_disks_request ids inst ty)"
| "request_of (DetachDisks ids ty) = Some (detach_disks_request ids ty)"
| "request_of (ResizeDisk d sz) = Some (resize_disk_request d sz)"
| "request_of (BindAutoSnapshotPolicy p ids) = Some (bind_policy_request p ids)"
| "request_of (DescribeDiskConfigQuota zone paymode) = Some (quota_request zone paymode)"
| "request_of (DescribeInstancesDiskNum ids) = Some (disk_num_request ids)"
| "request_of (DescribeSnapshots ids) = Some (describe_snapshots_request ids)"
| "request_of (CreateSnapshotCall d name) = Some (create_snapshot_request d name)"
| "request_of (DeleteSnapshotsCall ids) = Some (delete_snapshots_request ids)"
| "request_of _ = None"

lemmas new_requests =
  NewAttachDisksRequest_def NewBindAutoSnapshotPolicyRequest_def NewCreateDisksRequest_def NewCreateSnapshotRequest_def
  NewDeleteSnapshotsRequest_def NewDescribeDiskConfigQuotaRequest_def NewDescribeDisksRequest_def
  NewDescribeInstancesDiskNumRequest_def NewDescribeSnapshotsRequest_def NewDetachDisksRequest_def
  NewResizeDiskRequest_def NewTerminateDisksRequest_def describe_disks_request_def create_disks_request_def
  terminate_disks_request_def attach_disks_request_def detach_disks_request_def resize_disk_request_def
  bind_policy_request_def quota_request_def disk_num_request_def describe_snapshots_request_def create_snapshot_request_def
  delete_snapshots_request_def

section \<open>What the server reads\<close>

definition text_opt :: "gval \<Rightarrow> string option" where
  "text_opt v = (case v of VStr s \<Rightarrow> Some s | _ \<Rightarrow> None)"

definition uint_opt :: "gval \<Rightarrow> nat option" where
  "uint_opt v = (case v of VUint n \<Rightarrow> Some n | _ \<Rightarrow> None)"

definition uint_of :: "gval \<Rightarrow> nat" where
  "uint_of v = (case v of VUint n \<Rightarrow> n | _ \<Rightarrow> 0)"

definition texts_of :: "gval \<Rightarrow> string list" where
  "texts_of v = (case v of VStrs xs \<Rightarrow> map the xs | _ \<Rightarrow> [])"

definition placement_of :: "gval \<Rightarrow> Placement" where
  "placement_of v =
     (let f = get Placement_fields (members_of v)
      in \<lparr>Zone = text_of (f ''Zone''), ProjectId = uint_of (f ''ProjectId''), CdcId = text_opt (f ''CdcId'')\<rparr>)"

definition prepaid_of :: "gval \<Rightarrow> DiskChargePrepaid option" where
  "prepaid_of v =
     (case v of
        VStruct vs \<Rightarrow>
          Some \<lparr>Period = uint_of (get DiskChargePrepaid_fields vs ''Period''),
                RenewFlag = text_of (get DiskChargePrepaid_fields vs ''RenewFlag'')\<rparr>
      | _ \<Rightarrow> None)"

definition tags_of :: "gval \<Rightarrow> (string \<times> string) list" where
  "tags_of v =
     (case v of
        VStructs ts \<Rightarrow>
          map (\<lambda>t. (text_of (get Tag_fields (members_of t) ''Key''), text_of (get Tag_fields (members_of t) ''Value''))) ts
      | _ \<Rightarrow> [])"

text \<open>The call that an action and the struct of its request stand for.\<close>

definition event_of :: "string \<Rightarrow> fields \<Rightarrow> gval list \<Rightarrow> cbs_event option" where
  "event_of action fs vs =
     (let f = get fs vs in
      if action = ''DescribeDisks'' then Some (DescribeDisks (texts_of (f ''DiskIds'')))
      else if action = ''CreateDisks'' then
        Some (CreateDisks
          \<lparr>cd_DiskType = text_of (f ''DiskType''), cd_DiskChargeType = text_of (f ''DiskChargeType''),
           cd_Placement = placement_of (f ''Placement''), cd_DiskName = text_of (f ''DiskName''),
           cd_DiskCount = uint_of (f ''DiskCount''), cd_DiskChargePrepaid = prepaid_of (f ''DiskChargePrepaid''),
           cd_DiskSize = uint_of (f ''DiskSize''), cd_SnapshotId = text_opt (f ''SnapshotId''),
           cd_ClientToken = text_of (f ''ClientToken''), cd_Encrypt = text_opt (f ''Encrypt''), cd_Tags = tags_of (f ''Tags''),
           cd_ThroughputPerformance = uint_opt (f ''ThroughputPerformance'')\<rparr>)
      else if action = ''TerminateDisks'' then Some (TerminateDisks (texts_of (f ''DiskIds'')))
      else if action = ''AttachDisks'' then
        Some (AttachDisks (texts_of (f ''DiskIds'')) (text_of (f ''InstanceId'')) (text_opt (f ''InstanceType'')))
      else if action = ''DetachDisks'' then
        Some (DetachDisks (texts_of (f ''DiskIds'')) (text_opt (f ''InstanceType'')))
      else if action = ''ResizeDisk'' then Some (ResizeDisk (text_of (f ''DiskId'')) (uint_of (f ''DiskSize'')))
      else if action = ''BindAutoSnapshotPolicy'' then
        Some (BindAutoSnapshotPolicy (text_of (f ''AutoSnapshotPolicyId'')) (texts_of (f ''DiskIds'')))
      else if action = ''DescribeDiskConfigQuota'' then
        Some (DescribeDiskConfigQuota (concat (texts_of (f ''Zones''))) (text_of (f ''DiskChargeType'')))
      else if action = ''DescribeInstancesDiskNum'' then Some (DescribeInstancesDiskNum (texts_of (f ''InstanceIds'')))
      else if action = ''DescribeSnapshots'' then Some (DescribeSnapshots (texts_of (f ''SnapshotIds'')))
      else if action = ''CreateSnapshot'' then
        Some (CreateSnapshotCall (text_of (f ''DiskId'')) (text_of (f ''SnapshotName'')))
      else if action = ''DeleteSnapshots'' then Some (DeleteSnapshotsCall (texts_of (f ''SnapshotIds'')))
      else None)"

text \<open>Numbers that fit their fields.\<close>

definition fits_placement :: "CreateDisksRequest \<Rightarrow> bool" where
  "fits_placement q \<longleftrightarrow>
     cd_DiskCount q < 2 ^ 64 \<and> cd_DiskSize q < 2 ^ 64 \<and> ProjectId (cd_Placement q) < 2 ^ 64 \<and>
     (case cd_DiskChargePrepaid q of None \<Rightarrow> True | Some p \<Rightarrow> Period p < 2 ^ 64) \<and>
     (case cd_ThroughputPerformance q of None \<Rightarrow> True | Some n \<Rightarrow> n < 2 ^ 64)"

fun fits :: "cbs_event \<Rightarrow> bool" where
  "fits (CreateDisks q) = fits_placement q"
| "fits (ResizeDisk d sz) = (sz < 2 ^ 64)"
| "fits _ = True"

lemma is_empty_simps:
  "\<not> is_empty (VStr s)" "\<not> is_empty (VUint n)" "is_empty VNil" "\<not> is_empty (VStruct vs)"
  by (simp_all add: is_empty_def)

text \<open>The fields that may be missing.\<close>

lemma opt_val_fields:
  "typed GStr (opt_val VStr x)"
  "typed GUint64 (opt_val VUint n) \<longleftrightarrow> (case n of None \<Rightarrow> True | Some k \<Rightarrow> k < 2 ^ 64)"
  "typed (GStruct DiskChargePrepaid_fields) (opt_val prepaid_value p) \<longleftrightarrow> (case p of None \<Rightarrow> True | Some k \<Rightarrow> Period k < 2 ^ 64)"
  "(if is_empty (opt_val VStr x) then VNil else dropped t (opt_val VStr x)) = opt_val VStr x"
  "(if is_empty (opt_val VUint n) then VNil else dropped t (opt_val VUint n)) = opt_val VUint n"
  "(if is_empty (opt_val prepaid_value p) then VNil else dropped (GStruct DiskChargePrepaid_fields) (opt_val prepaid_value p)) =
     opt_val prepaid_value p"
  "text_opt (opt_val VStr x) = x" "uint_opt (opt_val VUint n) = n" "prepaid_of (opt_val prepaid_value p) = p"
  by (auto simp: opt_val_def prepaid_value_def prepaid_of_def DiskChargePrepaid_fields_def get_def text_of_def uint_of_def
      text_opt_def uint_opt_def is_empty_def split: option.split)

lemmas wire_defs =
  new_requests new_request_def put_def zero_def event_of_def get_def StringPtrs_def
  texts_of_def text_of_def uint_of_def comp_def is_empty_def

text \<open>The fields of a request as they come out of its text.\<close>

lemma typed_tags: "typed_elems Tag_fields (map tag_value ts)"
  by (induction ts) (auto simp: tag_value_def Tag_fields_def)

lemma dropped_tags: "dropped_elems Tag_fields (map tag_value ts) = map tag_value ts"
  by (induction ts) (auto simp: tag_value_def Tag_fields_def is_empty_def)

lemma placement_fields:
  "typed (GStruct Placement_fields) (placement_value p) \<longleftrightarrow> ProjectId p < 2 ^ 64"
  "dropped (GStruct Placement_fields) (placement_value p) = placement_value p" "\<not> is_empty (placement_value p)"
  "placement_of (placement_value p) = p"
  by (auto simp: placement_value_def placement_of_def Placement_fields_def opt_val_def is_empty_def get_def members_of_def
      text_of_def uint_of_def text_opt_def split: option.split)

lemma tag_fields:
  "typed (GStructs Tag_fields) (VStructs (map tag_value ts))"
  "tags_of (if is_empty (VStructs (map tag_value ts)) then VNil else dropped (GStructs Tag_fields) (VStructs (map tag_value ts))) = ts"
  using typed_tags [of ts] dropped_tags [of ts]
  by (auto simp: tags_of_def tag_value_def is_empty_def members_of_def get_def text_of_def Tag_fields_def comp_def)

lemma create_request_well_formed:
  assumes "fits_placement q"
  shows "let r = create_disks_request q in
    typed_fields (msg_fields (rq_message r)) (rq_value r) \<and>
    event_of (rq_action r) (msg_fields (rq_message r)) (dropped_fields (msg_fields (rq_message r)) (rq_value r)) = Some (CreateDisks q)"
proof -
  let ?r = "create_disks_request q"
  let ?fs = "msg_fields CreateDisksRequest_message"
  have m: "rq_message ?r = CreateDisksRequest_message" "rq_action ?r = ''CreateDisks''"
    by (simp_all add: new_requests new_request_def put_def create_disks_fields_def CreateDisksRequest_message_def)
  have v: "rq_value ?r = [VStr (cd_DiskType q), VStr (cd_DiskChargeType q), placement_value (cd_Placement q),
      VStr (cd_DiskName q), VUint (cd_DiskCount q), opt_val prepaid_value (cd_DiskChargePrepaid q), VUint (cd_DiskSize q),
      opt_val VStr (cd_SnapshotId q), VStr (cd_ClientToken q), opt_val VStr (cd_Encrypt q), VStructs (map tag_value (cd_Tags q)),
      VNil, opt_val VUint (cd_ThroughputPerformance q)]"
    by (simp add: new_requests new_request_def put_def create_disks_fields_def CreateDisksRequest_message_def zero_def)
  have t: "typed_fields ?fs (rq_value ?r)"
    unfolding v using assms
    by (simp add: CreateDisksRequest_message_def opt_val_fields placement_fields tag_fields fits_placement_def
        del: typed.simps(10))
  let ?tags = "VStructs (map tag_value (cd_Tags q))"
  have d: "dropped_fields ?fs (rq_value ?r) = (rq_value ?r)[10 :=
      if is_empty ?tags then VNil else dropped (GStructs Tag_fields) ?tags]"
    unfolding v by (simp add: CreateDisksRequest_message_def opt_val_fields placement_fields is_empty_simps)
  have "event_of ''CreateDisks'' ?fs (dropped_fields ?fs (rq_value ?r)) = Some (CreateDisks q)"
    unfolding d unfolding v
    by (simp add: event_of_def get_def CreateDisksRequest_message_def opt_val_fields placement_fields tag_fields
        text_of_def uint_of_def)
  with m t show ?thesis by (simp add: Let_def)
qed

lemma request_well_formed:
  assumes "request_of e = Some r" "fits e"
  shows "typed_fields (msg_fields (rq_message r)) (rq_value r) \<and>
    event_of (rq_action r) (msg_fields (rq_message r)) (dropped_fields (msg_fields (rq_message r)) (rq_value r)) = Some e"
  using assms
proof (cases e)
  case (CreateDisks q)
  with assms create_request_well_formed [of q] show ?thesis by (auto simp: Let_def)
qed (use assms in \<open>auto simp: wire_defs message_defs opt_val_def text_opt_def split: option.split\<close>)

lemma request_sent:
  assumes "request_of e = Some r"
  shows "rq_message r \<in> set messages \<and> rq_service r = ''cbs'' \<and> rq_version r = APIVersion"
proof -
  have put: "rq_message (put nv q) = rq_message q" "rq_service (put nv q) = rq_service q" "rq_version (put nv q) = rq_version q"
    for nv q by (simp_all add: put_def split: option.split)
  have puts: "rq_message (fold put nvs q) = rq_message q" "rq_service (fold put nvs q) = rq_service q"
    "rq_version (fold put nvs q) = rq_version q" for nvs q by (induction nvs arbitrary: q) (simp_all add: put)
  have "\<exists>a m. m \<in> set messages \<and> rq_message r = rq_message (new_request a m) \<and> rq_service r = rq_service (new_request a m) \<and>
      rq_version r = rq_version (new_request a m)"
    using assms
    by (cases e; fastforce simp: new_requests new_request_def messages_def put puts simp del: fold_simps)
  then show ?thesis by (auto simp: new_request_def)
qed

section \<open>Properties\<close>

definition ascii :: "string \<Rightarrow> bool" where
  "ascii s \<longleftrightarrow> list_all (\<lambda>c. of_char c < (128::nat)) s"

text \<open>
  C17. What the cloud is asked is what the model records. The request that a call is sent as is a POST to the
  CBS endpoint with the version of the API; and the server that reads its body into the request's struct gets
  exactly the call: the ids, the sizes, the options that are set, and none of those that are not.
\<close>

theorem request_on_the_wire:
  assumes "request_of e = Some r" "fits e" "ascii (hr_payload (http_request_of c r))"
  shows "hr_method (http_request_of c r) = ''POST'' \<and> hr_version (http_request_of c r) = ''2017-03-12'' \<and>
    hr_host (http_request_of c r) = domain_of (c_profile c) ''cbs'' \<and>
    (\<exists>vs. FromJsonString (rq_message r) (zero (msg_fields (rq_message r))) (hr_payload (http_request_of c r)) = Some vs \<and>
       event_of (hr_action (http_request_of c r)) (msg_fields (rq_message r)) vs = Some e)"
proof -
  let ?fs = "msg_fields (rq_message r)"
  from request_sent [OF assms(1)] have m: "rq_message r \<in> set messages" "rq_service r = ''cbs''" "rq_version r = APIVersion" by auto
  from message_methods [OF m(1)] have j: "ToJsonString (rq_message r) = to_json ?fs" "FromJsonString (rq_message r) = from_json ?fs"
    by (metis json_message_simps(2), metis json_message_simps(3))
  from message_names m(1) have "distinct_names (GStruct ?fs)" by (simp add: list_all_iff)
  from from_to_json [OF _ this] request_well_formed [OF assms(1,2)]
  have "from_json ?fs (zero ?fs) (to_json ?fs (rq_value r)) = Some (dropped_fields ?fs (rq_value r))" by blast
  with request_well_formed [OF assms(1,2)] m(2,3) j show ?thesis
    by (simp add: http_request_of_def Let_def APIVersion_def)
qed

theorem request_on_the_wire_witness:
  "\<exists>r. request_of (AttachDisks [''disk-a''] ''ins-1'' None) = Some r \<and>
     (\<exists>vs. FromJsonString (rq_message r) (zero (msg_fields (rq_message r)))
          (hr_payload (http_request_of (NewClientWithSecretId ''id'' ''key'' ''ap-1'') r)) = Some vs \<and>
        event_of ''AttachDisks'' (msg_fields (rq_message r)) vs = Some (AttachDisks [''disk-a''] ''ins-1'' None))"
proof -
  let ?e = "AttachDisks [''disk-a''] ''ins-1'' None"
  let ?c = "NewClientWithSecretId ''id'' ''key'' ''ap-1''"
  obtain r where r: "request_of ?e = Some r" by simp
  then have a: "rq_action r = ''AttachDisks''" by (auto simp: new_requests new_request_def put_def split: option.splits)
  have "ascii (hr_payload (http_request_of ?c (the (request_of ?e))))" by code_simp
  with request_on_the_wire [OF r, of ?c] r have "\<exists>vs. FromJsonString (rq_message r) (zero (msg_fields (rq_message r)))
      (hr_payload (http_request_of ?c r)) = Some vs \<and>
      event_of (hr_action (http_request_of ?c r)) (msg_fields (rq_message r)) vs = Some ?e" by simp
  with r a show ?thesis by (intro exI [of _ r]) (simp add: http_request_of_def Let_def)
qed

section \<open>Listings and errors\<close>

text \<open>The disks of a response, with the fields the driver looks at; a null pointer is a disk without any.\<close>

definition disk_of :: "gval \<Rightarrow> Disk" where
  "disk_of v =
     (let f = get Disk_fields (members_of v)
      in \<lparr>DiskId = text_opt (f ''DiskId''), DiskSize = uint_opt (f ''DiskSize''), DiskState = text_opt (f ''DiskState''),
          InstanceId = text_opt (f ''InstanceId'')\<rparr>)"

definition DescribeDisksResponse_inner :: fields where
  "DescribeDisksResponse_inner =
     (case msg_fields DescribeDisksResponse_message ! 0 of (_, _, GStruct fs) \<Rightarrow> fs | _ \<Rightarrow> [])"

definition disks_of :: "gval list \<Rightarrow> Disk list" where
  "disks_of vs =
     (case get DescribeDisksResponse_inner (members_of (get (msg_fields DescribeDisksResponse_message) vs ''Response'')) ''DiskSet'' of
        VStructs ds \<Rightarrow> map disk_of ds
      | _ \<Rightarrow> [])"

text \<open>A server that lists disks, with these fields of each.\<close>

definition disk_value :: "Disk \<Rightarrow> gval" where
  "disk_value d =
     VStruct ((zero Disk_fields)[0 := opt_val VStr (DiskId d), 7 := opt_val VUint (DiskSize d), 8 := opt_val VStr (DiskState d),
       11 := opt_val VStr (InstanceId d)])"

definition listing_value :: "Disk list \<Rightarrow> string \<Rightarrow> gval list" where
  "listing_value ds rid = [VStruct [VUint (length ds), VStructs (map disk_value ds), VStr rid]]"

definition listing_body :: "Disk list \<Rightarrow> string \<Rightarrow> string" where
  "listing_body ds rid = to_json (msg_fields DescribeDisksResponse_message) (listing_value ds rid)"

lemma inner_fields: "DescribeDisksResponse_inner = [(''TotalCount'', True, GUint64), (''DiskSet'', True, GStructs Disk_fields), (''RequestId'', True, GStr)]"
  by (simp add: DescribeDisksResponse_inner_def DescribeDisksResponse_message_def)

lemma disk_value_fields:
  "typed (GStruct Disk_fields) (disk_value d) \<longleftrightarrow> (case DiskSize d of None \<Rightarrow> True | Some n \<Rightarrow> n < 2 ^ 64)"
  "dropped (GStruct Disk_fields) (disk_value d) = disk_value d" "disk_of (disk_value d) = d"
  by (simp_all add: disk_value_def zero_def Disk_fields_def opt_val_fields is_empty_simps disk_of_def get_def members_of_def)

text \<open>An answer with a listing has no error in it.\<close>

lemmas error_defs =
  ErrorResponse_fields_def ErrorResponse_inner_def Error_fields_def DeprecatedAPIErrorResponse_fields_def
  field_of_def name_eval zero_def get_def members_of_def text_of_def

lemma listing_no_error: "ParseErrorFromHTTPResponse http (listing_body ds rid) = None"
  by (simp add: ParseErrorFromHTTPResponse_def from_json_def listing_body_def listing_value_def parse_to_json
      DescribeDisksResponse_message_def error_defs is_empty_simps Let_def)

lemma typed_listing:
  assumes "\<forall>d\<in>set ds. \<forall>n. DiskSize d = Some n \<longrightarrow> n < 2 ^ 64"
  shows "typed_elems Disk_fields (map disk_value ds)" "dropped_elems Disk_fields (map disk_value ds) = map disk_value ds"
  using assms by (induction ds) (simp_all add: disk_value_fields split: option.split)

text \<open>
  C18. What the cloud lists is what the controller works on: when the server answers a call of
  \<open>DescribeDisks\<close> with the JSON of a listing, the client returns the same disks, with the ids, sizes, states
  and instances they have, and without those they have not.
\<close>

theorem listing_on_the_wire:
  assumes "http_do http (http_request_of c (case q of None \<Rightarrow> NewDescribeDisksRequest | Some r \<Rightarrow> r)) =
      Answer 200 status (listing_body ds rid)"
    and "ascii (listing_body ds rid)" "length ds < 2 ^ 64" "\<forall>d\<in>set ds. \<forall>n. DiskSize d = Some n \<longrightarrow> n < 2 ^ 64"
  shows "\<exists>vs. Client_DescribeDisks http c q = Inr vs \<and> disks_of vs = ds"
proof -
  let ?fs = "msg_fields DescribeDisksResponse_message"
  let ?vs = "dropped_fields ?fs (listing_value ds rid)"
  have "distinct_names (GStruct ?fs)" using message_names by (simp add: list_all_iff messages_def)
  moreover have "typed_fields ?fs (listing_value ds rid)"
    using assms(3) typed_listing [OF assms(4)] by (simp add: DescribeDisksResponse_message_def listing_value_def)
  ultimately have "from_json ?fs (zero ?fs) (listing_body ds rid) = Some ?vs"
    unfolding listing_body_def by (intro from_to_json)
  moreover have "from_json ?fs = FromJsonString DescribeDisksResponse_message" by (simp add: DescribeDisksResponse_message_def)
  ultimately have "Client_DescribeDisks http c q = Inr ?vs"
    using assms(1) by (simp add: Client_DescribeDisks_def Send_def ParseFromHttpResponse_def listing_no_error
        NewDescribeDisksResponse_def new_response_def)
  moreover have "disks_of ?vs = ds"
    using typed_listing [OF assms(4)]
    by (simp add: disks_of_def inner_fields listing_value_def DescribeDisksResponse_message_def get_def members_of_def
        is_empty_simps disk_value_fields is_empty_def comp_def)
  ultimately show ?thesis by blast
qed

theorem listing_on_the_wire_witness:
  "\<exists>vs. Client_DescribeDisks
       \<lparr>http_do = (\<lambda>_. Answer 200 ''200 OK''
          (listing_body [\<lparr>DiskId = Some ''disk-a'', DiskSize = Some 10, DiskState = None, InstanceId = None\<rparr>] ''r'')),
        json_error = (\<lambda>_. [])\<rparr> (NewClientWithSecretId ''id'' ''key'' ''ap-1'') None = Inr vs \<and>
     disks_of vs = [\<lparr>DiskId = Some ''disk-a'', DiskSize = Some 10, DiskState = None, InstanceId = None\<rparr>]"
proof (rule listing_on_the_wire)
  show "ascii (listing_body [\<lparr>DiskId = Some ''disk-a'', DiskSize = Some 10, DiskState = None, InstanceId = None\<rparr>] ''r'')"
    by code_simp
qed simp_all

text \<open>A server that answers with an error.\<close>

definition error_body :: "string \<Rightarrow> string \<Rightarrow> string \<Rightarrow> string" where
  "error_body code message rid =
     to_json ErrorResponse_fields [VStruct [VStruct [VStr code, VStr message], VStr rid]]"

text \<open>
  C20. An error of the API reaches the code that asks for it: when the server answers with an error, the
  call fails with that code and message, whatever the action, and \<open>GetTencentSdkErrCode\<close> gives the code.
\<close>

theorem api_error_reported:
  assumes "http_do http (http_request_of c r) = Answer 200 status (error_body code message rid)" "code \<noteq> []"
    and "ascii (error_body code message rid)"
  shows "Send http c r response = Inl (sdk_error code message rid) \<and>
    GetTencentSdkErrCode (sdk_error code message rid) = ''SDKErr.'' @ code"
  using assms(1,2)
  by (simp add: Send_def ParseFromHttpResponse_def ParseErrorFromHTTPResponse_def error_body_def from_json_def parse_to_json
      error_defs is_empty_simps Let_def GetTencentSdkErrCode_def sdk_error_def)

theorem api_error_reported_witness:
  "Send \<lparr>http_do = (\<lambda>_. Answer 200 ''200 OK'' (error_body ''ResourceBusy'' ''try later'' ''r'')), json_error = (\<lambda>_. [])\<rparr>
     (NewClientWithSecretId ''id'' ''key'' ''ap-1'') NewAttachDisksRequest NewAttachDisksResponse =
   Inl (sdk_error ''ResourceBusy'' ''try later'' ''r'')"
proof -
  have "ascii (error_body ''ResourceBusy'' ''try later'' ''r'')" by code_simp
  from api_error_reported [OF _ _ this] show ?thesis by simp
qed

text \<open>
  C21. Deleting a volume whose id names no disk asks for all of them: the empty list of ids is left out of the
  JSON, so the listing has no filter, and if it shows any disk of the account, \<open>TerminateDisks\<close> is called, again
  without ids.
\<close>

theorem delete_unnamed_lists_all:
  assumes "volumeId \<noteq> []" "diskIdList volumeId = []" "on_DescribeDisks env h [] = Inr (d # ds)"
    and "request_of (DescribeDisks []) = Some q" "request_of (TerminateDisks []) = Some t"
  shows "api_calls (snd (DeleteVolume env volumeId h)) = TerminateDisks [] # DescribeDisks [] # api_calls h \<and>
    hr_payload (http_request_of c q) = ''{}'' \<and> hr_payload (http_request_of c t) = ''{}''"
proof -
  have "api_calls (snd (DeleteVolume env volumeId h)) = TerminateDisks [] # DescribeDisks [] # api_calls h"
    using assms(1-3) by (auto simp: DeleteVolume_def describeDisks_Inr Let_def split: option.split)
  moreover have "hr_payload (http_request_of c q) = ''{}''" "hr_payload (http_request_of c t) = ''{}''"
    using assms(4,5) by (auto simp: http_request_of_def Let_def wire_defs message_defs to_json_def)
  ultimately show ?thesis by blast
qed

definition account_cloud :: cbs_env where
  "account_cloud = (small_cloud None)\<lparr>on_DescribeDisks :=
     (\<lambda>h ids. Inr [\<lparr>DiskId = Some ''disk-a'', DiskSize = Some 10, DiskState = Some StatusAttached, InstanceId = Some ''ins-1''\<rparr>])\<rparr>"

theorem delete_unnamed_lists_all_witness:
  "api_calls (snd (DeleteVolume account_cloud ''vol-1'' [])) = [TerminateDisks [], DescribeDisks []]"
proof -
  have v: "diskIdList ''vol-1'' = []" by code_simp
  obtain d ds where d: "on_DescribeDisks account_cloud [] [] = Inr (d # ds)" by (simp add: account_cloud_def)
  from delete_unnamed_lists_all [OF _ v d] show ?thesis by simp
qed

end
