(* ===== verification/CbsPrices.thy ===== *)
theory CbsPrices imports CbsClient begin

text \<open>
  The actions of \<^verbatim>\<open>v20170312/client.go\<close> whose responses have floating-point numbers: the prices of disks
  and the overview of the snapshots, with their messages in \<^verbatim>\<open>v20170312/models.go\<close>. The driver calls none of
  them. The lemmas at the end of each part say that the fields can be told apart and that the requests go to
  the same API.
\<close>

section \<open>Structs inside the messages\<close>

definition Price_fields :: fields where
  "Price_fields =
     [(''OriginalPrice'', True, GFloat64), (''DiscountPrice'', True, GFloat64),
      (''UnitPrice'', True, GFloat64), (''ChargeUnit'', True, GStr),
      (''UnitPriceDiscount'', True, GFloat64), (''OriginalPriceHigh'', True, GStr),
      (''DiscountPriceHigh'', True, GStr), (''UnitPriceHigh'', True, GStr),
      (''UnitPriceDiscountHigh'', True, GStr)]"

definition PrepayPrice_fields :: fields where
  "PrepayPrice_fields =
     [(''OriginalPrice'', True, GFloat64), (''DiscountPrice'', True, GFloat64),
      (''OriginalPriceHigh'', True, GStr), (''DiscountPriceHigh'', True, GStr),
      (''UnitPrice'', True, GFloat64), (''ChargeUnit'', True, GStr),
      (''UnitPriceDiscount'', True, GFloat64), (''UnitPriceHigh'', True, GStr),
      (''UnitPriceDiscountHigh'', True, GStr)]"

lemmas price_fields = Price_fields_def PrepayPrice_fields_def

section \<open>Messages\<close>

definition GetSnapOverviewRequest_message :: message where
  "GetSnapOverviewRequest_message = json_message
     []"

definition GetSnapOverviewResponse_message :: message where
  "GetSnapOverviewResponse_message = json_message
     [(''Response'', False, GStruct
      [(''TotalSize'', True, GFloat64), (''RealTradeSize'', True, GFloat64),
      (''FreeQuota'', True, GFloat64), (''TotalNums'', True, GInt64),
      (''RequestId'', True, GStr)])]"

definition InquirePriceModifyDiskExtraPerformanceRequest_message :: message where
  "InquirePriceModifyDiskExtraPerformanceRequest_message = json_message
     [(''DiskId'', True, GStr), (''ThroughputPerformance'', True, GUint64)]"

definition InquirePriceModifyDiskExtraPerformanceResponse_message :: message where
  "InquirePriceModifyDiskExtraPerformanceResponse_message = json_message
     [(''Response'', False, GStruct
      [(''DiskPrice'', True, GStruct Price_fields), (''RequestId'', True, GStr)])]"

definition InquiryPriceCreateDisksRequest_message :: message where
  "InquiryPriceCreateDisksRequest_message = json_message
     [(''DiskType'', True, GStr), (''DiskSize'', True, GUint64),
      (''DiskChargeType'', True, GStr),
      (''DiskChargePrepaid'', True, GStruct DiskChargePrepaid_fields),
      (''DiskCount'', True, GUint64), (''ProjectId'', True, GUint64),
      (''ThroughputPerformance'', True, GUint64)]"

definition InquiryPriceCreateDisksResponse_message :: message where
  "InquiryPriceCreateDisksResponse_message = json_message
     [(''Response'', False, GStruct
      [(''DiskPrice'', True, GStruct Price_fields), (''RequestId'', True, GStr)])]"

definition InquiryPriceRenewDisksRequest_message :: message where
  "InquiryPriceRenewDisksRequest_message = json_message
     [(''DiskIds'', True, GStrs),
      (''DiskChargePrepaids'', True, GStructs DiskChargePrepaid_fields),
      (''NewDeadline'', True, GStr), (''ProjectId'', True, GUint64)]"

definition InquiryPriceRenewDisksResponse_message :: message where
  "InquiryPriceRenewDisksResponse_message = json_message
     [(''Response'', False, GStruct
      [(''DiskPrice'', True, GStruct PrepayPrice_fields), (''RequestId'', True, GStr)])]"

definition InquiryPriceResizeDiskRequest_message :: message where
  "InquiryPriceResizeDiskRequest_message = json_message
     [(''DiskId'', True, GStr), (''DiskSize'', True, GUint64), (''ProjectId'', True, GUint64)]"

definition InquiryPriceResizeDiskResponse_message :: message where
  "InquiryPriceResizeDiskResponse_message = json_message
     [(''Response'', False, GStruct
      [(''DiskPrice'', True, GStruct PrepayPrice_fields), (''RequestId'', True, GStr)])]"

lemmas price_message_defs =
  GetSnapOverviewRequest_message_def GetSnapOverviewResponse_message_def
  InquirePriceModifyDiskExtraPerformanceRequest_message_def
  InquirePriceModifyDiskExtraPerformanceResponse_message_def
  InquiryPriceCreateDisksRequest_message_def InquiryPriceCreateDisksResponse_message_def
  InquiryPriceRenewDisksRequest_message_def InquiryPriceRenewDisksResponse_message_def
  InquiryPriceResizeDiskRequest_message_def InquiryPriceResizeDiskResponse_message_def

definition price_messages :: "message list" where
  "price_messages =
     [GetSnapOverviewRequest_message, GetSnapOverviewResponse_message,
      InquirePriceModifyDiskExtraPerformanceRequest_message,
      InquirePriceModifyDiskExtraPerformanceResponse_message,
      InquiryPriceCreateDisksRequest_message, InquiryPriceCreateDisksResponse_message,
      InquiryPriceRenewDisksRequest_message, InquiryPriceRenewDisksResponse_message,
      InquiryPriceResizeDiskRequest_message, InquiryPriceResizeDiskResponse_message]"

text \<open>No two fields of a struct differ only in case.\<close>

lemma price_message_names: "list_all (\<lambda>m. distinct_names (GStruct (msg_fields m))) price_messages"
  by (simp add: price_messages_def price_message_defs price_fields struct_fields name_eval)

lemma price_message_methods: "m \<in> set price_messages \<Longrightarrow> m = json_message (msg_fields m)"
  by (auto simp: price_messages_def price_message_defs)

section \<open>Actions\<close>

definition NewGetSnapOverviewRequest :: sdk_request where
  "NewGetSnapOverviewRequest = new_request ''GetSnapOverview'' GetSnapOverviewRequest_message"

definition NewGetSnapOverviewResponse :: sdk_response where
  "NewGetSnapOverviewResponse = new_response GetSnapOverviewResponse_message"

definition Client_GetSnapOverview :: "transport \<Rightarrow> sdk_client \<Rightarrow> sdk_request option \<Rightarrow> ext_err + gval list" where
  "Client_GetSnapOverview http c request =
     Send http c (case request of None \<Rightarrow> NewGetSnapOverviewRequest | Some r \<Rightarrow> r) NewGetSnapOverviewResponse"

definition NewInquirePriceModifyDiskExtraPerformanceRequest :: sdk_request where
  "NewInquirePriceModifyDiskExtraPerformanceRequest = new_request ''InquirePriceModifyDiskExtraPerformance'' InquirePriceModifyDiskExtraPerformanceRequest_message"

definition NewInquirePriceModifyDiskExtraPerformanceResponse :: sdk_response where
  "NewInquirePriceModifyDiskExtraPerformanceResponse = new_response InquirePriceModifyDiskExtraPerformanceResponse_message"

definition Client_InquirePriceModifyDiskExtraPerformance :: "transport \<Rightarrow> sdk_client \<Rightarrow> sdk_request option \<Rightarrow> ext_err + gval list" where
  "Client_InquirePriceModifyDiskExtraPerformance http c request =
     Send http c (case request of None \<Rightarrow> NewInquirePriceModifyDiskExtraPerformanceRequest | Some r \<Rightarrow> r) NewInquirePriceModifyDiskExtraPerformanceResponse"

definition NewInquiryPriceCreateDisksRequest :: sdk_request where
  "NewInquiryPriceCreateDisksRequest = new_request ''InquiryPriceCreateDisks'' InquiryPriceCreateDisksRequest_message"

definition NewInquiryPriceCreateDisksResponse :: sdk_response where
  "NewInquiryPriceCreateDisksResponse = new_response InquiryPriceCreateDisksResponse_message"

definition Client_InquiryPriceCreateDisks :: "transport \<Rightarrow> sdk_client \<Rightarrow> sdk_request option \<Rightarrow> ext_err + gval list" where
  "Client_InquiryPriceCreateDisks http c request =
     Send http c (case request of None \<Rightarrow> NewInquiryPriceCreateDisksRequest | Some r \<Rightarrow> r) NewInquiryPriceCreateDisksResponse"

definition NewInquiryPriceRenewDisksRequest :: sdk_request where
  "NewInquiryPriceRenewDisksRequest = new_request ''InquiryPriceRenewDisks'' InquiryPriceRenewDisksRequest_message"

definition NewInquiryPriceRenewDisksResponse :: sdk_response where
  "NewInquiryPriceRenewDisksResponse = new_response InquiryPriceRenewDisksResponse_message"

definition Client_InquiryPriceRenewDisks :: "transport \<Rightarrow> sdk_client \<Rightarrow> sdk_request option \<Rightarrow> ext_err + gval list" where
  "Client_InquiryPriceRenewDisks http c request =
     Send http c (case request of None \<Rightarrow> NewInquiryPriceRenewDisksRequest | Some r \<Rightarrow> r) NewInquiryPriceRenewDisksResponse"

definition NewInquiryPriceResizeDiskRequest :: sdk_request where
  "NewInquiryPriceResizeDiskRequest = new_request ''InquiryPriceResizeDisk'' InquiryPriceResizeDiskRequest_message"

definition NewInquiryPriceResizeDiskResponse :: sdk_response where
  "NewInquiryPriceResizeDiskResponse = new_response InquiryPriceResizeDiskResponse_message"

definition Client_InquiryPriceResizeDisk :: "transport \<Rightarrow> sdk_client \<Rightarrow> sdk_request option \<Rightarrow> ext_err + gval list" where
  "Client_InquiryPriceResizeDisk http c request =
     Send http c (case request of None \<Rightarrow> NewInquiryPriceResizeDiskRequest | Some r \<Rightarrow> r) NewInquiryPriceResizeDiskResponse"

definition price_requests :: "sdk_request list" where
  "price_requests =
     [NewGetSnapOverviewRequest, NewInquirePriceModifyDiskExtraPerformanceRequest,
      NewInquiryPriceCreateDisksRequest, NewInquiryPriceRenewDisksRequest,
      NewInquiryPriceResizeDiskRequest]"

lemmas price_request_defs =
  NewGetSnapOverviewRequest_def NewInquirePriceModifyDiskExtraPerformanceRequest_def
  NewInquiryPriceCreateDisksRequest_def NewInquiryPriceRenewDisksRequest_def
  NewInquiryPriceResizeDiskRequest_def

text \<open>Every one of them is an action of the same API and version, and no two have one name.\<close>

lemma price_requests_api:
  "list_all (\<lambda>r. rq_service r = ''cbs'' \<and> rq_version r = APIVersion \<and> rq_message r \<in> set price_messages) price_requests"
  "distinct (map rq_action price_requests)"
  by (simp_all add: price_requests_def price_messages_def new_request_def price_request_defs)

end
