(* ===== verification/CbsOtherActions.thy ===== *)
theory CbsOtherActions imports CbsPrices begin

text \<open>
  The actions of \<^verbatim>\<open>v20170312/client.go\<close> that the driver does not call, with their messages in
  \<^verbatim>\<open>v20170312/models.go\<close>, in the order of the client; and what holds of every message of the package: it
  is read back as it was written, and a response that is returned has the types of its message. The five
  actions whose responses have floating-point numbers are in \<open>CbsPrices\<close>.
\<close>

section \<open>Structs inside the messages\<close>

definition Policy_fields :: fields where
  "Policy_fields =
     [(''DayOfWeek'', True, GUints), (''Hour'', True, GUints)]"

definition AutoSnapshotPolicy_fields :: fields where
  "AutoSnapshotPolicy_fields =
     [(''AutoSnapshotPolicyId'', True, GStr), (''AutoSnapshotPolicyName'', True, GStr),
      (''AutoSnapshotPolicyState'', True, GStr), (''IsActivated'', True, GBool),
      (''IsPermanent'', True, GBool), (''RetentionDays'', True, GUint64),
      (''CreateTime'', True, GStr), (''NextTriggerTime'', True, GStr),
      (''Policy'', True, GStructs Policy_fields), (''DiskIdSet'', True, GStrs)]"

definition DiskOperationLog_fields :: fields where
  "DiskOperationLog_fields =
     [(''Operator'', True, GStr), (''Operation'', True, GStr), (''DiskId'', True, GStr),
      (''OperationState'', True, GStr), (''StartTime'', True, GStr),
      (''EndTime'', True, GStr)]"

definition SnapshotOperationLog_fields :: fields where
  "SnapshotOperationLog_fields =
     [(''Operator'', True, GStr), (''Operation'', True, GStr), (''SnapshotId'', True, GStr),
      (''OperationState'', True, GStr), (''StartTime'', True, GStr),
      (''EndTime'', True, GStr)]"

definition SharePermission_fields :: fields where
  "SharePermission_fields =
     [(''CreatedTime'', True, GStr), (''AccountId'', True, GStr)]"

lemmas other_fields =
  Policy_fields_def AutoSnapshotPolicy_fields_def DiskOperationLog_fields_def
  SnapshotOperationLog_fields_def SharePermission_fields_def

section \<open>Messages\<close>

definition ApplySnapshotRequest_message :: message where
  "ApplySnapshotRequest_message = json_message
     [(''SnapshotId'', True, GStr), (''DiskId'', True, GStr)]"

definition ApplySnapshotResponse_message :: message where
  "ApplySnapshotResponse_message = json_message
     [(''Response'', False, GStruct [(''RequestId'', True, GStr)])]"

definition CreateAutoSnapshotPolicyRequest_message :: message where
  "CreateAutoSnapshotPolicyRequest_message = json_message
     [(''Policy'', True, GStructs Policy_fields), (''AutoSnapshotPolicyName'', True, GStr),
      (''IsActivated'', True, GBool), (''IsPermanent'', True, GBool),
      (''RetentionDays'', True, GUint64), (''DryRun'', True, GBool)]"

definition CreateAutoSnapshotPolicyResponse_message :: message where
  "CreateAutoSnapshotPolicyResponse_message = json_message
     [(''Response'', False, GStruct [(''AutoSnapshotPolicyId'', True, GStr), (''NextTriggerTime'', True, GStr),
      (''RequestId'', True, GStr)])]"

definition DeleteAutoSnapshotPoliciesRequest_message :: message where
  "DeleteAutoSnapshotPoliciesRequest_message = json_message
     [(''AutoSnapshotPolicyIds'', True, GStrs)]"

definition DeleteAutoSnapshotPoliciesResponse_message :: message where
  "DeleteAutoSnapshotPoliciesResponse_message = json_message
     [(''Response'', False, GStruct [(''RequestId'', True, GStr)])]"

definition DescribeAutoSnapshotPoliciesRequest_message :: message where
  "DescribeAutoSnapshotPoliciesRequest_message = json_message
     [(''AutoSnapshotPolicyIds'', True, GStrs), (''Filters'', True, GStructs Filter_fields),
      (''Limit'', True, GUint64), (''Offset'', True, GUint64), (''Order'', True, GStr),
      (''OrderField'', True, GStr)]"

definition DescribeAutoSnapshotPoliciesResponse_message :: message where
  "DescribeAutoSnapshotPoliciesResponse_message = json_message
     [(''Response'', False, GStruct [(''TotalCount'', True, GUint64),
      (''AutoSnapshotPolicySet'', True, GStructs AutoSnapshotPolicy_fields),
      (''RequestId'', True, GStr)])]"

definition DescribeDiskAssociatedAutoSnapshotPolicyRequest_message :: message where
  "DescribeDiskAssociatedAutoSnapshotPolicyRequest_message = json_message
     [(''DiskId'', True, GStr)]"

definition DescribeDiskAssociatedAutoSnapshotPolicyResponse_message :: message where
  "DescribeDiskAssociatedAutoSnapshotPolicyResponse_message = json_message
     [(''Response'', False, GStruct [(''TotalCount'', True, GUint64),
      (''AutoSnapshotPolicySet'', True, GStructs AutoSnapshotPolicy_fields),
      (''RequestId'', True, GStr)])]"

definition DescribeDiskOperationLogsRequest_message :: message where
  "DescribeDiskOperationLogsRequest_message = json_message
     [(''Filters'', True, GStructs Filter_fields), (''BeginTime'', True, GStr),
      (''EndTime'', True, GStr)]"

definition DescribeDiskOperationLogsResponse_message :: message where
  "DescribeDiskOperationLogsResponse_message = json_message
     [(''Response'', False, GStruct [(''DiskOperationLogSet'', True, GStructs DiskOperationLog_fields),
      (''RequestId'', True, GStr)])]"

definition DescribeSnapshotOperationLogsRequest_message :: message where
  "DescribeSnapshotOperationLogsRequest_message = json_message
     [(''Filters'', True, GStructs Filter_fields), (''BeginTime'', True, GStr),
      (''EndTime'', True, GStr)]"

definition DescribeSnapshotOperationLogsResponse_message :: message where
  "DescribeSnapshotOperationLogsResponse_message = json_message
     [(''Response'', False, GStruct [(''SnapshotOperationLogSet'', True, GStructs SnapshotOperationLog_fields),
      (''RequestId'', True, GStr)])]"

definition DescribeSnapshotSharePermissionRequest_message :: message where
  "DescribeSnapshotSharePermissionRequest_message = json_message
     [(''SnapshotId'', True, GStr)]"

definition DescribeSnapshotSharePermissionResponse_message :: message where
  "DescribeSnapshotSharePermissionResponse_message = json_message
     [(''Response'', False, GStruct [(''SharePermissionSet'', True, GStructs SharePermission_fields),
      (''RequestId'', True, GStr)])]"

definition ModifyAutoSnapshotPolicyAttributeRequest_message :: message where
  "ModifyAutoSnapshotPolicyAttributeRequest_message = json_message
     [(''AutoSnapshotPolicyId'', True, GStr), (''Policy'', True, GStructs Policy_fields),
      (''AutoSnapshotPolicyName'', True, GStr), (''IsActivated'', True, GBool),
      (''IsPermanent'', True, GBool), (''RetentionDays'', True, GUint64)]"

definition ModifyAutoSnapshotPolicyAttributeResponse_message :: message where
  "ModifyAutoSnapshotPolicyAttributeResponse_message = json_message
     [(''Response'', False, GStruct [(''RequestId'', True, GStr)])]"

definition ModifyDiskAttributesRequest_message :: message where
  "ModifyDiskAttributesRequest_message = json_message
     [(''DiskIds'', True, GStrs), (''ProjectId'', True, GUint64), (''DiskName'', True, GStr),
      (''Portable'', True, GBool), (''DeleteWithInstance'', True, GBool),
      (''DiskType'', True, GStr)]"

definition ModifyDiskAttributesResponse_message :: message where
  "ModifyDiskAttributesResponse_message = json_message
     [(''Response'', False, GStruct [(''RequestId'', True, GStr)])]"

definition ModifyDiskExtraPerformanceRequest_message :: message where
  "ModifyDiskExtraPerformanceRequest_message = json_message
     [(''DiskId'', True, GStr), (''ThroughputPerformance'', True, GUint64)]"

definition ModifyDiskExtraPerformanceResponse_message :: message where
  "ModifyDiskExtraPerformanceResponse_message = json_message
     [(''Response'', False, GStruct [(''RequestId'', True, GStr)])]"

definition ModifyDisksChargeTypeRequest_message :: message where
  "ModifyDisksChargeTypeRequest_message = json_message
     [(''DiskIds'', True, GStrs),
      (''DiskChargePrepaid'', True, GStruct DiskChargePrepaid_fields)]"

definition ModifyDisksChargeTypeResponse_message :: message where
  "ModifyDisksChargeTypeResponse_message = json_message
     [(''Response'', False, GStruct [(''RequestId'', True, GStr)])]"

definition ModifyDisksRenewFlagRequest_message :: message where
  "ModifyDisksRenewFlagRequest_message = json_message
     [(''DiskIds'', True, GStrs), (''RenewFlag'', True, GStr)]"

definition ModifyDisksRenewFlagResponse_message :: message where
  "ModifyDisksRenewFlagResponse_message = json_message
     [(''Response'', False, GStruct [(''RequestId'', True, GStr)])]"

definition ModifySnapshotAttributeRequest_message :: message where
  "ModifySnapshotAttributeRequest_message = json_message
     [(''SnapshotId'', True, GStr), (''SnapshotName'', True, GStr),
      (''IsPermanent'', True, GBool), (''Deadline'', True, GStr)]"

definition ModifySnapshotAttributeResponse_message :: message where
  "ModifySnapshotAttributeResponse_message = json_message
     [(''Response'', False, GStruct [(''RequestId'', True, GStr)])]"

definition ModifySnapshotsSharePermissionRequest_message :: message where
  "ModifySnapshotsSharePermissionRequest_message = json_message
     [(''AccountIds'', True, GStrs), (''Permission'', True, GStr),
      (''SnapshotIds'', True, GStrs)]"

definition ModifySnapshotsSharePermissionResponse_message :: message where
  "ModifySnapshotsSharePermissionResponse_message = json_message
     [(''Response'', False, GStruct [(''RequestId'', True, GStr)])]"

definition RenewDiskRequest_message :: message where
  "RenewDiskRequest_message = json_message
     [(''DiskChargePrepaid'', True, GStruct DiskChargePrepaid_fields),
      (''DiskId'', True, GStr)]"

definition RenewDiskResponse_message :: message where
  "RenewDiskResponse_message = json_message
     [(''Response'', False, GStruct [(''RequestId'', True, GStr)])]"

definition UnbindAutoSnapshotPolicyRequest_message :: message where
  "UnbindAutoSnapshotPolicyRequest_message = json_message
     [(''DiskIds'', True, GStrs), (''AutoSnapshotPolicyId'', True, GStr)]"

definition UnbindAutoSnapshotPolicyResponse_message :: message where
  "UnbindAutoSnapshotPolicyResponse_message = json_message
     [(''Response'', False, GStruct [(''RequestId'', True, GStr)])]"

lemmas other_message_defs =
  ApplySnapshotRequest_message_def ApplySnapshotResponse_message_def
  CreateAutoSnapshotPolicyRequest_message_def CreateAutoSnapshotPolicyResponse_message_def
  DeleteAutoSnapshotPoliciesRequest_message_def
  DeleteAutoSnapshotPoliciesResponse_message_def
  DescribeAutoSnapshotPoliciesRequest_message_def
  DescribeAutoSnapshotPoliciesResponse_message_def
  DescribeDiskAssociatedAutoSnapshotPolicyRequest_message_def
  DescribeDiskAssociatedAutoSnapshotPolicyResponse_message_def
  DescribeDiskOperationLogsRequest_message_def DescribeDiskOperationLogsResponse_message_def
  DescribeSnapshotOperationLogsRequest_message_def
  DescribeSnapshotOperationLogsResponse_message_def
  DescribeSnapshotSharePermissionRequest_message_def
  DescribeSnapshotSharePermissionResponse_message_def
  ModifyAutoSnapshotPolicyAttributeRequest_message_def
  ModifyAutoSnapshotPolicyAttributeResponse_message_def
  ModifyDiskAttributesRequest_message_def ModifyDiskAttributesResponse_message_def
  ModifyDiskExtraPerformanceRequest_message_def
  ModifyDiskExtraPerformanceResponse_message_def ModifyDisksChargeTypeRequest_message_def
  ModifyDisksChargeTypeResponse_message_def ModifyDisksRenewFlagRequest_message_def
  ModifyDisksRenewFlagResponse_message_def ModifySnapshotAttributeRequest_message_def
  ModifySnapshotAttributeResponse_message_def
  ModifySnapshotsSharePermissionRequest_message_def
  ModifySnapshotsSharePermissionResponse_message_def RenewDiskRequest_message_def
  RenewDiskResponse_message_def UnbindAutoSnapshotPolicyRequest_message_def
  UnbindAutoSnapshotPolicyResponse_message_def

definition other_messages :: "message list" where
  "other_messages =
     [ApplySnapshotRequest_message, ApplySnapshotResponse_message,
      CreateAutoSnapshotPolicyRequest_message, CreateAutoSnapshotPolicyResponse_message,
      DeleteAutoSnapshotPoliciesRequest_message, DeleteAutoSnapshotPoliciesResponse_message,
      DescribeAutoSnapshotPoliciesRequest_message, DescribeAutoSnapshotPoliciesResponse_message,
      DescribeDiskAssociatedAutoSnapshotPolicyRequest_message,
      DescribeDiskAssociatedAutoSnapshotPolicyResponse_message,
      DescribeDiskOperationLogsRequest_message, DescribeDiskOperationLogsResponse_message,
      DescribeSnapshotOperationLogsRequest_message,
      DescribeSnapshotOperationLogsResponse_message,
      DescribeSnapshotSharePermissionRequest_message,
      DescribeSnapshotSharePermissionResponse_message,
      ModifyAutoSnapshotPolicyAttributeRequest_message,
      ModifyAutoSnapshotPolicyAttributeResponse_message, ModifyDiskAttributesRequest_message,
      ModifyDiskAttributesResponse_message, ModifyDiskExtraPerformanceRequest_message,
      ModifyDiskExtraPerformanceResponse_message, ModifyDisksChargeTypeRequest_message,
      ModifyDisksChargeTypeResponse_message, ModifyDisksRenewFlagRequest_message,
      ModifyDisksRenewFlagResponse_message, ModifySnapshotAttributeRequest_message,
      ModifySnapshotAttributeResponse_message, ModifySnapshotsSharePermissionRequest_message,
      ModifySnapshotsSharePermissionResponse_message, RenewDiskRequest_message,
      RenewDiskResponse_message, UnbindAutoSnapshotPolicyRequest_message,
      UnbindAutoSnapshotPolicyResponse_message]"

definition all_messages :: "message list" where
  "all_messages = messages @ other_messages @ price_messages"

lemma other_message_names: "list_all (\<lambda>m. distinct_names (GStruct (msg_fields m))) other_messages"
  by (simp add: other_messages_def other_message_defs other_fields struct_fields name_eval)

lemma all_message_methods: "m \<in> set all_messages \<Longrightarrow> m = json_message (msg_fields m)"
  using message_methods price_message_methods by (auto simp: all_messages_def other_messages_def other_message_defs)

text \<open>Every message is read back as it was written, but for empty slices.\<close>

theorem message_roundtrip:
  assumes "m \<in> set all_messages" "typed_fields (msg_fields m) vs"
  shows "FromJsonString m (zero (msg_fields m)) (ToJsonString m vs) = Some (dropped_fields (msg_fields m) vs)"
proof -
  from assms(1) message_names other_message_names price_message_names have "distinct_names (GStruct (msg_fields m))"
    by (auto simp: all_messages_def list_all_iff)
  from from_to_json [OF assms(2) this] all_message_methods [OF assms(1)] show ?thesis
    by (metis json_message_simps(2,3))
qed

section \<open>Actions\<close>

definition NewApplySnapshotRequest :: sdk_request where
  "NewApplySnapshotRequest = new_request ''ApplySnapshot'' ApplySnapshotRequest_message"

definition NewApplySnapshotResponse :: sdk_response where
  "NewApplySnapshotResponse = new_response ApplySnapshotResponse_message"

definition Client_ApplySnapshot :: "transport \<Rightarrow> sdk_client \<Rightarrow> sdk_request option \<Rightarrow> ext_err + gval list" where
  "Client_ApplySnapshot http c request =
     Send http c (case request of None \<Rightarrow> NewApplySnapshotRequest | Some r \<Rightarrow> r) NewApplySnapshotResponse"

definition NewCreateAutoSnapshotPolicyRequest :: sdk_request where
  "NewCreateAutoSnapshotPolicyRequest = new_request ''CreateAutoSnapshotPolicy'' CreateAutoSnapshotPolicyRequest_message"

definition NewCreateAutoSnapshotPolicyResponse :: sdk_response where
  "NewCreateAutoSnapshotPolicyResponse = new_response CreateAutoSnapshotPolicyResponse_message"

definition Client_CreateAutoSnapshotPolicy :: "transport \<Rightarrow> sdk_client \<Rightarrow> sdk_request option \<Rightarrow> ext_err + gval list" where
  "Client_CreateAutoSnapshotPolicy http c request =
     Send http c (case request of None \<Rightarrow> NewCreateAutoSnapshotPolicyRequest | Some r \<Rightarrow> r) NewCreateAutoSnapshotPolicyResponse"

definition NewDeleteAutoSnapshotPoliciesRequest :: sdk_request where
  "NewDeleteAutoSnapshotPoliciesRequest = new_request ''DeleteAutoSnapshotPolicies'' DeleteAutoSnapshotPoliciesRequest_message"

definition NewDeleteAutoSnapshotPoliciesResponse :: sdk_response where
  "NewDeleteAutoSnapshotPoliciesResponse = new_response DeleteAutoSnapshotPoliciesResponse_message"

definition Client_DeleteAutoSnapshotPolicies :: "transport \<Rightarrow> sdk_client \<Rightarrow> sdk_request option \<Rightarrow> ext_err + gval list" where
  "Client_DeleteAutoSnapshotPolicies http c request =
     Send http c (case request of None \<Rightarrow> NewDeleteAutoSnapshotPoliciesRequest | Some r \<Rightarrow> r) NewDeleteAutoSnapshotPoliciesResponse"

definition NewDescribeAutoSnapshotPoliciesRequest :: sdk_request where
  "NewDescribeAutoSnapshotPoliciesRequest = new_request ''DescribeAutoSnapshotPolicies'' DescribeAutoSnapshotPoliciesRequest_message"

definition NewDescribeAutoSnapshotPoliciesResponse :: sdk_response where
  "NewDescribeAutoSnapshotPoliciesResponse = new_response DescribeAutoSnapshotPoliciesResponse_message"

definition Client_DescribeAutoSnapshotPolicies :: "transport \<Rightarrow> sdk_client \<Rightarrow> sdk_request option \<Rightarrow> ext_err + gval list" where
  "Client_DescribeAutoSnapshotPolicies http c request =
     Send http c (case request of None \<Rightarrow> NewDescribeAutoSnapshotPoliciesRequest | Some r \<Rightarrow> r) NewDescribeAutoSnapshotPoliciesResponse"

definition NewDescribeDiskAssociatedAutoSnapshotPolicyRequest :: sdk_request where
  "NewDescribeDiskAssociatedAutoSnapshotPolicyRequest = new_request ''DescribeDiskAssociatedAutoSnapshotPolicy'' DescribeDiskAssociatedAutoSnapshotPolicyRequest_message"

definition NewDescribeDiskAssociatedAutoSnapshotPolicyResponse :: sdk_response where
  "NewDescribeDiskAssociatedAutoSnapshotPolicyResponse = new_response DescribeDiskAssociatedAutoSnapshotPolicyResponse_message"

definition Client_DescribeDiskAssociatedAutoSnapshotPolicy :: "transport \<Rightarrow> sdk_client \<Rightarrow> sdk_request option \<Rightarrow> ext_err + gval list" where
  "Client_DescribeDiskAssociatedAutoSnapshotPolicy http c request =
     Send http c (case request of None \<Rightarrow> NewDescribeDiskAssociatedAutoSnapshotPolicyRequest | Some r \<Rightarrow> r) NewDescribeDiskAssociatedAutoSnapshotPolicyResponse"

definition NewDescribeDiskOperationLogsRequest :: sdk_request where
  "NewDescribeDiskOperationLogsRequest = new_request ''DescribeDiskOperationLogs'' DescribeDiskOperationLogsRequest_message"

definition NewDescribeDiskOperationLogsResponse :: sdk_response where
  "NewDescribeDiskOperationLogsResponse = new_response DescribeDiskOperationLogsResponse_message"

definition Client_DescribeDiskOperationLogs :: "transport \<Rightarrow> sdk_client \<Rightarrow> sdk_request option \<Rightarrow> ext_err + gval list" where
  "Client_DescribeDiskOperationLogs http c request =
     Send http c (case request of None \<Rightarrow> NewDescribeDiskOperationLogsRequest | Some r \<Rightarrow> r) NewDescribeDiskOperationLogsResponse"

definition NewDescribeSnapshotOperationLogsRequest :: sdk_request where
  "NewDescribeSnapshotOperationLogsRequest = new_request ''DescribeSnapshotOperationLogs'' DescribeSnapshotOperationLogsRequest_message"

definition NewDescribeSnapshotOperationLogsResponse :: sdk_response where
  "NewDescribeSnapshotOperationLogsResponse = new_response DescribeSnapshotOperationLogsResponse_message"

definition Client_DescribeSnapshotOperationLogs :: "transport \<Rightarrow> sdk_client \<Rightarrow> sdk_request option \<Rightarrow> ext_err + gval list" where
  "Client_DescribeSnapshotOperationLogs http c request =
     Send http c (case request of None \<Rightarrow> NewDescribeSnapshotOperationLogsRequest | Some r \<Rightarrow> r) NewDescribeSnapshotOperationLogsResponse"

definition NewDescribeSnapshotSharePermissionRequest :: sdk_request where
  "NewDescribeSnapshotSharePermissionRequest = new_request ''DescribeSnapshotSharePermission'' DescribeSnapshotSharePermissionRequest_message"

definition NewDescribeSnapshotSharePermissionResponse :: sdk_response where
  "NewDescribeSnapshotSharePermissionResponse = new_response DescribeSnapshotSharePermissionResponse_message"

definition Client_DescribeSnapshotSharePermission :: "transport \<Rightarrow> sdk_client \<Rightarrow> sdk_request option \<Rightarrow> ext_err + gval list" where
  "Client_DescribeSnapshotSharePermission http c request =
     Send http c (case request of None \<Rightarrow> NewDescribeSnapshotSharePermissionRequest | Some r \<Rightarrow> r) NewDescribeSnapshotSharePermissionResponse"

definition NewModifyAutoSnapshotPolicyAttributeRequest :: sdk_request where
  "NewModifyAutoSnapshotPolicyAttributeRequest = new_request ''ModifyAutoSnapshotPolicyAttribute'' ModifyAutoSnapshotPolicyAttributeRequest_message"

definition NewModifyAutoSnapshotPolicyAttributeResponse :: sdk_response where
  "NewModifyAutoSnapshotPolicyAttributeResponse = new_response ModifyAutoSnapshotPolicyAttributeResponse_message"

definition Client_ModifyAutoSnapshotPolicyAttribute :: "transport \<Rightarrow> sdk_client \<Rightarrow> sdk_request option \<Rightarrow> ext_err + gval list" where
  "Client_ModifyAutoSnapshotPolicyAttribute http c request =
     Send http c (case request of None \<Rightarrow> NewModifyAutoSnapshotPolicyAttributeRequest | Some r \<Rightarrow> r) NewModifyAutoSnapshotPolicyAttributeResponse"

definition NewModifyDiskAttributesRequest :: sdk_request where
  "NewModifyDiskAttributesRequest = new_request ''ModifyDiskAttributes'' ModifyDiskAttributesRequest_message"

definition NewModifyDiskAttributesResponse :: sdk_response where
  "NewModifyDiskAttributesResponse = new_response ModifyDiskAttributesResponse_message"

definition Client_ModifyDiskAttributes :: "transport \<Rightarrow> sdk_client \<Rightarrow> sdk_request option \<Rightarrow> ext_err + gval list" where
  "Client_ModifyDiskAttributes http c request =
     Send http c (case request of None \<Rightarrow> NewModifyDiskAttributesRequest | Some r \<Rightarrow> r) NewModifyDiskAttributesResponse"

definition NewModifyDiskExtraPerformanceRequest :: sdk_request where
  "NewModifyDiskExtraPerformanceRequest = new_request ''ModifyDiskExtraPerformance'' ModifyDiskExtraPerformanceRequest_message"

definition NewModifyDiskExtraPerformanceResponse :: sdk_response where
  "NewModifyDiskExtraPerformanceResponse = new_response ModifyDiskExtraPerformanceResponse_message"

definition Client_ModifyDiskExtraPerformance :: "transport \<Rightarrow> sdk_client \<Rightarrow> sdk_request option \<Rightarrow> ext_err + gval list" where
  "Client_ModifyDiskExtraPerformance http c request =
     Send http c (case request of None \<Rightarrow> NewModifyDiskExtraPerformanceRequest | Some r \<Rightarrow> r) NewModifyDiskExtraPerformanceResponse"

definition NewModifyDisksChargeTypeRequest :: sdk_request where
  "NewModifyDisksChargeTypeRequest = new_request ''ModifyDisksChargeType'' ModifyDisksChargeTypeRequest_message"

definition NewModifyDisksChargeTypeResponse :: sdk_response where
  "NewModifyDisksChargeTypeResponse = new_response ModifyDisksChargeTypeResponse_message"

definition Client_ModifyDisksChargeType :: "transport \<Rightarrow> sdk_client \<Rightarrow> sdk_request option \<Rightarrow> ext_err + gval list" where
  "Client_ModifyDisksChargeType http c request =
     Send http c (case request of None \<Rightarrow> NewModifyDisksChargeTypeRequest | Some r \<Rightarrow> r) NewModifyDisksChargeTypeResponse"

definition NewModifyDisksRenewFlagRequest :: sdk_request where
  "NewModifyDisksRenewFlagRequest = new_request ''ModifyDisksRenewFlag'' ModifyDisksRenewFlagRequest_message"

definition NewModifyDisksRenewFlagResponse :: sdk_response where
  "NewModifyDisksRenewFlagResponse = new_response ModifyDisksRenewFlagResponse_message"

definition Client_ModifyDisksRenewFlag :: "transport \<Rightarrow> sdk_client \<Rightarrow> sdk_request option \<Rightarrow> ext_err + gval list" where
  "Client_ModifyDisksRenewFlag http c request =
     Send http c (case request of None \<Rightarrow> NewModifyDisksRenewFlagRequest | Some r \<Rightarrow> r) NewModifyDisksRenewFlagResponse"

definition NewModifySnapshotAttributeRequest :: sdk_request where
  "NewModifySnapshotAttributeRequest = new_request ''ModifySnapshotAttribute'' ModifySnapshotAttributeRequest_message"

definition NewModifySnapshotAttributeResponse :: sdk_response where
  "NewModifySnapshotAttributeResponse = new_response ModifySnapshotAttributeResponse_message"

definition Client_ModifySnapshotAttribute :: "transport \<Rightarrow> sdk_client \<Rightarrow> sdk_request option \<Rightarrow> ext_err + gval list" where
  "Client_ModifySnapshotAttribute http c request =
     Send http c (case request of None \<Rightarrow> NewModifySnapshotAttributeRequest | Some r \<Rightarrow> r) NewModifySnapshotAttributeResponse"

definition NewModifySnapshotsSharePermissionRequest :: sdk_request where
  "NewModifySnapshotsSharePermissionRequest = new_request ''ModifySnapshotsSharePermission'' ModifySnapshotsSharePermissionRequest_message"

definition NewModifySnapshotsSharePermissionResponse :: sdk_response where
  "NewModifySnapshotsSharePermissionResponse = new_response ModifySnapshotsSharePermissionResponse_message"

definition Client_ModifySnapshotsSharePermission :: "transport \<Rightarrow> sdk_client \<Rightarrow> sdk_request option \<Rightarrow> ext_err + gval list" where
  "Client_ModifySnapshotsSharePermission http c request =
     Send http c (case request of None \<Rightarrow> NewModifySnapshotsSharePermissionRequest | Some r \<Rightarrow> r) NewModifySnapshotsSharePermissionResponse"

definition NewRenewDiskRequest :: sdk_request where
  "NewRenewDiskRequest = new_request ''RenewDisk'' RenewDiskRequest_message"

definition NewRenewDiskResponse :: sdk_response where
  "NewRenewDiskResponse = new_response RenewDiskResponse_message"

definition Client_RenewDisk :: "transport \<Rightarrow> sdk_client \<Rightarrow> sdk_request option \<Rightarrow> ext_err + gval list" where
  "Client_RenewDisk http c request =
     Send http c (case request of None \<Rightarrow> NewRenewDiskRequest | Some r \<Rightarrow> r) NewRenewDiskResponse"

definition NewUnbindAutoSnapshotPolicyRequest :: sdk_request where
  "NewUnbindAutoSnapshotPolicyRequest = new_request ''UnbindAutoSnapshotPolicy'' UnbindAutoSnapshotPolicyRequest_message"

definition NewUnbindAutoSnapshotPolicyResponse :: sdk_response where
  "NewUnbindAutoSnapshotPolicyResponse = new_response UnbindAutoSnapshotPolicyResponse_message"

definition Client_UnbindAutoSnapshotPolicy :: "transport \<Rightarrow> sdk_client \<Rightarrow> sdk_request option \<Rightarrow> ext_err + gval list" where
  "Client_UnbindAutoSnapshotPolicy http c request =
     Send http c (case request of None \<Rightarrow> NewUnbindAutoSnapshotPolicyRequest | Some r \<Rightarrow> r) NewUnbindAutoSnapshotPolicyResponse"

definition other_requests :: "sdk_request list" where
  "other_requests =
     [NewApplySnapshotRequest, NewCreateAutoSnapshotPolicyRequest,
      NewDeleteAutoSnapshotPoliciesRequest, NewDescribeAutoSnapshotPoliciesRequest,
      NewDescribeDiskAssociatedAutoSnapshotPolicyRequest, NewDescribeDiskOperationLogsRequest,
      NewDescribeSnapshotOperationLogsRequest, NewDescribeSnapshotSharePermissionRequest,
      NewModifyAutoSnapshotPolicyAttributeRequest, NewModifyDiskAttributesRequest,
      NewModifyDiskExtraPerformanceRequest, NewModifyDisksChargeTypeRequest,
      NewModifyDisksRenewFlagRequest, NewModifySnapshotAttributeRequest,
      NewModifySnapshotsSharePermissionRequest, NewRenewDiskRequest,
      NewUnbindAutoSnapshotPolicyRequest]"

text \<open>Every one of them is an action of the same API and version, and no two have one name.\<close>

lemma other_requests_api:
  "list_all (\<lambda>r. rq_service r = ''cbs'' \<and> rq_version r = APIVersion \<and> rq_message r \<in> set other_messages) other_requests"
  "distinct (map rq_action other_requests)"
  by (simp_all add: other_requests_def other_messages_def new_request_def
    NewApplySnapshotRequest_def NewCreateAutoSnapshotPolicyRequest_def
    NewDeleteAutoSnapshotPoliciesRequest_def NewDescribeAutoSnapshotPoliciesRequest_def
    NewDescribeDiskAssociatedAutoSnapshotPolicyRequest_def
    NewDescribeDiskOperationLogsRequest_def NewDescribeSnapshotOperationLogsRequest_def
    NewDescribeSnapshotSharePermissionRequest_def
    NewModifyAutoSnapshotPolicyAttributeRequest_def NewModifyDiskAttributesRequest_def
    NewModifyDiskExtraPerformanceRequest_def NewModifyDisksChargeTypeRequest_def
    NewModifyDisksRenewFlagRequest_def NewModifySnapshotAttributeRequest_def
    NewModifySnapshotsSharePermissionRequest_def NewRenewDiskRequest_def
    NewUnbindAutoSnapshotPolicyRequest_def)

section \<open>Types\<close>

text \<open>
  Whatever bytes the server answers, a response that the client returns without an error has the types
  of its message, be it one of the driver's or one of the others: the fields are there, texts are texts, every integer fits its
  64 bits, and a floating-point number is one of the format.
\<close>

theorem response_typed:
  assumes "Send http c r (new_response m) = Inr vs" "m \<in> set all_messages"
  shows "typed_fields (msg_fields m) vs"
proof -
  from all_message_methods [OF assms(2)] have "FromJsonString m = from_json (msg_fields m)"
    by (metis json_message_simps(3))
  with assms(1) obtain body where "from_json (msg_fields m) (zero (msg_fields m)) body = Some vs"
    by (auto simp: Send_def ParseFromHttpResponse_def new_response_def split: http_answer.splits if_splits option.splits)
  from from_json_typed [OF typed_zero this] show ?thesis .
qed

theorem response_typed_witness:
  "\<exists>vs. Send \<lparr>http_do = (\<lambda>_. Answer 200 ''200 OK'' ''{}''), json_error = (\<lambda>_. [])\<rparr>
       (NewClientWithSecretId ''id'' ''key'' ''ap-1'') NewAttachDisksRequest (new_response AttachDisksResponse_message) = Inr vs \<and>
     typed_fields (msg_fields AttachDisksResponse_message) vs"
proof -
  let ?http = "\<lparr>http_do = (\<lambda>_. Answer 200 ''200 OK'' ''{}''), json_error = (\<lambda>_. [])\<rparr>"
  have "Send ?http (NewClientWithSecretId ''id'' ''key'' ''ap-1'') NewAttachDisksRequest (new_response AttachDisksResponse_message) =
      Inr [VNil]"
    by code_simp
  from response_typed [OF this] show ?thesis
    using \<open>Send _ _ _ _ = _\<close> by (auto simp: all_messages_def messages_def)
qed

end
