(* ===== verification/CbsDriver.thy ===== *)
theory CbsDriver imports CbsCreate CbsSnapshots CbsNode begin

text \<open>
  The CBS driver as a process (\<open>driver.go\<close>, \<open>identity.go\<close>, the constructors and the capability
  calls of \<open>controller.go\<close>): what its flags leave open, which of the two services it runs, and
  where its clients send their calls.
\<close>

abbreviation "DriverName \<equiv> ''com.tencent.cloud.csi.cbs''"
abbreviation "DriverVersion \<equiv> ''v1.0.0''"
abbreviation "componentController \<equiv> ''controller''"
abbreviation "componentNode \<equiv> ''node''"

record cbsDriver =
  drv_region :: string
  drv_zone :: string
  drv_nodeID :: string
  drv_cbsUrl :: string
  drv_clusterId :: string
  drv_componentType :: string
  drv_environmentType :: string
  drv_volumeAttachLimit :: int

definition NewDriver ::
  "getenv \<Rightarrow> (string \<Rightarrow> nat \<Rightarrow> ext_err + string) \<Rightarrow> nat \<Rightarrow> cbsDriver \<Rightarrow> go_error + cbsDriver" where
  "NewDriver env meta waits flags =
     (case (if drv_region flags = [] then from_metadata meta waits ''placement/region'' else Inr (drv_region flags)) of
        Inl e \<Rightarrow> Inl e
      | Inr region \<Rightarrow>
     (case (if drv_zone flags = [] then from_metadata meta waits ''placement/zone'' else Inr (drv_zone flags)) of
        Inl e \<Rightarrow> Inl e
      | Inr zone \<Rightarrow>
     (let componentType =
            (if drv_componentType flags = [] then
               (if env ''ADDRESS'' \<noteq> [] then componentController else componentNode)
             else drv_componentType flags) in
      case (if drv_nodeID flags = [] \<and> env ''NODE_ID'' = [] \<and> componentType = componentNode
            then from_metadata meta waits ''instance-id'' else Inr (drv_nodeID flags)) of
        Inl e \<Rightarrow> Inl e
      | Inr nodeID \<Rightarrow>
          Inr (flags\<lparr>drv_region := region, drv_zone := zone, drv_nodeID := nodeID,
                     drv_componentType := componentType\<rparr>))))"

section \<open>The controller\<close>

text \<open>The endpoints of the three clients.\<close>

definition controller_endpoints :: "cbsDriver \<Rightarrow> string \<times> string \<times> string" where
  "controller_endpoints drv =
     (let cbsEnd = ''cbs.internal.tencentcloudapi.com'';
          cvmEnd = ''cvm.internal.tencentcloudapi.com'';
          tagEnd = ''tag.internal.tencentcloudapi.com'';
          (cbsEnd, cvmEnd, tagEnd) =
            (if drv_environmentType drv = ''test''
             then (''cbs.test.tencentcloudapi.com'', ''cvm.test.tencentcloudapi.com'', ''tag.test.tencentcloudapi.com'')
             else (cbsEnd, cvmEnd, tagEnd));
          cbsEnd = (if drv_cbsUrl drv \<noteq> [] then drv_cbsUrl drv else cbsEnd)
      in (cbsEnd, cvmEnd, tagEnd))"

definition newCbsController :: "cbsDriver \<Rightarrow> cbsController" where
  "newCbsController drv =
     \<lparr>ctrl_zone = drv_zone drv, ctrl_region = drv_region drv, ctrl_clusterId = drv_clusterId drv\<rparr>"

datatype controller_capability =
    CREATE_DELETE_VOLUME | PUBLISH_UNPUBLISH_VOLUME | CREATE_DELETE_SNAPSHOT | EXPAND_VOLUME

definition controllerCaps :: "controller_capability list" where
  "controllerCaps = [CREATE_DELETE_VOLUME, PUBLISH_UNPUBLISH_VOLUME, CREATE_DELETE_SNAPSHOT, EXPAND_VOLUME]"

definition ControllerGetCapabilities :: "controller_capability list" where
  "ControllerGetCapabilities = map (\<lambda>controllerCap. controllerCap) controllerCaps"

text \<open>The calls of the interface that the controller does not offer.\<close>

datatype controller_call = ValidateVolumeCapabilities | ListVolumes | GetCapacity | ListSnapshots

definition controller_unimplemented :: "controller_call \<Rightarrow> go_error" where
  "controller_unimplemented c = Status Unimplemented"

section \<open>Identity\<close>

datatype plugin_capability = CONTROLLER_SERVICE | VOLUME_ACCESSIBILITY_CONSTRAINTS

definition GetPluginInfo :: "string \<times> string" where
  "GetPluginInfo = (DriverName, DriverVersion)"

definition GetPluginCapabilities :: "plugin_capability list" where
  "GetPluginCapabilities = [CONTROLLER_SERVICE, VOLUME_ACCESSIBILITY_CONSTRAINTS]"

section \<open>Starting\<close>

text \<open>
  \<open>Run\<close> makes the service of the component type; a controller loads the snapshots, before it
  serves. Another component type leaves both services nil. The goroutine of a controller that
  synchronises the tags is \<open>sync_rounds\<close> of the theory \<open>CbsTags\<close>.
\<close>

datatype 'w service =
    ControllerService cbsController "snap_state \<times> 'w K8sCMCache"
  | NodeService cbsNode
  | NoService

definition Run ::
  "cbs_env \<Rightarrow> (nat \<Rightarrow> ext_err + string) \<Rightarrow> nat \<Rightarrow> (string \<Rightarrow> ext_err + URL) \<Rightarrow> cbsDriver \<Rightarrow>
   'w K8sCMCache \<Rightarrow> cbs_hist \<Rightarrow> (go_error + 'w service) \<times> cbs_hist" where
  "Run env get_node waits url_parse drv k h =
     (if drv_componentType drv = componentController then
        (Inr (ControllerService (newCbsController drv) (LoadExDataFromMetadataStore (snap_empty, k))), h)
      else if drv_componentType drv = componentNode then
        (case newCbsNode env get_node waits url_parse (drv_zone drv) (drv_nodeID drv) (drv_volumeAttachLimit drv) h of
           (Inl e, h1) \<Rightarrow> (Inl e, h1)
         | (Inr node, h1) \<Rightarrow> (Inr (NodeService node), h1))
      else (Inr NoService, h))"

section \<open>What a started process knows\<close>

text \<open>A process that gets through \<open>NewDriver\<close> knows its region and zone and which service it runs; values
  given by flags are kept; and a controller never waits for an instance id.\<close>

theorem driver_settled:
  assumes "NewDriver env meta waits flags = Inr drv"
  shows "drv_region drv \<noteq> [] \<and> drv_zone drv \<noteq> [] \<and> drv_componentType drv \<noteq> [] \<and>
    (drv_region flags \<noteq> [] \<longrightarrow> drv_region drv = drv_region flags) \<and>
    (drv_zone flags \<noteq> [] \<longrightarrow> drv_zone drv = drv_zone flags) \<and>
    (drv_componentType drv \<noteq> componentNode \<longrightarrow> drv_nodeID drv = drv_nodeID flags) \<and>
    drv_clusterId drv = drv_clusterId flags"
  using assms
  by (auto simp: NewDriver_def Let_def dest: from_metadata_InrD split: sum.splits if_splits)

definition demo_flags :: cbsDriver where
  "demo_flags = \<lparr>drv_region = [], drv_zone = ''ap-guangzhou-3'', drv_nodeID = [], drv_cbsUrl = [],
     drv_clusterId = ''cls-1'', drv_componentType = [], drv_environmentType = [], drv_volumeAttachLimit = -1\<rparr>"

theorem driver_settled_witness:
  "\<exists>drv. NewDriver (\<lambda>v. ''/csi/csi.sock'') (\<lambda>k n. if n = 0 then Inl (ExtErr EOther []) else Inr ''gz'') 5 demo_flags = Inr drv
     \<and> drv_region drv \<noteq> [] \<and> drv_zone drv = ''ap-guangzhou-3''"
proof -
  have "map_sum (\<lambda>_. ()) drv_region (NewDriver (\<lambda>v. ''/csi/csi.sock'') (\<lambda>k n. if n = 0 then Inl (ExtErr EOther []) else Inr ''gz'') 5 demo_flags) = Inr ''gz''"
    by code_simp
  then obtain drv where d: "NewDriver (\<lambda>v. ''/csi/csi.sock'') (\<lambda>k n. if n = 0 then Inl (ExtErr EOther []) else Inr ''gz'') 5 demo_flags = Inr drv"
    by (auto simp: map_sum_def split: sum.splits)
  from driver_settled [OF d] d show ?thesis by (simp add: demo_flags_def)
qed

end
