(* ===== verification/CfsController.thy ===== *)
theory CfsController imports Host begin

text \<open>
  The CFS controller (\<open>driver/cfs/controller.go\<close>) and process (\<open>driver/cfs/driver.go\<close>): a volume is
  a file system of its own, created in the cloud and waited for until it has a mount target, whose
  address goes into the volume context. The cloud API is an argument, over the history of calls.
\<close>

section \<open>The cloud API\<close>

record CreateCfsFileSystemRequest =
  cr_ResourceTags :: "(string \<times> string) list"
  cr_StorageType :: string
  cr_PGroupId :: string
  cr_NetInterface :: string
  cr_Zone :: string
  cr_FsName :: string
  cr_Protocol :: string
  cr_VpcId :: string
  cr_SubnetId :: string
  cr_ClientToken :: string

datatype cfs_call =
    CreateCfsFileSystem CreateCfsFileSystemRequest
  | DescribeCfsFileSystems string
  | DescribeMountTargets string
  | DeleteCfsFileSystem string
  | DeleteMountTarget "string option" "string option"

type_synonym cfs_hist = "cfs_call list"

text \<open>The pointers of the answers are options.\<close>

record FileSystemInfo =
  fi_FileSystemId :: "string option"
  fi_LifeCycleState :: "string option"

record MountInfo =
  mi_FileSystemId :: "string option"
  mi_MountTargetId :: "string option"
  mi_IpAddress :: "string option"
  mi_FSID :: "string option"

record cfs_env =
  on_Create :: "cfs_hist \<Rightarrow> CreateCfsFileSystemRequest \<Rightarrow> ext_err + string option option"
  on_DescribeFs :: "cfs_hist \<Rightarrow> string \<Rightarrow> ext_err + FileSystemInfo option list option"
  on_DescribeMt :: "cfs_hist \<Rightarrow> string \<Rightarrow> ext_err + MountInfo option list option"
  on_DeleteFs :: "cfs_hist \<Rightarrow> string \<Rightarrow> ext_err option"
  on_DeleteMt :: "cfs_hist \<Rightarrow> string option \<Rightarrow> string option \<Rightarrow> ext_err option"

type_synonym 'a cfs_action = "(cfs_call, 'a) action"

section \<open>Parameters\<close>

record cfs_params =
  cp_zone :: string
  cp_storageType :: string
  cp_pgroupID :: string
  cp_vpcID :: string
  cp_subnetID :: string
  cp_tags :: "(string \<times> string) list"

definition no_cfs_params :: cfs_params where
  "no_cfs_params = \<lparr>cp_zone = [], cp_storageType = [], cp_pgroupID = [], cp_vpcID = [], cp_subnetID = [], cp_tags = []\<rparr>"

text \<open>A tag that is not \<open>key:value\<close> is left out.\<close>

definition cfs_tags :: "string \<Rightarrow> (string \<times> string) list" where
  "cfs_tags v =
     List.maps (\<lambda>tag. case SplitC (CHR '':'') tag of [k, x] \<Rightarrow> [(k, x)] | _ \<Rightarrow> []) (SplitC (CHR '','') v)"

definition cfs_create_param :: "cfs_params \<Rightarrow> string \<times> string \<Rightarrow> cfs_params" where
  "cfs_create_param p kv =
     (let k = ToLower (fst kv); v = snd kv in
      if k = ''zone'' then p\<lparr>cp_zone := v\<rparr>
      else if k = ''storagetype'' then p\<lparr>cp_storageType := v\<rparr>
      else if k = ''pgroupid'' then p\<lparr>cp_pgroupID := v\<rparr>
      else if k = ''vpcid'' then p\<lparr>cp_vpcID := v\<rparr>
      else if k = ''subnetid'' then p\<lparr>cp_subnetID := v\<rparr>
      else if k = ''resourcetags'' then p\<lparr>cp_tags := cp_tags p @ cfs_tags v\<rparr>
      else p)"

section \<open>CreateVolume\<close>

record cfs_create_request =
  cc_Name :: string
  cc_VolumeCapabilities :: nat                      \<comment> \<open>how many\<close>
  cc_RequiredBytes :: int                           \<comment> \<open>0 without a \<open>CapacityRange\<close>\<close>
  cc_Parameters :: "(string \<times> string) list"

record cfs_volume =
  cfv_VolumeId :: string
  cfv_CapacityBytes :: int
  cfv_VolumeContext :: "(string \<times> string) list"

text \<open>\<open>clusterId\<close> is the environment variable \<open>CLUSTER_ID\<close>, \<open>zone\<close> the zone of the controller.\<close>

definition cfs_build_request :: "string \<Rightarrow> string \<Rightarrow> string \<Rightarrow> cfs_params \<Rightarrow> CreateCfsFileSystemRequest" where
  "cfs_build_request zone clusterId name p =
     \<lparr>cr_ResourceTags = cp_tags p,
      cr_StorageType = (if cp_storageType p \<noteq> [] then cp_storageType p else ''SD''),
      cr_PGroupId = (if cp_pgroupID p \<noteq> [] then cp_pgroupID p else ''pgroupbasic''),
      cr_NetInterface = ''vpc'',
      cr_Zone = (if cp_zone p \<noteq> [] then cp_zone p else zone),
      cr_FsName = (if clusterId \<noteq> [] then clusterId @ ''_'' @ name else name),
      cr_Protocol = ''NFS'',
      cr_VpcId = cp_vpcID p,
      cr_SubnetId = cp_subnetID p,
      cr_ClientToken = name\<rparr>"

text \<open>The first mount target of the file system: its address and its id.\<close>

fun find_mount_target :: "string \<Rightarrow> MountInfo option list \<Rightarrow> (string option \<times> string option) option" where
  "find_mount_target cfsID [] = None"
| "find_mount_target cfsID (None # ms) = find_mount_target cfsID ms"
| "find_mount_target cfsID (Some m # ms) =
     (if mi_FileSystemId m = Some cfsID then Some (mi_IpAddress m, mi_FSID m) else find_mount_target cfsID ms)"

text \<open>
  One tick: over the file systems of a listing, asking for the mount targets of each that is the
  created one and available. A nil entry, or one without an id, is dereferenced.
\<close>

fun cfs_scan :: "cfs_env \<Rightarrow> string \<Rightarrow> FileSystemInfo option list \<Rightarrow> cfs_hist \<Rightarrow>
    (go_error + string option \<times> string option) option \<times> cfs_hist" where
  "cfs_scan env cfsID [] h = (None, h)"
| "cfs_scan env cfsID (None # fis) h = (Some (Inl GoPanic), h)"
| "cfs_scan env cfsID (Some f # fis) h =
     (case fi_FileSystemId f of
        None \<Rightarrow> (Some (Inl GoPanic), h)
      | Some i \<Rightarrow>
          if i = cfsID \<and> fi_LifeCycleState f = Some ''available'' then
            (case on_DescribeMt env h cfsID of
               Inl err \<Rightarrow> cfs_scan env cfsID fis (DescribeMountTargets cfsID # h)
             | Inr None \<Rightarrow> cfs_scan env cfsID fis (DescribeMountTargets cfsID # h)
             | Inr (Some ms) \<Rightarrow>
                 (case find_mount_target cfsID ms of
                    Some t \<Rightarrow> (Some (Inr t), DescribeMountTargets cfsID # h)
                  | None \<Rightarrow> cfs_scan env cfsID fis (DescribeMountTargets cfsID # h)))
          else cfs_scan env cfsID fis h)"

definition cfs_tick :: "cfs_env \<Rightarrow> string \<Rightarrow> cfs_hist \<Rightarrow>
    (go_error + string option \<times> string option) option \<times> cfs_hist" where
  "cfs_tick env cfsID h =
     (case on_DescribeFs env h cfsID of
        Inl err \<Rightarrow> (None, DescribeCfsFileSystems cfsID # h)
      | Inr None \<Rightarrow> (None, DescribeCfsFileSystems cfsID # h)
      | Inr (Some fis) \<Rightarrow> cfs_scan env cfsID fis (DescribeCfsFileSystems cfsID # h))"

text \<open>The wait of 100 seconds, \<open>ticks\<close> of which are served before the deadline.\<close>

definition cfs_wait :: "cfs_env \<Rightarrow> nat \<Rightarrow> string \<Rightarrow> (string option \<times> string option) cfs_action" where
  "cfs_wait env ticks cfsID h =
     (case poll (cfs_tick env cfsID) ticks h of
        (Some r, h') \<Rightarrow> (r, h')
      | (None, h') \<Rightarrow> (Inl (Status DeadlineExceeded), h'))"

definition set_if :: "string \<Rightarrow> string option \<Rightarrow> (string \<times> string) list \<Rightarrow> (string \<times> string) list" where
  "set_if k v m = (case v of Some x \<Rightarrow> AList.update k x m | None \<Rightarrow> m)"

definition cfs_CreateVolume :: "cfs_env \<Rightarrow> nat \<Rightarrow> string \<Rightarrow> string \<Rightarrow> cfs_create_request \<Rightarrow> cfs_volume cfs_action" where
  "cfs_CreateVolume env ticks zone clusterId req =
     (let name = cc_Name req in
      if length name = 0 then fail (Status InvalidArgument)
      else if cc_VolumeCapabilities req = 0 then fail (Status InvalidArgument)
      else
        (let requestGiB = RoundUpGiB (cc_RequiredBytes req);
             p = foldl cfs_create_param no_cfs_params (cc_Parameters req);
             request = cfs_build_request zone clusterId name p in
         if cp_vpcID p = [] then fail (Status InvalidArgument)
         else if cp_subnetID p = [] then fail (Status InvalidArgument)
         else
           andThen (fetch (\<lambda>_. Status Internal) (CreateCfsFileSystem request) (\<lambda>h. on_Create env h request)) (\<lambda>response.
             case response of
               None \<Rightarrow> fail GoPanic
             | Some None \<Rightarrow> fail (Status Internal)
             | Some (Some cfsID) \<Rightarrow>
                 andThen (cfs_wait env ticks cfsID) (\<lambda>(ip, fsid).
                   ret \<lparr>cfv_VolumeId = cfsID, cfv_CapacityBytes = int64 (requestGiB * GiB),
                        cfv_VolumeContext = set_if ''fsid'' fsid (set_if ''host'' ip (cc_Parameters req))\<rparr>))))"

section \<open>The other handlers\<close>

definition cfs_DeleteVolume :: "cfs_env \<Rightarrow> string \<Rightarrow> unit cfs_action" where
  "cfs_DeleteVolume env volumeId =
     (if length volumeId = 0 then fail (Status InvalidArgument)
      else
        andThen (fetch Plain (DescribeCfsFileSystems volumeId) (\<lambda>h. on_DescribeFs env h volumeId)) (\<lambda>r.
          if r = Some [] then ret ()
          else call (\<lambda>_. Status Internal) (DeleteCfsFileSystem volumeId) (\<lambda>h. on_DeleteFs env h volumeId)))"

definition cfs_ControllerExpandVolume :: "'a cfs_action" where
  "cfs_ControllerExpandVolume = fail (Status Unimplemented)"

text \<open>Not called by any handler.\<close>

definition deleteMountTargetsForHPFileSystem :: "cfs_env \<Rightarrow> string \<Rightarrow> unit cfs_action" where
  "deleteMountTargetsForHPFileSystem env cfsID =
     andThen (fetch Plain (DescribeMountTargets cfsID) (\<lambda>h. on_DescribeMt env h cfsID)) (\<lambda>r.
       case r of
         None \<Rightarrow> ret ()
       | Some mts \<Rightarrow>
           for_each (\<lambda>mt. case mt of
               None \<Rightarrow> fail GoPanic
             | Some m \<Rightarrow>
                 call Plain (DeleteMountTarget (mi_FileSystemId m) (mi_MountTargetId m))
                   (\<lambda>h. on_DeleteMt env h (mi_FileSystemId m) (mi_MountTargetId m))) mts)"

text \<open>\<open>GetSercet\<close> hands out no token, so the client keeps its credentials.\<close>

definition updateCfsClent :: "getenv \<Rightarrow> 'c \<Rightarrow> (string \<times> string \<times> string \<Rightarrow> 'c \<Rightarrow> 'c) \<Rightarrow> 'c" where
  "updateCfsClent env client withCredential =
     (case GetSercet env of (secretID, secretKey, token, isTokenUpdate) \<Rightarrow>
        if token \<noteq> [] \<and> isTokenUpdate then withCredential (secretID, secretKey, token) client else client)"

section \<open>The process\<close>

record cfsDriver =
  cd_region :: string
  cd_zone :: string
  cd_cfsUrl :: string
  cd_componentType :: string
  cd_environmentType :: string

text \<open>The controller's zone, region and endpoint; without region or zone the process ends.\<close>

definition cfs_NewControllerServer ::
  "(string \<Rightarrow> nat \<Rightarrow> ext_err + string) \<Rightarrow> nat \<Rightarrow> cfsDriver \<Rightarrow> go_error + string \<times> string \<times> string" where
  "cfs_NewControllerServer meta waits d =
     (case (if cd_region d = [] then from_metadata meta waits ''placement/region'' else Inr (cd_region d)) of
        Inl e \<Rightarrow> Inl e
      | Inr region \<Rightarrow>
     (case (if cd_zone d = [] then from_metadata meta waits ''placement/zone'' else Inr (cd_zone d)) of
        Inl e \<Rightarrow> Inl e
      | Inr zone \<Rightarrow>
          (let endpoint = (if cd_cfsUrl d \<noteq> [] then cd_cfsUrl d
             else if cd_environmentType d = ''test'' then ''cfs.test.tencentcloudapi.com''
             else ''cfs.internal.tencentcloudapi.com'')
           in Inr (region, zone, endpoint))))"

text \<open>Which services run: controller, node.\<close>

definition cfs_Run ::
  "(string \<Rightarrow> nat \<Rightarrow> ext_err + string) \<Rightarrow> nat \<Rightarrow> cfsDriver \<Rightarrow> go_error + (string \<times> string \<times> string) option \<times> bool" where
  "cfs_Run meta waits d =
     (if cd_componentType d = ''controller'' then
        map_sum id (\<lambda>cs. (Some cs, False)) (cfs_NewControllerServer meta waits d)
      else if cd_componentType d = ''node'' then Inr (None, True)
      else map_sum id (\<lambda>cs. (Some cs, True)) (cfs_NewControllerServer meta waits d))"

end
