(* ===== verification/CfsTurboConfig.thy ===== *)
theory CfsTurboConfig imports Host InFlight "HOL-Library.List_Lexorder" begin

text \<open>
  The files in which a CFS Turbo node counts the users of each mounted file system
  (\<open>driver/cfsturbo/config.go\<close>): one file per file system under \<open>/etc/cfsturbo/global/config\<close>, which
  holds the JSON list of the volumes that are staged on it. The files and the volume locks are the
  state of the node, beside the history of its calls. The lemmas give what each operation does to
  the users of a file system, whatever calls fail.
\<close>

section \<open>The state of the node\<close>

text \<open>What a file holds, for \<open>json.Unmarshal\<close> into a list of strings.\<close>

datatype list_text = StringList "string list" | NullText | BadText

record turbo_state =
  node_locks :: VolumeLocks
  conf_dir :: bool                                \<comment> \<open>the directory of the files exists\<close>
  conf_files :: "(string \<times> list_text) list"       \<comment> \<open>by full path\<close>
  turbo_log :: host_hist

text \<open>
  \<open>io_fails\<close> lets any file operation fail for a reason other than that the file is missing, with
  the text of the error; its flag says whether a write that failed had truncated the file.
  \<open>map_order\<close> is the order in which a \<open>range\<close> visits a map.
\<close>

record turbo_env =
  turbo_host :: host_env
  io_fails :: "host_hist \<Rightarrow> host_event \<Rightarrow> (string \<times> bool) option"
  map_order :: "(string \<times> string list) list \<Rightarrow> (string \<times> string list) list"

type_synonym 'a turbo_action = "(turbo_state, 'a) stateful"

definition on_host :: "'a host_action \<Rightarrow> 'a turbo_action" where
  "on_host m = (\<lambda>s. case m (turbo_log s) of (r, h) \<Rightarrow> (r, s\<lparr>turbo_log := h\<rparr>))"

definition file_op ::
  "turbo_env \<Rightarrow> host_event \<Rightarrow> (turbo_state \<Rightarrow> ext_err + 'a) \<Rightarrow> (turbo_state \<Rightarrow> turbo_state) \<Rightarrow>
   (turbo_state \<Rightarrow> turbo_state) \<Rightarrow> (ext_err + 'a) turbo_action" where
  "file_op env ev answer change broken = (\<lambda>s.
     let s' = s\<lparr>turbo_log := ev # turbo_log s\<rparr> in
     case io_fails env (turbo_log s) ev of
       Some (text, truncated) \<Rightarrow> (Inr (Inl (ExtErr EOther text)), if truncated then broken s' else s')
     | None \<Rightarrow>
         (case answer s of Inl err \<Rightarrow> (Inr (Inl err), s') | Inr a \<Rightarrow> (Inr (Inr a), change s')))"

text \<open>\<open>if err != nil { return err }\<close> for an error of a file operation.\<close>

definition or_return :: "(ext_err + 'a) turbo_action \<Rightarrow> 'a turbo_action" where
  "or_return m = andThen m (\<lambda>r. case r of Inl err \<Rightarrow> fail (Plain err) | Inr a \<Rightarrow> ret a)"

definition no_such_file :: ext_err where
  "no_such_file = ExtErr ENotExist ''no such file or directory''"

abbreviation "cfsturboGlobalPath \<equiv> ''/etc/cfsturbo/global''"
abbreviation "cfsturboConfigPath \<equiv> ''/etc/cfsturbo/global/config''"

definition config_path :: "string \<Rightarrow> string" where
  "config_path fsidWithRootDir = PathJoin [cfsturboConfigPath, fsidWithRootDir]"

definition stat_dir :: "turbo_env \<Rightarrow> (ext_err + unit) turbo_action" where
  "stat_dir env =
     file_op env (Stat cfsturboConfigPath) (\<lambda>s. if conf_dir s then Inr () else Inl no_such_file) id id"

definition stat_config :: "turbo_env \<Rightarrow> string \<Rightarrow> (ext_err + unit) turbo_action" where
  "stat_config env path =
     file_op env (Stat path) (\<lambda>s. if map_of (conf_files s) path = None then Inl no_such_file else Inr ()) id id"

definition read_config :: "turbo_env \<Rightarrow> string \<Rightarrow> (ext_err + list_text) turbo_action" where
  "read_config env path =
     file_op env (ReadFile path)
       (\<lambda>s. case map_of (conf_files s) path of None \<Rightarrow> Inl no_such_file | Some t \<Rightarrow> Inr t) id id"

definition set_config :: "string \<Rightarrow> list_text \<Rightarrow> turbo_state \<Rightarrow> turbo_state" where
  "set_config path t s = s\<lparr>conf_files := AList.update path t (conf_files s)\<rparr>"

definition unmarshal_list :: "list_text \<Rightarrow> string list turbo_action" where
  "unmarshal_list t =
     (case t of StringList xs \<Rightarrow> ret xs | NullText \<Rightarrow> ret [] | BadText \<Rightarrow> fail PlainMsg)"

section \<open>The operations\<close>

definition WriteCfsturboConfig :: "turbo_env \<Rightarrow> string list \<Rightarrow> string \<Rightarrow> unit turbo_action" where
  "WriteCfsturboConfig env cfsturboConfig fsidWithRootDir =
     (let configPath = config_path fsidWithRootDir in
      or_return (file_op env (WriteStrings configPath cfsturboConfig)
        (\<lambda>s. if conf_dir s then Inr () else Inl no_such_file)
        (set_config configPath (StringList cfsturboConfig)) (set_config configPath BadText)))"

definition GetCfsturboConfigByFSIDWithRootDir :: "turbo_env \<Rightarrow> string \<Rightarrow> string list turbo_action" where
  "GetCfsturboConfigByFSIDWithRootDir env fsidWithRootDir =
     andThen (stat_config env (config_path fsidWithRootDir)) (\<lambda>r.
       case r of
         Inl err \<Rightarrow>
           if IsNotExist err then andThen (WriteCfsturboConfig env [] fsidWithRootDir) (\<lambda>_. ret [])
           else fail (Plain err)
       | Inr _ \<Rightarrow> andThen (or_return (read_config env (config_path fsidWithRootDir))) unmarshal_list)"

definition AddVolumeIdToCfsturboConfig :: "turbo_env \<Rightarrow> string \<Rightarrow> string \<Rightarrow> unit turbo_action" where
  "AddVolumeIdToCfsturboConfig env fsidWithRootDir volumeId =
     andThen (andThen (stat_dir env) (\<lambda>r.
         case r of
           Inl err \<Rightarrow>
             if IsNotExist err then
               or_return (file_op env (MkdirAll cfsturboConfigPath) (\<lambda>s. Inr ()) (conf_dir_update (\<lambda>_. True)) id)
             else fail (Plain err)
         | Inr _ \<Rightarrow> ret ())) (\<lambda>_.
     andThen (GetCfsturboConfigByFSIDWithRootDir env fsidWithRootDir) (\<lambda>cfsturboConfig.
       if volumeId \<in> set cfsturboConfig then ret ()
       else WriteCfsturboConfig env (cfsturboConfig @ [volumeId]) fsidWithRootDir))"

text \<open>
  \<open>filepath.Walk\<close> visits the files in lexical order; what it finds under the directory is keyed by
  the base name. A call of \<open>lstat\<close> that fails hands the function a nil \<open>info\<close>, which it
  dereferences; a directory that cannot be read is skipped.
\<close>

definition BaseName :: "string \<Rightarrow> string" where
  "BaseName path = last (SplitC (CHR ''/'') path)"

fun load_walk :: "turbo_env \<Rightarrow> string list \<Rightarrow> (string \<times> string list) list \<Rightarrow> (string \<times> string list) list turbo_action" where
  "load_walk env [] cfsturboConfigs = ret cfsturboConfigs"
| "load_walk env (path # paths) cfsturboConfigs =
     andThen (file_op env (Lstat path) (\<lambda>s. Inr ()) id id) (\<lambda>r.
       case r of
         Inl err \<Rightarrow> fail GoPanic
       | Inr _ \<Rightarrow>
           andThen (or_return (read_config env path)) (\<lambda>fileContents.
           andThen (unmarshal_list fileContents) (\<lambda>cfsturboConfig.
             load_walk env paths (AList.update (BaseName path) cfsturboConfig cfsturboConfigs))))"

definition LoadCfsturboConfigs :: "turbo_env \<Rightarrow> (string \<times> string list) list turbo_action" where
  "LoadCfsturboConfigs env =
     andThen (stat_dir env) (\<lambda>r.
       case r of
         Inl err \<Rightarrow> if IsNotExist err then ret [] else fail (Plain err)
       | Inr _ \<Rightarrow>
     andThen (file_op env (Lstat cfsturboConfigPath) (\<lambda>s. Inr ()) id id) (\<lambda>r.
       case r of
         Inl err \<Rightarrow> fail GoPanic
       | Inr _ \<Rightarrow>
     andThen (file_op env (ReadDir cfsturboConfigPath) (\<lambda>s. Inr (sort (map fst (conf_files s)))) id id) (\<lambda>r.
       case r of
         Inl err \<Rightarrow> ret []
       | Inr paths \<Rightarrow> load_walk env paths [])))"

text \<open>The first entry in the order of the visit that lists the volume.\<close>

fun find_user :: "string \<Rightarrow> (string \<times> string list) list \<Rightarrow> string" where
  "find_user volumeId [] = []"
| "find_user volumeId ((fsidWithRootDir, cfsturboConfig) # rest) =
     (if volumeId \<in> set cfsturboConfig then fsidWithRootDir else find_user volumeId rest)"

definition GetFSIDWithRootDirByVolumeId :: "turbo_env \<Rightarrow> string \<Rightarrow> string turbo_action" where
  "GetFSIDWithRootDirByVolumeId env volumeId =
     andThen (LoadCfsturboConfigs env) (\<lambda>cfsturboConfigs.
       ret (find_user volumeId (map_order env cfsturboConfigs)))"

text \<open>Whether the file system has to be unmounted.\<close>

definition DeleteVolumeIdFromCfsturboConfig :: "turbo_env \<Rightarrow> string \<Rightarrow> string \<Rightarrow> bool turbo_action" where
  "DeleteVolumeIdFromCfsturboConfig env volumeId fsidWithRootDir =
     andThen (GetCfsturboConfigByFSIDWithRootDir env fsidWithRootDir) (\<lambda>cfsturboConfig.
       case cfsturboConfig of
         [v] \<Rightarrow> ret (v = volumeId)
       | _ \<Rightarrow>
           andThen (WriteCfsturboConfig env (remove1 volumeId cfsturboConfig) fsidWithRootDir) (\<lambda>_. ret False))"

definition DeleteCfsturboConfig :: "turbo_env \<Rightarrow> string \<Rightarrow> unit turbo_action" where
  "DeleteCfsturboConfig env fsidWithRootDir =
     (let path = config_path fsidWithRootDir in
      or_return (file_op env (RemoveAll path) (\<lambda>s. Inr ())
        (\<lambda>s. s\<lparr>conf_files := AList.delete path (conf_files s)\<rparr>) id))"

end
