(* ===== verification/CfsTurboNode.thy ===== *)
theory CfsTurboNode imports CfsTurboConfig begin

text \<open>
  The CFS Turbo node (\<open>driver/cfsturbo/node.go\<close>). A file system is mounted once on the node, at a
  global path made of its id and its root directory, by the staging of the first volume on it;
  every publish is a bind mount below that path, and the unstaging of the last volume takes the
  global mount down. The files of \<open>CfsTurboConfig\<close> count the volumes.
\<close>

section \<open>Parameters\<close>

record cfsTurboOptions =
  opt_Proto :: string
  opt_Server :: string
  opt_Path :: string
  opt_Options :: string
  opt_FSID :: string
  opt_RootDir :: string

definition no_turbo_options :: cfsTurboOptions where
  "no_turbo_options = \<lparr>opt_Proto = [], opt_Server = [], opt_Path = [], opt_Options = [],
     opt_FSID = [], opt_RootDir = []\<rparr>"

abbreviation "CFSTurboProtoLustre \<equiv> ''lustre''"
abbreviation "CFSTurboProtoNFS \<equiv> ''nfs''"
abbreviation "CFSTurboProtoNFSDefaultDIR \<equiv> ''/cfs''"
abbreviation "CFSTurboLustreKernelModule \<equiv> ''ptlrpc''"
abbreviation "nfsPort \<equiv> ''2049''"

definition turbo_stage_param :: "cfsTurboOptions \<Rightarrow> string \<times> string \<Rightarrow> cfsTurboOptions" where
  "turbo_stage_param opt kv =
     (let key = ToLower (fst kv); value = snd kv in
      if key = ''proto'' then opt\<lparr>opt_Proto := value\<rparr>
      else if key = ''rootdir'' then opt\<lparr>opt_RootDir := value\<rparr>
      else if key = ''fsid'' then opt\<lparr>opt_FSID := value\<rparr>
      else if key = ''host'' then opt\<lparr>opt_Server := value\<rparr>
      else if key = ''options'' then opt\<lparr>opt_Options := value\<rparr>
      else opt)"

definition turbo_publish_param :: "cfsTurboOptions \<Rightarrow> string \<times> string \<Rightarrow> cfsTurboOptions" where
  "turbo_publish_param opt kv =
     (let key = ToLower (fst kv); value = snd kv in
      if key = ''proto'' then opt\<lparr>opt_Proto := value\<rparr>
      else if key = ''rootdir'' then opt\<lparr>opt_RootDir := value\<rparr>
      else if key = ''fsid'' then opt\<lparr>opt_FSID := value\<rparr>
      else if key = ''path'' then opt\<lparr>opt_Path := value\<rparr>
      else opt)"

text \<open>The protocol and the root directory that are taken when none is given.\<close>

definition turbo_defaults :: "cfsTurboOptions \<Rightarrow> cfsTurboOptions" where
  "turbo_defaults opt =
     (let opt = (if opt_Proto opt = [] then opt\<lparr>opt_Proto := CFSTurboProtoLustre\<rparr> else opt)
      in if opt_RootDir opt = [] then opt\<lparr>opt_RootDir := CFSTurboProtoNFSDefaultDIR\<rparr> else opt)"

text \<open>The name under which a file system is locked, mounted and counted.\<close>

definition fsidWithRootDir_of :: "cfsTurboOptions \<Rightarrow> string" where
  "fsidWithRootDir_of opt =
     (if opt_RootDir opt \<noteq> CFSTurboProtoNFSDefaultDIR
      then opt_FSID opt @ ReplaceAll (opt_RootDir opt) ''/'' ''-'' else opt_FSID opt)"

definition global_path :: "string \<Rightarrow> string" where
  "global_path fsidWithRootDir = cfsturboGlobalPath @ ''/'' @ fsidWithRootDir"

text \<open>
  \<open>TryAcquire\<close> with the deferred \<open>Release\<close>, which runs on every exit.
\<close>

definition with_lock :: "string \<Rightarrow> 'a turbo_action \<Rightarrow> 'a turbo_action" where
  "with_lock k m = (\<lambda>s.
     case TryAcquire k (node_locks s) of
       (False, vl) \<Rightarrow> (Inl (Status Aborted), s\<lparr>node_locks := vl\<rparr>)
     | (True, vl) \<Rightarrow>
         (case m (s\<lparr>node_locks := vl\<rparr>) of (r, s') \<Rightarrow> (r, s'\<lparr>node_locks := Release k (node_locks s')\<rparr>)))"

section \<open>Staging\<close>

record turbo_stage_request =
  ts_VolumeId :: string
  ts_VolumeCapability :: access_type
  ts_VolumeContext :: "(string \<times> string) list"

text \<open>What the protocol asks for before the mount, and the source of the mount.\<close>

definition turbo_mount_source :: "host_env \<Rightarrow> cfsTurboOptions \<Rightarrow> string list \<Rightarrow> (string \<times> string list) host_action" where
  "turbo_mount_source env opt mo =
     (if opt_Proto opt = CFSTurboProtoNFS then
        (let addr = opt_Server opt @ '':'' @ nfsPort in
         andThen (call (\<lambda>_. PlainMsg) (Dial addr) (\<lambda>h. on_Dial env h addr)) (\<lambda>_.
           ret (opt_Server opt @ '':/'' @ opt_FSID opt @ opt_RootDir opt, mo @ [''vers=3,nolock,noresvport''])))
      else if opt_Proto opt = CFSTurboProtoLustre then
        (let args = [''-c'', ''lsmod | grep '' @ CFSTurboLustreKernelModule] in
         andThen (ask (Exec ''/bin/bash'' args) (\<lambda>h. on_Exec env h ''/bin/bash'' args)) (\<lambda>_.
           ret (opt_Server opt @ ''@tcp0:/'' @ opt_FSID opt @ opt_RootDir opt, mo)))
      else fail (Status InvalidArgument))"

text \<open>The global path is there, and whether nothing is mounted on it.\<close>

definition turbo_global_dir :: "host_env \<Rightarrow> string \<Rightarrow> bool host_action" where
  "turbo_global_dir env mountPath = ensure_mount_dir env (Some True) mountPath"

definition turbo_stage_locked :: "turbo_env \<Rightarrow> cfsTurboOptions \<Rightarrow> string list \<Rightarrow> string \<Rightarrow> string \<Rightarrow> unit turbo_action" where
  "turbo_stage_locked env opt mo fsidWithRootDir volumeId =
     andThen (on_host (turbo_mount_source (turbo_host env) opt mo)) (\<lambda>(mountSource, mo).
     (let mountPath = global_path fsidWithRootDir in
      andThen (on_host (turbo_global_dir (turbo_host env) mountPath)) (\<lambda>notMnt.
      andThen (if notMnt then on_host (mount_call mount_error (turbo_host env) mountSource mountPath (opt_Proto opt) mo)
               else ret ()) (\<lambda>_.
        map_error (as_status Internal) (AddVolumeIdToCfsturboConfig env fsidWithRootDir volumeId)))))"

definition turbo_NodeStageVolume :: "turbo_env \<Rightarrow> turbo_stage_request \<Rightarrow> unit turbo_action" where
  "turbo_NodeStageVolume env req =
     (let opt = turbo_defaults (foldl turbo_stage_param no_turbo_options (ts_VolumeContext req)) in
      if \<not> HasPrefix (opt_RootDir opt) ''/'' then fail (Status InvalidArgument)
      else if opt_FSID opt = [] then fail (Status InvalidArgument)
      else if opt_Server opt = [] then fail (Status InvalidArgument)
      else
        (let mo = GetMountFlags (ts_VolumeCapability req) @ (if opt_Options opt \<noteq> [] then [opt_Options opt] else []);
             fsidWithRootDir = fsidWithRootDir_of opt
         in with_lock fsidWithRootDir (turbo_stage_locked env opt mo fsidWithRootDir (ts_VolumeId req))))"

section \<open>Unstaging\<close>

definition turbo_unstage_locked :: "turbo_env \<Rightarrow> string \<Rightarrow> string \<Rightarrow> unit turbo_action" where
  "turbo_unstage_locked env volumeId fsidWithRootDir =
     andThen (map_error (as_status Internal) (DeleteVolumeIdFromCfsturboConfig env volumeId fsidWithRootDir)) (\<lambda>needUmount.
       if \<not> needUmount then ret ()
       else
         (let mountPath = global_path fsidWithRootDir in
          andThen (on_host (call (\<lambda>_. Status Internal) (CleanupMountPoint mountPath)
              (\<lambda>h. on_CleanupMountPoint (turbo_host env) h mountPath))) (\<lambda>_.
            map_error (as_status Internal) (DeleteCfsturboConfig env fsidWithRootDir))))"

definition turbo_NodeUnstageVolume :: "turbo_env \<Rightarrow> string \<Rightarrow> unit turbo_action" where
  "turbo_NodeUnstageVolume env volumeId =
     andThen (map_error (as_status Internal) (GetFSIDWithRootDirByVolumeId env volumeId)) (\<lambda>fsidWithRootDir.
       if fsidWithRootDir = [] then ret ()
       else with_lock fsidWithRootDir (turbo_unstage_locked env volumeId fsidWithRootDir))"

section \<open>Publishing\<close>

record turbo_publish_request =
  tp_VolumeId :: string
  tp_TargetPath :: string
  tp_VolumeCapability :: access_type
  tp_VolumeContext :: "(string \<times> string) list"
  tp_Readonly :: bool

definition CheckGlobalMountPath :: "turbo_env \<Rightarrow> string \<Rightarrow> turbo_publish_request \<Rightarrow> unit turbo_action" where
  "CheckGlobalMountPath env fsidWithRootDir req =
     andThen (on_host (turbo_global_dir (turbo_host env) (global_path fsidWithRootDir))) (\<lambda>notMnt.
       if notMnt then
         turbo_NodeStageVolume env
           \<lparr>ts_VolumeId = tp_VolumeId req, ts_VolumeCapability = tp_VolumeCapability req,
            ts_VolumeContext = tp_VolumeContext req\<rparr>
       else ret ())"

text \<open>\<open>GetMount()\<close> of another access type is nil, and the field of nil is read.\<close>

definition turbo_NodePublishVolume :: "turbo_env \<Rightarrow> turbo_publish_request \<Rightarrow> unit turbo_action" where
  "turbo_NodePublishVolume env req =
     (let targetPath = tp_TargetPath req in
      if targetPath = [] then fail (Status InvalidArgument)
      else
        (let opt = turbo_defaults (foldl turbo_publish_param no_turbo_options (tp_VolumeContext req)) in
         if \<not> HasPrefix (opt_RootDir opt) ''/'' then fail (Status InvalidArgument)
         else if opt_FSID opt = [] then fail (Status InvalidArgument)
         else
           (let path = (if opt_Path opt = [] then ''/'' else opt_Path opt) in
            if \<not> HasPrefix path ''/'' then fail (Status InvalidArgument)
            else case tp_VolumeCapability req of
              MountAccess fstype flags \<Rightarrow>
                (let mo = flags @ [''bind''] @ (if tp_Readonly req then [''ro''] else []);
                     fsidWithRootDir = fsidWithRootDir_of opt;
                     mountSource = cfsturboGlobalPath @ ''/'' @ fsidWithRootDir @ path in
                 andThen (CheckGlobalMountPath env fsidWithRootDir req) (\<lambda>_.
                 andThen (on_host (ensure_mount_dir (turbo_host env) None targetPath)) (\<lambda>notMnt.
                   if \<not> notMnt then ret ()
                   else on_host (mount_call (\<lambda>_. Status Internal) (turbo_host env) mountSource targetPath (opt_Proto opt) mo))))
            | _ \<Rightarrow> fail GoPanic)))"

text \<open>The same loop as in the CBS node. \<open>None\<close>: the call never returns.\<close>

definition turbo_NodeUnpublishVolume ::
  "turbo_env \<Rightarrow> string \<Rightarrow> turbo_state \<Rightarrow> ((go_error + unit) \<times> turbo_state) option" where
  "turbo_NodeUnpublishVolume env targetPath s =
     (if targetPath = [] then Some (Inl (Status InvalidArgument), s)
      else map_option (\<lambda>(r, h). (r, s\<lparr>turbo_log := h\<rparr>)) (unmount_all (turbo_host env) targetPath (turbo_log s)))"

datatype turbo_node_capability = TURBO_STAGE_UNSTAGE_VOLUME

definition turbo_NodeGetCapabilities :: "turbo_node_capability list" where
  "turbo_NodeGetCapabilities = [TURBO_STAGE_UNSTAGE_VOLUME]"

definition turbo_NodeExpandVolume :: "'a turbo_action" where
  "turbo_NodeExpandVolume = fail (Status Unimplemented)"

end
