(* ===== verification/CfsTurboController.thy ===== *)
theory CfsTurboController imports CfsTurboNode begin

text \<open>
  The CFS Turbo controller (\<open>driver/cfsturbo/controller.go\<close>): a volume is a directory on a file
  system that exists already. The controller mounts the root directory below \<open>/tmp\<close>, makes or
  removes the directory of the volume, and unmounts it. And the installer of the file system's
  client (\<open>install_cfs_client.go\<close>), which a node starts beside its services.
\<close>

section \<open>Volume ids\<close>

text \<open>\<open>None\<close>: the index \<open>[2]\<close> is out of range.\<close>

definition getCfsTurboOptionsFromVolumeId :: "string \<Rightarrow> (string \<times> cfsTurboOptions) option" where
  "getCfsTurboOptionsFromVolumeId volumeId =
     (let options = SplitC (CHR ''-'') volumeId in
      if length options < 3 then Some ([], no_turbo_options)
      else
        (let opt = no_turbo_options\<lparr>opt_FSID := options ! 0, opt_Server := options ! 1\<rparr>;
             path = Join (drop 2 options) ''-'';
             parts = SplitC (CHR ''/'') path
         in if 2 < length parts then Some (parts ! 2, opt) else None))"

definition turbo_volume_path :: "string \<Rightarrow> string \<Rightarrow> string" where
  "turbo_volume_path clusterId name = ''/'' @ clusterId @ ''/'' @ name"

definition turbo_volume_id :: "cfsTurboOptions \<Rightarrow> string \<Rightarrow> string" where
  "turbo_volume_id opt path = opt_FSID opt @ ''-'' @ opt_Server opt @ ''-'' @ path"

section \<open>Mounting\<close>

definition mountCfsTurbo :: "host_env \<Rightarrow> string \<Rightarrow> cfsTurboOptions \<Rightarrow> unit host_action" where
  "mountCfsTurbo env mountPath opt =
     (let opt = opt\<lparr>opt_Proto := CFSTurboProtoLustre\<rparr>;
          opt = (if opt_RootDir opt = [] then opt\<lparr>opt_RootDir := CFSTurboProtoNFSDefaultDIR\<rparr> else opt);
          args = [''-c'', ''lsmod | grep '' @ CFSTurboLustreKernelModule];
          mountSource = opt_Server opt @ ''@tcp0:/'' @ opt_FSID opt @ opt_RootDir opt in
      andThen (ask (Exec ''/bin/bash'' args) (\<lambda>h. on_Exec env h ''/bin/bash'' args)) (\<lambda>_.
      andThen (ensure_mount_dir env (Some True) mountPath) (\<lambda>notMnt.
        if notMnt then mount_call mount_error env mountSource mountPath (opt_Proto opt) [] else ret ())))"

section \<open>The handlers\<close>

record turbo_create_request =
  tc_Name :: string
  tc_VolumeCapabilities :: nat                      \<comment> \<open>how many\<close>
  tc_Parameters :: "(string \<times> string) list"
  tc_RequiredBytes :: int                           \<comment> \<open>0 without a \<open>CapacityRange\<close>\<close>

record turbo_volume =
  tv_VolumeId :: string
  tv_CapacityBytes :: int
  tv_VolumeContext :: "(string \<times> string) list"

definition turbo_create_param :: "cfsTurboOptions \<Rightarrow> string \<times> string \<Rightarrow> cfsTurboOptions" where
  "turbo_create_param opt kv =
     (let key = ToLower (fst kv); value = snd kv in
      if key = ''fsid'' then opt\<lparr>opt_FSID := value\<rparr>
      else if key = ''host'' then opt\<lparr>opt_Server := value\<rparr>
      else opt)"

definition turbo_CreateVolume :: "host_env \<Rightarrow> string \<Rightarrow> turbo_create_request \<Rightarrow> turbo_volume host_action" where
  "turbo_CreateVolume env clusterId req =
     (let name = tc_Name req in
      if length name = 0 then fail (Status InvalidArgument)
      else if tc_VolumeCapabilities req = 0 then fail (Status InvalidArgument)
      else
        (let opt = foldl turbo_create_param no_turbo_options (tc_Parameters req) in
         if opt_FSID opt = [] then fail (Status InvalidArgument)
         else if opt_Server opt = [] then fail (Status InvalidArgument)
         else if clusterId = [] then fail (Status InvalidArgument)
         else
           (let opt = opt\<lparr>opt_RootDir := CFSTurboProtoNFSDefaultDIR\<rparr>;
                mountPath = ''/tmp/'' @ name;
                dir = mountPath @ ''/'' @ clusterId @ ''/'' @ name in
            andThen (mountCfsTurbo env mountPath opt) (\<lambda>_.
            andThen (call (\<lambda>_. Status Internal) (MkdirAll dir) (\<lambda>h. on_MkdirAll env h dir)) (\<lambda>_.
            andThen (call (\<lambda>_. Status Internal) (Unmount mountPath) (\<lambda>h. on_Unmount env h mountPath)) (\<lambda>_.
              (let path = turbo_volume_path clusterId name;
                   parameters = AList.update ''path'' path (tc_Parameters req) in
               ret \<lparr>tv_VolumeId = turbo_volume_id opt path,
                    tv_CapacityBytes = int64 (RoundUpGiB (tc_RequiredBytes req) * GiB),
                    tv_VolumeContext = parameters\<rparr>)))))))"

definition turbo_DeleteVolume :: "host_env \<Rightarrow> string \<Rightarrow> string \<Rightarrow> unit host_action" where
  "turbo_DeleteVolume env clusterId volumeId =
     (if length volumeId = 0 then fail (Status InvalidArgument)
      else case getCfsTurboOptionsFromVolumeId volumeId of
        None \<Rightarrow> fail GoPanic
      | Some (pvName, opt) \<Rightarrow>
          if opt_FSID opt = [] \<or> opt_Server opt = [] \<or> pvName = [] then fail (Status InvalidArgument)
          else
            (let mountPath = ''/tmp/'' @ pvName;
                 dir = mountPath @ ''/'' @ clusterId @ ''/'' @ pvName in
             andThen (mountCfsTurbo env mountPath opt) (\<lambda>_.
             andThen (call (\<lambda>_. Status Internal) (RemoveAll dir) (\<lambda>h. on_RemoveAll env h dir)) (\<lambda>_.
               call (\<lambda>_. Status Internal) (Unmount mountPath) (\<lambda>h. on_Unmount env h mountPath)))))"

definition turbo_ControllerExpandVolume :: "'a host_action" where
  "turbo_ControllerExpandVolume = fail (Status Unimplemented)"

section \<open>The client installer\<close>

datatype install_event =
    Shell string              \<comment> \<open>\<open>/bin/bash -c\<close>\<close>
  | OpenRoot
  | Chroot string
  | ChdirOldRoot              \<comment> \<open>\<open>oldRootF.Chdir()\<close>\<close>

type_synonym install_env = "install_event list \<Rightarrow> install_event \<Rightarrow> ext_err option"

abbreviation "cfsTurboUrl \<equiv>
  ''https://cfsturbo-client-1251013638.cos.ap-guangzhou.myqcloud.com/tools/cfs_turbo_client_setup''"

definition do_step :: "install_env \<Rightarrow> install_event \<Rightarrow> (install_event, unit) action" where
  "do_step env ev = call (\<lambda>_. PlainMsg) ev (\<lambda>h. env h ev)"

definition ask_step :: "install_env \<Rightarrow> install_event \<Rightarrow> (install_event, ext_err option) action" where
  "ask_step env ev = ask ev (\<lambda>h. env h ev)"

text \<open>The errors of going back are only logged.\<close>

definition holdBack :: "install_env \<Rightarrow> install_event list \<Rightarrow> install_event list" where
  "holdBack env h = Chroot ''.'' # ChdirOldRoot # h"

text \<open>The commands that run below \<open>/host\<close>.\<close>

definition install_commands :: "string list" where
  "install_commands =
     [''rm -fr /tmp/cfs-turbo*; rm -fr /tmp/cfs_turbo*; rm -fr turbo*'',
      ''wget -O /tmp/cfs_turbo_client_setup '' @ cfsTurboUrl,
      ''chmod +x /tmp/cfs_turbo_client_setup'',
      ''/tmp/cfs_turbo_client_setup'']"

definition Install :: "install_env \<Rightarrow> (install_event, unit) action" where
  "Install env =
     andThen (ask_step env (Shell (''lsmod | grep '' @ CFSTurboLustreKernelModule))) (\<lambda>err.
       if err = None then ret ()
       else
         andThen (do_step env OpenRoot) (\<lambda>_. \<lambda>h.
           case andThen (do_step env (Chroot ''/host'')) (\<lambda>_.
                  for_each (\<lambda>c. do_step env (Shell c)) install_commands) h of
             (r, h') \<Rightarrow> (r, holdBack env h')))"

text \<open>The loop that a node starts: it tries until an installation succeeds. \<open>None\<close>: for ever.\<close>

partial_function (option) install_loop :: "install_env \<Rightarrow> install_event list \<Rightarrow> install_event list option" where
  "install_loop env h =
     (case Install env h of
        (Inr _, h') \<Rightarrow> Some h'
      | (Inl _, h') \<Rightarrow> install_loop env h')"

text \<open>Where the process has its root after a history of calls that all took effect.\<close>

fun below_host :: "install_event list \<Rightarrow> bool" where
  "below_host [] = False"
| "below_host (Chroot d # h) = (d \<noteq> ''.'')"
| "below_host (_ # h) = below_host h"

text \<open>However an installation ends, the process is back at its own root.\<close>

lemma Install_restores_root:
  assumes "\<not> below_host h"
  shows "\<not> below_host (snd (Install env h))"
  using assms
  by (auto simp: Install_def ask_step_def do_step_def andThen_def ask_def call_def holdBack_def ret_def
      split: prod.splits sum.splits option.splits)

lemma install_loop_restores_root:
  assumes "install_loop env h = Some h'" "\<not> below_host h"
  shows "\<not> below_host h'"
proof -
  have "\<not> below_host h \<longrightarrow> \<not> below_host h'"
  proof (rule install_loop.raw_induct [where P = "\<lambda>e g z. \<not> below_host g \<longrightarrow> \<not> below_host z", OF _ assms(1)])
    fix f e g z
    assume IH: "\<And>e g z. f e g = Some z \<Longrightarrow> \<not> below_host g \<longrightarrow> \<not> below_host z"
      and s: "(case Install e g of (Inl x, h') \<Rightarrow> f e h' | (Inr y, h') \<Rightarrow> Some h') = Some z"
    show "\<not> below_host g \<longrightarrow> \<not> below_host z"
      using s IH Install_restores_root [of g e] by (auto split: prod.splits sum.splits)
  qed
  with assms(2) show ?thesis by blast
qed

end
