(* ===== verification/Processes.thy ===== *)
theory Processes imports CbsDriver CfsController CfsTurboController begin

text \<open>
  The processes of the five drivers, from the command line to a server that listens: \<^verbatim>\<open>cmd\<close>, the
  constructors of \<^verbatim>\<open>driver.go\<close> in each driver, the Kubernetes client of \<^verbatim>\<open>k8scache.go\<close>, the metrics of
  \<^verbatim>\<open>driver/metrics\<close>, and what the vendored package \<^verbatim>\<open>csi-common\<close> does with them. A service that a
  process does not want is a nil pointer in CBS and CFS, and nil itself in CHDFS and COS; the server
  registers the first and not the second, and a call of the first panics when it looks at a field.
\<close>

section \<open>csi-common\<close>

datatype access_mode_kind = MULTI_NODE_MULTI_WRITER

record CSIDriver =
  csi_name :: string
  csi_nodeID :: string
  csi_version :: string
  csi_cap :: "controller_capability list"
  csi_vc :: "access_mode_kind list"

text \<open>\<open>None\<close> is the nil pointer.\<close>

definition NewCSIDriver :: "string \<Rightarrow> string \<Rightarrow> string \<Rightarrow> CSIDriver option" where
  "NewCSIDriver name v nodeID =
     (if name = [] \<or> nodeID = [] \<or> v = [] then None
      else Some \<lparr>csi_name = name, csi_nodeID = nodeID, csi_version = v, csi_cap = [], csi_vc = []\<rparr>)"

text \<open>A method that writes a field through the pointer.\<close>

definition on_driver :: "(CSIDriver \<Rightarrow> CSIDriver) \<Rightarrow> CSIDriver option \<Rightarrow> go_error + CSIDriver" where
  "on_driver f d = (case d of None \<Rightarrow> Inl GoPanic | Some x \<Rightarrow> Inr (f x))"

definition AddVolumeCapabilityAccessModes :: "access_mode_kind list \<Rightarrow> CSIDriver option \<Rightarrow> go_error + CSIDriver" where
  "AddVolumeCapabilityAccessModes vc = on_driver (\<lambda>d. d\<lparr>csi_vc := vc\<rparr>)"

definition AddControllerServiceCapabilities :: "controller_capability list \<Rightarrow> CSIDriver option \<Rightarrow> go_error + CSIDriver" where
  "AddControllerServiceCapabilities cl = on_driver (\<lambda>d. d\<lparr>csi_cap := cl\<rparr>)"

text \<open>\<open>strings.SplitN(s, sep, 2)\<close> where the separator occurs.\<close>

fun cut_at :: "string \<Rightarrow> string \<Rightarrow> (string \<times> string) option" where
  "cut_at sep [] = (if sep = [] then Some ([], []) else None)"
| "cut_at sep (c # cs) =
     (if HasPrefix (c # cs) sep then Some ([], drop (length sep) (c # cs))
      else map_option (\<lambda>(a, b). (c # a, b)) (cut_at sep cs))"

definition ParseEndpoint :: "string \<Rightarrow> (string \<times> string) option" where
  "ParseEndpoint ep =
     (if HasPrefix (ToLower ep) ''unix://'' \<or> HasPrefix (ToLower ep) ''tcp://'' then
        (case cut_at ''://'' ep of
           Some (proto, addr) \<Rightarrow> if addr \<noteq> [] then Some (proto, addr) else None
         | None \<Rightarrow> None)
      else None)"

text \<open>
  An interface value: nil, or a type with a pointer that can be nil itself. The first two are not the same
  to \<open>cs != nil\<close>.
\<close>

datatype 'a interface = NilInterface | Pointer "'a option"

text \<open>What a process does on the way; the server registers its services after it listens.\<close>

datatype process_event =
    RemoveSocket string
  | Listen string string
  | RegisterIdentity
  | RegisterController bool   \<comment> \<open>whether the pointer is not nil\<close>
  | RegisterNode bool
  | StartInstaller
  | StartMetrics int
  | StartTagSync

type_synonym process_hist = "process_event list"
type_synonym 'a process = "(process_event, 'a) action"

record process_env =
  on_RemoveSocket :: "process_hist \<Rightarrow> string \<Rightarrow> ext_err option"
  on_Listen :: "process_hist \<Rightarrow> string \<Rightarrow> string \<Rightarrow> ext_err option"

definition does :: "process_event \<Rightarrow> unit process" where
  "does ev = (\<lambda>h. (Inr (), ev # h))"

definition remove_socket :: "process_env \<Rightarrow> string \<Rightarrow> unit process" where
  "remove_socket env addr =
     andThen (ask (RemoveSocket addr) (\<lambda>h. on_RemoveSocket env h addr)) (\<lambda>err.
       case err of
         Some e \<Rightarrow> if IsNotExist e then ret () else fail GoExit
       | None \<Rightarrow> ret ())"

definition register :: "(bool \<Rightarrow> process_event) \<Rightarrow> 'a interface \<Rightarrow> unit process" where
  "register ev s = (case s of NilInterface \<Rightarrow> ret () | Pointer p \<Rightarrow> does (ev (p \<noteq> None)))"

text \<open>
  \<open>serve\<close>, which \<open>Start\<close> runs in a goroutine while the process waits. \<open>Inr\<close>: it serves. An error ends
  the process.
\<close>

definition serve :: "process_env \<Rightarrow> string \<Rightarrow> 'c interface \<Rightarrow> 'n interface \<Rightarrow> unit process" where
  "serve env endpoint cs ns =
     (case ParseEndpoint endpoint of
        None \<Rightarrow> fail GoExit
      | Some (proto, addr0) \<Rightarrow>
          let addr = (if proto = ''unix'' then ''/'' @ addr0 else addr0) in
          andThen (if proto = ''unix'' then remove_socket env addr else ret ()) (\<lambda>_.
          andThen (call (\<lambda>_. GoExit) (Listen proto addr) (\<lambda>h. on_Listen env h proto addr)) (\<lambda>_.
          andThen (does RegisterIdentity) (\<lambda>_.
          andThen (register RegisterController cs) (\<lambda>_.
            register RegisterNode ns)))))"

text \<open>The default services, as far as the drivers use them.\<close>

definition DefaultNodeGetInfo :: "CSIDriver \<Rightarrow> string" where
  "DefaultNodeGetInfo d = csi_nodeID d"

definition DefaultGetPluginInfo :: "CSIDriver \<Rightarrow> (string \<times> string) option" where
  "DefaultGetPluginInfo d =
     (if csi_name d = [] \<or> csi_version d = [] then None else Some (csi_name d, csi_version d))"

text \<open>A method of a service that looks at a field of it.\<close>

definition invoke :: "('a \<Rightarrow> go_error + 'b) \<Rightarrow> 'a option \<Rightarrow> go_error + 'b" where
  "invoke f p = (case p of None \<Rightarrow> Inl GoPanic | Some x \<Rightarrow> f x)"

section \<open>Kubernetes clients\<close>

text \<open>Building a configuration, from flags or in the cluster, and a client for it.\<close>

record ('c, 'w) kube_config =
  BuildConfigFromFlags :: "string \<Rightarrow> string \<Rightarrow> ext_err + 'c"
  InClusterConfig :: "ext_err + 'c"
  NewForConfig :: "'c \<Rightarrow> ext_err + 'w cm_api"

definition or_exit :: "ext_err + 'a \<Rightarrow> go_error + 'a" where
  "or_exit r = map_sum (\<lambda>_. GoExit) id r"

definition NewK8sClient :: "getenv \<Rightarrow> ('c, 'w) kube_config \<Rightarrow> go_error + 'w cm_api" where
  "NewK8sClient env kube =
     (let cPath = env ''KUBERNETES_CONFIG_PATH'' in
      case or_exit (if cPath \<noteq> [] then BuildConfigFromFlags kube [] cPath else InClusterConfig kube) of
        Inl e \<Rightarrow> Inl e
      | Inr cfg \<Rightarrow> or_exit (NewForConfig kube cfg))"

definition NewCachePersister :: "getenv \<Rightarrow> ('c, 'w) kube_config \<Rightarrow> 'w \<Rightarrow> go_error + 'w K8sCMCache" where
  "NewCachePersister env kube w =
     map_sum id (\<lambda>client. \<lparr>Client = client, Namespace = GetK8sNamespace env, cluster = w\<rparr>) (NewK8sClient env kube)"

section \<open>Metrics\<close>

datatype collector =
    YunApiRequestTotal | YunApiRequestCostSeconds | OperationErrorsTotal | CbsPvcsRequestTotal | DevicePathNotExist

text \<open>\<open>prometheus.MustRegister\<close> panics on a collector that is registered already.\<close>

definition MustRegister :: "collector \<Rightarrow> collector list \<Rightarrow> go_error + collector list" where
  "MustRegister c reg = (if c \<in> set reg then Inl GoPanic else Inr (c # reg))"

fun register_all :: "collector list \<Rightarrow> collector list \<Rightarrow> go_error + collector list" where
  "register_all [] reg = Inr reg"
| "register_all (c # cs) reg = (case MustRegister c reg of Inl e \<Rightarrow> Inl e | Inr reg1 \<Rightarrow> register_all cs reg1)"

text \<open>The state is whether \<open>registerOnce\<close> is done, and the registry.\<close>

definition RegisterMetrics :: "bool \<times> collector list \<Rightarrow> go_error + bool \<times> collector list" where
  "RegisterMetrics st =
     (case st of (isDone, reg) \<Rightarrow>
        if isDone then Inr st
        else map_sum id (Pair True)
          (register_all [YunApiRequestTotal, YunApiRequestCostSeconds, OperationErrorsTotal, CbsPvcsRequestTotal, DevicePathNotExist] reg))"

lemma register_all_Inr:
  "distinct cs \<Longrightarrow> set cs \<inter> set reg = {} \<Longrightarrow> register_all cs reg = Inr (rev cs @ reg)"
  by (induction cs arbitrary: reg) (auto simp: MustRegister_def)

text \<open>However often it is called, every collector is registered once and nothing panics.\<close>

lemma RegisterMetrics_once:
  "\<exists>reg. RegisterMetrics (False, []) = Inr (True, reg) \<and> distinct reg \<and> length reg = 5 \<and>
     RegisterMetrics (True, reg) = Inr (True, reg)"
  by (simp add: RegisterMetrics_def register_all_Inr del: register_all.simps)

section \<open>CBS\<close>

definition kube_client :: "('c, 'w) kube_config \<Rightarrow> string \<Rightarrow> string \<Rightarrow> go_error + 'w cm_api" where
  "kube_client kube master kubeconfig =
     (case or_exit (if master \<noteq> [] \<or> kubeconfig \<noteq> [] then BuildConfigFromFlags kube master kubeconfig
                    else InClusterConfig kube) of
        Inl e \<Rightarrow> Inl e
      | Inr config \<Rightarrow> or_exit (NewForConfig kube config))"

definition cbs_services :: "'w service \<Rightarrow> cbsController interface \<times> cbsNode interface" where
  "cbs_services s =
     (case s of
        ControllerService c _ \<Rightarrow> (Pointer (Some c), Pointer None)
      | NodeService n \<Rightarrow> (Pointer None, Pointer (Some n))
      | NoService \<Rightarrow> (Pointer None, Pointer None))"

text \<open>What \<open>Run\<close> starts before the services: the metrics and, in a controller, the synchronisation of tags.\<close>

definition cbs_start :: "process_env \<Rightarrow> string \<Rightarrow> bool \<Rightarrow> int \<Rightarrow> cbsDriver \<Rightarrow> 'w service \<Rightarrow> unit process" where
  "cbs_start env endpoint enableMetricsServer metricPort drv s =
     andThen (if enableMetricsServer then does (StartMetrics metricPort) else ret ()) (\<lambda>_.
     andThen (if drv_componentType drv = componentController then does StartTagSync else ret ()) (\<lambda>_.
       case cbs_services s of (cs, ns) \<Rightarrow> serve env endpoint cs ns))"

record cbs_flags =
  f_endpoint :: string
  f_master :: string
  f_kubeconfig :: string
  f_metricsServerEnable :: bool
  f_metricsPort :: int
  f_driver :: cbsDriver

text \<open>
  The whole process; its state is the history of its calls to the cloud and its own events. \<open>w\<close> is what the
  cluster has stored.
\<close>

definition cbs_main ::
  "getenv \<Rightarrow> ('c, 'w) kube_config \<Rightarrow> (string \<Rightarrow> nat \<Rightarrow> ext_err + string) \<Rightarrow> nat \<Rightarrow> cbs_env \<Rightarrow> (nat \<Rightarrow> ext_err + string) \<Rightarrow>
   (string \<Rightarrow> ext_err + URL) \<Rightarrow> process_env \<Rightarrow> cbs_flags \<Rightarrow> 'w \<Rightarrow> cbs_hist \<times> process_hist \<Rightarrow>
   (go_error + 'w service) \<times> cbs_hist \<times> process_hist" where
  "cbs_main getenv kube meta waits cloud get_node url_parse env fl w s =
     (case s of (h, p) \<Rightarrow>
      case kube_client kube (f_master fl) (f_kubeconfig fl) of
        Inl e \<Rightarrow> (Inl e, h, p)
      | Inr _ \<Rightarrow>
     (case NewDriver getenv meta waits ((f_driver fl)\<lparr>drv_clusterId := getenv ''CLUSTER_ID''\<rparr>) of
        Inl e \<Rightarrow> (Inl e, h, p)
      | Inr drv \<Rightarrow>
     (case NewCachePersister getenv kube w of
        Inl e \<Rightarrow> (Inl e, h, p)
      | Inr store \<Rightarrow>
     (case Run cloud get_node waits url_parse drv store h of
        (Inl e, h1) \<Rightarrow> (Inl e, h1, p)
      | (Inr sv, h1) \<Rightarrow>
     (case cbs_start env (f_endpoint fl) (f_metricsServerEnable fl) (f_metricsPort fl) drv sv p of
        (Inl e, p1) \<Rightarrow> (Inl e, h1, p1)
      | (Inr _, p1) \<Rightarrow> (Inr sv, h1, p1))))))"

section \<open>CFS and CFS Turbo\<close>

definition cfs_NewDriver :: "string \<Rightarrow> go_error + CSIDriver" where
  "cfs_NewDriver nodeID =
     (case AddVolumeCapabilityAccessModes [MULTI_NODE_MULTI_WRITER] (NewCSIDriver ''com.tencent.cloud.csi.cfs'' ''v1.0.0'' nodeID) of
        Inl e \<Rightarrow> Inl e
      | Inr d \<Rightarrow> AddControllerServiceCapabilities [CREATE_DELETE_VOLUME] (Some d))"

text \<open>The node service is its driver.\<close>

definition cfs_NewNodeServer :: "CSIDriver \<Rightarrow> CSIDriver" where
  "cfs_NewNodeServer d = d"

definition cfs_main ::
  "(string \<Rightarrow> nat \<Rightarrow> ext_err + string) \<Rightarrow> nat \<Rightarrow> process_env \<Rightarrow> string \<Rightarrow> string \<Rightarrow> cfsDriver \<Rightarrow>
   ((string \<times> string \<times> string) interface \<times> CSIDriver interface) process" where
  "cfs_main meta waits env nodeID endpoint conf =
     (if nodeID = [] then fail GoExit
      else case cfs_NewDriver nodeID of
        Inl e \<Rightarrow> fail e
      | Inr d \<Rightarrow>
     (case cfs_Run meta waits conf of
        Inl e \<Rightarrow> fail e
      | Inr (cs, node) \<Rightarrow>
          let ns = (if node then Some (cfs_NewNodeServer d) else None)
          in andThen (serve env endpoint (Pointer cs) (Pointer ns)) (\<lambda>_. ret (Pointer cs, Pointer ns))))"

definition turbo_NewDriver :: "string \<Rightarrow> string \<Rightarrow> CSIDriver process" where
  "turbo_NewDriver nodeID componentType =
     (case AddVolumeCapabilityAccessModes [MULTI_NODE_MULTI_WRITER]
             (NewCSIDriver ''com.tencent.cloud.csi.cfsturbo'' ''cfsturbo'' nodeID) of
        Inl e \<Rightarrow> fail e
      | Inr d \<Rightarrow>
     (case AddControllerServiceCapabilities [CREATE_DELETE_VOLUME] (Some d) of
        Inl e \<Rightarrow> fail e
      | Inr d1 \<Rightarrow> andThen (if componentType = ''node'' then does StartInstaller else ret ()) (\<lambda>_. ret d1)))"

text \<open>The controller has its driver and the cluster, the node its driver and the volume locks.\<close>

definition turbo_NewControllerServer :: "getenv \<Rightarrow> CSIDriver \<Rightarrow> CSIDriver \<times> string" where
  "turbo_NewControllerServer env d = (d, env ''CLUSTER_ID'')"

definition turbo_NewNodeServer :: "CSIDriver \<Rightarrow> CSIDriver \<times> VolumeLocks" where
  "turbo_NewNodeServer d = (d, NewVolumeLocks)"

definition turbo_Run ::
  "getenv \<Rightarrow> process_env \<Rightarrow> string \<Rightarrow> CSIDriver \<Rightarrow>
   ((CSIDriver \<times> string) interface \<times> (CSIDriver \<times> VolumeLocks) interface) process" where
  "turbo_Run env penv endpoint d =
     (let cs = Pointer (Some (turbo_NewControllerServer env d)); ns = Pointer (Some (turbo_NewNodeServer d))
      in andThen (serve penv endpoint cs ns) (\<lambda>_. ret (cs, ns)))"

definition turbo_main ::
  "getenv \<Rightarrow> process_env \<Rightarrow> string \<Rightarrow> string \<Rightarrow> string \<Rightarrow>
   ((CSIDriver \<times> string) interface \<times> (CSIDriver \<times> VolumeLocks) interface) process" where
  "turbo_main env penv nodeID endpoint componentType =
     (if nodeID = [] then fail GoExit
      else andThen (turbo_NewDriver nodeID componentType) (turbo_Run env penv endpoint))"

section \<open>CHDFS and COS\<close>

definition chdfs_NewDriver :: "string \<Rightarrow> string \<Rightarrow> go_error + CSIDriver" where
  "chdfs_NewDriver driverName nodeID =
     AddVolumeCapabilityAccessModes [MULTI_NODE_MULTI_WRITER] (NewCSIDriver driverName ''v1.0.0'' nodeID)"

definition chdfs_NewNodeServer :: "CSIDriver \<Rightarrow> CSIDriver interface" where
  "chdfs_NewNodeServer d = Pointer (Some d)"

definition chdfs_Start :: "process_env \<Rightarrow> string \<Rightarrow> CSIDriver \<Rightarrow> CSIDriver interface process" where
  "chdfs_Start env endpoint d =
     andThen (serve env endpoint (NilInterface :: unit interface) (chdfs_NewNodeServer d)) (\<lambda>_. ret (chdfs_NewNodeServer d))"

definition chdfs_main :: "process_env \<Rightarrow> string \<Rightarrow> string \<Rightarrow> string \<Rightarrow> CSIDriver interface process" where
  "chdfs_main env endpoint driverName nodeID =
     (if nodeID = [] then fail GoExit
      else case chdfs_NewDriver driverName nodeID of Inl e \<Rightarrow> fail e | Inr d \<Rightarrow> chdfs_Start env endpoint d)"

definition cos_NewDriver :: "string \<Rightarrow> string \<Rightarrow> go_error + CSIDriver" where
  "cos_NewDriver driverName nodeID =
     AddVolumeCapabilityAccessModes [MULTI_NODE_MULTI_WRITER] (NewCSIDriver driverName ''v1.0.0'' nodeID)"

definition cos_NewNodeServer :: "CSIDriver \<Rightarrow> CSIDriver interface" where
  "cos_NewNodeServer d = Pointer (Some d)"

definition cos_Start :: "process_env \<Rightarrow> string \<Rightarrow> CSIDriver \<Rightarrow> CSIDriver interface process" where
  "cos_Start env endpoint d =
     andThen (serve env endpoint (NilInterface :: unit interface) (cos_NewNodeServer d)) (\<lambda>_. ret (cos_NewNodeServer d))"

definition cos_main :: "process_env \<Rightarrow> string \<Rightarrow> string \<Rightarrow> string \<Rightarrow> CSIDriver interface process" where
  "cos_main env endpoint driverName nodeID =
     (if nodeID = [] then fail GoExit
      else case cos_NewDriver driverName nodeID of Inl e \<Rightarrow> fail e | Inr d \<Rightarrow> cos_Start env endpoint d)"

section \<open>What a process that serves has done\<close>

text \<open>The events of a registration, newest first.\<close>

definition registration :: "(bool \<Rightarrow> process_event) \<Rightarrow> 'a interface \<Rightarrow> process_hist" where
  "registration ev s = (case s of NilInterface \<Rightarrow> [] | Pointer p \<Rightarrow> [ev (p \<noteq> None)])"

lemma register_eq: "register ev s h = (Inr (), registration ev s @ h)"
  by (simp add: register_def registration_def does_def ret_def split: interface.split)

text \<open>A server listens at its endpoint before it registers its services, and removes an old socket first.\<close>

lemma serve_InrD:
  assumes "serve env endpoint cs ns h = (Inr u, h')"
  shows "\<exists>proto addr h1. ParseEndpoint endpoint = Some (proto, addr) \<and>
    (if proto = ''unix'' then h1 = Listen ''unix'' (''/'' @ addr) # RemoveSocket (''/'' @ addr) # h else h1 = Listen proto addr # h) \<and>
    h' = registration RegisterNode ns @ registration RegisterController cs @ RegisterIdentity # h1"
proof -
  from assms obtain proto addr where e: "ParseEndpoint endpoint = Some (proto, addr)"
    by (auto simp: serve_def fail_def split: option.splits)
  let ?addr = "if proto = ''unix'' then ''/'' @ addr else addr"
  from assms obtain h1 where r: "(if proto = ''unix'' then remove_socket env ?addr else ret ()) h = (Inr (), h1)"
    and h': "h' = registration RegisterNode ns @ registration RegisterController cs @ RegisterIdentity # Listen proto ?addr # h1"
    unfolding serve_def e
    by (auto simp: Let_def call_def does_def register_eq elim!: andThen_InrE split: option.splits)
  have "h1 = (if proto = ''unix'' then RemoveSocket ?addr # h else h)"
    using r by (auto simp: remove_socket_def ask_def ret_def fail_def elim!: andThen_InrE split: if_splits option.splits)
  with e h' show ?thesis by auto
qed

lemma NewCSIDriver_Some:
  "NewCSIDriver name v nodeID = Some d \<Longrightarrow> csi_name d = name \<and> csi_version d = v \<and> csi_nodeID d = nodeID \<and> name \<noteq> [] \<and> nodeID \<noteq> [] \<and> v \<noteq> []"
  by (auto simp: NewCSIDriver_def split: if_splits)

lemma added:
  "AddVolumeCapabilityAccessModes vc p = Inr d \<Longrightarrow> \<exists>c. p = Some c \<and> d = c\<lparr>csi_vc := vc\<rparr>"
  "AddControllerServiceCapabilities cl p = Inr d \<Longrightarrow> \<exists>c. p = Some c \<and> d = c\<lparr>csi_cap := cl\<rparr>"
  by (auto simp: AddVolumeCapabilityAccessModes_def AddControllerServiceCapabilities_def on_driver_def split: option.splits)

lemmas driver_defs =
  cfs_NewDriver_def turbo_NewDriver_def chdfs_NewDriver_def cos_NewDriver_def cfs_NewNodeServer_def turbo_NewNodeServer_def
  chdfs_NewNodeServer_def cos_NewNodeServer_def turbo_NewControllerServer_def

text \<open>
  A CFS process with the component type controller registers a node service too, whose pointer is nil: every
  call of it that looks at a field panics. The same holds with the services exchanged.
\<close>

theorem cfs_absent_service:
  assumes "cfs_main meta waits env nodeID endpoint conf [] = (Inr (cs, ns), h)"
  shows "RegisterIdentity \<in> set h \<and>
    (cd_componentType conf = ''controller'' \<longrightarrow>
       RegisterController True \<in> set h \<and> RegisterNode False \<in> set h \<and> (\<exists>p. ns = Pointer p \<and> (\<forall>f. invoke f p = (Inl GoPanic :: go_error + unit)))) \<and>
    (cd_componentType conf = ''node'' \<longrightarrow>
       RegisterController False \<in> set h \<and> (\<exists>p. cs = Pointer p \<and> (\<forall>f. invoke f p = (Inl GoPanic :: go_error + unit))) \<and>
       (\<exists>d. ns = Pointer (Some d) \<and> DefaultNodeGetInfo d = nodeID \<and>
          DefaultGetPluginInfo d = Some (''com.tencent.cloud.csi.cfs'', ''v1.0.0'')))"
proof -
  from assms have "nodeID \<noteq> []" by (auto simp: cfs_main_def fail_def)
  with assms obtain d cs0 node where d: "cfs_NewDriver nodeID = Inr d" and r: "cfs_Run meta waits conf = Inr (cs0, node)"
    and m: "andThen (serve env endpoint (Pointer cs0) (Pointer (if node then Some d else None)))
      (\<lambda>_. ret (Pointer cs0, Pointer (if node then Some d else None))) [] = (Inr (cs, ns), h)"
    unfolding cfs_main_def cfs_NewNodeServer_def Let_def
    by (cases "cfs_NewDriver nodeID"; cases "cfs_Run meta waits conf") (auto simp: fail_def)
  from m have s: "serve env endpoint (Pointer cs0) (Pointer (if node then Some d else None)) [] = (Inr (), h)"
    and e: "cs = Pointer cs0" "ns = Pointer (if node then Some d else None)"
    by (auto simp: ret_def elim!: andThen_InrE)
  from d have "csi_name d = ''com.tencent.cloud.csi.cfs''" "csi_version d = ''v1.0.0''" "csi_nodeID d = nodeID"
    by (auto simp: cfs_NewDriver_def dest!: added NewCSIDriver_Some split: sum.splits)
  moreover from serve_InrD [OF s] have "RegisterIdentity \<in> set h \<and> RegisterController (cs0 \<noteq> None) \<in> set h \<and> RegisterNode node \<in> set h"
    by (auto simp: registration_def)
  ultimately show ?thesis using r e
    by (auto simp: cfs_Run_def invoke_def DefaultNodeGetInfo_def DefaultGetPluginInfo_def map_sum_def split: if_splits sum.splits)
qed

text \<open>A CBS process registers both services whatever its component type, and the one it did not make is nil.\<close>

theorem cbs_absent_service:
  assumes "cbs_start env endpoint metrics port drv sv p = (Inr u, p')"
  shows "RegisterController (\<exists>c l. sv = ControllerService c l) \<in> set p' \<and> RegisterNode (\<exists>n. sv = NodeService n) \<in> set p'"
proof -
  obtain cs ns h where s: "serve env endpoint cs ns h = (Inr (), p')" and e: "cbs_services sv = (cs, ns)"
    using assms by (auto simp: cbs_start_def andThen_def does_def ret_def split: if_splits prod.splits sum.splits)
  from serve_InrD [OF s] e show ?thesis
    by (cases sv) (auto simp: cbs_services_def registration_def)
qed

text \<open>
  A process of CHDFS or COS has no controller at all, and its node service knows the node and the name from the
  command line.
\<close>

theorem chdfs_serves:
  assumes "chdfs_main env endpoint name nodeID [] = (Inr ns, h)"
  shows "RegisterController b \<notin> set h \<and> RegisterNode True \<in> set h \<and>
    (\<exists>d. ns = Pointer (Some d) \<and> DefaultNodeGetInfo d = nodeID \<and> DefaultGetPluginInfo d = Some (name, ''v1.0.0''))"
proof -
  from assms obtain d where d: "chdfs_NewDriver name nodeID = Inr d" and n: "ns = Pointer (Some d)"
    and s: "serve env endpoint (NilInterface :: unit interface) (Pointer (Some d)) [] = (Inr (), h)"
    by (auto simp: chdfs_main_def chdfs_Start_def chdfs_NewNodeServer_def fail_def andThen_def ret_def split: if_splits sum.splits prod.splits)
  from d have "csi_name d = name \<and> csi_version d = ''v1.0.0'' \<and> csi_nodeID d = nodeID \<and> name \<noteq> []"
    by (auto simp: chdfs_NewDriver_def dest!: added NewCSIDriver_Some)
  with serve_InrD [OF s] n show ?thesis
    by (auto simp: registration_def DefaultNodeGetInfo_def DefaultGetPluginInfo_def split: if_splits)
qed

lemma cos_main_eq: "cos_main = chdfs_main"
  by (simp add: fun_eq_iff cos_main_def chdfs_main_def cos_NewDriver_def chdfs_NewDriver_def cos_Start_def chdfs_Start_def
      cos_NewNodeServer_def chdfs_NewNodeServer_def split: sum.split)

theorem cos_serves:
  assumes "cos_main env endpoint name nodeID [] = (Inr ns, h)"
  shows "RegisterController b \<notin> set h \<and> RegisterNode True \<in> set h \<and>
    (\<exists>d. ns = Pointer (Some d) \<and> DefaultNodeGetInfo d = nodeID \<and> DefaultGetPluginInfo d = Some (name, ''v1.0.0''))"
  using chdfs_serves assms by (simp add: cos_main_eq)

text \<open>A CFS Turbo process has both services and starts the installer only as a node.\<close>

theorem turbo_serves:
  assumes "turbo_main getenv env nodeID endpoint componentType [] = (Inr (cs, ns), h)"
  shows "RegisterController True \<in> set h \<and> RegisterNode True \<in> set h \<and> (StartInstaller \<in> set h \<longleftrightarrow> componentType = ''node'') \<and>
    (\<exists>d. ns = Pointer (Some (d, NewVolumeLocks)) \<and> cs = Pointer (Some (d, getenv ''CLUSTER_ID'')) \<and> DefaultNodeGetInfo d = nodeID)"
proof -
  from assms obtain d h0 where d: "turbo_NewDriver nodeID componentType [] = (Inr d, h0)"
    and r: "turbo_Run getenv env endpoint d h0 = (Inr (cs, ns), h)"
    by (auto simp: turbo_main_def fail_def andThen_def split: if_splits sum.splits prod.splits)
  from d have "csi_nodeID d = nodeID" "h0 = (if componentType = ''node'' then [StartInstaller] else [])"
    by (auto simp: turbo_NewDriver_def fail_def andThen_def does_def ret_def dest!: added NewCSIDriver_Some split: sum.splits if_splits)
  moreover from r have "serve env endpoint cs ns h0 = (Inr (), h)"
    "cs = Pointer (Some (d, getenv ''CLUSTER_ID''))" "ns = Pointer (Some (d, NewVolumeLocks))"
    by (auto simp: turbo_Run_def Let_def andThen_def ret_def turbo_NewControllerServer_def turbo_NewNodeServer_def split: sum.splits prod.splits)
  ultimately show ?thesis using serve_InrD by (fastforce simp: registration_def DefaultNodeGetInfo_def split: if_splits)
qed

end
