(* ===== verification/CfsTurboProps.thy ===== *)
theory CfsTurboProps imports CfsTurboController begin

text \<open>
  What makes CFS Turbo correct: a volume that is staged keeps its file system mounted through
  whatever other volumes do, unless a failed write tears the file of its users; the last volume
  takes the mount down; and deleting a volume removes the directory that its creation made, and
  nothing else.
\<close>

section \<open>The users of a file system\<close>

definition users_at :: "turbo_state \<Rightarrow> string \<Rightarrow> string list" where
  "users_at s path = (case map_of (conf_files s) path of Some (StringList xs) \<Rightarrow> xs | _ \<Rightarrow> [])"

text \<open>Whether a mount made here is left on a path, by the answers the calls of a history had.\<close>

fun mounted :: "host_env \<Rightarrow> string \<Rightarrow> host_hist \<Rightarrow> bool" where
  "mounted env p [] = False"
| "mounted env p (MountCall src target fstype mo # h) =
     ((target = p \<and> on_MountCall env h src target fstype mo = None) \<or> mounted env p h)"
| "mounted env p (CleanupMountPoint q # h) =
     (mounted env p h \<and> (q \<noteq> p \<or> on_CleanupMountPoint env h q \<noteq> None))"
| "mounted env p (Unmount q # h) = (mounted env p h \<and> (q \<noteq> p \<or> on_Unmount env h q \<noteq> None))"
| "mounted env p (_ # h) = mounted env p h"

text \<open>
  \<open>ioutil.WriteFile\<close> truncates before it writes: a write that fails in between tears the file. How
  often that happened to the file \<open>p\<close>.
\<close>

fun torn_writes :: "turbo_env \<Rightarrow> string \<Rightarrow> host_hist \<Rightarrow> nat" where
  "torn_writes env p [] = 0"
| "torn_writes env p (WriteStrings q xs # h) =
     (if q = p \<and> map_option snd (io_fails env h (WriteStrings q xs)) = Some True then 1 else 0) + torn_writes env p h"
| "torn_writes env p (_ # h) = torn_writes env p h"

lemma torn_writes_Cons: "torn_writes env p h \<le> torn_writes env p (ev # h)"
  by (cases ev) auto

lemma torn_writes_append: "torn_writes env p h \<le> torn_writes env p (es @ h)"
  by (induction es) (auto intro: order_trans [OF _ torn_writes_Cons])

definition torn_view :: "turbo_env \<Rightarrow> turbo_state \<Rightarrow> string \<Rightarrow> nat" where
  "torn_view env s = (\<lambda>p. torn_writes env p (turbo_log s))"

abbreviation logged :: "host_event \<Rightarrow> turbo_state \<Rightarrow> turbo_state" where
  "logged ev s \<equiv> s\<lparr>turbo_log := ev # turbo_log s\<rparr>"

lemma file_op_cases:
  assumes "file_op env ev answer change id s = (r, s')"
  obtains e where "r = Inr (Inl e)" "s' = logged ev s" "IsNotExist e \<Longrightarrow> answer s = Inl e"
    | a where "r = Inr (Inr a)" "answer s = Inr a" "s' = change (logged ev s)"
  using assms
  by (auto simp: file_op_def Let_def IsNotExist_def split: option.splits sum.splits if_splits)

lemma file_op_failed:
  assumes "file_op env ev answer change id s = (Inr (Inl e), s')"
  shows "s' = logged ev s"
  using assms by (cases rule: file_op_cases) auto

text \<open>With an operation that may leave the file broken.\<close>

lemma file_op_broken_cases:
  assumes "file_op env ev answer change broken s = (r, s')"
  obtains e where "r = Inr (Inl e)" "s' = logged ev s"
    | e where "r = Inr (Inl e)" "s' = broken (logged ev s)" "map_option snd (io_fails env (turbo_log s) ev) = Some True"
    | a where "r = Inr (Inr a)" "s' = change (logged ev s)" "io_fails env (turbo_log s) ev = None"
  using assms by (auto simp: file_op_def Let_def split: option.splits sum.splits if_splits)

lemma file_op_done:
  assumes "file_op env ev answer change broken s = (Inr (Inr a), s')"
  shows "s' = change (logged ev s)"
  using assms by (auto simp: file_op_def Let_def split: option.splits sum.splits if_splits)

lemma file_op_no_error: "file_op env ev answer change broken s \<noteq> (Inl e, s')"
  by (auto simp: file_op_def Let_def split: option.splits sum.splits)

lemma or_return_cases:
  assumes "or_return m s = (r, s')"
  obtains e where "m s = (Inr (Inl e), s')" "r = Inl (Plain e)"
    | a where "m s = (Inr (Inr a), s')" "r = Inr a"
    | e where "m s = (Inl e, s')" "r = Inl e"
  using assms by (auto simp: or_return_def andThen_def fail_def ret_def split: prod.splits sum.splits)

text \<open>Only the files and the history; the events of files change no mount.\<close>

definition mount_view :: "turbo_env \<Rightarrow> turbo_state \<Rightarrow> VolumeLocks \<times> (string \<Rightarrow> bool)" where
  "mount_view env s = (node_locks s, \<lambda>p. mounted (turbo_host env) p (turbo_log s))"

abbreviation same_mounts :: "turbo_env \<Rightarrow> turbo_state \<Rightarrow> turbo_state \<Rightarrow> bool" where
  "same_mounts env s s' \<equiv> mount_view env s' = mount_view env s"

lemma users_at_set [simp]:
  "users_at (set_config p t s) q = (if q = p then (case t of StringList xs \<Rightarrow> xs | _ \<Rightarrow> []) else users_at s q)"
  by (auto simp: users_at_def set_config_def update_conv' split: list_text.split)

lemma users_at_log [simp]: "users_at (s\<lparr>turbo_log := h\<rparr>) = users_at s"
  by (rule ext) (simp add: users_at_def)

lemma set_config_simps [simp]:
  "node_locks (set_config p t s) = node_locks s"
  "turbo_log (set_config p t s) = turbo_log s"
  "conf_dir (set_config p t s) = conf_dir s"
  by (simp_all add: set_config_def)

lemma mount_view_simps [simp]:
  "mount_view env (set_config p t s) = mount_view env s"
  "mount_view env (s\<lparr>conf_files := fs\<rparr>) = mount_view env s"
  "mount_view env (conf_dir_update g s) = mount_view env s"
  "mount_view env (logged (Stat p) s) = mount_view env s"
  "mount_view env (logged (Lstat p) s) = mount_view env s"
  "mount_view env (logged (ReadFile p) s) = mount_view env s"
  "mount_view env (logged (ReadDir p) s) = mount_view env s"
  "mount_view env (logged (MkdirAll p) s) = mount_view env s"
  "mount_view env (logged (RemoveAll p) s) = mount_view env s"
  "mount_view env (logged (WriteStrings p xs) s) = mount_view env s"
  by (simp_all add: mount_view_def)

lemma torn_view_simps [simp]:
  "torn_view env (set_config p t s) = torn_view env s"
  "torn_view env (s\<lparr>conf_files := fs\<rparr>) = torn_view env s"
  "torn_view env (conf_dir_update g s) = torn_view env s"
  "torn_view env (s\<lparr>node_locks := l\<rparr>) = torn_view env s"
  "torn_view env (logged (Stat p) s) = torn_view env s"
  "torn_view env (logged (Lstat p) s) = torn_view env s"
  "torn_view env (logged (ReadFile p) s) = torn_view env s"
  "torn_view env (logged (ReadDir p) s) = torn_view env s"
  "torn_view env (logged (MkdirAll p) s) = torn_view env s"
  "torn_view env (logged (RemoveAll p) s) = torn_view env s"
  by (simp_all add: torn_view_def set_config_def)

lemma torn_view_logged: "torn_view env s q \<le> torn_view env (logged ev s) q"
  using torn_writes_Cons by (simp add: torn_view_def)

lemma torn_view_write:
  "torn_view env (logged (WriteStrings p xs) s) q = torn_view env s q +
     (if p = q \<and> map_option snd (io_fails env (turbo_log s) (WriteStrings p xs)) = Some True then 1 else 0)"
  by (simp add: torn_view_def)

lemma users_at_simps [simp]:
  "users_at (conf_dir_update g s) = users_at s"
  "conf_files s = fs \<Longrightarrow> users_at (s\<lparr>conf_files := AList.delete p fs\<rparr>) = (users_at s)(p := [])"
  by (rule ext, auto simp: users_at_def delete_conv')+

lemma users_at_set_config: "users_at (set_config p (StringList xs) s) = (users_at s)(p := xs)"
  by (rule ext) simp

text \<open>What is left of the users after an operation that failed: all of them, except in a torn file.\<close>

abbreviation kept_or_torn :: "turbo_env \<Rightarrow> turbo_state \<Rightarrow> turbo_state \<Rightarrow> bool" where
  "kept_or_torn env s s' \<equiv> \<forall>q. users_at s' q = users_at s q \<or> torn_view env s q < torn_view env s' q"

lemma Write_spec:
  assumes "WriteCfsturboConfig env xs f s = (r, s')"
  shows "same_mounts env s s' \<and>
    (r = Inr () \<longrightarrow> users_at s' = (users_at s)(config_path f := xs) \<and> torn_view env s' = torn_view env s) \<and>
    (r \<noteq> Inr () \<longrightarrow> kept_or_torn env s s')"
  using assms unfolding WriteCfsturboConfig_def Let_def
proof (cases rule: or_return_cases)
  case (1 e)
  from 1(1) show ?thesis by (cases rule: file_op_broken_cases) (auto simp: 1 torn_view_write)
next
  case (2 a)
  from 2(1) show ?thesis by (cases rule: file_op_broken_cases) (auto simp: 2 users_at_set_config torn_view_write fun_eq_iff)
next
  case (3 e)
  from 3(1) show ?thesis by (cases rule: file_op_broken_cases) auto
qed

lemma unmarshal_list_spec:
  "unmarshal_list t s = (r, s') \<Longrightarrow> s' = s \<and> (\<forall>xs. r = Inr xs \<longrightarrow> xs = (case t of StringList ys \<Rightarrow> ys | _ \<Rightarrow> []))"
  by (cases t) (auto simp: unmarshal_list_def)

lemma Get_spec:
  assumes "GetCfsturboConfigByFSIDWithRootDir env f s = (r, s')"
  shows "same_mounts env s s' \<and> (\<forall>xs. r = Inr xs \<longrightarrow> users_at s' = users_at s \<and> torn_view env s' = torn_view env s \<and> xs = users_at s (config_path f)) \<and>
    kept_or_torn env s s'"
proof -
  let ?p = "config_path f"
  obtain q s1 where q: "stat_config env ?p s = (q, s1)" by fastforce
  from q show ?thesis unfolding stat_config_def
  proof (cases rule: file_op_cases)
    case (1 e)
    show ?thesis
    proof (cases "IsNotExist e")
      case True
      from 1(3) [OF True] have "users_at s ?p = []"
        by (auto simp: users_at_def split: if_splits)
      moreover obtain w s2 where w: "WriteCfsturboConfig env [] f s1 = (w, s2)" by fastforce
      ultimately show ?thesis
        using assms(1) 1 True q Write_spec [OF w]
        by (cases w) (auto simp: GetCfsturboConfigByFSIDWithRootDir_def andThen_def mount_view_def fun_eq_iff ret_def)
    next
      case False
      with assms(1) 1 q show ?thesis
        by (auto simp: GetCfsturboConfigByFSIDWithRootDir_def andThen_def mount_view_def fail_def)
    qed
  next
    case (2 a)
    note stat = 2
    obtain w s2 where w: "read_config env ?p s1 = (w, s2)" by fastforce
    from w show ?thesis unfolding read_config_def
    proof (cases rule: file_op_cases)
      case (1 e)
      with assms(1) stat q w show ?thesis
        by (auto simp: GetCfsturboConfigByFSIDWithRootDir_def andThen_def mount_view_def or_return_def fail_def)
    next
      case (2 t)
      have t: "map_of (conf_files s) ?p = Some t" and s2: "s2 = logged (ReadFile ?p) (logged (Stat ?p) s)"
        using 2 stat by (auto split: option.splits)
      obtain y s3 where y: "unmarshal_list t s2 = (y, s3)" by fastforce
      have "r = y \<and> s' = s3"
        using assms(1) q w y 2(1) stat(1)
        by (auto simp: GetCfsturboConfigByFSIDWithRootDir_def andThen_def or_return_def ret_def split: sum.splits)
      with unmarshal_list_spec [OF y] s2 t show ?thesis
        by (auto simp: mount_view_def torn_view_def users_at_def)
    qed
  qed
qed

text \<open>What the three operations on a file do to the list of users.\<close>

definition add_user :: "string \<Rightarrow> string list \<Rightarrow> string list" where
  "add_user v xs = (if v \<in> set xs then xs else xs @ [v])"

text \<open>Looking for the directory, and making it.\<close>

abbreviation ensure_config_dir :: "turbo_env \<Rightarrow> unit turbo_action" where
  "ensure_config_dir env \<equiv> andThen (stat_dir env) (\<lambda>r. case r of
      Inl err \<Rightarrow> if IsNotExist err
        then or_return (file_op env (MkdirAll cfsturboConfigPath) (\<lambda>s. Inr ()) (conf_dir_update (\<lambda>_. True)) id)
        else fail (Plain err)
    | Inr _ \<Rightarrow> ret ())"

lemma ensure_config_dir_spec:
  assumes "ensure_config_dir env s = (d, s1)"
  shows "same_mounts env s s1 \<and> users_at s1 = users_at s \<and> torn_view env s1 = torn_view env s"
  using assms
proof (cases rule: andThen_cases)
  case (1 e)
  from 1(1) show ?thesis unfolding stat_dir_def by (cases rule: file_op_cases) auto
next
  case (2 a s2)
  have s2: "same_mounts env s s2 \<and> users_at s2 = users_at s \<and> torn_view env s2 = torn_view env s"
    using 2(1) unfolding stat_dir_def by (cases rule: file_op_cases) auto
  show ?thesis
  proof (cases "\<exists>e. a = Inl e \<and> IsNotExist e")
    case True
    with 2(2) have "or_return (file_op env (MkdirAll cfsturboConfigPath) (\<lambda>s. Inr ()) (conf_dir_update (\<lambda>_. True)) id) s2 = (d, s1)"
      by auto
    then have "same_mounts env s2 s1 \<and> users_at s1 = users_at s2 \<and> torn_view env s1 = torn_view env s2"
    proof (cases rule: or_return_cases)
      case (1 e)
      from file_op_failed [OF 1(1)] show ?thesis by simp
    next
      case (2 a)
      from file_op_done [OF 2(1)] show ?thesis by simp
    next
      case (3 e)
      then show ?thesis by (simp add: file_op_no_error)
    qed
    with s2 show ?thesis by auto
  next
    case False
    with 2(2) s2 show ?thesis by (auto split: sum.splits if_splits)
  qed
qed

lemma Add_spec:
  assumes "AddVolumeIdToCfsturboConfig env f v s = (r, s')"
  shows "same_mounts env s s' \<and>
    (r = Inr () \<longrightarrow> users_at s' = (users_at s)(config_path f := add_user v (users_at s (config_path f)))) \<and>
    (r \<noteq> Inr () \<longrightarrow> kept_or_torn env s s')"
  using assms unfolding AddVolumeIdToCfsturboConfig_def
proof (cases rule: andThen_cases)
  case (1 e)
  with ensure_config_dir_spec [OF 1(1)] show ?thesis by auto
next
  case (2 a s1)
  note d = ensure_config_dir_spec [OF 2(1)]
  from 2(2) show ?thesis
  proof (cases rule: andThen_cases)
    case (1 e)
    with d Get_spec [OF 1(1)] show ?thesis by auto
  next
    case (2 xs s2)
    note g = Get_spec [OF 2(1)]
    show ?thesis
    proof (cases "v \<in> set xs")
      case True
      with 2(2) d g show ?thesis by (auto simp: add_user_def)
    next
      case False
      with 2(2) have "WriteCfsturboConfig env (xs @ [v]) f s2 = (r, s')" by simp
      from Write_spec [OF this] d g False show ?thesis by (auto simp: add_user_def)
    qed
  qed
qed

lemma Delete_spec:
  assumes "DeleteVolumeIdFromCfsturboConfig env v f s = (r, s')"
  shows "same_mounts env s s' \<and>
    (r = Inr True \<longrightarrow> users_at s (config_path f) = [v] \<and> users_at s' = users_at s) \<and>
    (r = Inr False \<longrightarrow> users_at s (config_path f) \<noteq> [v] \<and>
       users_at s' = (users_at s)(config_path f := remove1 v (users_at s (config_path f)))) \<and>
    (\<forall>e. r = Inl e \<longrightarrow> kept_or_torn env s s')"
  using assms unfolding DeleteVolumeIdFromCfsturboConfig_def
proof (cases rule: andThen_cases)
  case (1 e)
  with Get_spec [OF 1(1)] show ?thesis by auto
next
  case (2 xs s1)
  note g = Get_spec [OF 2(1)]
  show ?thesis
  proof (cases "\<exists>w. xs = [w]")
    case True
    with 2(2) g show ?thesis by (auto simp: fun_eq_iff)
  next
    case False
    then have "andThen (WriteCfsturboConfig env (remove1 v xs) f) (\<lambda>_. ret False) s1 = (r, s')"
      using 2(2) by (auto split: list.splits simp del: remove1.simps)
    then obtain w where "WriteCfsturboConfig env (remove1 v xs) f s1 = (w, s')"
      "r = (case w of Inl e \<Rightarrow> Inl e | Inr _ \<Rightarrow> Inr False)"
      by (cases rule: andThen_cases) auto
    with Write_spec [OF this(1)] g False show ?thesis
      by (auto split: sum.splits)
  qed
qed

lemma DeleteConfig_spec:
  assumes "DeleteCfsturboConfig env f s = (r, s')"
  shows "same_mounts env s s' \<and>
    (r = Inr () \<longrightarrow> users_at s' = (users_at s)(config_path f := [])) \<and>
    (r \<noteq> Inr () \<longrightarrow> users_at s' = users_at s)"
  using assms unfolding DeleteCfsturboConfig_def Let_def
proof (cases rule: or_return_cases)
  case (1 e)
  from file_op_failed [OF 1(1)] 1(2) show ?thesis by simp
next
  case (2 a)
  from file_op_done [OF 2(1)] 2(2) show ?thesis by simp
next
  case (3 e)
  from 3(1) show ?thesis by (simp add: file_op_no_error)
qed

text \<open>What does not look at the files, and does not mind a call that is no mount, passes through all of them.\<close>

fun is_mount_call :: "host_event \<Rightarrow> bool" where
  "is_mount_call (MountCall src target fstype mo) = True"
| "is_mount_call ev = False"

lemma keeps_file_op:
  assumes "\<And>s. J s \<Longrightarrow> J (logged ev s)" "\<And>s. J s \<Longrightarrow> J (change s)" "\<And>s. J s \<Longrightarrow> J (broken s)"
  shows "keeps J (file_op env ev answer change broken)"
  using assms by (auto simp: keeps_def file_op_def Let_def split: option.splits sum.splits if_splits)

lemma keeps_or_return [keeps_intro]: "keeps J m \<Longrightarrow> keeps J (or_return m)"
  unfolding or_return_def by (auto intro!: keeps_intro split: sum.split)

lemma keeps_config_ops:
  assumes "\<And>ev s. J s \<Longrightarrow> \<not> is_mount_call ev \<Longrightarrow> J (logged ev s)"
    and "\<And>s fs. J s \<Longrightarrow> J (s\<lparr>conf_files := fs\<rparr>)" "\<And>s g. J s \<Longrightarrow> J (conf_dir_update g s)"
  shows "keeps J (AddVolumeIdToCfsturboConfig env f v)" "keeps J (DeleteVolumeIdFromCfsturboConfig env v f)"
    "keeps J (DeleteCfsturboConfig env f)"
  using assms
  unfolding AddVolumeIdToCfsturboConfig_def DeleteVolumeIdFromCfsturboConfig_def DeleteCfsturboConfig_def
    GetCfsturboConfigByFSIDWithRootDir_def WriteCfsturboConfig_def set_config_def
    stat_dir_def stat_config_def read_config_def unmarshal_list_def Let_def
  by (auto intro!: keeps_intro keeps_file_op split: sum.split list_text.split list.split simp del: remove1.simps)

section \<open>A staged volume\<close>

definition staged :: "turbo_env \<Rightarrow> string \<Rightarrow> string \<Rightarrow> turbo_state \<Rightarrow> bool" where
  "staged env v f s \<longleftrightarrow>
     v \<in> set (users_at s (config_path f)) \<and> mounted (turbo_host env) (global_path f) (turbo_log s)"

text \<open>A global path that the mounter reports as a mount point carries a mount made here.\<close>

definition honest_mounter :: "turbo_env \<Rightarrow> bool" where
  "honest_mounter env \<longleftrightarrow>
     (\<forall>h f. on_NotMountPoint (turbo_host env) h (global_path f) = (False, None) \<longrightarrow>
            mounted (turbo_host env) (global_path f) h)"

fun no_unmount :: "host_event \<Rightarrow> bool" where
  "no_unmount (Unmount p) = False"
| "no_unmount (CleanupMountPoint p) = False"
| "no_unmount ev = True"

lemma mounted_no_unmount:
  assumes "list_all no_unmount es" "mounted env p h"
  shows "mounted env p (es @ h)"
  using assms
proof (induction es)
  case (Cons ev es)
  then show ?case by (cases ev) auto
qed simp

text \<open>What the handlers keep, from a state with \<open>n\<close> torn writes on: the volume is staged until one more write is torn.\<close>

definition unless_torn :: "turbo_env \<Rightarrow> string \<Rightarrow> string \<Rightarrow> nat \<Rightarrow> turbo_state \<Rightarrow> bool" where
  "unless_torn env v f n s \<longleftrightarrow>
     n < torn_view env s (config_path f) \<or> n = torn_view env s (config_path f) \<and> staged env v f s"

lemma unless_torn_step:
  assumes "unless_torn env v f n s" "torn_view env s (config_path f) \<le> torn_view env s' (config_path f)"
    and "staged env v f s \<Longrightarrow> staged env v f s' \<or> torn_view env s (config_path f) < torn_view env s' (config_path f)"
  shows "unless_torn env v f n s'"
  using assms by (fastforce simp: unless_torn_def)

lemma unless_torn_mount_view:
  assumes "mount_view env s' = mount_view env s" "staged env v f s"
    and "v \<in> set (users_at s' (config_path f)) \<or> torn_view env s (config_path f) < torn_view env s' (config_path f)"
  shows "staged env v f s' \<or> torn_view env s (config_path f) < torn_view env s' (config_path f)"
  using assms by (simp add: staged_def mount_view_def) metis

text \<open>Torn writes are never forgotten.\<close>

definition grows :: "'a turbo_action \<Rightarrow> bool" where
  "grows m \<longleftrightarrow> (\<forall>env p n. keeps (\<lambda>s. n \<le> torn_view env s p) m)"

lemma growsD: "grows m \<Longrightarrow> m s = (r, s') \<Longrightarrow> torn_view env s p \<le> torn_view env s' p"
  unfolding grows_def by (metis keepsD order_refl)

lemma grows_config_ops:
  "grows (AddVolumeIdToCfsturboConfig env f v)" "grows (DeleteVolumeIdFromCfsturboConfig env v f)"
  "grows (DeleteCfsturboConfig env f)"
  unfolding grows_def
  by (intro allI keeps_config_ops; auto intro: order_trans [OF _ torn_view_logged])+

lemma unless_torn_on_host [keeps_intro]:
  assumes "only no_unmount m"
  shows "keeps (unless_torn env v f n) (on_host m)"
  unfolding keeps_def
proof (intro allI impI)
  fix s r s'
  assume "on_host m s = (r, s')" and st: "unless_torn env v f n s"
  then obtain h where h: "m (turbo_log s) = (r, h)" "s' = s\<lparr>turbo_log := h\<rparr>"
    by (auto simp: on_host_def split: prod.splits)
  from onlyD [OF assms h(1)] obtain es where es: "h = es @ turbo_log s" "list_all no_unmount es" by blast
  show "unless_torn env v f n s'"
    by (rule unless_torn_step [OF st])
      (simp_all add: h(2) es torn_view_def torn_writes_append staged_def mounted_no_unmount)
qed

lemma unless_torn_lock: "unless_torn env v f n (t\<lparr>node_locks := l\<rparr>) = unless_torn env v f n t"
  by (simp add: unless_torn_def staged_def users_at_def torn_view_def)

lemma keeps_lock_irrelevant:
  assumes "keeps J m" "\<And>t l. J (t\<lparr>node_locks := l\<rparr>) = J t"
  shows "keeps J (with_lock k m)"
  using assms unfolding keeps_def with_lock_def by (auto split: prod.splits bool.splits)

lemma unless_torn_with_lock [keeps_intro]:
  "keeps (unless_torn env v f n) m \<Longrightarrow> keeps (unless_torn env v f n) (with_lock k m)"
  by (rule keeps_lock_irrelevant [OF _ unless_torn_lock])

lemma unless_torn_Add [keeps_intro]: "keeps (unless_torn env v f n) (AddVolumeIdToCfsturboConfig env g w)"
  unfolding keeps_def
proof (intro allI impI)
  fix s r s'
  assume a: "AddVolumeIdToCfsturboConfig env g w s = (r, s')" and st: "unless_torn env v f n s"
  note A = Add_spec [OF a]
  show "unless_torn env v f n s'"
  proof (rule unless_torn_step [OF st growsD [OF grows_config_ops(1) a]])
    assume staged: "staged env v f s"
    have "v \<in> set (users_at s' (config_path f)) \<or> torn_view env s (config_path f) < torn_view env s' (config_path f)"
    proof (cases "r = Inr ()")
      case True
      with A staged show ?thesis by (auto simp: staged_def add_user_def)
    next
      case False
      with A have "users_at s' (config_path f) = users_at s (config_path f) \<or>
        torn_view env s (config_path f) < torn_view env s' (config_path f)" by blast
      with staged show ?thesis by (auto simp: staged_def)
    qed
    with A staged show "staged env v f s' \<or> torn_view env s (config_path f) < torn_view env s' (config_path f)"
      by (intro unless_torn_mount_view) auto
  qed
qed

lemma only_no_unmount [hist_intro]:
  "only no_unmount (turbo_mount_source env opt mo)"
  "only no_unmount (turbo_global_dir env p)"
  "only no_unmount (mount_call conv env src target fstype mo)"
  unfolding turbo_mount_source_def turbo_global_dir_def mount_call_def Let_def
  by (auto intro!: hist_intro)

lemma unless_torn_NodeStage [keeps_intro]: "keeps (unless_torn env v f n) (turbo_NodeStageVolume env req)"
  unfolding turbo_NodeStageVolume_def turbo_stage_locked_def Let_def
  by (auto intro!: keeps_intro hist_intro split: prod.split)

lemma unless_torn_NodePublish [keeps_intro]: "keeps (unless_torn env v f n) (turbo_NodePublishVolume env req)"
  unfolding turbo_NodePublishVolume_def CheckGlobalMountPath_def Let_def
  by (auto intro!: keeps_intro hist_intro split: prod.split access_type.split)

text \<open>Looking a volume up only reads.\<close>

fun read_event :: "host_event \<Rightarrow> bool" where
  "read_event (Stat p) = True"
| "read_event (Lstat p) = True"
| "read_event (ReadFile p) = True"
| "read_event (ReadDir p) = True"
| "read_event ev = False"

lemma keeps_read:
  assumes "\<And>ev s. read_event ev \<Longrightarrow> J s \<Longrightarrow> J (logged ev s)" "read_event ev"
  shows "keeps J (file_op env ev answer id id)"
  using assms by (auto simp: keeps_def file_op_def Let_def split: option.splits sum.splits)

lemma keeps_load_walk:
  assumes "\<And>ev s. read_event ev \<Longrightarrow> J s \<Longrightarrow> J (logged ev s)"
  shows "keeps J (load_walk env paths confs)"
  using assms
  by (induction paths arbitrary: confs)
    (auto intro!: keeps_intro keeps_read simp: read_config_def unmarshal_list_def split: sum.split list_text.split)

lemma keeps_lookup:
  assumes "\<And>ev s. read_event ev \<Longrightarrow> J s \<Longrightarrow> J (logged ev s)"
  shows "keeps J (GetFSIDWithRootDirByVolumeId env w)"
  using assms
  unfolding GetFSIDWithRootDirByVolumeId_def LoadCfsturboConfigs_def stat_dir_def
  by (auto intro!: keeps_intro keeps_load_walk keeps_read split: sum.split)

lemma view_read:
  "read_event ev \<Longrightarrow> mount_view env (logged ev s) = mount_view env s"
  "read_event ev \<Longrightarrow> torn_view env (logged ev s) = torn_view env s"
  by (cases ev; simp)+

lemma lookup_same:
  assumes "GetFSIDWithRootDirByVolumeId env w s = (r, s')"
  shows "same_mounts env s s' \<and> users_at s' = users_at s \<and> torn_view env s' = torn_view env s"
proof -
  have "keeps (\<lambda>t. mount_view env t = mount_view env s \<and> users_at t = users_at s \<and> torn_view env t = torn_view env s)
      (GetFSIDWithRootDirByVolumeId env w)"
    by (rule keeps_lookup) (simp add: view_read)
  from keepsD [OF this assms] show ?thesis by simp
qed

lemma unless_torn_lookup [keeps_intro]: "keeps (unless_torn env v f n) (GetFSIDWithRootDirByVolumeId env w)"
  unfolding keeps_def
proof (intro allI impI)
  fix s r s'
  assume "GetFSIDWithRootDirByVolumeId env w s = (r, s')" and st: "unless_torn env v f n s"
  note L = lookup_same [OF this(1)]
  show "unless_torn env v f n s'"
  proof (rule unless_torn_step [OF st])
    assume "staged env v f s"
    with L show "staged env v f s' \<or> torn_view env s (config_path f) < torn_view env s' (config_path f)"
      by (intro unless_torn_mount_view) (auto simp: staged_def)
  qed (use L in simp)
qed

text \<open>Taking another user off: the mount is taken down only for the only user, who is not \<open>v\<close>.\<close>

lemma unless_torn_Delete:
  assumes d: "DeleteVolumeIdFromCfsturboConfig env w g s = (r, s')" and st: "unless_torn env v f n s" and "w \<noteq> v"
  shows "unless_torn env v f n s'"
proof (rule unless_torn_step [OF st growsD [OF grows_config_ops(2) d]])
  note D = Delete_spec [OF d]
  assume staged: "staged env v f s"
  have "v \<in> set (users_at s' (config_path f)) \<or> torn_view env s (config_path f) < torn_view env s' (config_path f)"
  proof (cases r)
    case (Inl e)
    with D have "users_at s' (config_path f) = users_at s (config_path f) \<or>
      torn_view env s (config_path f) < torn_view env s' (config_path f)" by blast
    with staged show ?thesis by (auto simp: staged_def)
  next
    case (Inr b)
    with D staged \<open>w \<noteq> v\<close> show ?thesis by (cases b) (auto simp: staged_def in_set_remove1)
  qed
  with D staged show "staged env v f s' \<or> torn_view env s (config_path f) < torn_view env s' (config_path f)"
    by (intro unless_torn_mount_view) auto
qed

lemma unless_torn_DeleteConfig:
  assumes x: "DeleteCfsturboConfig env g s = (r, s')" and st: "unless_torn env v f n s" and "config_path g \<noteq> config_path f"
  shows "unless_torn env v f n s'"
proof (rule unless_torn_step [OF st growsD [OF grows_config_ops(3) x]])
  assume "staged env v f s"
  with DeleteConfig_spec [OF x] assms(3)
  show "staged env v f s' \<or> torn_view env s (config_path f) < torn_view env s' (config_path f)"
    by (intro unless_torn_mount_view) (auto simp: staged_def)
qed

lemma unless_torn_Cleanup:
  assumes "unless_torn env v f n s" "p \<noteq> global_path f"
  shows "unless_torn env v f n (logged (CleanupMountPoint p) s)"
  using assms by (auto simp: unless_torn_def staged_def torn_view_def)

lemma unstage_locked_cases:
  assumes "turbo_unstage_locked env w g s = (r, s')"
  obtains d where "DeleteVolumeIdFromCfsturboConfig env w g s = (d, s')"
  | s1 where "DeleteVolumeIdFromCfsturboConfig env w g s = (Inr True, s1)"
      "s' = logged (CleanupMountPoint (global_path g)) s1"
  | s1 x where "DeleteVolumeIdFromCfsturboConfig env w g s = (Inr True, s1)"
      "DeleteCfsturboConfig env g (logged (CleanupMountPoint (global_path g)) s1) = (x, s')"
  using assms
  by (auto simp: turbo_unstage_locked_def andThen_def map_error_def on_host_def call_def Let_def ret_def
      split: sum.splits prod.splits option.splits if_splits)

text \<open>The file of \<open>v\<close> is torn, or it is not the one whose only user is another.\<close>

lemma unless_torn_users:
  assumes "unless_torn env v f n s" "users_at s (config_path g) = [w]" "w \<noteq> v"
  shows "n < torn_view env s (config_path f) \<or> config_path g \<noteq> config_path f"
  using assms by (auto simp: unless_torn_def staged_def)

lemma unless_torn_unstage_locked:
  assumes "w \<noteq> v"
  shows "keeps (unless_torn env v f n) (turbo_unstage_locked env w g)"
  unfolding keeps_def
proof (intro allI impI)
  fix s r s'
  assume u: "turbo_unstage_locked env w g s = (r, s')" and st: "unless_torn env v f n s"
  from u show "unless_torn env v f n s'"
  proof (cases rule: unstage_locked_cases)
    case (1 d)
    from unless_torn_Delete [OF 1 st assms] show ?thesis .
  next
    case (2 s1)
    note st1 = unless_torn_Delete [OF 2(1) st assms]
    from Delete_spec [OF 2(1)] unless_torn_users [OF st1, of g w] assms
    consider "n < torn_view env s1 (config_path f)" | "config_path g \<noteq> config_path f" by auto
    then show ?thesis
    proof cases
      case 1
      with 2(2) torn_view_logged [of env s1 "config_path f"] show ?thesis
        by (auto simp: unless_torn_def intro: less_le_trans)
    next
      case c: 2
      then have "global_path g \<noteq> global_path f" by (auto simp: global_path_def)
      from unless_torn_Cleanup [OF st1 this] 2(2) show ?thesis by simp
    qed
  next
    case (3 s1 x)
    note st1 = unless_torn_Delete [OF 3(1) st assms]
    let ?s2 = "logged (CleanupMountPoint (global_path g)) s1"
    note gx = growsD [OF grows_config_ops(3) 3(2), of env "config_path f"]
    from Delete_spec [OF 3(1)] unless_torn_users [OF st1, of g w] assms
    consider "n < torn_view env s1 (config_path f)" | "config_path g \<noteq> config_path f" by auto
    then show ?thesis
    proof cases
      case 1
      with gx torn_view_logged [of env s1 "config_path f" "CleanupMountPoint (global_path g)"] show ?thesis
        by (auto simp: unless_torn_def)
    next
      case c: 2
      then have "global_path g \<noteq> global_path f" by (auto simp: global_path_def)
      from unless_torn_DeleteConfig [OF 3(2) unless_torn_Cleanup [OF st1 this] c] show ?thesis .
    qed
  qed
qed

lemma unless_torn_NodeUnstage [keeps_intro]:
  "w \<noteq> v \<Longrightarrow> keeps (unless_torn env v f n) (turbo_NodeUnstageVolume env w)"
  unfolding turbo_NodeUnstageVolume_def
  by (auto intro!: keeps_intro unless_torn_unstage_locked)

text \<open>The loop that unmounts a target only appends probes and unmounts of the target.\<close>

lemma unmount_all_appends:
  assumes "unmount_all env target h = Some y"
  shows "\<exists>es. snd y = es @ h \<and> list_all (\<lambda>ev. ev = NotMountPoint target \<or> ev = Unmount target) es"
proof (rule unmount_all.raw_induct [where P = "\<lambda>e q g z. \<exists>es. snd z = es @ g \<and>
    list_all (\<lambda>ev. ev = NotMountPoint q \<or> ev = Unmount q) es", OF _ assms])
  fix f e q g z
  assume IH: "\<And>e q g z. f e q g = Some z \<Longrightarrow> \<exists>es. snd z = es @ g \<and> list_all (\<lambda>ev. ev = NotMountPoint q \<or> ev = Unmount q) es"
    and run: "(case on_NotMountPoint e g q of
        (notMnt, None) \<Rightarrow>
          if notMnt then Some (Inr (), NotMountPoint q # g)
          else
            (case on_Unmount e (NotMountPoint q # g) q of
               None \<Rightarrow> f e q (Unmount q # NotMountPoint q # g)
             | Some err \<Rightarrow> Some (Inl (Status Internal), Unmount q # NotMountPoint q # g))
      | (notMnt, Some err) \<Rightarrow>
          Some (if IsNotExist err then Inr () else Inl (Status Internal), NotMountPoint q # g)) = Some z"
  have one: "\<exists>es. NotMountPoint q # g = es @ g \<and> list_all (\<lambda>ev. ev = NotMountPoint q \<or> ev = Unmount q) es"
    "\<exists>es. Unmount q # NotMountPoint q # g = es @ g \<and> list_all (\<lambda>ev. ev = NotMountPoint q \<or> ev = Unmount q) es"
    by (rule exI [of _ "[NotMountPoint q]"], simp) (rule exI [of _ "[Unmount q, NotMountPoint q]"], simp)
  have more: "\<exists>es. snd z = es @ g \<and> list_all (\<lambda>ev. ev = NotMountPoint q \<or> ev = Unmount q) es"
    if "f e q (Unmount q # NotMountPoint q # g) = Some z"
  proof -
    from IH [OF that] obtain es where "snd z = es @ Unmount q # NotMountPoint q # g"
      "list_all (\<lambda>ev. ev = NotMountPoint q \<or> ev = Unmount q) es" by blast
    then show ?thesis by (intro exI [of _ "es @ [Unmount q, NotMountPoint q]"]) simp
  qed
  from run one more show "\<exists>es. snd z = es @ g \<and> list_all (\<lambda>ev. ev = NotMountPoint q \<or> ev = Unmount q) es"
    by (auto split: prod.splits option.splits if_splits)
qed

lemma mounted_elsewhere:
  assumes "list_all (\<lambda>ev. ev = NotMountPoint q \<or> ev = Unmount q) es" "mounted env p h" "p \<noteq> q"
  shows "mounted env p (es @ h)"
  using assms by (induction es) auto

lemma unless_torn_NodeUnpublish:
  assumes "turbo_NodeUnpublishVolume env target s = Some (r, s')" "unless_torn env v f n s" "target \<noteq> global_path f"
  shows "unless_torn env v f n s'"
proof (cases "target = []")
  case True
  with assms show ?thesis by (simp add: turbo_NodeUnpublishVolume_def)
next
  case False
  with assms(1) obtain h where h: "unmount_all (turbo_host env) target (turbo_log s) = Some (r, h)" "s' = s\<lparr>turbo_log := h\<rparr>"
    by (auto simp: turbo_NodeUnpublishVolume_def)
  from unmount_all_appends [OF h(1)] obtain es where
    es: "h = es @ turbo_log s" "list_all (\<lambda>ev. ev = NotMountPoint target \<or> ev = Unmount target) es" by auto
  show ?thesis
  proof (rule unless_torn_step [OF assms(2)])
    assume "staged env v f s"
    with mounted_elsewhere [OF es(2)] assms(3) h(2) es(1)
    show "staged env v f s' \<or> torn_view env s (config_path f) < torn_view env s' (config_path f)"
      by (auto simp: staged_def)
  qed (simp add: h(2) es(1) torn_view_def torn_writes_append)
qed

section \<open>Staged volumes stay mounted\<close>

abbreviation turbo_key :: "(string \<times> string) list \<Rightarrow> string" where
  "turbo_key context \<equiv> fsidWithRootDir_of (turbo_defaults (foldl turbo_stage_param no_turbo_options context))"

lemma with_lock_InrE:
  assumes "with_lock k m s = (Inr a, s')"
  obtains l s1 where "TryAcquire k (node_locks s) = (True, l)" "m (s\<lparr>node_locks := l\<rparr>) = (Inr a, s1)"
    "s' = s1\<lparr>node_locks := Release k (node_locks s1)\<rparr>"
  using assms by (auto simp: with_lock_def split: prod.splits bool.splits)

lemma ensure_mount_dir_mounted:
  assumes "ensure_mount_dir env (Some True) p h = (Inr False, h')"
  shows "on_NotMountPoint env h p = (False, None) \<and> h' = NotMountPoint p # h"
  using assms
  by (auto simp: ensure_mount_dir_def andThen_def call_def split: option.splits if_splits prod.splits sum.splits)

lemma on_host_InrE:
  assumes "on_host m s = (Inr a, s')"
  obtains h where "m (turbo_log s) = (Inr a, h)" "s' = s\<lparr>turbo_log := h\<rparr>"
  using assms by (auto simp: on_host_def split: prod.splits)

lemma stage_success:
  assumes "turbo_NodeStageVolume env req s = (Inr (), s')" "honest_mounter env"
  shows "staged env (ts_VolumeId req) (turbo_key (ts_VolumeContext req)) s'"
proof -
  let ?f = "turbo_key (ts_VolumeContext req)"
  from assms(1) obtain mo where w: "with_lock ?f
      (turbo_stage_locked env (turbo_defaults (foldl turbo_stage_param no_turbo_options (ts_VolumeContext req)))
        mo ?f (ts_VolumeId req)) s = (Inr (), s')"
    by (auto simp: turbo_NodeStageVolume_def Let_def fail_def split: if_splits)
  then obtain l s0 where s0: "turbo_stage_locked env
      (turbo_defaults (foldl turbo_stage_param no_turbo_options (ts_VolumeContext req))) mo ?f (ts_VolumeId req)
      (s\<lparr>node_locks := l\<rparr>) = (Inr (), s0)" "s' = s0\<lparr>node_locks := Release ?f (node_locks s0)\<rparr>"
    by (rule with_lock_InrE)
  from s0(1) obtain notMnt s2 s3 s4 src mo' where
    dir: "on_host (turbo_global_dir (turbo_host env) (global_path ?f)) s2 = (Inr notMnt, s3)"
    and mnt: "(if notMnt then on_host (mount_call mount_error (turbo_host env) src (global_path ?f)
        (opt_Proto (turbo_defaults (foldl turbo_stage_param no_turbo_options (ts_VolumeContext req)))) mo') else ret ()) s3 = (Inr (), s4)"
    and add: "AddVolumeIdToCfsturboConfig env ?f (ts_VolumeId req) s4 = (Inr (), s0)"
    unfolding turbo_stage_locked_def Let_def by (auto elim!: andThen_InrE dest!: map_error_InrD)
  have m4: "mounted (turbo_host env) (global_path ?f) (turbo_log s4)"
  proof (cases notMnt)
    case True
    with mnt show ?thesis
      by (auto simp: mount_call_def elim!: on_host_InrE dest!: call_InrD)
  next
    case False
    with dir obtain h where "turbo_global_dir (turbo_host env) (global_path ?f) (turbo_log s2) = (Inr False, h)"
      "s3 = s2\<lparr>turbo_log := h\<rparr>" by (auto elim: on_host_InrE)
    from ensure_mount_dir_mounted [OF this(1) [unfolded turbo_global_dir_def]] this(2) False mnt assms(2)
    show ?thesis by (auto simp: honest_mounter_def)
  qed
  with Add_spec [OF add] s0(2) show ?thesis
    by (simp add: staged_def mount_view_def add_user_def users_at_def fun_eq_iff)
qed

text \<open>
  What may happen on the node while volume \<open>v\<close> is in use: everything but the unstaging of \<open>v\<close>. The
  targets of pods are no global paths.
\<close>

inductive turbo_step :: "turbo_env \<Rightarrow> string \<Rightarrow> turbo_state \<Rightarrow> turbo_state \<Rightarrow> bool" for env v where
  stage: "turbo_NodeStageVolume env req s = (r, s') \<Longrightarrow> turbo_step env v s s'"
| publish: "turbo_NodePublishVolume env preq s = (r, s') \<Longrightarrow> turbo_step env v s s'"
| unpublish: "turbo_NodeUnpublishVolume env target s = Some (r, s') \<Longrightarrow> (\<And>g. target \<noteq> global_path g) \<Longrightarrow>
    turbo_step env v s s'"
| unstage: "w \<noteq> v \<Longrightarrow> turbo_NodeUnstageVolume env w s = (r, s') \<Longrightarrow> turbo_step env v s s'"

lemma turbo_step_unless_torn:
  assumes "turbo_step env v s s'" "unless_torn env v f n s"
  shows "unless_torn env v f n s'"
  using assms(1)
proof cases
  case (stage req r)
  from keepsD [OF unless_torn_NodeStage stage assms(2)] show ?thesis .
next
  case (publish preq r)
  from keepsD [OF unless_torn_NodePublish publish assms(2)] show ?thesis .
next
  case (unpublish target r)
  from unless_torn_NodeUnpublish [OF unpublish(1) assms(2)] unpublish(2) show ?thesis by blast
next
  case (unstage w r)
  from keepsD [OF unless_torn_NodeUnstage [OF unstage(1)] unstage(2) assms(2)] show ?thesis .
qed

text \<open>C32. Once the staging of a volume has succeeded, its file system stays mounted at its global path and
  the volume stays counted, whatever other volumes are staged, published, unpublished and unstaged
  and whatever calls fail on the way, until the volume itself is unstaged; except that a later
  write of the list of users that fails after it has truncated the file loses the count.\<close>

theorem turbo_staged_stays_mounted:
  assumes "honest_mounter env"
    and "turbo_NodeStageVolume env req s0 = (Inr (), s1)"
    and "(turbo_step env (ts_VolumeId req))\<^sup>*\<^sup>* s1 s"
  shows "staged env (ts_VolumeId req) (turbo_key (ts_VolumeContext req)) s \<or>
    torn_writes env (config_path (turbo_key (ts_VolumeContext req))) (turbo_log s1) <
    torn_writes env (config_path (turbo_key (ts_VolumeContext req))) (turbo_log s)"
proof -
  let ?f = "turbo_key (ts_VolumeContext req)"
  have "unless_torn env (ts_VolumeId req) ?f (torn_view env s1 (config_path ?f)) s"
    using assms(3)
  proof (induction rule: rtranclp_induct)
    case base
    show ?case using stage_success [OF assms(2,1)] by (simp add: unless_torn_def)
  next
    case (step t u)
    from turbo_step_unless_torn [OF step.hyps(2) step.IH] show ?case .
  qed
  then show ?thesis by (auto simp: unless_torn_def torn_view_def)
qed

definition turbo_demo :: turbo_env where
  "turbo_demo =
     \<lparr>turbo_host = quiet_host\<lparr>on_NotMountPoint := (\<lambda>h p. (\<not> mounted quiet_host p h, None))\<rparr>,
      io_fails = (\<lambda>h ev. None), map_order = (\<lambda>xs. xs)\<rparr>"

definition turbo_fresh :: turbo_state where
  "turbo_fresh = \<lparr>node_locks = NewVolumeLocks, conf_dir = False, conf_files = [], turbo_log = []\<rparr>"

definition turbo_demo_request :: "string \<Rightarrow> string \<Rightarrow> turbo_stage_request" where
  "turbo_demo_request v dir =
     \<lparr>ts_VolumeId = v, ts_VolumeCapability = MountAccess [] [],
      ts_VolumeContext = [(''fsid'', ''f''), (''host'', ''h''), (''rootdir'', dir)]\<rparr>"

lemma mounted_cong:
  assumes "on_MountCall e = on_MountCall e'" "on_CleanupMountPoint e = on_CleanupMountPoint e'" "on_Unmount e = on_Unmount e'"
  shows "mounted e p h = mounted e' p h"
  using assms by (induction e p h rule: mounted.induct) auto

lemma turbo_demo_ok: "honest_mounter turbo_demo"
proof -
  have "mounted (turbo_host turbo_demo) p h = mounted quiet_host p h" for p h
    by (rule mounted_cong) (simp_all add: turbo_demo_def)
  then show "honest_mounter turbo_demo" by (simp add: honest_mounter_def turbo_demo_def)
qed

theorem turbo_staged_stays_mounted_witness:
  "\<exists>s1 s. turbo_NodeStageVolume turbo_demo (turbo_demo_request ''a'' ''/cfs'') turbo_fresh = (Inr (), s1) \<and>
     turbo_NodeUnstageVolume turbo_demo ''b'' s1 = (Inr (), s) \<and> staged turbo_demo ''a'' ''f'' s"
proof -
  let ?s = "turbo_NodeStageVolume turbo_demo (turbo_demo_request ''a'' ''/cfs'') turbo_fresh"
  have a: "fst ?s = Inr ()" by code_simp
  have b: "fst (turbo_NodeUnstageVolume turbo_demo ''b'' (snd ?s)) = Inr ()" by code_simp
  have k: "turbo_key (ts_VolumeContext (turbo_demo_request ''a'' ''/cfs'')) = ''f''" by code_simp
  obtain s1 where s1: "?s = (Inr (), s1)" using a by (metis prod.collapse)
  with b obtain s where s: "turbo_NodeUnstageVolume turbo_demo ''b'' s1 = (Inr (), s)" by (metis prod.collapse snd_conv)
  have "turbo_step turbo_demo ''a'' s1 s" by (rule turbo_step.unstage [OF _ s]) simp
  then have "(turbo_step turbo_demo (ts_VolumeId (turbo_demo_request ''a'' ''/cfs'')))\<^sup>*\<^sup>* s1 s"
    by (simp add: turbo_demo_request_def)
  moreover have "torn_writes turbo_demo p h = 0" for p h
    by (induction turbo_demo p h rule: torn_writes.induct) (auto simp: turbo_demo_def)
  ultimately show ?thesis
    using turbo_staged_stays_mounted [OF turbo_demo_ok s1, of s] s1 s k by (auto simp: turbo_demo_request_def)
qed

text \<open>
  The exception is real. Staging a second volume of the file system fails with a torn write: the
  first volume is no longer counted, the node can stage no volume of this file system, and it can unstage
  no volume at all, since the file no longer parses.
\<close>

definition torn_demo :: turbo_env where
  "torn_demo = turbo_demo\<lparr>io_fails := (\<lambda>h ev. if ev = WriteStrings (config_path ''f'') [''a'', ''b'']
     then Some (''no space left on device'', True) else None)\<rparr>"

theorem turbo_torn_write_loses_users:
  "case turbo_NodeStageVolume torn_demo (turbo_demo_request ''a'' ''/cfs'') turbo_fresh of (ra, s1) \<Rightarrow>
   case turbo_NodeStageVolume torn_demo (turbo_demo_request ''b'' ''/cfs'') s1 of (rb, s2) \<Rightarrow>
     ra = Inr () \<and> rb = Inl (Status Internal) \<and>
     users_at s1 (config_path ''f'') = [''a''] \<and> users_at s2 (config_path ''f'') = [] \<and>
     fst (turbo_NodeUnstageVolume torn_demo ''a'' s2) = Inl (Status Internal) \<and>
     fst (turbo_NodeUnstageVolume torn_demo ''of-another-file-system'' s2) = Inl (Status Internal) \<and>
     fst (turbo_NodeStageVolume torn_demo (turbo_demo_request ''c'' ''/cfs'') s2) = Inl (Status Internal)"
  by code_simp

section \<open>The last user takes the mount down\<close>

lemma unstage_locked_spec:
  assumes "turbo_unstage_locked env v g s = (Inr (), s')"
  shows "users_at s' = (users_at s)(config_path g := remove1 v (users_at s (config_path g))) \<and>
    node_locks s' = node_locks s \<and>
    (\<forall>p. mounted (turbo_host env) p (turbo_log s') \<longleftrightarrow>
      mounted (turbo_host env) p (turbo_log s) \<and> \<not> (users_at s (config_path g) = [v] \<and> p = global_path g))"
proof -
  obtain b s1 where d: "DeleteVolumeIdFromCfsturboConfig env v g s = (Inr b, s1)"
    using assms by (auto simp: turbo_unstage_locked_def elim!: andThen_InrE dest!: map_error_InrD)
  note D = Delete_spec [OF d]
  show ?thesis
  proof (cases b)
    case False
    with assms d have "s' = s1" by (simp add: turbo_unstage_locked_def)
    with D False show ?thesis by (simp add: mount_view_def fun_eq_iff)
  next
    case True
    with assms d obtain s2 where
      c: "on_host (call (\<lambda>_. Status Internal) (CleanupMountPoint (global_path g))
        (\<lambda>h. on_CleanupMountPoint (turbo_host env) h (global_path g))) s1 = (Inr (), s2)"
      and x: "DeleteCfsturboConfig env g s2 = (Inr (), s')"
      by (auto simp: turbo_unstage_locked_def Let_def elim!: andThen_InrE dest!: map_error_InrD)
    from c have s2: "s2 = logged (CleanupMountPoint (global_path g)) s1"
      and ok: "on_CleanupMountPoint (turbo_host env) (turbo_log s1) (global_path g) = None"
      by (auto elim!: on_host_InrE dest!: call_InrD)
    from D True have u: "users_at s (config_path g) = [v]" "users_at s1 = users_at s" by auto
    with DeleteConfig_spec [OF x] s2 have "users_at s' = (users_at s)(config_path g := [])" by simp
    with u D True DeleteConfig_spec [OF x] s2 ok show ?thesis
      by (auto simp: mount_view_def fun_eq_iff)
  qed
qed

text \<open>C33. A successful unstaging takes exactly the volume off the users of the file system it was found on, gives
  the lock back, leaves the users of every other file system as they were, and unmounts exactly
  one path, the global path of that file system, exactly when the volume was its only user.\<close>

theorem turbo_unstage_refcount:
  assumes "GetFSIDWithRootDirByVolumeId env v s = (Inr f, s1)" "f \<noteq> []"
    and "turbo_NodeUnstageVolume env v s = (Inr (), s')"
  shows "users_at s' = (users_at s)(config_path f := remove1 v (users_at s (config_path f))) \<and>
    node_locks s' = node_locks s \<and>
    (\<forall>p. mounted (turbo_host env) p (turbo_log s') \<longleftrightarrow>
      mounted (turbo_host env) p (turbo_log s) \<and> \<not> (users_at s (config_path f) = [v] \<and> p = global_path f))"
proof -
  from assms have "with_lock f (turbo_unstage_locked env v f) s1 = (Inr (), s')"
    by (simp add: turbo_NodeUnstageVolume_def)
  then obtain l s2 where l: "TryAcquire f (node_locks s1) = (True, l)"
    "turbo_unstage_locked env v f (s1\<lparr>node_locks := l\<rparr>) = (Inr (), s2)"
    "s' = s2\<lparr>node_locks := Release f (node_locks s2)\<rparr>" by (rule with_lock_InrE)
  have users: "users_at (t\<lparr>node_locks := k\<rparr>) = users_at t" for t k
    by (rule ext) (simp add: users_at_def)
  from unstage_locked_spec [OF l(2)] lookup_same [OF assms(1)] Release_TryAcquire [OF l(1)] l(3)
  show ?thesis by (auto simp: users mount_view_def fun_eq_iff)
qed

theorem turbo_unstage_refcount_witness:
  "\<exists>s1 s2 s3. turbo_NodeStageVolume turbo_demo (turbo_demo_request ''a'' ''/cfs'') turbo_fresh = (Inr (), s1) \<and>
     GetFSIDWithRootDirByVolumeId turbo_demo ''a'' s1 = (Inr ''f'', s2) \<and>
     turbo_NodeUnstageVolume turbo_demo ''a'' s1 = (Inr (), s3) \<and>
     users_at s1 (config_path ''f'') = [''a''] \<and> users_at s3 (config_path ''f'') = [] \<and>
     \<not> mounted (turbo_host turbo_demo) (global_path ''f'') (turbo_log s3)"
proof -
  let ?s = "turbo_NodeStageVolume turbo_demo (turbo_demo_request ''a'' ''/cfs'') turbo_fresh"
  obtain s1 where s1: "?s = (Inr (), s1)"
  proof -
    have "fst ?s = Inr ()" by code_simp
    then show ?thesis using that by (metis prod.collapse)
  qed
  have g: "fst (GetFSIDWithRootDirByVolumeId turbo_demo ''a'' (snd ?s)) = Inr ''f''" by code_simp
  then obtain s2 where s2: "GetFSIDWithRootDirByVolumeId turbo_demo ''a'' s1 = (Inr ''f'', s2)"
    using s1 by (metis prod.collapse snd_conv)
  have u: "fst (turbo_NodeUnstageVolume turbo_demo ''a'' (snd ?s)) = Inr ()" by code_simp
  then obtain s3 where s3: "turbo_NodeUnstageVolume turbo_demo ''a'' s1 = (Inr (), s3)"
    using s1 by (metis prod.collapse snd_conv)
  have one: "users_at (snd ?s) (config_path ''f'') = [''a'']" by code_simp
  from turbo_unstage_refcount [OF s2 _ s3] one s1
  show ?thesis using s1 s2 s3 by auto
qed

section \<open>One global path for two root directories\<close>

lemma keeps_no_mount_call:
  assumes "only (\<lambda>ev. \<not> is_mount_call ev) m"
  shows "keeps (\<lambda>t. filter is_mount_call (turbo_log t) = ms) (on_host m)"
  unfolding keeps_def
proof (intro allI impI)
  fix s r s'
  assume "on_host m s = (r, s')" and ms: "filter is_mount_call (turbo_log s) = ms"
  then obtain h where h: "m (turbo_log s) = (r, h)" "s' = s\<lparr>turbo_log := h\<rparr>"
    by (auto simp: on_host_def split: prod.splits)
  from onlyD [OF assms h(1)] obtain es where es: "h = es @ turbo_log s" "list_all (\<lambda>ev. \<not> is_mount_call ev) es" by blast
  then have "filter is_mount_call es = []" by (simp add: list_all_iff filter_empty_conv)
  with es(1) h(2) ms show "filter is_mount_call (turbo_log s') = ms" by simp
qed

lemma stage_no_mount_call:
  assumes "\<And>h. on_NotMountPoint (turbo_host env) h (global_path f) = (False, None)"
  shows "keeps (\<lambda>t. filter is_mount_call (turbo_log t) = ms) (turbo_stage_locked env opt mo f v)"
proof -
  let ?J = "\<lambda>t. filter is_mount_call (turbo_log t) = ms"
  have src: "keeps ?J (on_host (turbo_mount_source (turbo_host env) opt mo))"
    unfolding turbo_mount_source_def Let_def by (auto intro!: keeps_no_mount_call hist_intro)
  have dir: "keeps ?J (on_host (turbo_global_dir (turbo_host env) (global_path f)))"
    unfolding turbo_global_dir_def by (auto intro!: keeps_no_mount_call hist_intro)
  have mounted: "b = False" if "on_host (turbo_global_dir (turbo_host env) (global_path f)) t = (Inr b, t')" for b t t'
    using that assms [of "turbo_log t"]
    by (auto simp: on_host_def turbo_global_dir_def ensure_mount_dir_def andThen_def ret_def)
  show ?thesis
    unfolding turbo_stage_locked_def Let_def
    by (auto intro!: keeps_andThen [OF src] keeps_andThen [OF dir] keeps_intros keeps_andThen keeps_config_ops(1)
        dest: mounted split: prod.split)
qed

text \<open>The global path leaves open which of two root directories it stands for: \<open>/a/b\<close> and \<open>/a-b\<close> of
  one file system have the same path and the same users. When the path is mounted, staging a volume of
  either makes no mount call, so the second volume gets the root directory of the first.\<close>

theorem turbo_rootdirs_share_mount:
  assumes "\<And>h. on_NotMountPoint (turbo_host env) h (global_path (turbo_key (ts_VolumeContext req))) = (False, None)"
    and "turbo_NodeStageVolume env req s = (r, s')"
  shows "filter is_mount_call (turbo_log s') = filter is_mount_call (turbo_log s) \<and>
    turbo_key [(''fsid'', fs), (''rootdir'', ''/a/b'')] = turbo_key [(''fsid'', fs), (''rootdir'', ''/a-b'')]"
proof -
  have "keeps (\<lambda>t. filter is_mount_call (turbo_log t) = filter is_mount_call (turbo_log s)) (turbo_NodeStageVolume env req)"
    unfolding turbo_NodeStageVolume_def Let_def
    by (auto intro!: keeps_intros keeps_lock_irrelevant stage_no_mount_call assms(1))
  from keepsD [OF this assms(2)] have "filter is_mount_call (turbo_log s') = filter is_mount_call (turbo_log s)" by simp
  moreover have "ReplaceAll ''/a/b'' ''/'' ''-'' = ReplaceAll ''/a-b'' ''/'' ''-''" by code_simp
  ultimately show ?thesis
    by (simp add: fsidWithRootDir_of_def turbo_defaults_def turbo_stage_param_def no_turbo_options_def ToLower_def lower_char_def)
qed

theorem turbo_rootdirs_share_mount_witness:
  "\<exists>s'. turbo_NodeStageVolume (turbo_demo\<lparr>turbo_host := quiet_host\<lparr>on_NotMountPoint := (\<lambda>h p. (False, None))\<rparr>\<rparr>)
       (turbo_demo_request ''b'' ''/a-b'') turbo_fresh = (Inr (), s') \<and> filter is_mount_call (turbo_log s') = []"
proof -
  let ?env = "turbo_demo\<lparr>turbo_host := quiet_host\<lparr>on_NotMountPoint := (\<lambda>h p. (False, None))\<rparr>\<rparr>"
  have "fst (turbo_NodeStageVolume ?env (turbo_demo_request ''b'' ''/a-b'') turbo_fresh) = Inr ()" by code_simp
  then obtain s' where s': "turbo_NodeStageVolume ?env (turbo_demo_request ''b'' ''/a-b'') turbo_fresh = (Inr (), s')"
    by (metis prod.collapse)
  have mp: "on_NotMountPoint (turbo_host ?env) h p = (False, None)" for h p by simp
  from turbo_rootdirs_share_mount [OF mp s'] s' show ?thesis by (simp add: turbo_fresh_def)
qed

section \<open>Creating and deleting volumes\<close>

lemma SplitC_app: "c \<notin> set w \<Longrightarrow> SplitC c (w @ c # s) = w # SplitC c s"
  using SplitC_append [of c w s] by simp

text \<open>The id of a volume gives its file system, its server and its name back.\<close>

lemma turbo_volume_id_options:
  assumes "CHR ''-'' \<notin> set (opt_FSID opt)" "CHR ''-'' \<notin> set (opt_Server opt)" "CHR ''/'' \<notin> set cid" "CHR ''/'' \<notin> set name"
  shows "getCfsTurboOptionsFromVolumeId (turbo_volume_id opt (turbo_volume_path cid name)) =
    Some (name, no_turbo_options\<lparr>opt_FSID := opt_FSID opt, opt_Server := opt_Server opt\<rparr>)"
proof -
  let ?path = "turbo_volume_path cid name"
  have split: "SplitC (CHR ''-'') (turbo_volume_id opt ?path) = opt_FSID opt # opt_Server opt # SplitC (CHR ''-'') ?path"
    using assms(1,2) by (simp add: turbo_volume_id_def SplitC_app)
  have "SplitC (CHR ''/'') ?path = [[], cid, name]"
    using assms(3,4) by (simp add: turbo_volume_path_def SplitC_app SplitC_no_sep)
  moreover have "Join (SplitC (CHR ''-'') ?path) ''-'' = ?path"
    by (rule Join_SplitC)
  ultimately show ?thesis
    using split by (cases "SplitC (CHR ''-'') ?path") (simp_all add: getCfsTurboOptionsFromVolumeId_def)
qed

text \<open>The calls of a mount of \<open>src\<close> at \<open>mp\<close>.\<close>

fun mount_of :: "string \<Rightarrow> string \<Rightarrow> host_event \<Rightarrow> bool" where
  "mount_of src mp (MountCall s t fstype mo) = (s = src \<and> t = mp)"
| "mount_of src mp (MkdirAll p) = (p = mp)"
| "mount_of src mp (NotMountPoint p) = (p = mp)"
| "mount_of src mp (Exec c args) = True"
| "mount_of src mp ev = False"

text \<open>
  They end with the file system there: with a mount of \<open>src\<close> at \<open>mp\<close> that was accepted, or with a
  test that found \<open>mp\<close> mounted already.
\<close>

fun mount_ready :: "host_env \<Rightarrow> string \<Rightarrow> string \<Rightarrow> host_hist \<Rightarrow> bool" where
  "mount_ready env src mp (MountCall s t fstype mo # h) =
     (s = src \<and> t = mp \<and> on_MountCall env h s t fstype mo = None)"
| "mount_ready env src mp (NotMountPoint p # h) = (p = mp \<and> on_NotMountPoint env h p = (False, None))"
| "mount_ready env src mp h = False"

definition mounts_first :: "host_env \<Rightarrow> string \<Rightarrow> string \<Rightarrow> host_hist \<Rightarrow> host_hist \<Rightarrow> bool" where
  "mounts_first env src mp es h \<longleftrightarrow> es \<noteq> [] \<and> list_all (mount_of src mp) es \<and> mount_ready env src mp (es @ h)"

lemma mountCfsTurbo_mounts:
  assumes "mountCfsTurbo env mp opt h = (Inr (), h')" "opt_RootDir opt = [] \<or> opt_RootDir opt = CFSTurboProtoNFSDefaultDIR"
  shows "\<exists>es. h' = es @ h \<and> mounts_first env (opt_Server opt @ ''@tcp0:/'' @ opt_FSID opt @ CFSTurboProtoNFSDefaultDIR) mp es h"
proof -
  let ?src = "opt_Server opt @ ''@tcp0:/'' @ opt_FSID opt @ CFSTurboProtoNFSDefaultDIR"
  let ?ex = "Exec ''/bin/bash'' [''-c'', ''lsmod | grep '' @ CFSTurboLustreKernelModule]"
  let ?mount = "\<lambda>notMnt. if notMnt then mount_call mount_error env ?src mp CFSTurboProtoLustre [] else ret ()"
  let ?rest = "andThen (ensure_mount_dir env (Some True) mp) ?mount"
  have "mountCfsTurbo env mp opt = andThen (ask ?ex (\<lambda>h. on_Exec env h ''/bin/bash'' [''-c'', ''lsmod | grep '' @ CFSTurboLustreKernelModule])) (\<lambda>_. ?rest)"
    using assms(2) by (auto simp: mountCfsTurbo_def Let_def cong: if_cong)
  with assms(1) have rest: "?rest (?ex # h) = (Inr (), h')" by (simp add: ask_def andThen_def [of "ask _ _"])
  have "only (mount_of ?src mp) ?rest"
    unfolding mount_call_def by (auto intro!: hist_intro)
  from onlyD [OF this rest] obtain es where es: "h' = es @ ?ex # h" "list_all (mount_of ?src mp) es" by blast
  from rest have "mount_ready env ?src mp h'"
  proof (cases rule: andThen_InrE)
    case (1 notMnt h2)
    show ?thesis
    proof (cases notMnt)
      case True
      with 1(2) show ?thesis by (auto simp: mount_call_def dest!: call_InrD)
    next
      case False
      with ensure_mount_dir_mounted [of env mp "?ex # h" h2] 1 show ?thesis by simp
    qed
  qed
  with es show ?thesis by (intro exI [of _ "es @ [?ex]"]) (simp add: mounts_first_def)
qed

lemma turbo_create_calls:
  assumes "turbo_CreateVolume env cid req h = (Inr vol, h1)"
    and "opt = foldl turbo_create_param no_turbo_options (tc_Parameters req)"
    and "mp = ''/tmp/'' @ tc_Name req" "dir = mp @ ''/'' @ cid @ ''/'' @ tc_Name req"
  shows "opt_FSID opt \<noteq> [] \<and> opt_Server opt \<noteq> [] \<and> tc_Name req \<noteq> [] \<and>
    tv_VolumeId vol = turbo_volume_id opt (turbo_volume_path cid (tc_Name req)) \<and>
    (\<exists>es. h1 = Unmount mp # MkdirAll dir # es @ h \<and> on_MkdirAll env (es @ h) dir = None \<and>
       on_Unmount env (MkdirAll dir # es @ h) mp = None \<and>
       mounts_first env (opt_Server opt @ ''@tcp0:/'' @ opt_FSID opt @ CFSTurboProtoNFSDefaultDIR) mp es h)"
proof -
  let ?opt = "opt\<lparr>opt_RootDir := CFSTurboProtoNFSDefaultDIR\<rparr>"
  from assms obtain h0 where
    ok: "opt_FSID opt \<noteq> []" "opt_Server opt \<noteq> []" "tc_Name req \<noteq> []"
    and m: "mountCfsTurbo env mp ?opt h = (Inr (), h0)"
    and h1: "h1 = Unmount mp # MkdirAll dir # h0" "on_MkdirAll env h0 dir = None" "on_Unmount env (MkdirAll dir # h0) mp = None"
    and id: "tv_VolumeId vol = turbo_volume_id ?opt (turbo_volume_path cid (tc_Name req))"
    unfolding turbo_CreateVolume_def Let_def fail_def
    by (auto elim!: andThen_InrE dest!: call_InrD simp: ret_def split: if_splits)
  from mountCfsTurbo_mounts [OF m] obtain es where "h0 = es @ h"
    "mounts_first env (opt_Server opt @ ''@tcp0:/'' @ opt_FSID opt @ CFSTurboProtoNFSDefaultDIR) mp es h" by auto
  with ok h1 id show ?thesis by (auto simp: turbo_volume_id_def)
qed

text \<open>C34. Deleting a volume that the controller created removes the directory that the creation made, and
  only that, on the same root directory of the same file system: each of the two first mounts that
  directory (its mount call is accepted, or the path is found mounted), makes mount calls of that
  one source at that one path only, then makes (or removes) the directory of the volume below it,
  and takes the mount down again. The ids of file systems and servers must not contain the separator of
  volume ids.\<close>

theorem turbo_delete_removes_created:
  assumes "turbo_CreateVolume env cid req h = (Inr vol, h1)"
    and "turbo_DeleteVolume env' cid (tv_VolumeId vol) h2 = (Inr (), h3)"
    and "opt = foldl turbo_create_param no_turbo_options (tc_Parameters req)"
    and "CHR ''-'' \<notin> set (opt_FSID opt)" "CHR ''-'' \<notin> set (opt_Server opt)" "CHR ''/'' \<notin> set cid" "CHR ''/'' \<notin> set (tc_Name req)"
    and "mp = ''/tmp/'' @ tc_Name req" "dir = mp @ ''/'' @ cid @ ''/'' @ tc_Name req"
    and "src = opt_Server opt @ ''@tcp0:/'' @ opt_FSID opt @ ''/cfs''"
  shows "\<exists>es es'. h1 = Unmount mp # MkdirAll dir # es @ h \<and> h3 = Unmount mp # RemoveAll dir # es' @ h2 \<and>
    mounts_first env src mp es h \<and> on_MkdirAll env (es @ h) dir = None \<and> on_Unmount env (MkdirAll dir # es @ h) mp = None \<and>
    mounts_first env' src mp es' h2 \<and> on_RemoveAll env' (es' @ h2) dir = None \<and> on_Unmount env' (RemoveAll dir # es' @ h2) mp = None"
proof -
  let ?opt = "no_turbo_options\<lparr>opt_FSID := opt_FSID opt, opt_Server := opt_Server opt\<rparr>"
  note c = turbo_create_calls [OF assms(1,3,8,9)]
  have get: "getCfsTurboOptionsFromVolumeId (tv_VolumeId vol) = Some (tc_Name req, ?opt)"
    using c turbo_volume_id_options [OF assms(4-7)] by simp
  from assms(2) obtain h0 where m: "mountCfsTurbo env' mp ?opt h2 = (Inr (), h0)"
    and h3: "h3 = Unmount mp # RemoveAll dir # h0" "on_RemoveAll env' h0 dir = None" "on_Unmount env' (RemoveAll dir # h0) mp = None"
    unfolding turbo_DeleteVolume_def get Let_def fail_def
    by (auto simp: assms(8,9) elim!: andThen_InrE dest!: call_InrD split: if_splits)
  from mountCfsTurbo_mounts [OF m] obtain es' where "h0 = es' @ h2" "mounts_first env' src mp es' h2"
    by (auto simp: no_turbo_options_def assms(10))
  with c h3 assms(10) show ?thesis by auto
qed

theorem turbo_delete_removes_created_witness:
  "\<exists>vol h1 h3. turbo_CreateVolume quiet_host ''cls-1''
       \<lparr>tc_Name = ''pvc'', tc_VolumeCapabilities = 1, tc_Parameters = [(''fsid'', ''f''), (''host'', ''h'')], tc_RequiredBytes = 1\<rparr> []
     = (Inr vol, h1) \<and> turbo_DeleteVolume quiet_host ''cls-1'' (tv_VolumeId vol) h1 = (Inr (), h3) \<and>
     MkdirAll ''/tmp/pvc/cls-1/pvc'' \<in> set h1 \<and> RemoveAll ''/tmp/pvc/cls-1/pvc'' \<in> set h3"
proof -
  let ?req = "\<lparr>tc_Name = ''pvc'', tc_VolumeCapabilities = 1, tc_Parameters = [(''fsid'', ''f''), (''host'', ''h'')], tc_RequiredBytes = 1\<rparr>"
  let ?opt = "foldl turbo_create_param no_turbo_options (tc_Parameters ?req)"
  have "case turbo_CreateVolume quiet_host ''cls-1'' ?req [] of (Inl e, h) \<Rightarrow> False
      | (Inr vol, h) \<Rightarrow> fst (turbo_DeleteVolume quiet_host ''cls-1'' (tv_VolumeId vol) h) = Inr ()" by code_simp
  then obtain vol h1 where c: "turbo_CreateVolume quiet_host ''cls-1'' ?req [] = (Inr vol, h1)"
    and "fst (turbo_DeleteVolume quiet_host ''cls-1'' (tv_VolumeId vol) h1) = Inr ()"
    by (auto split: prod.splits sum.splits)
  then obtain h3 where d: "turbo_DeleteVolume quiet_host ''cls-1'' (tv_VolumeId vol) h1 = (Inr (), h3)"
    by (metis prod.collapse)
  have ok: "CHR ''-'' \<notin> set (opt_FSID ?opt)" "CHR ''-'' \<notin> set (opt_Server ?opt)" by code_simp+
  from turbo_delete_removes_created [OF c d refl ok _ _ refl refl refl] c d show ?thesis by auto
qed

end
