(* ===== verification/CfsNode.thy ===== *)
theory CfsNode imports Host begin

text \<open>
  The CFS node (\<open>driver/cfs/node.go\<close>): an NFS mount per pod, whose version and source follow from
  the volume's parameters, its inverse, and the statistics of a volume.
\<close>

section \<open>Publishing\<close>

record cfsOptions =
  co_Server :: string
  co_Path :: string
  co_Vers :: string
  co_Options :: string
  co_FSID :: string

definition no_cfs_options :: cfsOptions where
  "no_cfs_options = \<lparr>co_Server = [], co_Path = [], co_Vers = [], co_Options = [], co_FSID = []\<rparr>"

definition cfs_publish_param :: "cfsOptions \<Rightarrow> string \<times> string \<Rightarrow> cfsOptions" where
  "cfs_publish_param opt kv =
     (let key = ToLower (fst kv); value = snd kv in
      if key = ''host'' then opt\<lparr>co_Server := value\<rparr>
      else if key = ''path'' then opt\<lparr>co_Path := value\<rparr>
      else if key = ''vers'' then opt\<lparr>co_Vers := value\<rparr>
      else if key = ''options'' then opt\<lparr>co_Options := value\<rparr>
      else if key = ''fsid'' then opt\<lparr>co_FSID := value\<rparr>
      else opt)"

text \<open>The path and the version that are taken when none is given.\<close>

definition cfs_default_path :: "cfsOptions \<Rightarrow> cfsOptions" where
  "cfs_default_path opt = (if co_Path opt = [] then opt\<lparr>co_Path := ''/''\<rparr> else opt)"

definition cfs_default_vers :: "cfsOptions \<Rightarrow> cfsOptions" where
  "cfs_default_vers opt =
     (if co_Vers opt = [] then
        (if co_FSID opt = [] then opt\<lparr>co_Vers := ''4''\<rparr> else opt\<lparr>co_Vers := ''3''\<rparr>)
      else opt)"

record cfs_publish_request =
  pr_TargetPath :: string
  pr_VolumeCapability :: access_type
  pr_VolumeContext :: "(string \<times> string) list"
  pr_Readonly :: bool

text \<open>The options of the mount in the order they are appended, and its source.\<close>

definition cfs_mount_options :: "cfsOptions \<Rightarrow> string list \<Rightarrow> bool \<Rightarrow> string list" where
  "cfs_mount_options opt flags readonly =
     (let mo = flags;
          mo = (if readonly then mo @ [''ro''] else mo);
          mo = (if co_Options opt \<noteq> [] then mo @ SplitC (CHR '','') (co_Options opt) else mo);
          mo = mo @ [''vers='' @ co_Vers opt];
          mo = (if co_FSID opt \<noteq> [] then mo @ [''noresvport''] else mo)
      in if co_Vers opt = ''3'' then mo @ [''nolock,proto=tcp''] else mo)"

definition cfs_mount_source :: "cfsOptions \<Rightarrow> string" where
  "cfs_mount_source opt =
     (let path = (if co_Vers opt = ''3'' \<and> co_FSID opt \<noteq> [] then ''/'' @ co_FSID opt @ co_Path opt else co_Path opt)
      in co_Server opt @ '':'' @ path)"

definition cfs_NodePublishVolume :: "host_env \<Rightarrow> cfs_publish_request \<Rightarrow> unit host_action" where
  "cfs_NodePublishVolume env req =
     (let mountPath = pr_TargetPath req in
      if mountPath = [] then fail (Status InvalidArgument)
      else
        (let opt = foldl cfs_publish_param no_cfs_options (pr_VolumeContext req) in
         if co_Server opt = [] then fail (Status InvalidArgument)
         else
           (let addr = co_Server opt @ '':'' @ ''2049'' in
            andThen (call (\<lambda>_. PlainMsg) (Dial addr) (\<lambda>h. on_Dial env h addr)) (\<lambda>_.
            let opt = cfs_default_path opt in
            if \<not> HasPrefix (co_Path opt) ''/'' then fail (Status InvalidArgument)
            else
              (let opt = cfs_default_vers opt in
               andThen (ensure_mount_dir env (Some True) mountPath) (\<lambda>notMnt.
                 if \<not> notMnt then ret ()
                 else
                   (let mo = cfs_mount_options opt (GetMountFlags (pr_VolumeCapability req)) (pr_Readonly req)
                    in mount_call mount_error env (cfs_mount_source opt) mountPath ''nfs'' mo)))))))"

section \<open>The other handlers\<close>

definition cfs_NodeUnpublishVolume :: "host_env \<Rightarrow> string \<Rightarrow> unit host_action" where
  "cfs_NodeUnpublishVolume env targetPath =
     andThen (notMountPoint env targetPath) (\<lambda>(notMnt, err).
       case err of
         Some e \<Rightarrow> if IsNotExist e then ret () else fail (Status Internal)
       | None \<Rightarrow>
           if notMnt then ret ()
           else call (\<lambda>_. Status Internal) (Unmount targetPath) (\<lambda>h. on_Unmount env h targetPath))"

datatype cfs_unimplemented_call = CfsNodeStage | CfsNodeUnstage | CfsNodeExpand

definition cfs_node_unimplemented :: "cfs_unimplemented_call \<Rightarrow> 'a host_action" where
  "cfs_node_unimplemented c = fail (Status Unimplemented)"

datatype cfs_node_capability = CFS_GET_VOLUME_STATS | CFS_UNKNOWN

definition cfs_NodeGetCapabilities :: "cfs_node_capability list" where
  "cfs_NodeGetCapabilities = map (\<lambda>n. n) [CFS_GET_VOLUME_STATS, CFS_UNKNOWN]"

definition cfs_NodeGetVolumeStats :: "host_env \<Rightarrow> string \<Rightarrow> string \<Rightarrow> (VolumeUsage \<times> VolumeUsage) host_action" where
  "cfs_NodeGetVolumeStats env volumeID volumePath =
     (if length volumeID = 0 then fail (Status InvalidArgument)
      else if length volumePath = 0 then fail (Status InvalidArgument)
      else
        andThen (fetch (\<lambda>e. if IsNotExist e then Status NotFound else Status Internal) (Stat volumePath)
            (\<lambda>h. on_Stat env h volumePath)) (\<lambda>_.
        andThen (fetch (\<lambda>_. Status Internal) (StatFS volumePath) (\<lambda>h. on_StatFS env h volumePath)) (\<lambda>m.
          case volume_usage m of Inl e \<Rightarrow> fail e | Inr u \<Rightarrow> ret u)))"

section \<open>What publishing and unpublishing do\<close>

text \<open>The specification: the version and the source that the parameters ask for.\<close>

definition cfs_version :: "cfsOptions \<Rightarrow> string" where
  "cfs_version opt = (if co_Vers opt \<noteq> [] then co_Vers opt else if co_FSID opt \<noteq> [] then ''3'' else ''4'')"

lemma cfs_default_fields [simp]:
  "co_Vers (cfs_default_vers opt) = cfs_version opt"
  "co_FSID (cfs_default_vers opt) = co_FSID opt" "co_Server (cfs_default_vers opt) = co_Server opt"
  "co_Path (cfs_default_vers opt) = co_Path opt" "co_Options (cfs_default_vers opt) = co_Options opt"
  "co_FSID (cfs_default_path opt) = co_FSID opt" "co_Server (cfs_default_path opt) = co_Server opt"
  "co_Vers (cfs_default_path opt) = co_Vers opt" "co_Options (cfs_default_path opt) = co_Options opt"
  "co_Path (cfs_default_path opt) = (if co_Path opt = [] then ''/'' else co_Path opt)"
  by (simp_all add: cfs_default_vers_def cfs_default_path_def cfs_version_def)

lemma cfs_version_default_path [simp]: "cfs_version (cfs_default_path opt) = cfs_version opt"
  by (simp add: cfs_version_def)

lemma ensure_mount_dir_InrD:
  assumes "ensure_mount_dir env (Some True) p h = (Inr b, h')"
  shows "(h' = NotMountPoint p # h \<and> on_NotMountPoint env h p = (b, None)) \<or>
    (h' = MkdirAll p # NotMountPoint p # h \<and> b)"
  using assms
  by (auto simp: ensure_mount_dir_def andThen_def call_def split: option.splits if_splits prod.splits sum.splits)

text \<open>A successful publish of a CFS volume either saw the target mounted already, and then mounted nothing, or
  ended in one accepted NFS mount on the target. That mount is of the version asked for (without one:
  3 when the file system has an id for version 3, else 4); its source starts below that id exactly under version 3;
  it keeps the flags of the request and adds read-only when asked to.\<close>

theorem cfs_publish_mount:
  assumes "cfs_NodePublishVolume env req h = (Inr (), h')"
    and "opt = foldl cfs_publish_param no_cfs_options (pr_VolumeContext req)"
  shows "(\<exists>h0. h' = NotMountPoint (pr_TargetPath req) # h0 \<and> on_NotMountPoint env h0 (pr_TargetPath req) = (False, None)) \<or>
    (\<exists>mo h0. h' = MountCall (co_Server opt @ '':'' @ (if cfs_version opt = ''3'' \<and> co_FSID opt \<noteq> [] then ''/'' @ co_FSID opt else [])
          @ (if co_Path opt = [] then ''/'' else co_Path opt)) (pr_TargetPath req) ''nfs'' mo # h0 \<and>
       on_MountCall env h0 (co_Server opt @ '':'' @ (if cfs_version opt = ''3'' \<and> co_FSID opt \<noteq> [] then ''/'' @ co_FSID opt else [])
          @ (if co_Path opt = [] then ''/'' else co_Path opt)) (pr_TargetPath req) ''nfs'' mo = None \<and>
       prefix (GetMountFlags (pr_VolumeCapability req)) mo \<and> ''vers='' @ cfs_version opt \<in> set mo \<and>
       (pr_Readonly req \<longrightarrow> ''ro'' \<in> set mo) \<and> (co_FSID opt \<noteq> [] \<longrightarrow> ''noresvport'' \<in> set mo))"
proof -
  let ?opt = "cfs_default_vers (cfs_default_path opt)" and ?p = "pr_TargetPath req"
  let ?mo = "cfs_mount_options ?opt (GetMountFlags (pr_VolumeCapability req)) (pr_Readonly req)"
  from assms obtain b h0 h1 where
    e: "ensure_mount_dir env (Some True) ?p h0 = (Inr b, h1)"
    and r: "(if \<not> b then ret () else mount_call mount_error env (cfs_mount_source ?opt) ?p ''nfs'' ?mo) h1 = (Inr (), h')"
    unfolding cfs_NodePublishVolume_def Let_def fail_def
    by (auto elim!: andThen_InrE split: if_splits)
  show ?thesis
  proof (cases b)
    case False
    with r ensure_mount_dir_InrD [OF e] show ?thesis by auto
  next
    case True
    with r have m: "h' = MountCall (cfs_mount_source ?opt) ?p ''nfs'' ?mo # h1"
      "on_MountCall env h1 (cfs_mount_source ?opt) ?p ''nfs'' ?mo = None"
      by (auto simp: mount_call_def dest!: call_InrD)
    have src: "cfs_mount_source ?opt = co_Server opt @ '':'' @ (if cfs_version opt = ''3'' \<and> co_FSID opt \<noteq> [] then ''/'' @ co_FSID opt else [])
        @ (if co_Path opt = [] then ''/'' else co_Path opt)"
      by (simp add: cfs_mount_source_def)
    have "prefix (GetMountFlags (pr_VolumeCapability req)) ?mo" "''vers='' @ cfs_version opt \<in> set ?mo"
      "pr_Readonly req \<longrightarrow> ''ro'' \<in> set ?mo" "co_FSID opt \<noteq> [] \<longrightarrow> ''noresvport'' \<in> set ?mo"
      by (auto simp: cfs_mount_options_def Let_def prefix_def)
    with m src show ?thesis by auto
  qed
qed

definition cfs_demo_publish :: cfs_publish_request where
  "cfs_demo_publish = \<lparr>pr_TargetPath = ''/t'', pr_VolumeCapability = MountAccess [] [''soft''],
     pr_VolumeContext = [(''host'', ''10.0.0.1''), (''FSID'', ''x''), (''path'', ''/d'')], pr_Readonly = True\<rparr>"

theorem cfs_publish_mount_witness:
  "\<exists>h'. cfs_NodePublishVolume quiet_host cfs_demo_publish [] = (Inr (), h') \<and>
     (\<exists>mo h0. h' = MountCall ''10.0.0.1:/x/d'' ''/t'' ''nfs'' mo # h0 \<and> ''vers=3'' \<in> set mo \<and> ''ro'' \<in> set mo)"
proof -
  let ?opt = "foldl cfs_publish_param no_cfs_options (pr_VolumeContext cfs_demo_publish)"
  have "fst (cfs_NodePublishVolume quiet_host cfs_demo_publish []) = Inr ()" by code_simp
  then obtain h' where h': "cfs_NodePublishVolume quiet_host cfs_demo_publish [] = (Inr (), h')"
    by (metis prod.collapse)
  have v: "cfs_version ?opt = ''3''" "co_FSID ?opt = ''x''" "co_Server ?opt = ''10.0.0.1''" "co_Path ?opt = ''/d''"
    by code_simp+
  from cfs_publish_mount [OF h' refl] h' show ?thesis
    by (simp add: v quiet_host_def) (auto simp: cfs_demo_publish_def)
qed

text \<open>Unpublishing a target that is a mount point takes one mount away.\<close>

lemma cfs_unpublish_cases:
  assumes "cfs_NodeUnpublishVolume env p h = (Inr (), h')"
  shows "(h' = Unmount p # NotMountPoint p # h \<and> on_Unmount env (NotMountPoint p # h) p = None) \<or>
    (h' = NotMountPoint p # h \<and> (on_NotMountPoint env h p = (True, None) \<or>
       (\<exists>b e. on_NotMountPoint env h p = (b, Some e) \<and> IsNotExist e)))"
  using assms
  by (auto simp: cfs_NodeUnpublishVolume_def call_def split: prod.splits option.splits if_splits)

end
