(* ===== verification/CfsProps.thy ===== *)
theory CfsProps imports CfsController CfsNode begin

text \<open>
  What the creation of a CFS volume promises: one file system is created in the cloud, and the
  volume is handed out only after that file system was seen available with a mount target, whose
  address is the host that the nodes will mount.
\<close>

section \<open>The wait for the file system\<close>

text \<open>The calls of the wait are about one file system and only read.\<close>

fun cfs_read_of :: "string \<Rightarrow> cfs_call \<Rightarrow> bool" where
  "cfs_read_of i (DescribeCfsFileSystems j) = (i = j)"
| "cfs_read_of i (DescribeMountTargets j) = (i = j)"
| "cfs_read_of i _ = False"

definition reads_since :: "string \<Rightarrow> cfs_hist \<Rightarrow> cfs_hist \<Rightarrow> bool" where
  "reads_since i h h' \<longleftrightarrow> (\<exists>es. h' = es @ h \<and> list_all (cfs_read_of i) es)"

lemma reads_since_refl [simp]: "reads_since i h h"
  by (simp add: reads_since_def)

lemma reads_since_step: "reads_since i (e # h) h' \<Longrightarrow> cfs_read_of i e \<Longrightarrow> reads_since i h h'"
  unfolding reads_since_def by (auto intro: exI [of _ "_ @ [e]"])

lemma reads_since_Cons [simp]: "cfs_read_of i e \<Longrightarrow> reads_since i h (e # h)"
  by (rule reads_since_step [of i e]) simp_all

lemma reads_since_trans: "reads_since i h h1 \<Longrightarrow> reads_since i h1 h2 \<Longrightarrow> reads_since i h h2"
  unfolding reads_since_def by (metis append.assoc list_all_append)

lemma cfs_scan_reads: "cfs_scan env i fis h = (r, h') \<Longrightarrow> reads_since i h h'"
proof (induction fis arbitrary: h)
  case (Cons a fis)
  have step: "reads_since i h h'" if "reads_since i (DescribeMountTargets i # h) h'"
    using that by (rule reads_since_step) simp
  show ?case
  proof (cases a)
    case (Some f)
    with Cons show ?thesis
      by (auto split: option.splits sum.splits if_splits intro: step)
  qed (use Cons in auto)
qed simp

text \<open>What a scan that returns a mount target has seen.\<close>

lemma find_mount_target_Some:
  "find_mount_target i ms = Some t \<Longrightarrow> \<exists>m. Some m \<in> set ms \<and> mi_FileSystemId m = Some i \<and> t = (mi_IpAddress m, mi_FSID m)"
  by (induction i ms rule: find_mount_target.induct) (auto split: if_splits)

definition saw_target :: "cfs_env \<Rightarrow> string \<Rightarrow> string option \<times> string option \<Rightarrow> cfs_hist \<Rightarrow> bool" where
  "saw_target env i t h' \<longleftrightarrow>
     (\<exists>h ms m. h' = DescribeMountTargets i # h \<and> on_DescribeMt env h i = Inr (Some ms) \<and> Some m \<in> set ms \<and>
        mi_FileSystemId m = Some i \<and> t = (mi_IpAddress m, mi_FSID m))"

definition lists_available :: "string \<Rightarrow> FileSystemInfo option list \<Rightarrow> bool" where
  "lists_available i fis \<longleftrightarrow>
     (\<exists>f. Some f \<in> set fis \<and> fi_FileSystemId f = Some i \<and> fi_LifeCycleState f = Some ''available'')"

lemma cfs_scan_Some:
  assumes "cfs_scan env i fis h = (Some (Inr t), h')"
  shows "saw_target env i t h' \<and> lists_available i fis"
  using assms
proof (induction fis arbitrary: h)
  case (Cons a fis)
  have more: "lists_available i (a # fis)" if "lists_available i fis"
    using that by (auto simp: lists_available_def)
  show ?case
  proof (cases a)
    case (Some f)
    show ?thesis
    proof (cases "fi_FileSystemId f = Some i \<and> fi_LifeCycleState f = Some ''available''")
      case True
      with Some have av: "lists_available i (a # fis)" by (auto simp: lists_available_def)
      consider ms where "on_DescribeMt env h i = Inr (Some ms)" "find_mount_target i ms = Some t"
          "h' = DescribeMountTargets i # h"
        | "cfs_scan env i fis (DescribeMountTargets i # h) = (Some (Inr t), h')"
        using Cons.prems Some True by (auto split: option.splits sum.splits)
      then show ?thesis
      proof cases
        case 1
        with find_mount_target_Some [OF 1(2)] av show ?thesis by (auto simp: saw_target_def)
      next
        case 2
        with Cons.IH av show ?thesis by blast
      qed
    next
      case False
      with Cons.prems Some have "cfs_scan env i fis h = (Some (Inr t), h')"
        by (auto split: option.splits if_splits)
      with Cons.IH more show ?thesis by blast
    qed
  qed (use Cons in auto)
qed simp

definition saw_available :: "cfs_env \<Rightarrow> string \<Rightarrow> cfs_hist \<Rightarrow> bool" where
  "saw_available env i h' \<longleftrightarrow>
     (\<exists>h fis. suffix (DescribeCfsFileSystems i # h) h' \<and> on_DescribeFs env h i = Inr (Some fis) \<and> lists_available i fis)"

lemma cfs_tick_reads: "cfs_tick env i h = (r, h') \<Longrightarrow> reads_since i h h'"
  by (auto simp: cfs_tick_def split: sum.splits option.splits dest!: cfs_scan_reads
      intro: reads_since_step [of i "DescribeCfsFileSystems i"])

lemma cfs_tick_Some:
  assumes "cfs_tick env i h = (Some (Inr t), h')"
  shows "saw_target env i t h' \<and> saw_available env i h'"
proof -
  from assms obtain fis where f: "on_DescribeFs env h i = Inr (Some fis)"
    "cfs_scan env i fis (DescribeCfsFileSystems i # h) = (Some (Inr t), h')"
    by (auto simp: cfs_tick_def split: sum.splits option.splits)
  from cfs_scan_reads [OF f(2)] have "suffix (DescribeCfsFileSystems i # h) h'"
    by (auto simp: reads_since_def suffix_def)
  with f cfs_scan_Some [OF f(2)] show ?thesis by (auto simp: saw_available_def)
qed

lemma cfs_wait_ready:
  assumes "cfs_wait env ticks i h = (Inr t, h')"
  shows "reads_since i h h' \<and> saw_target env i t h' \<and> saw_available env i h'"
proof -
  from assms have p: "poll (cfs_tick env i) ticks h = (Some (Inr t), h')"
    by (auto simp: cfs_wait_def split: prod.splits option.splits)
  have "reads_since i h h'"
    by (rule poll_inv [OF p, of "reads_since i h"]) (auto intro: reads_since_trans cfs_tick_reads)
  moreover obtain k where "cfs_tick env i (after_ticks (cfs_tick env i) k h) = (Some (Inr t), h')"
    using p by (rule poll_SomeD)
  ultimately show ?thesis using cfs_tick_Some by blast
qed

section \<open>CreateVolume\<close>

text \<open>C35. A CFS volume that is handed out was created by exactly one accepted call, which names a network and a
  subnet and carries the volume's name as the token against repetition; the file system was then
  seen available; and the host and the id for version 3 in the volume's context are those of a mount target of that
  very file system.\<close>

theorem cfs_create_ready:
  assumes "cfs_CreateVolume env ticks zone cid req h = (Inr vol, h')"
  shows "\<exists>request es ip fsid. h' = es @ CreateCfsFileSystem request # h \<and> list_all (cfs_read_of (cfv_VolumeId vol)) es \<and>
    on_Create env h request = Inr (Some (Some (cfv_VolumeId vol))) \<and>
    cr_ClientToken request = cc_Name req \<and> cr_VpcId request \<noteq> [] \<and> cr_SubnetId request \<noteq> [] \<and>
    saw_available env (cfv_VolumeId vol) h' \<and> saw_target env (cfv_VolumeId vol) (ip, fsid) h' \<and>
    (ip \<noteq> None \<longrightarrow> map_of (cfv_VolumeContext vol) ''host'' = ip) \<and>
    (fsid \<noteq> None \<longrightarrow> map_of (cfv_VolumeContext vol) ''fsid'' = fsid)"
proof -
  let ?p = "foldl cfs_create_param no_cfs_params (cc_Parameters req)"
  let ?r = "cfs_build_request zone cid (cc_Name req) ?p"
  from assms obtain i ip fsid where ok: "cp_vpcID ?p \<noteq> []" "cp_subnetID ?p \<noteq> []"
    and c: "on_Create env h ?r = Inr (Some (Some i))"
    and w: "cfs_wait env ticks i (CreateCfsFileSystem ?r # h) = (Inr (ip, fsid), h')"
    and v: "cfv_VolumeId vol = i" "cfv_VolumeContext vol = set_if ''fsid'' fsid (set_if ''host'' ip (cc_Parameters req))"
    unfolding cfs_CreateVolume_def Let_def fail_def
    by (auto elim!: andThen_InrE dest!: fetch_InrD split: if_splits option.splits)
  have ctx: "ip \<noteq> None \<longrightarrow> map_of (cfv_VolumeContext vol) ''host'' = ip"
    "fsid \<noteq> None \<longrightarrow> map_of (cfv_VolumeContext vol) ''fsid'' = fsid"
    by (auto simp: v set_if_def update_conv' split: option.splits)
  from cfs_wait_ready [OF w] obtain es where "h' = es @ CreateCfsFileSystem ?r # h" "list_all (cfs_read_of i) es"
    by (auto simp: reads_since_def)
  with cfs_wait_ready [OF w] ok c v ctx show ?thesis
    by (intro exI [of _ ?r] exI [of _ es] exI [of _ ip] exI [of _ fsid]) (simp add: cfs_build_request_def)
qed

text \<open>A cloud in which the file system is ready at the second listing.\<close>

definition cfs_cloud :: cfs_env where
  "cfs_cloud =
     \<lparr>on_Create = (\<lambda>h r. Inr (Some (Some ''cfs-1''))),
      on_DescribeFs = (\<lambda>h i. Inr (Some [Some \<lparr>fi_FileSystemId = Some i,
        fi_LifeCycleState = Some (if DescribeCfsFileSystems i \<in> set h then ''available'' else ''creating'')\<rparr>])),
      on_DescribeMt = (\<lambda>h i. Inr (Some [None, Some \<lparr>mi_FileSystemId = Some i, mi_MountTargetId = None,
        mi_IpAddress = Some ''10.0.0.2'', mi_FSID = Some ''x1''\<rparr>])),
      on_DeleteFs = (\<lambda>h i. None), on_DeleteMt = (\<lambda>h f m. None)\<rparr>"

definition cfs_demo_create :: cfs_create_request where
  "cfs_demo_create = \<lparr>cc_Name = ''pvc-1'', cc_VolumeCapabilities = 1, cc_RequiredBytes = 10,
     cc_Parameters = [(''vpcId'', ''vpc-1''), (''subnetid'', ''sub-1'')]\<rparr>"

theorem cfs_create_ready_witness:
  "\<exists>vol h'. cfs_CreateVolume cfs_cloud 5 ''z'' ''cls-1'' cfs_demo_create [] = (Inr vol, h') \<and>
     cfv_VolumeId vol = ''cfs-1'' \<and> saw_available cfs_cloud ''cfs-1'' h'"
proof -
  have "map_sum id cfv_VolumeId (fst (cfs_CreateVolume cfs_cloud 5 ''z'' ''cls-1'' cfs_demo_create [])) = Inr ''cfs-1''"
    by code_simp
  then obtain vol h' where v: "cfs_CreateVolume cfs_cloud 5 ''z'' ''cls-1'' cfs_demo_create [] = (Inr vol, h')"
    "cfv_VolumeId vol = ''cfs-1''"
    by (cases "cfs_CreateVolume cfs_cloud 5 ''z'' ''cls-1'' cfs_demo_create []")
      (auto simp: map_sum_def split: sum.splits)
  from cfs_create_ready [OF v(1)] v show ?thesis by auto
qed

section \<open>DeleteVolume\<close>

text \<open>
  A successful deletion saw a listing without the file system, or had its deletion accepted; an
  error of the listing is handed on and nothing is deleted.
\<close>

lemma cfs_delete_cases:
  assumes "cfs_DeleteVolume env i h = (r, h')"
  shows "(r = Inr () \<longrightarrow> (h' = DescribeCfsFileSystems i # h \<and> on_DescribeFs env h i = Inr (Some [])) \<or>
      (h' = DeleteCfsFileSystem i # DescribeCfsFileSystems i # h \<and> on_DeleteFs env (DescribeCfsFileSystems i # h) i = None)) \<and>
    (\<forall>e. on_DescribeFs env h i = Inl e \<and> i \<noteq> [] \<longrightarrow> r = Inl (Plain e) \<and> h' = DescribeCfsFileSystems i # h)"
  using assms
  by (auto simp: cfs_DeleteVolume_def andThen_def fetch_def call_def split: sum.splits option.splits if_splits)

end
