(* ===== verification/Norm.thy ===== *)
theory Norm imports Host begin

text \<open>
  The account service NORM: the owner of the cluster, which tagging needs (\<open>tags/uin.go\<close>), and the
  credential that is cached until half of its life is left (\<open>cloud/credential.go\<close>). HTTP, the
  clock and the random numbers are the outside; a body is what \<open>json.Unmarshal\<close> makes of it.
\<close>

section \<open>Requests and answers\<close>

record norm_request =
  nr_url :: string
  nr_eventId :: nat
  nr_timestamp :: int
  nr_interfaceName :: string
  nr_para :: "(string \<times> string) list"

datatype norm_call = NormPost norm_request

record 'd norm_response =
  nr_Code :: int
  nr_Data :: 'd

datatype 'd norm_body = BodyUnread ext_err | BodyNoJson | NormBody "'d norm_response"

text \<open>\<open>on_post\<close> gives the error of the exchange, or the status code with the body.\<close>

record 'd norm_env =
  norm_getenv :: getenv
  norm_rand :: "norm_call list \<Rightarrow> nat"
  norm_now :: "norm_call list \<Rightarrow> int"                \<comment> \<open>nanoseconds since 1970\<close>
  on_post :: "norm_call list \<Rightarrow> norm_request \<Rightarrow> ext_err + nat \<times> 'd norm_body"

type_synonym 'a norm_action = "(norm_call, 'a) action"

definition getNormUrl :: "getenv \<Rightarrow> string" where
  "getNormUrl env =
     (let url = env ''QCLOUD_NORM_URL''
      in if url = [] then ''http://169.254.0.40:80/norm/api'' else url)"

text \<open>The parts that both calls share: send, check the status, decode, check the code.\<close>

definition norm_exchange :: "'d norm_env \<Rightarrow> norm_request \<Rightarrow> 'd norm_action" where
  "norm_exchange env request =
     andThen (fetch Plain (NormPost request) (\<lambda>h. on_post env h request)) (\<lambda>(statusCode, body).
       if statusCode \<noteq> 200 then fail PlainMsg
       else case body of
         BodyUnread err \<Rightarrow> fail (Plain err)
       | BodyNoJson \<Rightarrow> fail PlainMsg
       | NormBody normResp \<Rightarrow> if nr_Code normResp \<noteq> 0 then fail PlainMsg else ret (nr_Data normResp))"

definition norm_request_now :: "'d norm_env \<Rightarrow> string \<Rightarrow> (string \<times> string) list \<Rightarrow> norm_call list \<Rightarrow> norm_request" where
  "norm_request_now env interfaceName para h =
     \<lparr>nr_url = getNormUrl (norm_getenv env), nr_eventId = norm_rand env h mod 2 ^ 32,
      nr_timestamp = norm_now env h div 10 ^ 9, nr_interfaceName = interfaceName, nr_para = para\<rparr>"

section \<open>The owner of the cluster\<close>

definition setNormReqExt :: "getenv \<Rightarrow> (string \<times> string) list \<Rightarrow> (string \<times> string) list" where
  "setNormReqExt env para =
     (let para = (if env ''CLUSTER_ID'' \<noteq> [] then AList.update ''unClusterId'' (env ''CLUSTER_ID'') para else para)
      in if env ''APPID'' \<noteq> [] then AList.update ''appId'' (env ''APPID'') para else para)"

definition GetOwnerUin :: "int norm_env \<Rightarrow> int norm_action" where
  "GetOwnerUin env = (\<lambda>h.
     norm_exchange env (norm_request_now env ''NORM.GetClusterUin'' (setNormReqExt (norm_getenv env) []) h) h)"

section \<open>The credential\<close>

record CredentialData =
  cd_SessionToken :: string
  cd_TmpSecretId :: string
  cd_TmpSecretKey :: string
  cd_ExpiredTime :: int                           \<comment> \<open>seconds since 1970\<close>

definition GetTkeCredential :: "CredentialData norm_env \<Rightarrow> CredentialData norm_action" where
  "GetTkeCredential env = (\<lambda>h.
     let clusterID = norm_getenv env ''CLUSTER_ID''; appID = norm_getenv env ''APPID'';
         pa = (if clusterID \<noteq> [] \<and> appID \<noteq> [] then [(''unClusterId'', clusterID), (''appId'', appID)] else [])
     in norm_exchange env (norm_request_now env ''NORM.AssumeTkeCredential'' pa h) h)"

text \<open>\<open>secretId\<close>, \<open>secretKey\<close>, \<open>token\<close>, \<open>expiredAt\<close>.\<close>

definition Refresh :: "CredentialData norm_env \<Rightarrow> (string \<times> string \<times> string \<times> int) norm_action" where
  "Refresh env =
     andThen (GetTkeCredential env) (\<lambda>rsp.
       ret (cd_TmpSecretId rsp, cd_TmpSecretKey rsp, cd_SessionToken rsp, cd_ExpiredTime rsp))"

text \<open>Times and durations in nanoseconds. The zero \<open>time.Time\<close> is the start of the year 1.\<close>

record NormCredential =
  nc_secretId :: string
  nc_secretKey :: string
  nc_token :: string
  nc_expiredAt :: int
  nc_expiredDuration :: int
  nc_log :: "norm_call list"

abbreviation "Second \<equiv> 1000000000 :: int"

definition NormExpiredDuration :: int where
  "NormExpiredDuration = Second * 7200"

definition NewNormCredential :: "int \<Rightarrow> NormCredential" where
  "NewNormCredential expiredDuration =
     \<lparr>nc_secretId = [], nc_secretKey = [], nc_token = [], nc_expiredAt = - 62135596800 * Second,
      nc_expiredDuration = expiredDuration, nc_log = []\<rparr>"

text \<open>\<open>once.Do\<close>: the first call makes the instance that all calls get.\<close>

definition GetNormCredentialInstance :: NormCredential where
  "GetNormCredentialInstance = NewNormCredential NormExpiredDuration"

definition needRefresh :: "CredentialData norm_env \<Rightarrow> NormCredential \<Rightarrow> bool" where
  "needRefresh env nc \<longleftrightarrow>
     nc_expiredAt nc < norm_now env (nc_log nc) + go_div (go_div (nc_expiredDuration nc) Second) 2 * Second"

definition updateExpiredAt :: "int \<Rightarrow> NormCredential \<Rightarrow> NormCredential" where
  "updateExpiredAt expiredAt nc = nc\<lparr>nc_expiredAt := expiredAt\<rparr>"

definition updateCredential :: "string \<Rightarrow> string \<Rightarrow> string \<Rightarrow> NormCredential \<Rightarrow> NormCredential" where
  "updateCredential secretId secretKey token nc =
     nc\<lparr>nc_secretId := secretId, nc_secretKey := secretKey, nc_token := token\<rparr>"

definition norm_refresh :: "CredentialData norm_env \<Rightarrow> (NormCredential, unit) stateful" where
  "norm_refresh env nc =
     (case Refresh env (nc_log nc) of
        (Inl err, h) \<Rightarrow> (Inl err, nc\<lparr>nc_log := h\<rparr>)
      | (Inr (secretId, secretKey, token, expiredAt), h) \<Rightarrow>
          (Inr (), updateCredential secretId secretKey token (updateExpiredAt (expiredAt * Second) (nc\<lparr>nc_log := h\<rparr>))))"

text \<open>Each method holds the lock of the instance from beginning to end, so it is one step.\<close>

definition GetSecretId :: "CredentialData norm_env \<Rightarrow> (NormCredential, string) stateful" where
  "GetSecretId env nc =
     andThen (if needRefresh env nc then norm_refresh env else ret ()) (\<lambda>_ nc. ret (nc_secretId nc) nc) nc"

definition GetSecretKey :: "CredentialData norm_env \<Rightarrow> (NormCredential, string) stateful" where
  "GetSecretKey env nc =
     andThen (if needRefresh env nc then norm_refresh env else ret ()) (\<lambda>_ nc. ret (nc_secretKey nc) nc) nc"

definition GetCredential :: "CredentialData norm_env \<Rightarrow> (NormCredential, string \<times> string \<times> string \<times> bool) stateful" where
  "GetCredential env nc =
     (let isNeedRefresh = needRefresh env nc in
      andThen (if isNeedRefresh then norm_refresh env else ret ())
        (\<lambda>_ nc. ret (nc_secretId nc, nc_secretKey nc, nc_token nc, isNeedRefresh) nc) nc)"

section \<open>What is handed out\<close>

text \<open>The fields belong together: they all come from one accepted answer, or are the initial ones.\<close>

definition accepted_answer :: "CredentialData norm_env \<Rightarrow> CredentialData \<Rightarrow> norm_call list \<Rightarrow> bool" where
  "accepted_answer env d h' \<longleftrightarrow>
     (\<exists>r h resp. h' = NormPost r # h \<and> on_post env h r = Inr (200, NormBody resp) \<and> nr_Code resp = 0 \<and> nr_Data resp = d)"

definition from_answer :: "CredentialData norm_env \<Rightarrow> NormCredential \<Rightarrow> bool" where
  "from_answer env nc \<longleftrightarrow>
     (\<exists>d h'. suffix h' (nc_log nc) \<and> accepted_answer env d h' \<and>
        nc_secretId nc = cd_TmpSecretId d \<and> nc_secretKey nc = cd_TmpSecretKey d \<and>
        nc_token nc = cd_SessionToken d \<and> nc_expiredAt nc = cd_ExpiredTime d * Second)"

lemma from_answerI:
  assumes "accepted_answer env d (nc_log nc)" "nc_secretId nc = cd_TmpSecretId d" "nc_secretKey nc = cd_TmpSecretKey d"
    "nc_token nc = cd_SessionToken d" "nc_expiredAt nc = cd_ExpiredTime d * Second"
  shows "from_answer env nc"
  unfolding from_answer_def using assms by (intro exI [of _ d] exI [of _ "nc_log nc"]) simp

lemma norm_exchange_cases:
  assumes "norm_exchange env r h = (x, h')"
  shows "h' = NormPost r # h \<and>
    (\<forall>d. x = Inr d \<longrightarrow> (\<exists>resp. on_post env h r = Inr (200, NormBody resp) \<and> nr_Code resp = 0 \<and> nr_Data resp = d))"
  using assms
  by (auto simp: norm_exchange_def andThen_def fetch_def split: sum.splits prod.splits if_splits norm_body.splits)

lemma Refresh_cases:
  assumes "Refresh env h = (x, h')"
  shows "suffix h h' \<and> (\<forall>i k t e. x = Inr (i, k, t, e) \<longrightarrow>
    (\<exists>d. accepted_answer env d h' \<and> i = cd_TmpSecretId d \<and> k = cd_TmpSecretKey d \<and> t = cd_SessionToken d \<and> e = cd_ExpiredTime d))"
  using assms unfolding Refresh_def
proof (cases rule: andThen_cases)
  case (1 e)
  then show ?thesis by (auto simp: GetTkeCredential_def Let_def suffix_Cons dest!: norm_exchange_cases)
next
  case (2 d h1)
  from 2(1) have "norm_exchange env (norm_request_now env ''NORM.AssumeTkeCredential''
      (if norm_getenv env ''CLUSTER_ID'' \<noteq> [] \<and> norm_getenv env ''APPID'' \<noteq> []
       then [(''unClusterId'', norm_getenv env ''CLUSTER_ID''), (''appId'', norm_getenv env ''APPID'')] else []) h) h = (Inr d, h1)"
    by (simp add: GetTkeCredential_def Let_def)
  from norm_exchange_cases [OF this] 2(2) show ?thesis
    by (auto simp: accepted_answer_def suffix_Cons)
qed

lemma norm_refresh_cases:
  assumes "norm_refresh env nc = (x, nc')"
  shows "(x = Inr () \<longrightarrow> from_answer env nc') \<and> suffix (nc_log nc) (nc_log nc') \<and>
    (x \<noteq> Inr () \<longrightarrow> nc' = nc\<lparr>nc_log := nc_log nc'\<rparr>)"
proof -
  obtain y h where r: "Refresh env (nc_log nc) = (y, h)" by fastforce
  show ?thesis
  proof (cases y)
    case (Inl e)
    with Refresh_cases [OF r] r assms show ?thesis by (auto simp: norm_refresh_def)
  next
    case (Inr q)
    with Refresh_cases [OF r] obtain d where d: "accepted_answer env d h" "suffix (nc_log nc) h"
      "q = (cd_TmpSecretId d, cd_TmpSecretKey d, cd_SessionToken d, cd_ExpiredTime d)"
      by (cases q) auto
    with assms r Inr have nc': "x = Inr ()"
      "nc' = updateCredential (cd_TmpSecretId d) (cd_TmpSecretKey d) (cd_SessionToken d)
        (updateExpiredAt (cd_ExpiredTime d * Second) (nc\<lparr>nc_log := h\<rparr>))"
      by (auto simp: norm_refresh_def)
    have "from_answer env nc'"
      by (rule from_answerI [of env d]) (simp_all add: nc' d(1) updateCredential_def updateExpiredAt_def)
    with nc' d(2) show ?thesis by (simp add: updateCredential_def updateExpiredAt_def)
  qed
qed

text \<open>
  A credential that \<open>GetCredential\<close> hands out comes, all of it, from one answer that the service
  accepted. When the call did not refresh, it lives for at least half of the usual time, and a call
  that fails leaves the credential as it was.
\<close>

lemma GetCredential_fresh:
  assumes "from_answer env nc \<or> needRefresh env nc" "GetCredential env nc = (r, nc')"
  shows "(r = Inr (i, k, t, refreshed) \<longrightarrow> from_answer env nc' \<and> i = nc_secretId nc' \<and> k = nc_secretKey nc' \<and> t = nc_token nc' \<and>
      (\<not> refreshed \<longrightarrow> nc' = nc \<and>
         norm_now env (nc_log nc) + go_div (go_div (nc_expiredDuration nc) Second) 2 * Second \<le> nc_expiredAt nc)) \<and>
    (\<forall>e. r = Inl e \<longrightarrow> nc' = nc\<lparr>nc_log := nc_log nc'\<rparr>)"
proof (cases "needRefresh env nc")
  case True
  obtain x nc1 where x: "norm_refresh env nc = (x, nc1)" by fastforce
  from norm_refresh_cases [OF x] assms(2) True x show ?thesis
    by (cases x) (auto simp: GetCredential_def andThen_def)
next
  case False
  with assms show ?thesis by (auto simp: GetCredential_def andThen_def ret_def needRefresh_def)
qed

end
