(* ===== verification/CbsTags.thy ===== *)
theory CbsTags imports Norm begin

text \<open>
  Keeping the tags of the disks those of the cluster (\<open>driver/cbs/tags\<close>). A file on the controller's
  node holds the tags that were synchronised last; a run compares them with the cluster's tags,
  changes the tags of every disk that the driver provisioned, and only then writes the file. The
  tag service, the Kubernetes API and the account service are the outside.
\<close>

section \<open>State and outside\<close>

datatype tag_call =
    DescribeResourceTags string string                        \<comment> \<open>region, cluster\<close>
  | ListPersistentVolumes
  | ModifyResourceTags string "(string \<times> string) list" "string list"  \<comment> \<open>resource, replaced, deleted\<close>
  | StatConfig
  | ReadConfig
  | WriteConfig "(string \<times> string) list"

record tags_state =
  tg_file :: "map_text option"
  tg_log :: "tag_call list"
  tg_norm :: "norm_call list"

record PersistentVolume =
  pv_Name :: string
  pv_Annotations :: "(string \<times> string) list"
  pv_CSI :: "(string \<times> string) option"               \<comment> \<open>driver, volume handle\<close>

text \<open>
  \<open>tags_io\<close> lets a file operation fail, with a flag whether a failed write had truncated the file;
  \<open>tags_order\<close> is the order in which the workers get to the disks.
\<close>

record tags_env =
  on_ResourceTags :: "tag_call list \<Rightarrow> string \<Rightarrow> string \<Rightarrow> ext_err + (string option \<times> string option) option list"
  on_ListPVs :: "tag_call list \<Rightarrow> ext_err + PersistentVolume list"
  on_ModifyTags :: "tag_call list \<Rightarrow> string \<Rightarrow> (string \<times> string) list \<Rightarrow> string list \<Rightarrow> ext_err option"
  tags_io :: "tag_call list \<Rightarrow> tag_call \<Rightarrow> (string \<times> bool) option"
  tags_norm :: "int norm_env"
  tags_order :: "string list \<Rightarrow> string list"

type_synonym 'a tags_action = "(tags_state, 'a) stateful"

definition on_tags :: "(tag_call, 'a) action \<Rightarrow> 'a tags_action" where
  "on_tags m = (\<lambda>s. case m (tg_log s) of (r, h) \<Rightarrow> (r, s\<lparr>tg_log := h\<rparr>))"

definition owner_uin :: "tags_env \<Rightarrow> int tags_action" where
  "owner_uin env = (\<lambda>s. case GetOwnerUin (tags_norm env) (tg_norm s) of (r, h) \<Rightarrow> (r, s\<lparr>tg_norm := h\<rparr>))"

definition io_error :: "tags_env \<Rightarrow> tags_state \<Rightarrow> tag_call \<Rightarrow> ext_err option" where
  "io_error env s ev = map_option (\<lambda>(t, truncated). ExtErr EOther t) (tags_io env (tg_log s) ev)"

section \<open>The file of the tags\<close>

definition UpdateConfigTags :: "tags_env \<Rightarrow> (string \<times> string) list \<Rightarrow> unit tags_action" where
  "UpdateConfigTags env ConfigTags s =
     (let ev = WriteConfig ConfigTags; s' = s\<lparr>tg_log := ev # tg_log s\<rparr> in
      case tags_io env (tg_log s) ev of
        Some (t, truncated) \<Rightarrow> (Inl (Plain (ExtErr EOther t)), if truncated then s'\<lparr>tg_file := Some BadMap\<rparr> else s')
      | None \<Rightarrow> (Inr (), s'\<lparr>tg_file := Some (StringMap ConfigTags)\<rparr>))"

definition GetConfigTags :: "tags_env \<Rightarrow> (string \<times> string) list tags_action" where
  "GetConfigTags env s =
     (let s1 = s\<lparr>tg_log := StatConfig # tg_log s\<rparr> in
      case io_error env s StatConfig of
        Some err \<Rightarrow> (Inl (Plain err), s1)
      | None \<Rightarrow>
          (case tg_file s of
             None \<Rightarrow> andThen (UpdateConfigTags env []) (\<lambda>_. ret []) s1
           | Some text \<Rightarrow>
               (let s2 = s1\<lparr>tg_log := ReadConfig # tg_log s1\<rparr> in
                case io_error env s1 ReadConfig of
                  Some err \<Rightarrow> (Inl (Plain err), s2)
                | None \<Rightarrow>
                    (case text of
                       StringMap m \<Rightarrow> (Inr m, s2)
                     | NullMap \<Rightarrow> (Inr [], s2)
                     | BadMap \<Rightarrow> (Inl PlainMsg, s2)))))"

section \<open>The cluster's tags against the file's\<close>

text \<open>A tag without key or value is dereferenced.\<close>

fun collect_tags :: "(string option \<times> string option) option list \<Rightarrow> (string \<times> string) list \<Rightarrow> go_error + (string \<times> string) list" where
  "collect_tags [] clusterTags = Inr clusterTags"
| "collect_tags (Some (Some k, Some v) # ts) clusterTags = collect_tags ts (AList.update k v clusterTags)"
| "collect_tags (_ # ts) clusterTags = Inl GoPanic"

definition GetClusterTags :: "tags_env \<Rightarrow> string \<Rightarrow> string \<Rightarrow> (string \<times> string) list tags_action" where
  "GetClusterTags env region clusterId =
     andThen (on_tags (fetch Plain (DescribeResourceTags region clusterId) (\<lambda>h. on_ResourceTags env h region clusterId)))
       (\<lambda>tags. case collect_tags tags [] of Inl e \<Rightarrow> fail e | Inr clusterTags \<Rightarrow> ret clusterTags)"

definition CompareTags ::
  "(string \<times> string) list \<Rightarrow> (string \<times> string) list \<Rightarrow> (string \<times> string) list \<times> (string \<times> string) list" where
  "CompareTags clusterTags configMapTags =
     (filter (\<lambda>(csk, csv). case map_of configMapTags csk of None \<Rightarrow> True | Some cmv \<Rightarrow> cmv \<noteq> csv) clusterTags,
      filter (\<lambda>(cmk, cmv). map_of clusterTags cmk = None) configMapTags)"

section \<open>Changing the disks\<close>

abbreviation "CbsDriverName \<equiv> ''com.tencent.cloud.csi.cbs''"

definition isCreatedByCbs :: "PersistentVolume \<Rightarrow> bool" where
  "isCreatedByCbs pv =
     (case map_of (pv_Annotations pv) ''pv.kubernetes.io/provisioned-by'' of None \<Rightarrow> False | Some v \<Rightarrow> v = CbsDriverName)"

fun collect_disks :: "PersistentVolume list \<Rightarrow> (string \<times> string) list \<Rightarrow> (string \<times> string) list" where
  "collect_disks [] disks = disks"
| "collect_disks (pv # pvs) disks =
     (case pv_CSI pv of
        Some (driver, handle) \<Rightarrow>
          if isCreatedByCbs pv \<and> driver = CbsDriverName then collect_disks pvs (AList.update (pv_Name pv) handle disks)
          else collect_disks pvs disks
      | None \<Rightarrow> collect_disks pvs disks)"

definition GetDisks :: "tags_env \<Rightarrow> (string \<times> string) list tags_action" where
  "GetDisks env =
     andThen (on_tags (fetch Plain ListPersistentVolumes (\<lambda>h. on_ListPVs env h))) (\<lambda>pvs. ret (collect_disks pvs []))"

definition disk_resource :: "string \<Rightarrow> int \<Rightarrow> string \<Rightarrow> string" where
  "disk_resource region uin diskId = ''qcs::cvm:'' @ region @ '':uin/'' @ show_int uin @ '':volume/'' @ diskId"

definition ModifyCbsTags :: "tags_env \<Rightarrow> string \<Rightarrow> (string \<times> string) list \<Rightarrow> (string \<times> string) list \<Rightarrow> unit tags_action" where
  "ModifyCbsTags env resource needReplaceTags needDeleteTags =
     on_tags (call Plain (ModifyResourceTags resource needReplaceTags (map fst needDeleteTags))
       (\<lambda>h. on_ModifyTags env h resource needReplaceTags (map fst needDeleteTags)))"

text \<open>
  The workers together: each disk is taken from the channel by one of them. A failure is counted
  and the others go on. The counter is shared without a lock; increments can get lost, but one that
  was made leaves it above zero, and only that is tested.
\<close>

fun tag_workers :: "tags_env \<Rightarrow> string \<Rightarrow> int \<Rightarrow> (string \<times> string) list \<Rightarrow> (string \<times> string) list \<Rightarrow>
    string list \<Rightarrow> nat \<Rightarrow> nat tags_action" where
  "tag_workers env region uin rep del [] errNum = ret errNum"
| "tag_workers env region uin rep del (diskId # ch) errNum = (\<lambda>s.
     case ModifyCbsTags env (disk_resource region uin diskId) rep del s of
       (Inl err, s') \<Rightarrow> tag_workers env region uin rep del ch (errNum + 1) s'
     | (Inr _, s') \<Rightarrow> tag_workers env region uin rep del ch errNum s')"

definition updateDisksTags :: "tags_env \<Rightarrow> string \<Rightarrow> (string \<times> string) list \<Rightarrow> (string \<times> string) list \<Rightarrow> unit tags_action" where
  "updateDisksTags env region needReplaceTags needDeleteTags =
     andThen (GetDisks env) (\<lambda>disks.
       if disks = [] then ret ()
       else
         andThen (owner_uin env) (\<lambda>uin.
         andThen (tag_workers env region uin needReplaceTags needDeleteTags (tags_order env (map snd disks)) 0) (\<lambda>errNum.
           check (errNum = 0) PlainMsg)))"

text \<open>The errors are only logged; here they are the result.\<close>

definition UpdateDisksTags :: "tags_env \<Rightarrow> string \<Rightarrow> string \<Rightarrow> unit tags_action" where
  "UpdateDisksTags env region clusterId =
     andThen (GetClusterTags env region clusterId) (\<lambda>clusterTags.
     andThen (GetConfigTags env) (\<lambda>configMapTags.
       case CompareTags clusterTags configMapTags of (needReplaceTags, needDeleteTags) \<Rightarrow>
         if needReplaceTags \<noteq> [] \<or> needDeleteTags \<noteq> [] then
           andThen (updateDisksTags env region needReplaceTags needDeleteTags) (\<lambda>_.
             UpdateConfigTags env clusterTags)
         else ret ()))"

section \<open>The loop of the controller\<close>

text \<open>
  The goroutine that \<open>Run\<close> starts on a controller: it sleeps for a random number of minutes below
  \<open>timeInterval\<close>, which \<open>rand.Intn\<close> wants to be positive, and synchronises; \<open>rounds\<close> is how often it got
  to do so. An error ends a round, a panic the process.
\<close>

fun sync_rounds :: "tags_env \<Rightarrow> string \<Rightarrow> string \<Rightarrow> int \<Rightarrow> nat \<Rightarrow> unit tags_action" where
  "sync_rounds env region clusterId timeInterval 0 s = (Inr (), s)"
| "sync_rounds env region clusterId timeInterval (Suc rounds) s =
     (if timeInterval \<le> 0 then (Inl GoPanic, s)
      else case UpdateDisksTags env region clusterId s of
        (r, s') \<Rightarrow> if r = Inl GoPanic then (Inl GoPanic, s') else sync_rounds env region clusterId timeInterval rounds s')"

end
