(* ===== verification/CbsTagsProps.thy ===== *)
theory CbsTagsProps imports CbsTags begin

text \<open>
  A synchronisation that succeeds gives every provisioned disk the cluster's tags and the file
  says so; one that fails leaves the file, so that the next run starts from the same difference.
\<close>

section \<open>The difference of two sets of tags\<close>

text \<open>The tags of a resource after a change: deleted keys go, replaced ones get their value.\<close>

definition apply_tags :: "(string \<times> string) list \<Rightarrow> string list \<Rightarrow> (string \<rightharpoonup> string) \<Rightarrow> (string \<rightharpoonup> string)" where
  "apply_tags rep del T = (\<lambda>k. if k \<in> set del then None else case map_of rep k of Some v \<Rightarrow> Some v | None \<Rightarrow> T k)"

text \<open>What a resource carries, when every accepted change of the history took effect on \<open>T0\<close>.\<close>

fun disk_tags :: "tags_env \<Rightarrow> string \<Rightarrow> (string \<rightharpoonup> string) \<Rightarrow> tag_call list \<Rightarrow> (string \<rightharpoonup> string)" where
  "disk_tags env R T0 [] = T0"
| "disk_tags env R T0 (ModifyResourceTags R' rep del # h) =
     (if R' = R \<and> on_ModifyTags env h R' rep del = None then apply_tags rep del (disk_tags env R T0 h)
      else disk_tags env R T0 h)"
| "disk_tags env R T0 (_ # h) = disk_tags env R T0 h"

lemma map_of_filter_key: "map_of (filter (\<lambda>(k, v). P k) xs) k = (if P k then map_of xs k else None)"
  by (induction xs) auto

lemma map_of_filter_distinct:
  "distinct (map fst xs) \<Longrightarrow>
    map_of (filter (\<lambda>(k, v). P k v) xs) k = (case map_of xs k of None \<Rightarrow> None | Some v \<Rightarrow> if P k v then Some v else None)"
proof (induction xs)
  case (Cons a xs)
  have "map_of (filter (\<lambda>(k, v). P k v) xs) (fst a) = None" if "fst a \<notin> fst ` set xs"
    using that by (auto simp: map_of_eq_None_iff image_iff)
  moreover have "map_of xs (fst a) = None" if "fst a \<notin> fst ` set xs"
    using that by (simp add: map_of_eq_None_iff)
  ultimately show ?case using Cons by (cases a) (auto split: option.splits)
qed simp

text \<open>The contract of \<open>CompareTags\<close>: the difference changes exactly the keys on which the two disagree.\<close>

lemma CompareTags_diff:
  assumes "distinct (map fst cl)" "CompareTags cl cf = (rep, del)"
  shows "apply_tags rep (map fst del) T = (\<lambda>k. if map_of cl k = map_of cf k then T k else map_of cl k)"
proof
  fix k
  have rep: "map_of rep k = (case map_of cl k of None \<Rightarrow> None | Some v \<Rightarrow> if map_of cf k = Some v then None else Some v)"
    using assms(1,2) by (auto simp: CompareTags_def map_of_filter_distinct split: option.splits)
  have del: "k \<in> set (map fst del) \<longleftrightarrow> map_of cf k \<noteq> None \<and> map_of cl k = None"
    using assms(2) by (auto simp: CompareTags_def image_iff map_of_eq_None_iff) force+
  show "apply_tags rep (map fst del) T k = (if map_of cl k = map_of cf k then T k else map_of cl k)"
    using rep del by (auto simp: apply_tags_def split: option.splits)
qed

lemma CompareTags_same:
  assumes "distinct (map fst cl)" "CompareTags cl cf = ([], [])"
  shows "map_of cl = map_of cf"
proof
  fix k
  have "apply_tags [] [] Map.empty k = (if map_of cl k = map_of cf k then None else map_of cl k)"
    "apply_tags [] [] (\<lambda>_. Some ''x'') k = (if map_of cl k = map_of cf k then Some ''x'' else map_of cl k)"
    using CompareTags_diff [OF assms, of Map.empty] CompareTags_diff [OF assms, of "\<lambda>_. Some ''x''"] by simp_all
  then show "map_of cl k = map_of cf k" by (auto simp: apply_tags_def split: if_splits)
qed

lemma apply_tags_idem [simp]: "apply_tags rep del (apply_tags rep del T) = apply_tags rep del T"
  by (rule ext) (auto simp: apply_tags_def split: option.split)

section \<open>The parts of a run\<close>

lemma collect_tags_distinct:
  "collect_tags ts m = Inr m' \<Longrightarrow> distinct (map fst m) \<Longrightarrow> distinct (map fst m')"
  by (induction ts m rule: collect_tags.induct) (auto simp: distinct_update)

lemma GetClusterTags_spec:
  assumes "GetClusterTags env region cid s = (Inr cl, s')"
  shows "distinct (map fst cl) \<and> tg_file s' = tg_file s \<and> tg_norm s' = tg_norm s \<and>
    disk_tags env R T0 (tg_log s') = disk_tags env R T0 (tg_log s)"
  using assms
  by (auto simp: GetClusterTags_def on_tags_def andThen_def fetch_def ret_def fail_def
      split: sum.splits prod.splits dest!: collect_tags_distinct)

definition file_tags :: "tags_state \<Rightarrow> string \<rightharpoonup> string" where
  "file_tags s = (case tg_file s of Some (StringMap m) \<Rightarrow> map_of m | _ \<Rightarrow> Map.empty)"

lemma UpdateConfigTags_spec:
  assumes "UpdateConfigTags env m s = (Inr (), s')"
  shows "file_tags s' = map_of m \<and> disk_tags env R T0 (tg_log s') = disk_tags env R T0 (tg_log s) \<and> tg_norm s' = tg_norm s"
  using assms by (auto simp: UpdateConfigTags_def Let_def file_tags_def split: option.splits)

lemma GetConfigTags_spec:
  assumes "GetConfigTags env s = (Inr cf, s')"
  shows "file_tags s' = map_of cf \<and> disk_tags env R T0 (tg_log s') = disk_tags env R T0 (tg_log s) \<and> tg_norm s' = tg_norm s"
proof (cases "tg_file s")
  case None
  with assms obtain s1 where "UpdateConfigTags env [] s1 = (Inr (), s')" "cf = []" "s1 = s\<lparr>tg_log := StatConfig # tg_log s\<rparr>"
    by (auto simp: GetConfigTags_def Let_def ret_def split: option.splits elim!: andThen_InrE)
  with UpdateConfigTags_spec [of env "[]" s1 s' R T0] show ?thesis by simp
next
  case (Some t)
  with assms show ?thesis
    by (auto simp: GetConfigTags_def Let_def file_tags_def split: option.splits map_text.splits)
qed

lemma GetDisks_spec:
  assumes "GetDisks env s = (Inr disks, s')"
  shows "tg_file s' = tg_file s \<and> tg_norm s' = tg_norm s \<and> disk_tags env R T0 (tg_log s') = disk_tags env R T0 (tg_log s)"
  using assms by (auto simp: GetDisks_def on_tags_def andThen_def fetch_def ret_def split: sum.splits prod.splits)

lemma owner_uin_spec:
  assumes "owner_uin env s = (Inr uin, s')"
  shows "tg_file s' = tg_file s \<and> tg_log s' = tg_log s"
  using assms by (auto simp: owner_uin_def split: prod.splits)

text \<open>
  No failure was counted: every disk had its change accepted, and a resource of none of them kept
  its tags.
\<close>

lemma tag_workers_errNum:
  "tag_workers env region uin rep del ch n s = (Inr m, s') \<Longrightarrow> n \<le> m"
proof (induction ch arbitrary: n s)
  case (Cons d ch)
  then show ?case by (fastforce split: prod.splits sum.splits)
qed simp

lemma tag_workers_spec:
  assumes "tag_workers env region uin rep del ch n s = (Inr n, s')"
  shows "tg_file s' = tg_file s \<and>
    disk_tags env R T0 (tg_log s') =
      (if R \<in> disk_resource region uin ` set ch then apply_tags rep (map fst del) (disk_tags env R T0 (tg_log s))
       else disk_tags env R T0 (tg_log s))"
  using assms
proof (induction ch arbitrary: s)
  case (Cons d ch)
  let ?R = "disk_resource region uin d"
  obtain x s1 where x: "ModifyCbsTags env ?R rep del s = (x, s1)" by fastforce
  show ?case
  proof (cases x)
    case (Inl e)
    with Cons.prems x tag_workers_errNum [of env region uin rep del ch "n + 1" s1 n s'] show ?thesis by simp
  next
    case (Inr u)
    with x have s1: "tg_file s1 = tg_file s" "tg_log s1 = ModifyResourceTags ?R rep (map fst del) # tg_log s"
      "on_ModifyTags env (tg_log s) ?R rep (map fst del) = None"
      by (auto simp: ModifyCbsTags_def on_tags_def call_def split: option.splits)
    from Cons.prems x Inr have "tag_workers env region uin rep del ch n s1 = (Inr n, s')" by simp
    from Cons.IH [OF this] s1 show ?thesis by auto
  qed
qed simp

section \<open>The property\<close>

text \<open>
  C36. A run of the synchronisation that succeeds leaves the file with the cluster's tags. On every disk of the
  driver, whatever its tags were, each key on which cluster and file disagreed now has the cluster's value,
  or is gone when the cluster does not have it, and every other tag is as it was. So a disk that carried the
  tags of the file carries those of the cluster in their place.
\<close>

theorem tags_synchronised:
  assumes "UpdateDisksTags env region cid s = (Inr (), s')" "\<And>xs. set (tags_order env xs) = set xs"
    and "GetClusterTags env region cid s = (Inr cl, s1)" "GetConfigTags env s1 = (Inr cf, s2)"
    and "GetDisks env s2 = (Inr disks, s3)" "d \<in> snd ` set disks" "owner_uin env s3 = (Inr uin, s4)"
    and "R = disk_resource region uin d" "T = disk_tags env R T0 (tg_log s)"
  shows "file_tags s' = map_of cl \<and>
    disk_tags env R T0 (tg_log s') = (\<lambda>k. if map_of cl k = map_of cf k then T k else map_of cl k) \<and>
    ((\<forall>k v. map_of cf k = Some v \<longrightarrow> T k = Some v) \<longrightarrow>
      disk_tags env R T0 (tg_log s') = (\<lambda>k. if map_of cl k \<noteq> None \<or> map_of cf k \<noteq> None then map_of cl k else T k))"
proof -
  note c = GetClusterTags_spec [OF assms(3), of R T0] and f = GetConfigTags_spec [OF assms(4), of R T0]
  obtain rep del where cmp: "CompareTags cl cf = (rep, del)" by fastforce
  have dist: "distinct (map fst cl)" using c by simp
  have "file_tags s' = map_of cl \<and>
    disk_tags env R T0 (tg_log s') = (\<lambda>k. if map_of cl k = map_of cf k then T k else map_of cl k)"
  proof (cases "rep = [] \<and> del = []")
    case True
    with assms(1,3,4) cmp have s': "s' = s2" by (simp add: UpdateDisksTags_def)
    from CompareTags_same [OF dist] True cmp have "map_of cl = map_of cf" by simp
    with s' f c assms(9) show ?thesis by simp
  next
    case False
    with assms(1,3,4) cmp obtain s5 where
      u: "updateDisksTags env region rep del s2 = (Inr (), s5)" and w: "UpdateConfigTags env cl s5 = (Inr (), s')"
      by (auto simp: UpdateDisksTags_def elim!: andThen_InrE)
    from assms(6) have "disks \<noteq> []" by auto
    with u assms(5,7) obtain n where "tag_workers env region uin rep del (tags_order env (map snd disks)) 0 s4 = (Inr n, s5)" "n = 0"
      by (auto simp: updateDisksTags_def check_def fail_def ret_def elim!: andThen_InrE split: if_splits)
    then have "disk_tags env R T0 (tg_log s5) = apply_tags rep (map fst del) (disk_tags env R T0 (tg_log s4))"
      using tag_workers_spec [of env region uin rep del "tags_order env (map snd disks)" 0 s4 s5 R T0] assms(2,6,8) by auto
    moreover have "disk_tags env R T0 (tg_log s4) = T"
      using owner_uin_spec [OF assms(7)] GetDisks_spec [OF assms(5), of R T0] c f assms(9) by simp
    ultimately show ?thesis
      using UpdateConfigTags_spec [OF w, of R T0] CompareTags_diff [OF dist cmp, of T] by simp
  qed
  then show ?thesis by (auto simp: fun_eq_iff)
qed

definition tags_demo :: tags_env where
  "tags_demo =
     \<lparr>on_ResourceTags = (\<lambda>h r c. Inr [Some (Some ''a'', Some ''2''), Some (Some ''b'', Some ''1'')]),
      on_ListPVs = (\<lambda>h. Inr [\<lparr>pv_Name = ''p'', pv_Annotations = [(''pv.kubernetes.io/provisioned-by'', CbsDriverName)],
        pv_CSI = Some (CbsDriverName, ''disk-1'')\<rparr>]),
      on_ModifyTags = (\<lambda>h r rep del. None), tags_io = (\<lambda>h ev. None),
      tags_norm = \<lparr>norm_getenv = (\<lambda>_. []), norm_rand = (\<lambda>_. 0), norm_now = (\<lambda>_. 0),
        on_post = (\<lambda>h r. Inr (200, NormBody \<lparr>nr_Code = 0, nr_Data = 7\<rparr>))\<rparr>,
      tags_order = (\<lambda>xs. xs)\<rparr>"

definition tags_demo_state :: tags_state where
  "tags_demo_state = \<lparr>tg_file = Some (StringMap [(''a'', ''1''), (''c'', ''1'')]), tg_log = [], tg_norm = []\<rparr>"

theorem tags_synchronised_witness:
  "\<exists>s'. UpdateDisksTags tags_demo ''gz'' ''cls'' tags_demo_state = (Inr (), s') \<and>
     file_tags s' = map_of [(''a'', ''2''), (''b'', ''1'')] \<and>
     disk_tags tags_demo (disk_resource ''gz'' 7 ''disk-1'') [''a'' \<mapsto> ''1'', ''c'' \<mapsto> ''1'', ''x'' \<mapsto> ''9''] (tg_log s') ''c'' = None"
proof -
  let ?s = "tags_demo_state" and ?cl = "[(''a'', ''2''), (''b'', ''1'')]" and ?cf = "[(''a'', ''1''), (''c'', ''1'')]"
  let ?T0 = "[''a'' \<mapsto> ''1'', ''c'' \<mapsto> ''1'', ''x'' \<mapsto> ''9''] :: string \<rightharpoonup> string" and ?R = "disk_resource ''gz'' 7 ''disk-1''"
  have o: "set (tags_order tags_demo xs) = set xs" for xs by (simp add: tags_demo_def)
  let ?c = "GetClusterTags tags_demo ''gz'' ''cls'' ?s"
  let ?f = "GetConfigTags tags_demo (snd ?c)"
  let ?g = "GetDisks tags_demo (snd ?f)"
  let ?q = "owner_uin tags_demo (snd ?g)"
  have "fst ?c = Inr ?cl" "fst ?f = Inr ?cf" "fst ?g = Inr [(''p'', ''disk-1'')]" by code_simp+
  moreover have "fst ?q = Inr 7"
    by (simp add: owner_uin_def GetOwnerUin_def norm_exchange_def andThen_def fetch_def ret_def tags_demo_def)
  ultimately obtain s1 s2 s3 s4 where c: "?c = (Inr ?cl, s1)" and f: "GetConfigTags tags_demo s1 = (Inr ?cf, s2)"
    and g: "GetDisks tags_demo s2 = (Inr [(''p'', ''disk-1'')], s3)" and q: "owner_uin tags_demo s3 = (Inr 7, s4)"
    by (metis prod.collapse)
  have cmp: "CompareTags ?cl ?cf = (?cl, [(''c'', ''1'')])" by code_simp
  have w: "fst (tag_workers tags_demo ''gz'' 7 ?cl [(''c'', ''1'')] [''disk-1''] 0 t) = Inr 0" for t
    by (simp add: ModifyCbsTags_def on_tags_def call_def tags_demo_def ret_def)
  have w': "fst (UpdateConfigTags tags_demo ?cl t) = Inr ()" for t
    by (simp add: UpdateConfigTags_def Let_def tags_demo_def)
  obtain t1 where t1: "tag_workers tags_demo ''gz'' 7 ?cl [(''c'', ''1'')] [''disk-1''] 0 s4 = (Inr 0, t1)"
    using w [of s4] by (metis prod.collapse)
  obtain s' where s': "UpdateConfigTags tags_demo ?cl t1 = (Inr (), s')"
    using w' [of t1] by (metis prod.collapse)
  have ord: "tags_order tags_demo = (\<lambda>xs. xs)" by (simp add: tags_demo_def)
  have "updateDisksTags tags_demo ''gz'' ?cl [(''c'', ''1'')] s2 = (Inr (), t1)"
    using g q t1 by (simp add: updateDisksTags_def ord del: tag_workers.simps)
  then have u: "UpdateDisksTags tags_demo ''gz'' ''cls'' ?s = (Inr (), s')"
    using c f s' by (simp add: UpdateDisksTags_def cmp)
  have "file_tags s' = map_of ?cl \<and> disk_tags tags_demo ?R ?T0 (tg_log s') =
      (\<lambda>k. if map_of ?cl k = map_of ?cf k then disk_tags tags_demo ?R ?T0 (tg_log ?s) k else map_of ?cl k)"
    using tags_synchronised [where ?T0.0 = ?T0, OF u o c f g _ q refl refl] by simp
  with u show ?thesis by simp
qed

section \<open>A failed run and a change that is taken back\<close>

text \<open>
  A run that fails after it has changed some disks keeps the old file. When the tags of the
  cluster go back to what the file says before the next run, that run finds no difference and
  succeeds, and the disks that were changed keep the tags of the failed run.
\<close>

definition revert_demo :: tags_env where
  "revert_demo = tags_demo\<lparr>
     on_ResourceTags := (\<lambda>h r c. Inr [Some (Some ''a'', Some (if h = [] then ''2'' else ''1''))]),
     on_ListPVs := (\<lambda>h. Inr (map (\<lambda>d. \<lparr>pv_Name = d,
        pv_Annotations = [(''pv.kubernetes.io/provisioned-by'', CbsDriverName)], pv_CSI = Some (CbsDriverName, d)\<rparr>) [''d1'', ''d2''])),
     on_ModifyTags := (\<lambda>h r rep del. if r = disk_resource ''gz'' 7 ''d2'' then Some (ExtErr EOther []) else None)\<rparr>"

definition revert_state :: tags_state where
  "revert_state = \<lparr>tg_file = Some (StringMap [(''a'', ''1'')]), tg_log = [], tg_norm = []\<rparr>"

lemmas run_simps = UpdateDisksTags_def GetClusterTags_def GetConfigTags_def CompareTags_def updateDisksTags_def GetDisks_def
  ModifyCbsTags_def on_tags_def andThen_def fetch_def call_def ret_def fail_def check_def io_error_def Let_def isCreatedByCbs_def
  revert_demo_def tags_demo_def revert_state_def

lemma tags_lost_on_revert:
  "\<exists>s1 s2 e. UpdateDisksTags revert_demo ''gz'' ''cls'' revert_state = (Inl e, s1) \<and>
     UpdateDisksTags revert_demo ''gz'' ''cls'' s1 = (Inr (), s2) \<and>
     fst (GetClusterTags revert_demo ''gz'' ''cls'' s1) = Inr [(''a'', ''1'')] \<and> file_tags s2 = [''a'' \<mapsto> ''1''] \<and>
     disk_tags revert_demo (disk_resource ''gz'' 7 ''d1'') [''a'' \<mapsto> ''1''] (tg_log s2) ''a'' = Some ''2''"
proof -
  let ?E = revert_demo
  let ?R = "disk_resource ''gz'' 7"
  let ?log = "[ModifyResourceTags (?R ''d2'') [(''a'', ''2'')] [], ModifyResourceTags (?R ''d1'') [(''a'', ''2'')] [],
    ListPersistentVolumes, ReadConfig, StatConfig, DescribeResourceTags ''gz'' ''cls'']"
  obtain e1 s1 where r1: "UpdateDisksTags ?E ''gz'' ''cls'' revert_state = (e1, s1)" by fastforce
  obtain e2 s2 where r2: "UpdateDisksTags ?E ''gz'' ''cls'' s1 = (e2, s2)" by fastforce
  have neq: "?R ''d1'' \<noteq> ?R ''d2''" by (simp add: disk_resource_def)
  from r1 have s1: "e1 = Inl PlainMsg" "tg_file s1 = Some (StringMap [(''a'', ''1'')])" "tg_log s1 = ?log"
    by (auto simp: run_simps owner_uin_def GetOwnerUin_def norm_exchange_def neq disk_resource_def)
  from r2 s1 have s2: "e2 = Inr ()" "tg_file s2 = Some (StringMap [(''a'', ''1'')])"
      "tg_log s2 = ReadConfig # StatConfig # DescribeResourceTags ''gz'' ''cls'' # ?log"
    by (auto simp: run_simps)
  have "fst (GetClusterTags ?E ''gz'' ''cls'' s1) = Inr [(''a'', ''1'')]"
    using s1 by (simp add: run_simps)
  moreover have "disk_tags ?E (?R ''d1'') [''a'' \<mapsto> ''1''] (tg_log s2) ''a'' = Some ''2''"
    using neq by (simp add: s2 revert_demo_def apply_tags_def)
  ultimately show ?thesis
    using r1 r2 s1 s2 by (intro exI [of _ s1] exI [of _ s2] exI [of _ PlainMsg]) (simp add: file_tags_def)
qed

end
