(* ===== verification/ChdfsConfig.thy ===== *)
theory ChdfsConfig imports Host begin

text \<open>
  The configuration file of a CHDFS mount (\<open>driver/chdfs/config.go\<close>): defaults, the arguments of the
  volume that override them, and the file that is rendered from the result. A Go map is visited in
  any order, which \<open>order\<close> picks. The lemmas say that an argument ends up in the line of the
  file that its name points to.
\<close>

section \<open>The configuration\<close>

record ChdfsClient =
  RenewSessionLeaseTimeSec :: int
  MountPoint :: string
  MountSubDir :: string
  User :: string
  Group :: string
  ForceSync :: bool

record ChdfsRead =
  BlockExpiredTimeSec :: int
  MaxBlockNum :: int
  ReadAheadBlockNum :: int
  MaxCosLoadQps :: int
  LoadThreadNum :: int
  SelectThreadNum :: int
  RandRead :: bool

record ChdfsWrite =
  MaxMemTableRangeNum :: int
  MaxMemTableSizeMb :: int
  MaxCosFlushQps :: int
  FlushThreadNum :: int
  CommitQueueLen :: int
  MaxCommitHeapSize :: int
  AutoMerge :: bool
  AutoSync :: bool
  AutoSyncTimeMs :: int

record ChdfsCache =
  UpdateStsTimeSec :: int
  CosClientTimeoutSec :: int
  InodeAttrExpiredTimeSec :: int
  Read :: ChdfsRead
  Write :: ChdfsWrite

record ChdfsLogFile =
  Filename :: string
  LogRotate :: bool
  MaxSize :: int
  MaxDays :: int
  MaxBackups :: int

text \<open>The structs of one field are that field: the proxy's url, the path of the CA, the log level.\<close>

record ChdfsConfig =
  ProxyUrl :: string
  SslCaPath :: string
  Client :: ChdfsClient
  Cache :: ChdfsCache
  LogLevel :: string
  LogFile :: ChdfsLogFile

definition NewDefaultChdfsConfig :: "string \<Rightarrow> string \<Rightarrow> ChdfsConfig" where
  "NewDefaultChdfsConfig url mountPoint =
     \<lparr>ProxyUrl = url, SslCaPath = [],
      Client = \<lparr>RenewSessionLeaseTimeSec = 10, MountPoint = mountPoint, MountSubDir = ''/'', User = [], Group = [],
        ForceSync = False\<rparr>,
      Cache = \<lparr>UpdateStsTimeSec = 30, CosClientTimeoutSec = 5, InodeAttrExpiredTimeSec = 30,
        Read = \<lparr>BlockExpiredTimeSec = 10, MaxBlockNum = 256, ReadAheadBlockNum = 15, MaxCosLoadQps = 1024,
          LoadThreadNum = 128, SelectThreadNum = 64, RandRead = False\<rparr>,
        Write = \<lparr>MaxMemTableRangeNum = 32, MaxMemTableSizeMb = 64, MaxCosFlushQps = 256, FlushThreadNum = 128,
          CommitQueueLen = 100, MaxCommitHeapSize = 500, AutoMerge = True, AutoSync = False, AutoSyncTimeMs = 1000\<rparr>\<rparr>,
      LogLevel = ''info'',
      LogFile = \<lparr>Filename = ''./log/chdfs.log'', LogRotate = True, MaxSize = 2000, MaxDays = 7, MaxBackups = 100\<rparr>\<rparr>"

section \<open>The arguments\<close>

definition Num :: "string \<Rightarrow> int \<times> bool" where
  "Num str = (case Atoi str of (None, num) \<Rightarrow> (num, True) | (Some e, num) \<Rightarrow> (0, False))"

definition IsTrue :: "string \<Rightarrow> bool \<times> bool" where
  "IsTrue str = (case ParseBool str of Some b \<Rightarrow> (b, True) | None \<Rightarrow> (False, False))"

definition isTrue :: "string \<Rightarrow> bool" where
  "isTrue str = (case ParseBool str of Some b \<Rightarrow> b | None \<Rightarrow> False)"

text \<open>
  The loop state: the configuration, the arguments with an error, and whether the variable \<open>err\<close>
  holds one. \<open>client.force-sync\<close> assigns no \<open>err\<close> and then tests the one left by an earlier argument.
\<close>

type_synonym chdfs_args_state = "ChdfsConfig \<times> string list \<times> bool"

definition num_arg :: "((int \<Rightarrow> int) \<Rightarrow> ChdfsConfig \<Rightarrow> ChdfsConfig) \<Rightarrow> string \<times> string \<Rightarrow> chdfs_args_state \<Rightarrow> chdfs_args_state" where
  "num_arg upd kv st =
     (case (st, Num (snd kv)) of ((cfg, errs, err), (n, ok)) \<Rightarrow>
        (upd (\<lambda>_. n) cfg, if ok then errs else errs @ [fst kv], \<not> ok))"

definition bool_arg :: "((bool \<Rightarrow> bool) \<Rightarrow> ChdfsConfig \<Rightarrow> ChdfsConfig) \<Rightarrow> string \<times> string \<Rightarrow> chdfs_args_state \<Rightarrow> chdfs_args_state" where
  "bool_arg upd kv st =
     (case (st, IsTrue (snd kv)) of ((cfg, errs, err), (b, ok)) \<Rightarrow>
        (upd (\<lambda>_. b) cfg, if ok then errs else errs @ [fst kv], \<not> ok))"

definition str_arg :: "((string \<Rightarrow> string) \<Rightarrow> ChdfsConfig \<Rightarrow> ChdfsConfig) \<Rightarrow> string \<times> string \<Rightarrow> chdfs_args_state \<Rightarrow> chdfs_args_state" where
  "str_arg upd kv st = (case st of (cfg, errs, err) \<Rightarrow> (upd (\<lambda>_. snd kv) cfg, errs, err))"

definition force_sync_arg :: "string \<times> string \<Rightarrow> chdfs_args_state \<Rightarrow> chdfs_args_state" where
  "force_sync_arg kv st =
     (case st of (cfg, errs, err) \<Rightarrow>
        (Client_update (ForceSync_update (\<lambda>_. isTrue (snd kv))) cfg, if err then errs @ [fst kv] else errs, err))"

definition unknown_arg :: "string \<times> string \<Rightarrow> chdfs_args_state \<Rightarrow> chdfs_args_state" where
  "unknown_arg kv st = (case st of (cfg, errs, err) \<Rightarrow> (cfg, errs @ [fst kv], err))"

text \<open>The \<open>switch\<close>: what an argument name does.\<close>

definition chdfs_arg :: "string \<Rightarrow> string \<times> string \<Rightarrow> chdfs_args_state \<Rightarrow> chdfs_args_state" where
  "chdfs_arg key =
     (if key = ''security.ssl-ca-path'' then str_arg SslCaPath_update
      else if key = ''client.renew-session-lease-time-sec'' then num_arg (\<lambda>f. Client_update (RenewSessionLeaseTimeSec_update f))
      else if key = ''client.mount-sub-dir'' then str_arg (\<lambda>f. Client_update (MountSubDir_update f))
      else if key = ''client.user'' then str_arg (\<lambda>f. Client_update (User_update f))
      else if key = ''client.group'' then str_arg (\<lambda>f. Client_update (Group_update f))
      else if key = ''client.force-sync'' then force_sync_arg
      else if key = ''cache.update-sts-time-sec'' then num_arg (\<lambda>f. Cache_update (UpdateStsTimeSec_update f))
      else if key = ''cache.cos-client-timeout-sec'' then num_arg (\<lambda>f. Cache_update (CosClientTimeoutSec_update f))
      else if key = ''cache.inode-attr-expired-time-sec'' then num_arg (\<lambda>f. Cache_update (InodeAttrExpiredTimeSec_update f))
      else if key = ''cache.read.block-expired-time-sec'' then num_arg (\<lambda>f. Cache_update (Read_update (BlockExpiredTimeSec_update f)))
      else if key = ''cache.read.max-block-num'' then num_arg (\<lambda>f. Cache_update (Read_update (MaxBlockNum_update f)))
      else if key = ''cache.read.read-ahead-block-num'' then num_arg (\<lambda>f. Cache_update (Read_update (ReadAheadBlockNum_update f)))
      else if key = ''cache.read.max-cos-load-qps'' then num_arg (\<lambda>f. Cache_update (Read_update (MaxCosLoadQps_update f)))
      else if key = ''cache.read.load-thread-num'' then num_arg (\<lambda>f. Cache_update (Read_update (LoadThreadNum_update f)))
      else if key = ''cache.read.select-thread-num'' then num_arg (\<lambda>f. Cache_update (Read_update (SelectThreadNum_update f)))
      else if key = ''cache.read.rand-read'' then bool_arg (\<lambda>f. Cache_update (Read_update (RandRead_update f)))
      else if key = ''cache.write.max-mem-table-range-num'' then num_arg (\<lambda>f. Cache_update (Write_update (MaxMemTableRangeNum_update f)))
      else if key = ''cache.write.max-mem-table-size-mb'' then num_arg (\<lambda>f. Cache_update (Write_update (MaxMemTableSizeMb_update f)))
      else if key = ''cache.write.max-cos-flush-qps'' then num_arg (\<lambda>f. Cache_update (Write_update (MaxCosFlushQps_update f)))
      else if key = ''cache.write.flush-thread-num'' then num_arg (\<lambda>f. Cache_update (Write_update (FlushThreadNum_update f)))
      else if key = ''cache.write.commit-queue-len'' then num_arg (\<lambda>f. Cache_update (Write_update (CommitQueueLen_update f)))
      else if key = ''cache.write.max-commit-heap-size'' then num_arg (\<lambda>f. Cache_update (Write_update (MaxCommitHeapSize_update f)))
      else if key = ''cache.write.auto-merge'' then bool_arg (\<lambda>f. Cache_update (Write_update (AutoMerge_update f)))
      else if key = ''cache.write.auto-sync'' then bool_arg (\<lambda>f. Cache_update (Write_update (AutoSync_update f)))
      else if key = ''cache.write.auto-sync-time-ms'' then num_arg (\<lambda>f. Cache_update (Write_update (AutoSyncTimeMs_update f)))
      else if key = ''log.level'' then str_arg LogLevel_update
      else if key = ''log.file.filename'' then str_arg (\<lambda>f. LogFile_update (Filename_update f))
      else if key = ''log.file.log-rotate'' then bool_arg (\<lambda>f. LogFile_update (LogRotate_update f))
      else if key = ''log.file.max-size'' then num_arg (\<lambda>f. LogFile_update (MaxSize_update f))
      else if key = ''log.file.max-days'' then num_arg (\<lambda>f. LogFile_update (MaxDays_update f))
      else if key = ''log.file.max-backups'' then num_arg (\<lambda>f. LogFile_update (MaxBackups_update f))
      else unknown_arg)"

text \<open>\<open>name=value\<close>, separated by single spaces; a later one of the same name replaces an earlier one.\<close>

fun split_args :: "string list \<Rightarrow> (string \<times> string) list \<Rightarrow> (string \<times> string) list option" where
  "split_args [] argsMap = Some argsMap"
| "split_args (arg # args) argsMap =
     (case SplitC (CHR ''='') arg of
        [k, v] \<Rightarrow> split_args args (AList.update k v argsMap)
      | _ \<Rightarrow> None)"

definition visit_args :: "(string \<times> string) list \<Rightarrow> ChdfsConfig \<Rightarrow> chdfs_args_state" where
  "visit_args argsMap cfg = foldl (\<lambda>st kv. chdfs_arg (ToLower (fst kv)) kv st) (cfg, [], False) argsMap"

definition NewChdfsConfig ::
  "((string \<times> string) list \<Rightarrow> (string \<times> string) list) \<Rightarrow> string \<Rightarrow> string \<Rightarrow> string \<Rightarrow> go_error + ChdfsConfig" where
  "NewChdfsConfig order url mountPoint additionalArgs =
     (let chdfsConfig = NewDefaultChdfsConfig url mountPoint in
      if additionalArgs = [] then Inr chdfsConfig
      else case split_args (SplitC (CHR '' '') additionalArgs) [] of
        None \<Rightarrow> Inl PlainMsg
      | Some argsMap \<Rightarrow>
          (case visit_args (order argsMap) chdfsConfig of
             (cfg, errs, err) \<Rightarrow> if errs \<noteq> [] then Inl PlainMsg else Inr cfg))"

section \<open>The file\<close>

definition show_bool :: "bool \<Rightarrow> string" where
  "show_bool b = (if b then ''true'' else ''false'')"

definition quoted :: "string \<Rightarrow> string" where
  "quoted s = ''\"'' @ s @ ''\"''"

text \<open>The template, section by section and line by line.\<close>

definition chdfsConfigTemplate :: "ChdfsConfig \<Rightarrow> (string \<times> (string \<times> string) list) list" where
  "chdfsConfigTemplate c =
     [(''proxy'', [(''url'', quoted (''http://'' @ ProxyUrl c))]),
      (''security'', [(''ssl-ca-path'', quoted (SslCaPath c))]),
      (''client'',
        [(''renew-session-lease-time-sec'', show_int (RenewSessionLeaseTimeSec (Client c))),
         (''mount-point'', quoted (MountPoint (Client c))),
         (''mount-sub-dir'', quoted (MountSubDir (Client c))),
         (''user'', quoted (User (Client c))),
         (''group'', quoted (Group (Client c))),
         (''force-sync'', show_bool (ForceSync (Client c)))]),
      (''cache'',
        [(''update-sts-time-sec'', show_int (UpdateStsTimeSec (Cache c))),
         (''cos-client-timeout-sec'', show_int (CosClientTimeoutSec (Cache c))),
         (''inode-attr-expired-time-sec'', show_int (InodeAttrExpiredTimeSec (Cache c)))]),
      (''cache.read'',
        [(''block-expired-time-sec'', show_int (BlockExpiredTimeSec (Read (Cache c)))),
         (''max-block-num'', show_int (MaxBlockNum (Read (Cache c)))),
         (''read-ahead-block-num'', show_int (ReadAheadBlockNum (Read (Cache c)))),
         (''max-cos-load-qps'', show_int (MaxCosLoadQps (Read (Cache c)))),
         (''load-thread-num'', show_int (LoadThreadNum (Read (Cache c)))),
         (''select-thread-num'', show_int (SelectThreadNum (Read (Cache c)))),
         (''rand-read'', show_bool (RandRead (Read (Cache c))))]),
      (''cache.write'',
        [(''max-mem-table-range-num'', show_int (MaxMemTableRangeNum (Write (Cache c)))),
         (''max-mem-table-size-mb'', show_int (MaxMemTableSizeMb (Write (Cache c)))),
         (''max-cos-flush-qps'', show_int (MaxCosFlushQps (Write (Cache c)))),
         (''flush-thread-num'', show_int (FlushThreadNum (Write (Cache c)))),
         (''commit-queue-len'', show_int (CommitQueueLen (Write (Cache c)))),
         (''max-commit-heap-size'', show_int (MaxCommitHeapSize (Write (Cache c)))),
         (''auto-merge'', show_bool (AutoMerge (Write (Cache c)))),
         (''auto-sync'', show_bool (AutoSync (Write (Cache c)))),
         (''auto-sync-time-ms'', show_int (AutoSyncTimeMs (Write (Cache c))))]),
      (''log'', [(''level'', quoted (LogLevel c))]),
      (''log.file'',
        [(''filename'', quoted (Filename (LogFile c))),
         (''log-rotate'', show_bool (LogRotate (LogFile c))),
         (''max-size'', show_int (MaxSize (LogFile c))),
         (''max-days'', show_int (MaxDays (LogFile c))),
         (''max-backups'', show_int (MaxBackups (LogFile c)))])]"

definition newline :: string where "newline = [CHR 0x0A]"

definition render_config :: "ChdfsConfig \<Rightarrow> string" where
  "render_config c =
     concat (map (\<lambda>(section_name, lines). ''['' @ section_name @ '']'' @ newline @
       concat (map (\<lambda>(name, value). name @ ''='' @ value @ newline) lines) @ newline) (chdfsConfigTemplate c))"

text \<open>\<open>WriteFile\<close>: the error of making the directory is dropped; \<open>Fprintln\<close> ends the text with a line end.\<close>

definition chdfs_WriteFile :: "host_env \<Rightarrow> string \<Rightarrow> string \<Rightarrow> unit host_action" where
  "chdfs_WriteFile env file context =
     andThen (ask (MkdirAll (PathDir file)) (\<lambda>h. on_MkdirAll env h (PathDir file))) (\<lambda>_.
     andThen (call Plain (OpenFile (Clean file)) (\<lambda>h. on_OpenFile env h (Clean file))) (\<lambda>_.
       call Plain (WriteFile (Clean file) (context @ newline)) (\<lambda>h. on_WriteFile env h (Clean file))))"

text \<open>The name of the file: of the mount point, and of the directory below it.\<close>

definition chdfs_config_name :: "string \<Rightarrow> ChdfsConfig \<Rightarrow> string" where
  "chdfs_config_name mountPoint cfg =
     (if MountSubDir (Client cfg) \<noteq> [] \<and> MountSubDir (Client cfg) \<noteq> ''/''
      then mountPoint @ ReplaceAll (MountSubDir (Client cfg)) ''/'' ''-'' else mountPoint)"

definition prepareConfig ::
  "host_env \<Rightarrow> ((string \<times> string) list \<Rightarrow> (string \<times> string) list) \<Rightarrow> string \<Rightarrow> string \<Rightarrow> string host_action" where
  "prepareConfig env order url additionalArgs =
     (let mountPoint = hd (SplitC (CHR ''.'') url) in
      if mountPoint = [] then fail PlainMsg
      else case NewChdfsConfig order url mountPoint additionalArgs of
        Inl e \<Rightarrow> fail PlainMsg
      | Inr chdfsConfig \<Rightarrow>
          (let config = ''/etc/chdfs/'' @ chdfs_config_name mountPoint chdfsConfig @ ''.conf'' in
           andThen (map_error wrap_msg (chdfs_WriteFile env config (render_config chdfsConfig))) (\<lambda>_. ret config)))"

end
