(* ===== verification/ChdfsLines.thy ===== *)
theory ChdfsLines imports ChdfsConfig begin

text \<open>
  The lines of a CHDFS configuration file by name, and what an argument of the volume does to them:
  it sets the line its name points to, in the form that line has, and no other.
\<close>

section \<open>Arguments and lines\<close>

definition config_lines :: "ChdfsConfig \<Rightarrow> (string \<times> string) list" where
  "config_lines c =
     List.maps (\<lambda>(section_name, lines). map (\<lambda>(name, value). (section_name @ ''.'' @ name, value)) lines) (chdfsConfigTemplate c)"

definition config_value :: "ChdfsConfig \<Rightarrow> string \<Rightarrow> string option" where
  "config_value c = map_of (config_lines c)"

definition str_keys :: "string list" where
  "str_keys = [''security.ssl-ca-path'', ''client.mount-sub-dir'', ''client.user'', ''client.group'', ''log.level'', ''log.file.filename'']"

definition bool_keys :: "string list" where
  "bool_keys = [''cache.read.rand-read'', ''cache.write.auto-merge'', ''cache.write.auto-sync'', ''log.file.log-rotate'']"

text \<open>The form that a value has in the file.\<close>

definition canonical :: "string \<Rightarrow> string \<Rightarrow> string" where
  "canonical key v =
     (if key \<in> set str_keys then quoted v
      else if key \<in> set bool_keys \<or> key = ''client.force-sync'' then show_bool (isTrue v)
      else show_int (fst (Num v)))"

lemma IsTrue_isTrue: "fst (IsTrue v) = isTrue v"
  by (simp add: IsTrue_def isTrue_def split: option.split)


lemmas config_line_simps = config_lines_def [unfolded chdfsConfigTemplate_def, simplified]

lemma arg_simps:
  "str_arg upd (k, v) (c, errs, err) = (upd (\<lambda>_. v) c, errs, err)"
  "num_arg nupd (k, v) (c, errs, err) = (nupd (\<lambda>_. fst (Num v)) c, if snd (Num v) then errs else errs @ [k], \<not> snd (Num v))"
  "bool_arg bupd (k, v) (c, errs, err) = (bupd (\<lambda>_. isTrue v) c, if snd (IsTrue v) then errs else errs @ [k], \<not> snd (IsTrue v))"
  "force_sync_arg (k, v) (c, errs, err) = (Client_update (ForceSync_update (\<lambda>_. isTrue v)) c, if err then errs @ [k] else errs, err)"
  "unknown_arg (k, v) (c, errs, err) = (c, errs @ [k], err)"
  by (simp_all add: str_arg_def num_arg_def bool_arg_def force_sync_arg_def unknown_arg_def case_prod_unfold IsTrue_isTrue)

lemma config_keys_default:
  "map fst (config_lines c) = map fst (config_lines (NewDefaultChdfsConfig [] []))"
  by (simp add: config_line_simps)

text \<open>Every argument of the \<open>switch\<close> sets its own line, and no other.\<close>

lemma if_branchE: "(if P then a else b) = c \<Longrightarrow> (P \<Longrightarrow> a = c \<Longrightarrow> Q) \<Longrightarrow> (b = c \<Longrightarrow> Q) \<Longrightarrow> Q"
  by (simp split: if_splits)

lemma chdfs_arg_sets:
  assumes "chdfs_arg key (k, v) (c, errs, err) = (c', errs', err')" "errs' = errs"
  shows "config_lines c' = AList.update key (canonical key v) (config_lines c)"
proof -
  obtain f where f: "chdfs_arg key = f" "f (k, v) (c, errs, err) = (c', errs, err')"
    using assms by blast
  then have "c' = fst (f (k, v) (c, errs, err))" "fst (snd (f (k, v) (c, errs, err))) = errs"
    by simp_all
  then show ?thesis
    using f(1) [unfolded chdfs_arg_def]
    apply -
    apply (elim if_branchE)
    apply (hypsubst, simp add: arg_simps canonical_def str_keys_def bool_keys_def config_line_simps)+
    done
qed

end
