(* ===== verification/ChdfsNode.thy ===== *)
theory ChdfsNode imports ChdfsConfig begin

text \<open>
  The CHDFS node (\<open>driver/chdfs/node.go\<close>, \<open>mount.go\<close>): publishing writes the configuration, starts the
  FUSE process in the background, and waits until the target is a mount point.
\<close>

section \<open>Options\<close>

record chdfsOptions =
  AllowOther :: bool
  IsSync :: bool
  IsDebug :: bool
  Url :: string
  AdditionalArgs :: string

definition no_chdfs_options :: chdfsOptions where
  "no_chdfs_options = \<lparr>AllowOther = False, IsSync = False, IsDebug = False, Url = [], AdditionalArgs = []\<rparr>"

definition chdfs_option :: "chdfsOptions \<Rightarrow> string \<times> string \<Rightarrow> chdfsOptions" where
  "chdfs_option options kv =
     (let k = ToLower (fst kv); v = snd kv in
      if k = ''allowother'' then options\<lparr>AllowOther := isTrue v\<rparr>
      else if k = ''sync'' then options\<lparr>IsSync := isTrue v\<rparr>
      else if k = ''debug'' then options\<lparr>IsDebug := isTrue v\<rparr>
      else if k = ''url'' then options\<lparr>Url := v\<rparr>
      else if k = ''additional_args'' then options\<lparr>AdditionalArgs := v\<rparr>
      else options)"

definition parseCHDFSOptions :: "(string \<times> string) list \<Rightarrow> chdfsOptions" where
  "parseCHDFSOptions attributes = foldl chdfs_option no_chdfs_options attributes"

section \<open>Mounting\<close>

definition chdfs_createMountPoint :: "host_env \<Rightarrow> string \<Rightarrow> bool host_action" where
  "chdfs_createMountPoint env targetPath =
     andThen (isFileExisted env targetPath) (\<lambda>existed.
     andThen (if existed then ret () else call Plain (MkdirAll targetPath) (\<lambda>h. on_MkdirAll env h targetPath)) (\<lambda>_.
       isMountPoint env targetPath))"

definition chdfs_args :: "chdfsOptions \<Rightarrow> string \<Rightarrow> string \<Rightarrow> string list" where
  "chdfs_args options mountPoint config =
     (if IsDebug options then [''-debug''] else []) @
     (if IsSync options then [''-o'', ''sync''] else []) @
     (if AllowOther options then [''-allow_other''] else []) @
     [mountPoint] @ [''--config='' @ config]"

text \<open>One tick of the wait, as a probe.\<close>

definition chdfs_tick :: "host_env \<Rightarrow> string \<Rightarrow> host_hist \<Rightarrow> (go_error + unit) option \<times> host_hist" where
  "chdfs_tick env mountPoint h =
     (case isMountPoint env mountPoint h of
        (Inl err, h') \<Rightarrow> (Some (Inl PlainMsg), h')
      | (Inr isMnt, h') \<Rightarrow> (if isMnt then Some (Inr ()) else None, h'))"

text \<open>
  The command runs in a goroutine of its own: what it does shows in the later answers of the mounter, and
  its error is only logged. \<open>ticks\<close> of the 40 seconds are served before the deadline.
\<close>

definition chdfs_Mount ::
  "host_env \<Rightarrow> ((string \<times> string) list \<Rightarrow> (string \<times> string) list) \<Rightarrow> nat \<Rightarrow> chdfsOptions \<Rightarrow> string \<Rightarrow> unit host_action" where
  "chdfs_Mount env order ticks options mountPoint =
     andThen (map_error wrap_msg (prepareConfig env order (Url options) (AdditionalArgs options))) (\<lambda>config.
     (let cmd = ''chdfs-fuse '' @ Join (chdfs_args options mountPoint config) '' ''; as = [''-c'', cmd] in
      andThen (ask (Exec ''sh'' as) (\<lambda>h. on_Exec env h ''sh'' as)) (\<lambda>_ h.
        case poll (chdfs_tick env mountPoint) ticks h of
          (Some r, h') \<Rightarrow> (r, h')
        | (None, h') \<Rightarrow> (Inl PlainMsg, h'))))"

section \<open>The handlers\<close>

record chdfs_publish_request =
  ch_VolumeId :: string
  ch_TargetPath :: string
  ch_VolumeContext :: "(string \<times> string) list"

definition chdfs_NodePublishVolume ::
  "host_env \<Rightarrow> ((string \<times> string) list \<Rightarrow> (string \<times> string) list) \<Rightarrow> nat \<Rightarrow> chdfs_publish_request \<Rightarrow> unit host_action" where
  "chdfs_NodePublishVolume env order ticks req =
     (let targetPath = ch_TargetPath req; options = parseCHDFSOptions (ch_VolumeContext req) in
      if ch_VolumeId req = [] then fail (Status InvalidArgument)
      else if targetPath = [] then fail (Status InvalidArgument)
      else if Url options = [] then fail (Status InvalidArgument)
      else
        andThen (chdfs_createMountPoint env targetPath) (\<lambda>isMnt.
          if isMnt then ret ()
          else map_error (as_status Internal) (chdfs_Mount env order ticks options targetPath)))"

definition chdfs_NodeUnpublishVolume :: "host_env \<Rightarrow> string \<Rightarrow> string \<Rightarrow> unit host_action" where
  "chdfs_NodeUnpublishVolume env volID targetPath =
     (if volID = [] then fail (Status InvalidArgument)
      else if targetPath = [] then fail (Status InvalidArgument)
      else
        andThen (notMountPoint env targetPath) (\<lambda>(notMnt, err).
          let unmount = call (\<lambda>_. Status Internal) (Unmount targetPath) (\<lambda>h. on_Unmount env h targetPath) in
          case err of
            Some e \<Rightarrow>
              if IsNotExist e then ret ()
              else if Contains (err_text e) ''transport endpoint is not connected'' then unmount
              else fail (Status Internal)
          | None \<Rightarrow> if notMnt then ret () else unmount))"

datatype chdfs_stage_call = ChdfsNodeStage | ChdfsNodeUnstage

definition chdfs_node_unimplemented :: "chdfs_stage_call \<Rightarrow> 'a host_action" where
  "chdfs_node_unimplemented c = fail (Status Unimplemented)"

definition chdfs_NodeExpandVolume :: "unit host_action" where
  "chdfs_NodeExpandVolume = ret ()"

end
