(* ===== verification/ChdfsProps.thy ===== *)
theory ChdfsProps imports ChdfsLines ChdfsNode begin

text \<open>
  What makes CHDFS correct: an argument of the volume ends up, in its own form, in the line of the
  configuration file that its name points to, in whatever order the map is visited; and a publish
  succeeds only when the target was seen mounted.
\<close>

section \<open>All arguments\<close>

lemma chdfs_arg_errs:
  assumes "chdfs_arg key kv (c, errs, err) = (c', errs', err')"
  shows "\<exists>new. errs' = errs @ new"
proof -
  obtain f where f: "chdfs_arg key = f" "f kv (c, errs, err) = (c', errs', err')"
    using assms by blast
  then have "fst (snd (f kv (c, errs, err))) = errs'" by simp
  then show ?thesis
    using f(1) [unfolded chdfs_arg_def]
    apply -
    apply (cases kv)
    apply (elim if_branchE)
    apply (hypsubst, simp add: arg_simps split: if_splits, (blast | simp)?)+
    done
qed

text \<open>The arguments as a whole: the file's lines, updated one after the other.\<close>

definition set_lines :: "(string \<times> string) list \<Rightarrow> (string \<times> string) list \<Rightarrow> (string \<times> string) list" where
  "set_lines lines argsMap =
     foldl (\<lambda>ls kv. AList.update (ToLower (fst kv)) (canonical (ToLower (fst kv)) (snd kv)) ls) lines argsMap"

abbreviation visit_step :: "chdfs_args_state \<Rightarrow> string \<times> string \<Rightarrow> chdfs_args_state" where
  "visit_step st kv \<equiv> chdfs_arg (ToLower (fst kv)) kv st"

lemma visit_errs: "foldl visit_step (c, errs, err) xs = (c', errs', err') \<Longrightarrow> \<exists>new. errs' = errs @ new"
proof (induction xs arbitrary: c errs err)
  case (Cons kv xs)
  obtain c1 errs1 err1 where s: "visit_step (c, errs, err) kv = (c1, errs1, err1)"
    using prod_cases3 by blast
  with Cons.prems have "foldl visit_step (c1, errs1, err1) xs = (c', errs', err')" by simp
  then obtain new where "errs' = errs1 @ new" using Cons.IH by blast
  with chdfs_arg_errs [OF s] show ?case by auto
qed simp

lemma visit_lines:
  assumes "foldl visit_step (c, [], err) xs = (c', [], err')"
  shows "config_lines c' = set_lines (config_lines c) xs \<and> (\<forall>kv\<in>set xs. ToLower (fst kv) \<in> fst ` set (config_lines c))"
  using assms
proof (induction xs arbitrary: c err)
  case (Cons kv xs)
  obtain c1 errs1 err1 where s: "visit_step (c, [], err) kv = (c1, errs1, err1)"
    using prod_cases3 by blast
  with Cons.prems visit_errs have e: "errs1 = []" by fastforce
  with s have u: "config_lines c1 = AList.update (ToLower (fst kv)) (canonical (ToLower (fst kv)) (snd kv)) (config_lines c)"
    using chdfs_arg_sets [of "ToLower (fst kv)" "fst kv" "snd kv"] by simp
  have same: "map fst (config_lines c1) = map fst (config_lines c)"
    using config_keys_default by metis
  then have "fst ` set (config_lines c1) = fst ` set (config_lines c)"
    by (metis list.set_map)
  moreover have "ToLower (fst kv) \<in> fst ` set (config_lines c1)"
    unfolding u by (simp only: dom_update) simp
  moreover from Cons.prems s e have "foldl visit_step (c1, [], err1) xs = (c', [], err')" by simp
  note Cons.IH [OF this]
  ultimately show ?case using u by (simp add: set_lines_def)
qed (simp add: set_lines_def)

lemma map_of_set_lines:
  "map_of (set_lines lines argsMap) =
     map_of lines ++ map_of (rev (map (\<lambda>kv. (ToLower (fst kv), canonical (ToLower (fst kv)) (snd kv))) argsMap))"
  by (induction argsMap arbitrary: lines) (auto simp: set_lines_def update_conv' map_add_assoc)

text \<open>
  C37. The configuration file says what the arguments of the volume say. When the function
  \<open>NewChdfsConfig\<close> accepts the arguments, and no two names differ in case only, then every name is the name
  of a line of the file; the line of an argument holds its value in the form of the file (a string
  quoted, a number in decimal, a flag as \<open>true\<close> or \<open>false\<close>), whatever the order in which Go visits the
  map; and every other line has its default.
\<close>

theorem chdfs_config_roundtrip:
  assumes "NewChdfsConfig order url mountPoint additionalArgs = Inr cfg" "additionalArgs \<noteq> []"
    and "split_args (SplitC (CHR '' '') additionalArgs) [] = Some argsMap"
    and "set (order argsMap) = set argsMap" "distinct (order argsMap)"
    and "distinct (map (ToLower \<circ> fst) argsMap)"
  shows "ToLower ` fst ` set argsMap \<subseteq> fst ` set (config_lines cfg) \<and>
    (\<forall>k v. (k, v) \<in> set argsMap \<longrightarrow> config_value cfg (ToLower k) = Some (canonical (ToLower k) v)) \<and>
    (\<forall>x. x \<notin> ToLower ` fst ` set argsMap \<longrightarrow>
       config_value cfg x = config_value (NewDefaultChdfsConfig url mountPoint) x)"
proof -
  let ?d = "NewDefaultChdfsConfig url mountPoint"
  let ?L = "\<lambda>xs. map (\<lambda>kv. (ToLower (fst kv), canonical (ToLower (fst kv)) (snd kv))) xs"
  from assms(1-3) obtain err where v: "foldl visit_step (?d, [], False) (order argsMap) = (cfg, [], err)"
    by (auto simp: NewChdfsConfig_def visit_args_def Let_def split: prod.splits if_splits)
  note lines = visit_lines [OF v]
  have keys: "fst ` set (config_lines cfg) = fst ` set (config_lines ?d)"
    by (metis config_keys_default list.set_map)
  have inj: "inj_on (ToLower \<circ> fst) (set argsMap)" and dist: "distinct argsMap"
    using assms(6) by (simp_all add: distinct_map)
  then have "distinct (map (ToLower \<circ> fst) (order argsMap))"
    using assms(4,5) by (simp add: distinct_map)
  then have d: "distinct (map fst (rev (?L (order argsMap))))"
    by (simp add: comp_def rev_map [symmetric])
  have cv: "config_value cfg = map_of (config_lines ?d) ++ map_of (rev (?L (order argsMap)))"
    using lines by (simp add: config_value_def map_of_set_lines)
  have hit: "config_value cfg (ToLower k) = Some (canonical (ToLower k) w)" if "(k, w) \<in> set argsMap" for k w
  proof -
    from that have "(ToLower k, canonical (ToLower k) w) \<in> set (rev (?L (order argsMap)))"
      using assms(4) by force
    with d have "map_of (rev (?L (order argsMap))) (ToLower k) = Some (canonical (ToLower k) w)"
      by (rule map_of_eq_Some_unique)
    then show ?thesis unfolding cv by simp
  qed
  have miss: "config_value cfg x = config_value ?d x" if "x \<notin> ToLower ` fst ` set argsMap" for x
  proof -
    from that have "x \<notin> fst ` set (rev (?L (order argsMap)))"
      using assms(4) by force
    then have "map_of (rev (?L (order argsMap))) x = None"
      by (simp only: map_of_eq_None_iff not_False_eq_True)
    then show ?thesis unfolding cv config_value_def [of ?d] by (simp add: map_add_def)
  qed
  from lines keys hit miss assms(4) show ?thesis by blast
qed

theorem chdfs_config_roundtrip_witness:
  "\<exists>cfg. NewChdfsConfig rev ''u'' ''m'' ''client.user=ann Cache.Read.max-block-num=512'' = Inr cfg \<and>
     config_value cfg ''cache.read.max-block-num'' = Some ''512''"
proof -
  let ?args = "''client.user=ann Cache.Read.max-block-num=512''"
  let ?map = "[(''client.user'', ''ann''), (''Cache.Read.max-block-num'', ''512'')]"
  have sp: "split_args (SplitC (CHR '' '') ?args) [] = Some ?map" by code_simp
  have "fst (snd (visit_args (rev ?map) (NewDefaultChdfsConfig ''u'' ''m''))) = []" by code_simp
  then have c: "NewChdfsConfig rev ''u'' ''m'' ?args = Inr (fst (visit_args (rev ?map) (NewDefaultChdfsConfig ''u'' ''m'')))"
    using sp by (simp add: NewChdfsConfig_def Let_def case_prod_unfold)
  have l: "ToLower ''Cache.Read.max-block-num'' = ''cache.read.max-block-num''"
    "ToLower ''client.user'' = ''client.user''" by code_simp+
  have can: "canonical ''cache.read.max-block-num'' ''512'' = ''512''" by code_simp
  have "\<forall>k v. (k, v) \<in> set ?map \<longrightarrow>
      config_value (fst (visit_args (rev ?map) (NewDefaultChdfsConfig ''u'' ''m''))) (ToLower k) = Some (canonical (ToLower k) v)"
    by (rule chdfs_config_roundtrip [OF c _ sp, THEN conjunct2, THEN conjunct1]) (simp_all add: l insert_commute)
  from this [rule_format, of "''Cache.Read.max-block-num''" "''512''"]
  have "config_value (fst (visit_args (rev ?map) (NewDefaultChdfsConfig ''u'' ''m''))) (ToLower ''Cache.Read.max-block-num'') =
      Some (canonical (ToLower ''Cache.Read.max-block-num'') ''512'')"
    by simp
  with c show ?thesis unfolding l can by blast
qed

section \<open>Publishing\<close>

lemma chdfs_tick_suffix: "chdfs_tick env p h = (r, h') \<Longrightarrow> suffix h h'"
  using onlyD [OF only_isMountPoint [of "\<lambda>_. True" p env]]
  by (fastforce simp: chdfs_tick_def suffix_def split: prod.splits sum.splits if_splits)

lemma chdfs_WriteFile_InrD:
  "chdfs_WriteFile env file txt h = (Inr (), h') \<Longrightarrow> WriteFile (Clean file) (txt @ newline) \<in> set h'"
  unfolding chdfs_WriteFile_def by (auto elim!: andThen_InrE dest!: call_InrD)

lemma prepareConfig_InrD:
  assumes "prepareConfig env order url args h = (Inr config, h')"
  shows "\<exists>cfg. NewChdfsConfig order url (hd (SplitC (CHR ''.'') url)) args = Inr cfg \<and>
    WriteFile (Clean config) (render_config cfg @ newline) \<in> set h'"
  using assms unfolding prepareConfig_def Let_def
  by (auto split: if_splits sum.splits elim!: andThen_InrE dest!: map_error_InrD chdfs_WriteFile_InrD)

text \<open>
  C38. A publish that succeeds has seen the target as a mount point, as the last thing it did. Either
  it was one before, or the configuration of the volume was written, and the FUSE process was
  started for the target with exactly that file.
\<close>

theorem chdfs_publish_mounted:
  assumes "chdfs_NodePublishVolume env order ticks req h = (Inr (), h')"
  shows "seen_mounted env (ch_TargetPath req) h' \<and>
    (chdfs_createMountPoint env (ch_TargetPath req) h = (Inr True, h') \<or>
     (\<exists>cfg config. let options = parseCHDFSOptions (ch_VolumeContext req); url = Url options in
        NewChdfsConfig order url (hd (SplitC (CHR ''.'') url)) (AdditionalArgs options) = Inr cfg \<and>
        WriteFile (Clean config) (render_config cfg @ newline) \<in> set h' \<and>
        Exec ''sh'' [''-c'', ''chdfs-fuse '' @ Join (chdfs_args options (ch_TargetPath req) config) '' ''] \<in> set h'))"
proof -
  let ?p = "ch_TargetPath req" and ?o = "parseCHDFSOptions (ch_VolumeContext req)"
  from assms obtain isMnt h1 where c: "chdfs_createMountPoint env ?p h = (Inr isMnt, h1)"
    "(if isMnt then ret () else map_error (as_status Internal) (chdfs_Mount env order ticks ?o ?p)) h1 = (Inr (), h')"
    unfolding chdfs_NodePublishVolume_def Let_def by (auto split: if_splits elim!: andThen_InrE)
  show ?thesis
  proof (cases isMnt)
    case True
    from c(1) True obtain h0 where "isMountPoint env ?p h0 = (Inr True, h1)"
      unfolding chdfs_createMountPoint_def by (auto elim!: andThen_InrE)
    with c True show ?thesis by (auto dest: seen_mountedI)
  next
    case False
    with c(2) have "chdfs_Mount env order ticks ?o ?p h1 = (Inr (), h')" by (auto dest: map_error_InrD)
    then obtain config h2 h3 where p: "prepareConfig env order (Url ?o) (AdditionalArgs ?o) h1 = (Inr config, h2)"
      and h3: "h3 = Exec ''sh'' [''-c'', ''chdfs-fuse '' @ Join (chdfs_args ?o ?p config) '' ''] # h2"
      and w: "poll (chdfs_tick env ?p) ticks h3 = (Some (Inr ()), h')"
      unfolding chdfs_Mount_def
      by (auto simp: Let_def ask_def split: prod.splits option.splits elim!: andThen_InrE dest!: map_error_InrD)
    from w obtain h4 where "chdfs_tick env ?p h4 = (Some (Inr ()), h')" by (metis poll_SomeD)
    then have "isMountPoint env ?p h4 = (Inr True, h')"
      by (auto simp: chdfs_tick_def split: prod.splits sum.splits if_splits)
    moreover have "suffix h3 h'"
      using poll_inv [OF w, of "suffix h3"] chdfs_tick_suffix by (metis suffix_order.refl suffix_order.trans)
    then have "set h3 \<subseteq> set h'" by (rule set_mono_suffix)
    ultimately show ?thesis
      using prepareConfig_InrD [OF p] h3 by (auto simp: Let_def dest: seen_mountedI)
  qed
qed

text \<open>A node where the FUSE process mounts at once.\<close>

definition fuse_started :: "host_event \<Rightarrow> bool" where
  "fuse_started e = (case e of Exec c as \<Rightarrow> True | _ \<Rightarrow> False)"

definition chdfs_demo_env :: host_env where
  "chdfs_demo_env = quiet_host\<lparr>on_NotMountPoint := (\<lambda>h p. (\<not> list_ex fuse_started h, None))\<rparr>"

definition chdfs_demo_request :: chdfs_publish_request where
  "chdfs_demo_request = \<lparr>ch_VolumeId = ''v'', ch_TargetPath = ''/t'', ch_VolumeContext = [(''url'', ''f.c'')]\<rparr>"

theorem chdfs_publish_mounted_witness:
  "seen_mounted chdfs_demo_env ''/t'' (snd (chdfs_NodePublishVolume chdfs_demo_env id 1 chdfs_demo_request []))"
proof -
  have "fst (chdfs_NodePublishVolume chdfs_demo_env id 1 chdfs_demo_request []) = Inr ()" by code_simp
  then obtain h' where h': "chdfs_NodePublishVolume chdfs_demo_env id 1 chdfs_demo_request [] = (Inr (), h')"
    by (metis prod.collapse)
  have "seen_mounted chdfs_demo_env (ch_TargetPath chdfs_demo_request) h'"
    using chdfs_publish_mounted [OF h'] by (rule conjunct1)
  moreover have "ch_TargetPath chdfs_demo_request = ''/t''" by (simp add: chdfs_demo_request_def)
  ultimately show ?thesis by (simp only: h' snd_conv)
qed

end
