(* ===== verification/CosConfig.thy ===== *)
theory CosConfig imports Host begin

text \<open>
  The files that a COS mount reads (\<open>driver/cosfs/config.go\<close>): the credential file of \<open>cosfs\<close>, and the
  \<open>core-site.xml\<close> and the properties of \<open>goosefs-lite\<close>, with what they take from \<open>net/url\<close> and
  \<open>encoding/xml\<close>. The digest and the writer of properties are arguments.
\<close>

section \<open>Outside\<close>

text \<open>
  \<open>sha256_hex\<close> is \<open>hex(sha256(text))\<close>; \<open>viper_text\<close> is the file that \<open>viper\<close> makes of the properties set so far,
  in order; \<open>GOARCH\<close> is the architecture.
\<close>

record cos_env =
  cos_host :: host_env
  sha256_hex :: "string \<Rightarrow> string"
  viper_text :: "(string \<times> string) list \<Rightarrow> string"
  GOARCH :: string

text \<open>Writing with the directory made first; here its failure is an error.\<close>

definition cos_WriteFile :: "cos_env \<Rightarrow> string \<Rightarrow> string \<Rightarrow> unit host_action" where
  "cos_WriteFile env file context =
     andThen (call Plain (MkdirAll (PathDir file)) (\<lambda>h. on_MkdirAll (cos_host env) h (PathDir file))) (\<lambda>_.
     andThen (call Plain (OpenFile (Clean file)) (\<lambda>h. on_OpenFile (cos_host env) h (Clean file))) (\<lambda>_.
       call Plain (WriteFile (Clean file) (context @ [CHR 0x0A])) (\<lambda>h. on_WriteFile (cos_host env) h (Clean file))))"

section \<open>Credentials\<close>

text \<open>Only a foreign name is refused; a name that is missing reads as the empty string.\<close>

definition secret_of :: "(string \<times> string) list \<Rightarrow> string \<Rightarrow> string" where
  "secret_of secrets name = (case map_of secrets name of None \<Rightarrow> [] | Some v \<Rightarrow> v)"

definition getSecretCredential :: "(string \<times> string) list \<Rightarrow> go_error + string \<times> string" where
  "getSecretCredential secrets =
     (if list_ex (\<lambda>(k, v). k \<noteq> ''SecretId'' \<and> k \<noteq> ''SecretKey'') secrets then Inl PlainMsg
      else Inr (TrimSpace (secret_of secrets ''SecretId''), TrimSpace (secret_of secrets ''SecretKey'')))"

definition cosfs_credential :: "string \<Rightarrow> string \<times> string \<Rightarrow> string" where
  "cosfs_credential bucket c = Join [TrimSpace bucket, fst c, snd c] '':''"

definition cosfs_passwd_file :: "cos_env \<Rightarrow> string \<Rightarrow> string \<Rightarrow> string \<Rightarrow> string" where
  "cosfs_passwd_file env podUid bucket credential =
     ''/etc/csi-cos/cosfs/'' @ podUid @ ''/'' @ bucket @ ''_'' @ sha256_hex env credential"

definition createCosfsCredentialFile ::
  "cos_env \<Rightarrow> string \<Rightarrow> string \<Rightarrow> string \<Rightarrow> (string \<times> string) list \<Rightarrow> string host_action" where
  "createCosfsCredentialFile env volID bucket podUid secrets =
     (case getSecretCredential secrets of
        Inl err \<Rightarrow> fail PlainMsg
      | Inr c \<Rightarrow>
          (let credential = cosfs_credential bucket c; passwdFilename = cosfs_passwd_file env podUid bucket credential in
           andThen (ask (Stat passwdFilename) (\<lambda>h. on_Stat (cos_host env) h passwdFilename)) (\<lambda>st.
             case st of
               Inr _ \<Rightarrow> ret passwdFilename
             | Inl err \<Rightarrow>
                 if IsNotExist err then
                   andThen (map_error wrap_msg (cos_WriteFile env passwdFilename credential)) (\<lambda>_. ret passwdFilename)
                 else fail PlainMsg)))"

section \<open>The region of the service\<close>

text \<open>
  \<open>url.Parse\<close>, as far as the host: \<open>None\<close> is an error. A host in brackets is \<open>None\<close> too; it never has the
  prefix that is tested below, so the outcome is an error either way.
\<close>

definition is_letter :: "char \<Rightarrow> bool" where
  "is_letter c \<longleftrightarrow> (let n = of_char c :: nat in (65 \<le> n \<and> n \<le> 90) \<or> (97 \<le> n \<and> n \<le> 122))"

definition is_ctl :: "char \<Rightarrow> bool" where
  "is_ctl c \<longleftrightarrow> (let n = of_char c :: nat in n < 32 \<or> n = 127)"

definition unhex :: "char \<Rightarrow> nat option" where
  "unhex c = (let n = of_char c :: nat in
     if 48 \<le> n \<and> n \<le> 57 then Some (n - 48)
     else if 97 \<le> n \<and> n \<le> 102 then Some (n - 87)
     else if 65 \<le> n \<and> n \<le> 70 then Some (n - 55) else None)"

text \<open>Cut at the first or last \<open>c\<close>: before, and after if there is one.\<close>

definition cut_first :: "char \<Rightarrow> string \<Rightarrow> string \<times> string option" where
  "cut_first c s = (let a = takeWhile (\<lambda>x. x \<noteq> c) s in (a, if c \<in> set s then Some (drop (length a + 1) s) else None))"

definition cut_last :: "char \<Rightarrow> string \<Rightarrow> string option \<times> string" where
  "cut_last c s =
     (let b = rev (takeWhile (\<lambda>x. x \<noteq> c) (rev s))
      in (if c \<in> set s then Some (take (length s - length b - 1) s) else None, b))"

text \<open>Every percent sign of a path, a fragment or a user has two hex digits after it.\<close>

fun valid_escapes :: "string \<Rightarrow> bool" where
  "valid_escapes [] \<longleftrightarrow> True"
| "valid_escapes (c # s) \<longleftrightarrow>
     (if c = CHR ''%'' then
        (case s of a # b # r \<Rightarrow> unhex a \<noteq> None \<and> unhex b \<noteq> None | _ \<Rightarrow> False) \<and> valid_escapes s
      else valid_escapes s)"

text \<open>In a host, a percent sign stands for a byte above 127 or for itself, and few other signs may occur.\<close>

definition host_char :: "char \<Rightarrow> bool" where
  "host_char c \<longleftrightarrow>
     is_letter c \<or> is_digit c \<or> c \<in> set (CHR 0x27 # ''-_.~!$&()*+,;=:[]<>\"'') \<or> 128 \<le> (of_char c :: nat)"

fun unescape_host :: "string \<Rightarrow> string option" where
  "unescape_host [] = Some []"
| "unescape_host (c # s) =
     (if c = CHR ''%'' then
        (case s of
           a # b # r \<Rightarrow>
             (case (unhex a, unhex b) of
                (Some x, Some y) \<Rightarrow>
                  if x < 8 \<and> \<not> (x = 2 \<and> y = 5) then None else map_option (Cons (char_of (16 * x + y))) (unescape_host r)
              | _ \<Rightarrow> None)
         | _ \<Rightarrow> None)
      else if host_char c then map_option (Cons c) (unescape_host s)
      else None)"

definition parseHost :: "string \<Rightarrow> string option" where
  "parseHost host =
     (if HasPrefix host ''['' then None
      else case cut_last (CHR '':'') host of
        (Some _, port) \<Rightarrow> if list_all is_digit port then unescape_host host else None
      | (None, _) \<Rightarrow> unescape_host host)"

definition user_char :: "char \<Rightarrow> bool" where
  "user_char c \<longleftrightarrow> is_letter c \<or> is_digit c \<or> c \<in> set (CHR 0x27 # ''-._:!$&()*+,;=%@'')"

definition parseAuthority :: "string \<Rightarrow> string option" where
  "parseAuthority authority =
     (case cut_last (CHR ''@'') authority of
        (None, host) \<Rightarrow> parseHost host
      | (Some userinfo, host) \<Rightarrow>
          if list_all user_char userinfo \<and> valid_escapes userinfo then parseHost host else None)"

text \<open>Scheme and rest; a text that starts with a colon has none and is an error.\<close>

definition getScheme :: "string \<Rightarrow> (string \<times> string) option" where
  "getScheme rawURL =
     (let s = takeWhile (\<lambda>c. is_letter c \<or> is_digit c \<or> c \<in> set ''+-.'') rawURL
      in case drop (length s) rawURL of
           [] \<Rightarrow> Some ([], rawURL)
         | c # rest \<Rightarrow>
             if c \<noteq> CHR '':'' then Some ([], rawURL)
             else if s = [] then None
             else if is_letter (hd s) then Some (s, rest) else Some ([], rawURL))"

definition url_path_host :: "string \<Rightarrow> string \<Rightarrow> string option" where
  "url_path_host host path = (if valid_escapes path then Some host else None)"

definition UrlHost :: "string \<Rightarrow> string option" where
  "UrlHost rawURL =
     (case cut_first (CHR ''#'') rawURL of (u, frag) \<Rightarrow>
        if list_ex is_ctl u \<or> (case frag of None \<Rightarrow> False | Some f \<Rightarrow> \<not> valid_escapes f) then None
        else case getScheme u of
          None \<Rightarrow> None
        | Some (scheme, rest0) \<Rightarrow>
            (let rest = fst (cut_first (CHR ''?'') rest0) in
             if \<not> HasPrefix rest ''/'' then
               if scheme \<noteq> [] then Some []
               else if CHR '':'' \<in> set (fst (cut_first (CHR ''/'') rest)) then None
               else url_path_host [] rest
             else if (scheme \<noteq> [] \<or> \<not> HasPrefix rest ''///'') \<and> HasPrefix rest ''//'' then
               (case cut_first (CHR ''/'') (drop 2 rest) of (authority, path) \<Rightarrow>
                  case parseAuthority authority of
                    None \<Rightarrow> None
                  | Some host \<Rightarrow> url_path_host host (case path of None \<Rightarrow> [] | Some p \<Rightarrow> CHR ''/'' # p))
             else url_path_host [] rest))"

definition getRegionFromUrl :: "string \<Rightarrow> go_error + string" where
  "getRegionFromUrl cosUrl =
     (case UrlHost cosUrl of
        None \<Rightarrow> Inl PlainMsg
      | Some host \<Rightarrow>
          if HasPrefix host ''cos.'' \<and> HasSuffix host ''.myqcloud.com'' then Inr (SplitC (CHR ''.'') host ! 1)
          else Inl PlainMsg)"

section \<open>core-site.xml\<close>

text \<open>\<open>xml.EscapeText\<close>; bytes above 127 are parts of valid UTF-8 and stay.\<close>

definition xml_escape :: "char \<Rightarrow> string" where
  "xml_escape c =
     (if c = CHR 0x22 then ''&#34;'' else if c = CHR 0x27 then ''&#39;''
      else if c = CHR ''&'' then ''&amp;'' else if c = CHR ''<'' then ''&lt;'' else if c = CHR ''>'' then ''&gt;''
      else if c = CHR 0x09 then ''&#x9;'' else if c = CHR 0x0A then ''&#xA;'' else if c = CHR 0x0D then ''&#xD;''
      else if (of_char c :: nat) < 32 then [CHR 0xEF, CHR 0xBF, CHR 0xBD] else [c])"

definition EscapeText :: "string \<Rightarrow> string" where
  "EscapeText s = concat (map xml_escape s)"

type_synonym property = "string \<times> string"

definition xml_line :: "nat \<Rightarrow> string \<Rightarrow> string" where
  "xml_line indent s = replicate indent (CHR '' '') @ s @ [CHR 0x0A]"

definition xml_property :: "property \<Rightarrow> string" where
  "xml_property p =
     xml_line 2 ''<property>'' @ xml_line 4 (''<name>'' @ EscapeText (fst p) @ ''</name>'') @
     xml_line 4 (''<value>'' @ EscapeText (snd p) @ ''</value>'') @ xml_line 2 ''</property>''"

text \<open>\<open>MarshalIndent\<close> with an indentation of two, without a line end at the end.\<close>

definition MarshalConfiguration :: "property list \<Rightarrow> string" where
  "MarshalConfiguration ps =
     xml_line 0 ''<configuration>'' @ concat (map xml_property ps) @ ''</configuration>''"

fun parse_pairs :: "string list \<Rightarrow> property list option" where
  "parse_pairs [] = Some []"
| "parse_pairs (arg # args) =
     (case SplitC (CHR ''='') (TrimSpace arg) of
        [k, v] \<Rightarrow> map_option (Cons (k, v)) (parse_pairs args)
      | _ \<Rightarrow> None)"

definition core_site_properties :: "string \<times> string \<Rightarrow> string \<Rightarrow> property list \<Rightarrow> property list" where
  "core_site_properties c region args =
     [(''fs.cosn.impl'', ''org.apache.hadoop.fs.CosFileSystem''), (''fs.cosn.userinfo.secretId'', fst c),
      (''fs.cosn.userinfo.secretKey'', snd c), (''fs.cosn.bucket.region'', region)] @ args @
     (if ''fs.cosn.read.ahead.queue.size'' \<in> set (map fst args) then [] else [(''fs.cosn.read.ahead.queue.size'', ''16'')]) @
     (if ''fs.cosn.upload_thread_pool'' \<in> set (map fst args) then [] else [(''fs.cosn.upload_thread_pool'', ''32'')])"

definition goosefs_path :: "string \<Rightarrow> string \<Rightarrow> string" where
  "goosefs_path podUid name = Join [''/etc/csi-cos/goosefs-lite'', podUid, name] ''/''"

definition createCoreSiteXml :: "cos_env \<Rightarrow> string \<Rightarrow> string \<Rightarrow> string \<Rightarrow> (string \<times> string) list \<Rightarrow> string host_action" where
  "createCoreSiteXml env podUid cosUrl coreSite secrets =
     (case (getSecretCredential secrets, getRegionFromUrl cosUrl,
            if coreSite = [] then Some [] else parse_pairs (SplitC (CHR '','') coreSite)) of
        (Inr c, Inr region, Some args) \<Rightarrow>
          (let coreSiteXmlPath = goosefs_path podUid ''core-site.xml'' in
           andThen (map_error wrap_msg (cos_WriteFile env coreSiteXmlPath (MarshalConfiguration (core_site_properties c region args))))
             (\<lambda>_. ret coreSiteXmlPath))
      | _ \<Rightarrow> fail PlainMsg)"

section \<open>goosefs-lite.properties\<close>

text \<open>\<open>viper\<close> keeps what was set for the life of the process, other volumes' properties included.\<close>

fun viper_sets :: "host_hist \<Rightarrow> (string \<times> string) list" where
  "viper_sets [] = []"
| "viper_sets (SetProperty k v # h) = viper_sets h @ [(k, v)]"
| "viper_sets (_ # h) = viper_sets h"

definition set_property :: "string \<Rightarrow> unit host_action" where
  "set_property arg =
     (case SplitC (CHR ''='') (TrimSpace arg) of
        [k, v] \<Rightarrow> ask (SetProperty k v) (\<lambda>h. ())
      | _ \<Rightarrow> fail PlainMsg)"

definition WriteConfigAs :: "cos_env \<Rightarrow> string \<Rightarrow> unit host_action" where
  "WriteConfigAs env file = (\<lambda>h.
     call Plain (WriteFile file (viper_text env (viper_sets h))) (\<lambda>h. on_WriteFile (cos_host env) h file) h)"

definition createGoosefsLiteProperties :: "cos_env \<Rightarrow> string \<Rightarrow> string \<Rightarrow> string host_action" where
  "createGoosefsLiteProperties env podUid goosefsLite =
     (let file = goosefs_path podUid ''goosefs-lite.properties'' in
      andThen (if goosefsLite = [] then ret () else for_each set_property (SplitC (CHR '','') goosefsLite)) (\<lambda>_.
      andThen (call (\<lambda>_. PlainMsg) (MkdirAll (PathDir file)) (\<lambda>h. on_MkdirAll (cos_host env) h (PathDir file))) (\<lambda>_.
      andThen (map_error wrap_msg (WriteConfigAs env file)) (\<lambda>_. ret file))))"

definition createGoosefsLiteConfigFiles ::
  "cos_env \<Rightarrow> string \<Rightarrow> string \<Rightarrow> string \<Rightarrow> string \<Rightarrow> (string \<times> string) list \<Rightarrow> (string \<times> string) host_action" where
  "createGoosefsLiteConfigFiles env podUid cosUrl coreSite goosefsLite secrets =
     andThen (map_error wrap_msg (createCoreSiteXml env podUid cosUrl coreSite secrets)) (\<lambda>coreSiteXmlPath.
     andThen (map_error wrap_msg (createGoosefsLiteProperties env podUid goosefsLite)) (\<lambda>goosefsLitePropertiesPath.
       ret (coreSiteXmlPath, goosefsLitePropertiesPath)))"

section \<open>The pod of a target path\<close>

text \<open>The element after the first \<open>pods\<close>; there is none when \<open>pods\<close> is the last.\<close>

fun pod_of :: "string list \<Rightarrow> go_error + string" where
  "pod_of [] = Inr []"
| "pod_of (v # dirs) =
     (if v = ''pods'' then (case dirs of [] \<Rightarrow> Inl GoPanic | d # _ \<Rightarrow> Inr d) else pod_of dirs)"

definition getPodUidFromTargetPath :: "string \<Rightarrow> go_error + string" where
  "getPodUidFromTargetPath targetPath = pod_of (SplitC (CHR ''/'') targetPath)"

end
