(* ===== verification/CosInterface.thy ===== *)
theory CosInterface imports Host begin

text \<open>
  What the COS node and its launcher agree on: the responses, and the contract of the three routes
  that the node relies on, as a locale.
\<close>

section \<open>Responses\<close>

record http_response =
  StatusCode :: nat
  respBody :: map_text

type_synonym launcher_client = "string \<Rightarrow> (string \<times> string) list \<Rightarrow> http_response host_action"

abbreviation "SocketPath \<equiv> ''/etc/csi-cos/cosfs.sock''"
abbreviation "CosfsPasswdPrefix \<equiv> ''-opasswd_file=''"
abbreviation "StatusOK \<equiv> 200 :: nat"
abbreviation "StatusBadRequest \<equiv> 400 :: nat"
abbreviation "StatusInternalServerError \<equiv> 500 :: nat"

section \<open>What a history shows\<close>

text \<open>A command that was run and succeeded.\<close>

definition ran :: "host_env \<Rightarrow> string \<Rightarrow> host_hist \<Rightarrow> bool" where
  "ran env cmd h \<longleftrightarrow> (\<exists>h0. suffix (Exec ''sh'' [''-c'', cmd] # h0) h \<and> fst (on_Exec env h0 ''sh'' [''-c'', cmd]) = None)"

lemma ran_mono: "ran env cmd h \<Longrightarrow> suffix h h' \<Longrightarrow> ran env cmd h'"
  unfolding ran_def by (blast intro: suffix_order.trans)

text \<open>A test of the path that gave \<open>answer\<close>.\<close>

definition tested :: "host_env \<Rightarrow> string \<Rightarrow> bool \<times> ext_err option \<Rightarrow> host_hist \<Rightarrow> bool" where
  "tested env p answer h \<longleftrightarrow> (\<exists>h0. suffix (NotMountPoint p # h0) h \<and> on_NotMountPoint env h0 p = answer)"

lemma tested_mono: "tested env p a h \<Longrightarrow> suffix h h' \<Longrightarrow> tested env p a h'"
  unfolding tested_def by (blast intro: suffix_order.trans)

lemma testedI: "on_NotMountPoint env h0 p = a \<Longrightarrow> suffix (NotMountPoint p # h0) h \<Longrightarrow> tested env p a h"
  by (auto simp: tested_def)

section \<open>The contract\<close>

text \<open>
  \<open>create\<close>: an answer that says mounted comes from a test that said so. \<open>mount\<close>: success means that
  the command ran, and that the directories of the credential files it names were removed after it.
  \<open>umount\<close>: success means that the path, the last word of the command, was not mounted or that the
  command ran.
\<close>

locale launcher =
  fixes env :: host_env and post :: launcher_client
  assumes create: "post ''/create'' [(''targetPath'', p)] h = (Inr r, h') \<Longrightarrow> StatusCode r = StatusOK \<Longrightarrow>
      respBody r = StringMap m \<Longrightarrow> map_of m ''isMounted'' = Some v \<Longrightarrow> ParseBool v = Some True \<Longrightarrow>
      tested env p (False, None) h'"
    and mount: "post ''/mount'' [(''command'', cmd)] h = (Inr r, h') \<Longrightarrow> StatusCode r = StatusOK \<Longrightarrow> ran env cmd h'"
    and mount_cleans: "post ''/mount'' [(''command'', cmd)] h = (Inr r, h') \<Longrightarrow> StatusCode r = StatusOK \<Longrightarrow>
      SplitC (CHR '' '') cmd = ''cosfs'' # args \<Longrightarrow> CosfsPasswdPrefix @ name \<in> set args \<Longrightarrow>
      \<exists>h0. suffix (RemoveAll (PathDir name) # h0) h' \<and> ran env cmd h0"
    and umount: "post ''/umount'' [(''command'', cmd)] h = (Inr r, h') \<Longrightarrow> StatusCode r = StatusOK \<Longrightarrow>
      tested env (last (SplitC (CHR '' '') cmd)) (True, None) h' \<or> ran env cmd h'"
    and extends: "post route body h = (x, h') \<Longrightarrow> suffix h h'"

end
