(* ===== verification/CosNode.thy ===== *)
theory CosNode imports CosConfig CosInterface begin

text \<open>
  The COS node (\<open>driver/cosfs/node.go\<close>, \<open>mount.go\<close>, \<open>util.go\<close>): it writes the credentials of a volume and asks
  the launcher to mount and unmount. The client of the launcher, \<open>post\<close>, is an argument, so the
  handlers can be composed with the launcher or with any other server.
\<close>

section \<open>Options\<close>

record cosfsOptions =
  URL :: string
  Bucket :: string
  Path :: string
  Mounter :: string
  DebugLevel :: string
  AdditionalArgs :: string
  CoreSite :: string
  GoosefsLite :: string

definition no_cosfs_options :: cosfsOptions where
  "no_cosfs_options =
     \<lparr>URL = [], Bucket = [], Path = [], Mounter = [], DebugLevel = [], AdditionalArgs = [], CoreSite = [], GoosefsLite = []\<rparr>"

abbreviation "MounterCosfs \<equiv> ''cosfs''"
abbreviation "MounterGoosefsLite \<equiv> ''goosefs-lite''"

definition cosfs_option :: "cosfsOptions \<Rightarrow> string \<times> string \<Rightarrow> cosfsOptions" where
  "cosfs_option options kv =
     (let k = ToLower (fst kv); v = snd kv in
      if k = ''url'' then options\<lparr>URL := v\<rparr>
      else if k = ''bucket'' then options\<lparr>Bucket := v\<rparr>
      else if k = ''path'' then options\<lparr>Path := v\<rparr>
      else if k = ''mounter'' then options\<lparr>Mounter := v\<rparr>
      else if k = ''dbglevel'' then options\<lparr>DebugLevel := v\<rparr>
      else if k = ''additional_args'' then options\<lparr>AdditionalArgs := v\<rparr>
      else if k = ''core_site'' then options\<lparr>CoreSite := v\<rparr>
      else if k = ''goosefs_lite'' then options\<lparr>GoosefsLite := v\<rparr>
      else options)"

definition cosfs_defaults :: "cosfsOptions \<Rightarrow> cosfsOptions" where
  "cosfs_defaults options =
     (let options = (if Mounter options = [] then options\<lparr>Mounter := MounterCosfs\<rparr> else options)
      in if Mounter options = MounterCosfs \<and> DebugLevel options = [] then options\<lparr>DebugLevel := ''err''\<rparr> else options)"

definition validateCosfsOptions :: "string \<Rightarrow> cosfsOptions \<Rightarrow> bool" where
  "validateCosfsOptions arch options \<longleftrightarrow>
     URL options \<noteq> [] \<and> Bucket options \<noteq> [] \<and>
     (Mounter options = MounterCosfs \<or> Mounter options = MounterGoosefsLite) \<and>
     \<not> (Mounter options = MounterGoosefsLite \<and> arch \<noteq> ''amd64'')"

definition parseCosfsOptions :: "string \<Rightarrow> (string \<times> string) list \<Rightarrow> go_error + cosfsOptions" where
  "parseCosfsOptions arch attributes =
     (let options = cosfs_defaults (foldl cosfs_option no_cosfs_options attributes)
      in if validateCosfsOptions arch options then Inr options else Inl PlainMsg)"

section \<open>Requests to the launcher\<close>

definition cos_createMountPoint :: "launcher_client \<Rightarrow> string \<Rightarrow> bool host_action" where
  "cos_createMountPoint post targetPath =
     andThen (post ''/create'' [(''targetPath'', targetPath)]) (\<lambda>response.
       if StatusCode response \<noteq> StatusOK then fail PlainMsg
       else case respBody response of
         BadMap \<Rightarrow> fail PlainMsg
       | NullMap \<Rightarrow> fail PlainMsg
       | StringMap m \<Rightarrow>
           (case ParseBool (case map_of m ''isMounted'' of None \<Rightarrow> [] | Some v \<Rightarrow> v) of
              None \<Rightarrow> fail PlainMsg
            | Some isMounted \<Rightarrow> ret isMounted))"

definition cos_mount :: "launcher_client \<Rightarrow> (string \<times> string) list \<Rightarrow> unit host_action" where
  "cos_mount post cmd =
     andThen (post ''/mount'' cmd) (\<lambda>response. check (StatusCode response = StatusOK) PlainMsg)"

definition cos_umount :: "launcher_client \<Rightarrow> string \<Rightarrow> unit host_action" where
  "cos_umount post mountPoint =
     andThen (post ''/umount'' [(''command'', ''umount '' @ Join [''-l'', mountPoint] '' '')])
       (\<lambda>response. check (StatusCode response = StatusOK) PlainMsg)"

definition createCosfsMountCmd :: "string \<Rightarrow> string \<Rightarrow> cosfsOptions \<Rightarrow> (string \<times> string) list" where
  "createCosfsMountCmd mountPoint credentialFilePath options =
     (let bucketOrWithSubDir = (if Path options \<noteq> [] then Bucket options @ '':'' @ Path options else Bucket options);
          args = [bucketOrWithSubDir, mountPoint, ''-ourl='' @ URL options, ''-odbglevel='' @ DebugLevel options,
                  ''-opasswd_file='' @ credentialFilePath] @
                 (if AdditionalArgs options \<noteq> [] then [AdditionalArgs options] else [])
      in [(''command'', ''cosfs '' @ Join args '' '')])"

definition createGoosefsLiteMountCmd :: "string \<Rightarrow> string \<Rightarrow> string \<Rightarrow> cosfsOptions \<Rightarrow> (string \<times> string) list" where
  "createGoosefsLiteMountCmd mountPoint coreSiteXmlPath goosefsLitePropertiesPath options =
     (let args = [''-c '' @ coreSiteXmlPath, ''-g '' @ goosefsLitePropertiesPath, mountPoint,
                  ''cosn://'' @ Bucket options @ Path options]
      in [(''command'', ''/goosefs-lite/bin/goosefs-lite mount '' @ Join args '' '')])"

section \<open>The handlers\<close>

record cos_publish_request =
  cp_HasCapability :: bool
  cp_VolumeId :: string
  cp_TargetPath :: string
  cp_VolumeContext :: "(string \<times> string) list"
  cp_Secrets :: "(string \<times> string) list"

definition validateNodePublishVolumeRequest :: "cos_publish_request \<Rightarrow> bool" where
  "validateNodePublishVolumeRequest req \<longleftrightarrow> cp_HasCapability req \<and> cp_VolumeId req \<noteq> [] \<and> cp_TargetPath req \<noteq> []"

definition cos_publish_cosfs :: "cos_env \<Rightarrow> launcher_client \<Rightarrow> cos_publish_request \<Rightarrow> string \<Rightarrow> cosfsOptions \<Rightarrow> unit host_action" where
  "cos_publish_cosfs env post req podUid options =
     andThen (createCosfsCredentialFile env (cp_VolumeId req) (Bucket options) podUid (cp_Secrets req)) (\<lambda>credFilePath.
       cos_mount post (createCosfsMountCmd (cp_TargetPath req) credFilePath options))"

definition cos_publish_goosefs :: "cos_env \<Rightarrow> launcher_client \<Rightarrow> cos_publish_request \<Rightarrow> string \<Rightarrow> cosfsOptions \<Rightarrow> unit host_action" where
  "cos_publish_goosefs env post req podUid options =
     andThen (createGoosefsLiteConfigFiles env podUid (URL options) (CoreSite options) (GoosefsLite options) (cp_Secrets req))
       (\<lambda>(coreSiteXmlPath, goosefsLitePropertiesPath).
         cos_mount post (createGoosefsLiteMountCmd (cp_TargetPath req) coreSiteXmlPath goosefsLitePropertiesPath options))"

definition cos_NodePublishVolume :: "cos_env \<Rightarrow> launcher_client \<Rightarrow> cos_publish_request \<Rightarrow> unit host_action" where
  "cos_NodePublishVolume env post req =
     (if \<not> validateNodePublishVolumeRequest req then fail (Status InvalidArgument)
      else case parseCosfsOptions (GOARCH env) (cp_VolumeContext req) of
        Inl err \<Rightarrow> fail (Status InvalidArgument)
      | Inr options \<Rightarrow>
          andThen (map_error (as_status Internal) (cos_createMountPoint post (cp_TargetPath req))) (\<lambda>isMnt.
            if isMnt then ret ()
            else case getPodUidFromTargetPath (cp_TargetPath req) of
              Inl e \<Rightarrow> fail e
            | Inr podUid \<Rightarrow>
                if podUid = [] then fail (Status InvalidArgument)
                else if Mounter options = MounterCosfs then
                  map_error (as_status Internal) (cos_publish_cosfs env post req podUid options)
                else if Mounter options = MounterGoosefsLite then
                  map_error (as_status Internal) (cos_publish_goosefs env post req podUid options)
                else ret ()))"

definition cos_NodeUnpublishVolume :: "launcher_client \<Rightarrow> string \<Rightarrow> string \<Rightarrow> unit host_action" where
  "cos_NodeUnpublishVolume post volumeId targetPath =
     (if volumeId = [] \<or> targetPath = [] then fail (Status InvalidArgument)
      else map_error (as_status Internal) (cos_umount post targetPath))"

datatype cos_unimplemented_call = CosNodeStage | CosNodeUnstage | CosNodeExpand

definition cos_node_unimplemented :: "cos_unimplemented_call \<Rightarrow> 'a host_action" where
  "cos_node_unimplemented c = fail (Status Unimplemented)"

section \<open>The node against the contract\<close>

lemma ParseBool_Nil [simp]: "ParseBool [] = None"
  by (simp add: ParseBool_def)

context launcher
begin

lemma create_mounted: "cos_createMountPoint post p h = (Inr True, h') \<Longrightarrow> tested env p (False, None) h'"
  unfolding cos_createMountPoint_def
  by (elim andThen_InrE) (auto split: if_splits map_text.splits option.splits intro: create)

lemma mount_ran: "cos_mount post [(''command'', cmd)] h = (Inr (), h') \<Longrightarrow> ran env cmd h'"
  unfolding cos_mount_def by (elim andThen_InrE) (auto simp: check_def split: if_splits intro: mount)

lemma cos_mount_extends: "cos_mount post cmd h = (Inr (), h') \<Longrightarrow> suffix h h'"
  unfolding cos_mount_def by (elim andThen_InrE) (auto simp: check_def split: if_splits intro: extends)

lemma mount_removes:
  assumes "cos_mount post [(''command'', cmd)] h = (Inr (), h')"
    and "SplitC (CHR '' '') cmd = ''cosfs'' # args" "CosfsPasswdPrefix @ name \<in> set args"
  shows "\<exists>h0. suffix (RemoveAll (PathDir name) # h0) h' \<and> ran env cmd h0"
  using assms(1) unfolding cos_mount_def
  by (elim andThen_InrE) (auto simp: check_def split: if_splits intro: mount_cleans assms(2,3))

lemma umount_gone:
  assumes "cos_umount post p h = (Inr (), h')" "CHR '' '' \<notin> set p"
  shows "tested env p (True, None) h' \<or> ran env (''umount -l '' @ p) h'"
proof -
  have "SplitC (CHR '' '') (''umount -l '' @ p) = [''umount'', ''-l'', p]"
    using SplitC_Join [of "[''umount'', ''-l'', p]" "CHR '' ''"] assms(2) by (simp add: Join_Cons)
  then have "last (SplitC (CHR '' '') (''umount -l '' @ p)) = p" by simp
  with assms(1) umount [of "''umount -l '' @ p" h _ h'] show ?thesis
    unfolding cos_umount_def by (elim andThen_InrE) (auto simp: check_def Join_Cons split: if_splits)
qed

end

end
