(* ===== verification/CosLauncher.thy ===== *)
theory CosLauncher imports CosNode begin

text \<open>
  The COS launcher (\<open>cmd/cosfs/launcher/launcher.go\<close>): a server on a socket of the host that makes
  mount points, runs mount and unmount commands for the COS node, and removes the credentials of a
  mount once it is done. A request body is what \<open>json.Unmarshal\<close> makes of it.
\<close>

section \<open>Requests and responses\<close>

type_synonym request_body = "ext_err + map_text"

definition generateHttpResponse :: "string \<Rightarrow> nat \<Rightarrow> (string \<times> string) list \<Rightarrow> http_response" where
  "generateHttpResponse result statusCode extra =
     \<lparr>StatusCode = statusCode,
      respBody = StringMap (foldl (\<lambda>res kv. AList.update (fst kv) (snd kv) res) [(''result'', result)] extra)\<rparr>"

text \<open>A failure with its message; the text of an outside error in a message is left out.\<close>

definition failure :: "nat \<Rightarrow> string \<Rightarrow> http_response" where
  "failure statusCode msg = generateHttpResponse ''failure'' statusCode [(''errmsg'', msg)]"

text \<open>\<open>Inl\<close>: the response that was written already; \<open>Inr None\<close>: the nil map of \<open>null\<close>.\<close>

definition getRequestBodyMap :: "request_body \<Rightarrow> http_response + (string \<times> string) list option" where
  "getRequestBodyMap r =
     (case r of
        Inl err \<Rightarrow> Inl (failure StatusInternalServerError ''read request body failed'')
      | Inr BadMap \<Rightarrow> Inl (failure StatusInternalServerError ''unmarshal request body failed'')
      | Inr NullMap \<Rightarrow> Inr None
      | Inr (StringMap bodyMap) \<Rightarrow> Inr (Some bodyMap))"

text \<open>
  How all handlers begin. A handler that returns without a response leaves \<open>net/http\<close> to send
  an empty one with status 200.
\<close>

definition with_body :: "request_body \<Rightarrow> string \<Rightarrow> (string \<Rightarrow> http_response host_action) \<Rightarrow> http_response host_action" where
  "with_body r field f =
     (case getRequestBodyMap r of
        Inl response \<Rightarrow> ret response
      | Inr None \<Rightarrow> ret \<lparr>StatusCode = StatusOK, respBody = BadMap\<rparr>
      | Inr (Some bodyMap) \<Rightarrow>
          (case map_of bodyMap field of
             None \<Rightarrow> ret (failure StatusBadRequest (''no field `'' @ field @ ''` in request body''))
           | Some v \<Rightarrow> f v))"

definition execCmd :: "host_env \<Rightarrow> string \<Rightarrow> unit host_action" where
  "execCmd env cmd =
     andThen (ask (Exec ''sh'' [''-c'', cmd]) (\<lambda>h. on_Exec env h ''sh'' [''-c'', cmd])) (\<lambda>(err, output).
       case err of Some e \<Rightarrow> fail PlainMsg | None \<Rightarrow> ret ())"

section \<open>The handlers\<close>

definition mounted_response :: "host_env \<Rightarrow> string \<Rightarrow> http_response host_action" where
  "mounted_response env targetPath =
     andThen (attempt (isMountPoint env targetPath)) (\<lambda>isMounted.
       case isMounted of
         Inl err \<Rightarrow> ret (failure StatusInternalServerError ''check target path mounted or not failed'')
       | Inr b \<Rightarrow> ret (generateHttpResponse ''success'' StatusOK [(''isMounted'', if b then ''true'' else ''false'')]))"

definition createHandler :: "host_env \<Rightarrow> request_body \<Rightarrow> http_response host_action" where
  "createHandler env r = with_body r ''targetPath'' (\<lambda>targetPath.
     andThen (isFileExisted env targetPath) (\<lambda>existed.
     andThen (if existed then ret (Inr ())
              else attempt (call Plain (MkdirAll targetPath) (\<lambda>h. on_MkdirAll env h targetPath))) (\<lambda>made.
       case made of
         Inl err \<Rightarrow> ret (failure StatusInternalServerError ''create target path failed'')
       | Inr _ \<Rightarrow> mounted_response env targetPath)))"

text \<open>Errors of \<open>RemoveAll\<close> are only logged.\<close>

definition remove_dir :: "host_env \<Rightarrow> string \<Rightarrow> unit host_action" where
  "remove_dir env path = andThen (ask (RemoveAll path) (\<lambda>h. on_RemoveAll env h path)) (\<lambda>err. ret ())"

definition remove_passwd :: "host_env \<Rightarrow> string \<Rightarrow> unit host_action" where
  "remove_passwd env v =
     (if Contains v CosfsPasswdPrefix then remove_dir env (PathDir (TrimPrefix v CosfsPasswdPrefix)) else ret ())"

text \<open>What follows a \<open>-c\<close>: at the end, the code indexes past the slice.\<close>

definition remove_config_of :: "host_env \<Rightarrow> string list \<Rightarrow> unit host_action" where
  "remove_config_of env rest = (case rest of [] \<Rightarrow> fail GoPanic | next # _ \<Rightarrow> remove_dir env (PathDir next))"

fun remove_goosefs :: "host_env \<Rightarrow> string list \<Rightarrow> unit host_action" where
  "remove_goosefs env [] = ret ()"
| "remove_goosefs env (v # cmds) =
     andThen (if v = ''-c'' then remove_config_of env cmds else ret ()) (\<lambda>_. remove_goosefs env cmds)"

definition remove_configs :: "host_env \<Rightarrow> string list \<Rightarrow> unit host_action" where
  "remove_configs env cmds =
     (if hd cmds = ''cosfs'' then for_each (remove_passwd env) cmds
      else if hd cmds = ''/goosefs-lite/bin/goosefs-lite'' then remove_goosefs env cmds
      else ret ())"

definition mountHandler :: "host_env \<Rightarrow> request_body \<Rightarrow> http_response host_action" where
  "mountHandler env r = with_body r ''command'' (\<lambda>cmd.
     andThen (attempt (execCmd env cmd)) (\<lambda>result.
       case result of
         Inl err \<Rightarrow> ret (failure StatusInternalServerError (''exec command '' @ cmd @ '' failed, ''))
       | Inr _ \<Rightarrow>
           andThen (remove_configs env (SplitC (CHR '' '') cmd)) (\<lambda>_.
             ret (generateHttpResponse ''success'' StatusOK []))))"

definition umountHandler :: "host_env \<Rightarrow> request_body \<Rightarrow> http_response host_action" where
  "umountHandler env r = with_body r ''command'' (\<lambda>cmd.
     (let items = SplitC (CHR '' '') cmd in
      andThen (attempt (isMountPoint env (last items))) (\<lambda>probe.
        let isMounted = (case probe of
              Inr b \<Rightarrow> Some b
            | Inl err \<Rightarrow> if Contains (error_text err) ''endpoint is not connected'' then Some True else None)
        in case isMounted of
             None \<Rightarrow> ret (failure StatusInternalServerError ''check target path mounted or not failed'')
           | Some False \<Rightarrow> ret (generateHttpResponse ''success'' StatusOK [])
           | Some True \<Rightarrow>
               andThen (attempt (execCmd env cmd)) (\<lambda>result.
                 case result of
                   Inl err \<Rightarrow> ret (failure StatusInternalServerError ''exec command failed, '')
                 | Inr _ \<Rightarrow> ret (generateHttpResponse ''success'' StatusOK [])))))"

section \<open>The server\<close>

text \<open>
  The routes. A panic of a handler ends its connection, which the client sees as an error of its
  own. The socket can refuse the connection (\<open>Dial\<close>), and the answer can get lost (\<open>ReadFile\<close> of the
  socket).
\<close>

definition launcher_route :: "host_env \<Rightarrow> string \<Rightarrow> request_body \<Rightarrow> http_response host_action" where
  "launcher_route env path r =
     (if path = ''/create'' then createHandler env r
      else if path = ''/mount'' then mountHandler env r
      else if path = ''/umount'' then umountHandler env r
      else ret \<lparr>StatusCode = 404, respBody = BadMap\<rparr>)"

definition launcher_post :: "host_env \<Rightarrow> string \<Rightarrow> (string \<times> string) list \<Rightarrow> http_response host_action" where
  "launcher_post env path body =
     andThen (call Plain (Dial SocketPath) (\<lambda>h. on_Dial env h SocketPath)) (\<lambda>_.
     andThen (map_error (\<lambda>e. if e = GoPanic then Plain (ExtErr EOther ''EOF'') else e) (launcher_route env path (Inr (StringMap body)))) (\<lambda>response.
     andThen (fetch Plain (ReadFile SocketPath) (\<lambda>h. on_ReadFile env h SocketPath)) (\<lambda>_.
       ret response)))"

text \<open>How \<open>main\<close> makes the socket free: a failure ends the process.\<close>

definition launcher_main :: "host_env \<Rightarrow> unit host_action" where
  "launcher_main env =
     andThen (isFileExisted env SocketPath) (\<lambda>existed.
       if existed then call (\<lambda>_. GoExit) (RemoveFile SocketPath) (\<lambda>h. on_RemoveFile env h SocketPath) else ret ())"

section \<open>What the handlers do\<close>

lemma execCmd_cases:
  assumes "execCmd env cmd h = (r, h')"
  shows "h' = Exec ''sh'' [''-c'', cmd] # h \<and> (r = Inr () \<longleftrightarrow> fst (on_Exec env h ''sh'' [''-c'', cmd]) = None)"
  using assms by (auto simp: execCmd_def andThen_def ask_def split: prod.splits option.splits)

lemma execCmd_ran: "execCmd env cmd h = (Inr (), h') \<Longrightarrow> ran env cmd h'"
  using execCmd_cases [of env cmd h "Inr ()" h'] by (auto simp: ran_def)

lemma only_remove_dir [hist_intro]: "P (RemoveAll p) \<Longrightarrow> only P (remove_dir env p)"
  unfolding remove_dir_def by (auto intro!: hist_intro)

lemma only_remove_passwd [hist_intro]: "(\<And>p. P (RemoveAll p)) \<Longrightarrow> only P (remove_passwd env v)"
  unfolding remove_passwd_def by (auto intro!: hist_intro)

lemma only_remove_config_of [hist_intro]: "(\<And>p. P (RemoveAll p)) \<Longrightarrow> only P (remove_config_of env cmds)"
  unfolding remove_config_of_def by (cases cmds) (auto intro!: hist_intro)

lemma only_remove_goosefs [hist_intro]: "(\<And>p. P (RemoveAll p)) \<Longrightarrow> only P (remove_goosefs env cmds)"
  by (induction cmds) (auto intro!: hist_intro)

lemma only_remove_configs [hist_intro]: "(\<And>p. P (RemoveAll p)) \<Longrightarrow> only P (remove_configs env cmds)"
  unfolding remove_configs_def by (auto intro!: hist_intro)

lemma only_suffix: "m h = (r, h') \<Longrightarrow> only P m \<Longrightarrow> suffix h h'"
  by (auto simp: suffix_def dest!: onlyD)

lemma for_each_remove_passwd:
  assumes "for_each (remove_passwd env) vs h = (r, h')" "CosfsPasswdPrefix @ file \<in> set vs"
  shows "\<exists>h0. suffix (RemoveAll (PathDir file) # h0) h' \<and> suffix h h0"
  using assms
proof (induction vs arbitrary: h)
  case (Cons v vs)
  obtain h1 where v: "remove_passwd env v h = (Inr (), h1)"
    by (cases "Contains v CosfsPasswdPrefix") (auto simp: remove_passwd_def remove_dir_def andThen_def ask_def)
  with Cons.prems(1) have rest: "for_each (remove_passwd env) vs h1 = (r, h')" by simp
  have suf: "suffix h h1"
    using v by (rule only_suffix [where P = "\<lambda>_. True"]) (auto intro!: hist_intro)
  show ?case
  proof (cases "v = CosfsPasswdPrefix @ file")
    case True
    then have "Contains v CosfsPasswdPrefix" using Contains_iff by (metis append_Nil)
    moreover have "TrimPrefix v CosfsPasswdPrefix = file"
      unfolding True by (rule TrimPrefix_append)
    ultimately have "h1 = RemoveAll (PathDir file) # h"
      using v by (auto simp: remove_passwd_def remove_dir_def andThen_def ask_def)
    moreover have "suffix h1 h'"
      using rest by (rule only_suffix [where P = "\<lambda>_. True"]) (auto intro!: hist_intro)
    ultimately show ?thesis by blast
  next
    case False
    with Cons.prems(2) have "CosfsPasswdPrefix @ file \<in> set vs" by auto
    with Cons.IH rest suf show ?thesis by (meson suffix_order.trans)
  qed
qed simp

lemma mountHandler_OK:
  assumes "mountHandler env (Inr (StringMap [(''command'', cmd)])) h = (Inr r, h')" "StatusCode r = StatusOK"
  shows "\<exists>h1. ran env cmd h1 \<and> suffix h1 h' \<and> remove_configs env (SplitC (CHR '' '') cmd) h1 = (Inr (), h')"
proof -
  obtain x h1 where x: "execCmd env cmd h = (x, h1)" by fastforce
  from assms x have r: "x = Inr ()" "remove_configs env (SplitC (CHR '' '') cmd) h1 = (Inr (), h')"
    by (cases x; auto simp: mountHandler_def with_body_def getRequestBodyMap_def failure_def generateHttpResponse_def
        elim!: andThen_InrE)+
  have "suffix h1 h'" using r(2) by (rule only_suffix [where P = "\<lambda>_. True"]) (auto intro!: hist_intro)
  with x r execCmd_ran show ?thesis by blast
qed

lemma failure_status [simp]: "StatusCode (failure c m) = c"
  by (simp add: failure_def generateHttpResponse_def)

lemma with_body_map [simp]: "with_body (Inr (StringMap [(field, v)])) field f = f v"
  by (simp add: with_body_def getRequestBodyMap_def)

lemma mounted_response_OK:
  assumes "mounted_response env p h = (Inr r, h')" "StatusCode r = StatusOK"
  shows "\<exists>b. respBody r = StringMap [(''result'', ''success''), (''isMounted'', if b then ''true'' else ''false'')] \<and>
    h' = NotMountPoint p # h \<and> on_NotMountPoint env h p = (\<not> b, None)"
proof -
  obtain probe h1 where p: "isMountPoint env p h = (probe, h1)" by fastforce
  show ?thesis
  proof (cases probe)
    case (Inl e)
    with assms(1) p have "r = failure StatusInternalServerError ''check target path mounted or not failed''"
      by (simp add: mounted_response_def)
    with assms(2) show ?thesis by simp
  next
    case (Inr b)
    with assms p have r: "r = generateHttpResponse ''success'' StatusOK [(''isMounted'', if b then ''true'' else ''false'')]"
      and h': "h' = h1" by (simp_all add: mounted_response_def)
    from isMountPoint_InrD [of env p h b h1] p Inr h' show ?thesis
      by (intro exI [of _ b]) (simp add: r generateHttpResponse_def)
  qed
qed

lemma createHandler_OK:
  assumes "createHandler env (Inr (StringMap [(''targetPath'', p)])) h = (Inr r, h')" "StatusCode r = StatusOK"
  shows "\<exists>b h0. respBody r = StringMap [(''result'', ''success''), (''isMounted'', if b then ''true'' else ''false'')] \<and>
    h' = NotMountPoint p # h0 \<and> on_NotMountPoint env h0 p = (\<not> b, None)"
proof -
  from assms obtain h2 and made :: "go_error + unit" where
    "(case made of Inl err \<Rightarrow> ret (failure StatusInternalServerError ''create target path failed'')
       | Inr _ \<Rightarrow> mounted_response env p) h2 = (Inr r, h')"
    unfolding createHandler_def with_body_map by (elim andThen_InrE) blast
  with assms(2) have "mounted_response env p h2 = (Inr r, h')" by (cases made) auto
  from mounted_response_OK [OF this assms(2)] show ?thesis by blast
qed

lemma umountHandler_OK:
  assumes "umountHandler env (Inr (StringMap [(''command'', cmd)])) h = (Inr r, h')" "StatusCode r = StatusOK"
  shows "tested env (last (SplitC (CHR '' '') cmd)) (True, None) h' \<or> ran env cmd h'"
proof -
  let ?p = "last (SplitC (CHR '' '') cmd)"
  obtain probe h1 where p: "isMountPoint env ?p h = (probe, h1)" by fastforce
  obtain x h2 where x: "execCmd env cmd h1 = (x, h2)" by fastforce
  from assms p x have "(probe = Inr False \<and> h' = h1) \<or> (x = Inr () \<and> h' = h2)"
    by (cases probe; cases x; auto simp: umountHandler_def with_body_def getRequestBodyMap_def failure_def
        generateHttpResponse_def Let_def split: if_splits bool.splits elim!: andThen_InrE)
  with p x show ?thesis by (auto dest!: isMountPoint_InrD execCmd_ran intro: testedI)
qed

lemma only_with_body: "(\<And>v. only P (f v)) \<Longrightarrow> only P (with_body r field f)"
  unfolding with_body_def by (auto intro!: hist_intro split: sum.split option.split)

lemma only_execCmd [hist_intro]: "P (Exec ''sh'' [''-c'', cmd]) \<Longrightarrow> only P (execCmd env cmd)"
  unfolding execCmd_def by (auto intro!: hist_intro split: option.split)

lemma only_mounted_response [hist_intro]: "P (NotMountPoint p) \<Longrightarrow> only P (mounted_response env p)"
  unfolding mounted_response_def by (auto intro!: hist_intro split: sum.split)

lemma only_createHandler: "only (\<lambda>_. True) (createHandler env r)"
  unfolding createHandler_def
  by (intro only_with_body only_andThen) (auto intro!: hist_intro split: sum.split)

lemma only_mountHandler: "only (\<lambda>_. True) (mountHandler env r)"
  unfolding mountHandler_def
  by (intro only_with_body only_andThen) (auto intro!: hist_intro split: sum.split)

lemma only_umountHandler: "only (\<lambda>_. True) (umountHandler env r)"
  unfolding umountHandler_def Let_def
  by (intro only_with_body only_andThen) (auto intro!: hist_intro split: sum.split option.split bool.split)

lemma only_launcher_route: "only (\<lambda>_. True) (launcher_route env path r)"
  unfolding launcher_route_def
  by (auto intro!: hist_intro only_createHandler only_mountHandler only_umountHandler)

section \<open>The launcher keeps the contract\<close>

lemma launcher_post_InrD:
  assumes "launcher_post env path body h = (Inr r, h')"
  shows "\<exists>h2. launcher_route env path (Inr (StringMap body)) (Dial SocketPath # h) = (Inr r, h2) \<and> h' = ReadFile SocketPath # h2"
  using assms unfolding launcher_post_def
  by (auto elim!: andThen_InrE dest!: call_InrD fetch_InrD map_error_InrD)

lemma launcher_post_suffix: "launcher_post env path body h = (r, h') \<Longrightarrow> suffix h h'"
  by (rule only_suffix [where P = "\<lambda>_. True" and m = "launcher_post env path body"])
    (auto simp: launcher_post_def intro!: hist_intro only_launcher_route)

interpretation host_launcher: launcher env "launcher_post env"
proof unfold_locales
  fix p h r h' m v
  assume "launcher_post env ''/create'' [(''targetPath'', p)] h = (Inr r, h')" "StatusCode r = StatusOK"
    and m: "respBody r = StringMap m" "map_of m ''isMounted'' = Some v" "ParseBool v = Some True"
  then obtain h2 where "createHandler env (Inr (StringMap [(''targetPath'', p)])) (Dial SocketPath # h) = (Inr r, h2)"
    and h': "h' = ReadFile SocketPath # h2"
    using launcher_post_InrD by (fastforce simp: launcher_route_def)
  from createHandler_OK [OF this(1) \<open>StatusCode r = StatusOK\<close>] m
  obtain h0 where "h2 = NotMountPoint p # h0" "on_NotMountPoint env h0 p = (False, None)"
    by (auto simp: ParseBool_def split: if_splits)
  moreover from calculation h' have "suffix (NotMountPoint p # h0) h'" by (simp add: suffix_ConsI)
  ultimately show "tested env p (False, None) h'" by (blast intro: testedI)
next
  fix cmd h r h'
  assume "launcher_post env ''/mount'' [(''command'', cmd)] h = (Inr r, h')" "StatusCode r = StatusOK"
  then obtain h2 where "mountHandler env (Inr (StringMap [(''command'', cmd)])) (Dial SocketPath # h) = (Inr r, h2)"
    and h': "h' = ReadFile SocketPath # h2"
    using launcher_post_InrD by (fastforce simp: launcher_route_def)
  from mountHandler_OK [OF this(1) \<open>StatusCode r = StatusOK\<close>] obtain h1
    where h1: "ran env cmd h1" "suffix h1 h2" "remove_configs env (SplitC (CHR '' '') cmd) h1 = (Inr (), h2)" by blast
  with h' show "ran env cmd h'" by (auto intro!: ran_mono [OF h1(1)] suffix_ConsI)
  fix args f
  assume "SplitC (CHR '' '') cmd = ''cosfs'' # args" "CosfsPasswdPrefix @ f \<in> set args"
  with h1(3) have "for_each (remove_passwd env) (''cosfs'' # args) h1 = (Inr (), h2)"
    "CosfsPasswdPrefix @ f \<in> set (''cosfs'' # args)"
    by (simp_all add: remove_configs_def)
  from for_each_remove_passwd [OF this] obtain h0 where "suffix (RemoveAll (PathDir f) # h0) h2" "suffix h1 h0" by blast
  with h' ran_mono [OF h1(1)] show "\<exists>h0. suffix (RemoveAll (PathDir f) # h0) h' \<and> ran env cmd h0"
    by (blast intro: suffix_ConsI)
next
  fix cmd h r h'
  assume "launcher_post env ''/umount'' [(''command'', cmd)] h = (Inr r, h')" "StatusCode r = StatusOK"
  then obtain h2 where "umountHandler env (Inr (StringMap [(''command'', cmd)])) (Dial SocketPath # h) = (Inr r, h2)"
    and h': "h' = ReadFile SocketPath # h2"
    using launcher_post_InrD by (fastforce simp: launcher_route_def)
  from umountHandler_OK [OF this(1) \<open>StatusCode r = StatusOK\<close>] h'
  show "tested env (last (SplitC (CHR '' '') cmd)) (True, None) h' \<or> ran env cmd h'"
    by (auto intro: tested_mono ran_mono suffix_ConsI)
next
  fix route body h x h'
  assume "launcher_post env route body h = (x, h')"
  then show "suffix h h'" by (rule launcher_post_suffix)
qed

end
