(* ===== verification/CosProps.thy ===== *)
theory CosProps imports CosLauncher begin

text \<open>
  The COS node together with its launcher: what a publish and an unpublish that succeed have done on
  the host, what becomes of the credentials, and what \<open>core-site.xml\<close> holds.
\<close>

section \<open>Publishing\<close>

lemma createCosfsCredentialFile_InrD:
  assumes "createCosfsCredentialFile env volID bucket podUid secrets h = (Inr f, h')"
  shows "\<exists>c. getSecretCredential secrets = Inr c \<and> f = cosfs_passwd_file env podUid bucket (cosfs_credential bucket c) \<and>
    ((\<exists>b. on_Stat (cos_host env) h f = Inr b \<and> h' = Stat f # h) \<or> WriteFile (Clean f) (cosfs_credential bucket c @ [CHR 0x0A]) \<in> set h')"
proof -
  obtain c where c: "getSecretCredential secrets = Inr c"
    using assms by (cases "getSecretCredential secrets") (auto simp: createCosfsCredentialFile_def)
  let ?f = "cosfs_passwd_file env podUid bucket (cosfs_credential bucket c)"
  show ?thesis
  proof (cases "on_Stat (cos_host env) h ?f")
    case (Inl e)
    with assms c show ?thesis
      by (auto simp: createCosfsCredentialFile_def Let_def cos_WriteFile_def split: if_splits
          elim!: andThen_InrE dest!: map_error_InrD call_InrD)
  next
    case (Inr b)
    with assms c show ?thesis by (auto simp: createCosfsCredentialFile_def Let_def)
  qed
qed

lemma createGoosefsLiteConfigFiles_InrD:
  assumes "createGoosefsLiteConfigFiles env podUid cosUrl coreSite goosefsLite secrets h = (Inr (x, y), h')"
  shows "x = goosefs_path podUid ''core-site.xml'' \<and> y = goosefs_path podUid ''goosefs-lite.properties''"
proof -
  have "createCoreSiteXml env podUid cosUrl coreSite secrets h1 = (Inr v, h2) \<Longrightarrow> v = goosefs_path podUid ''core-site.xml''" for v h1 h2
    by (auto simp: createCoreSiteXml_def Let_def split: sum.splits option.splits if_splits elim!: andThen_InrE)
  moreover have "createGoosefsLiteProperties env podUid goosefsLite h1 = (Inr v, h2) \<Longrightarrow>
      v = goosefs_path podUid ''goosefs-lite.properties''" for v h1 h2
    by (auto simp: createGoosefsLiteProperties_def Let_def elim!: andThen_InrE)
  ultimately show ?thesis
    using assms unfolding createGoosefsLiteConfigFiles_def by (auto elim!: andThen_InrE dest!: map_error_InrD)
qed

text \<open>The node with the launcher of its host.\<close>

abbreviation publish_on_host :: "cos_env \<Rightarrow> cos_publish_request \<Rightarrow> unit host_action" where
  "publish_on_host env \<equiv> cos_NodePublishVolume env (launcher_post (cos_host env))"

abbreviation unpublish_on_host :: "cos_env \<Rightarrow> string \<Rightarrow> string \<Rightarrow> unit host_action" where
  "unpublish_on_host env \<equiv> cos_NodeUnpublishVolume (launcher_post (cos_host env))"

definition cosfs_command :: "cos_env \<Rightarrow> string \<Rightarrow> string \<Rightarrow> cosfsOptions \<Rightarrow> string \<times> string \<Rightarrow> string" where
  "cosfs_command env target podUid options c =
     snd (hd (createCosfsMountCmd target (cosfs_passwd_file env podUid (Bucket options) (cosfs_credential (Bucket options) c)) options))"

definition goosefs_command :: "string \<Rightarrow> string \<Rightarrow> cosfsOptions \<Rightarrow> string" where
  "goosefs_command target podUid options =
     snd (hd (createGoosefsLiteMountCmd target (goosefs_path podUid ''core-site.xml'')
       (goosefs_path podUid ''goosefs-lite.properties'') options))"

lemma cosfs_cmd: "createCosfsMountCmd t f opts = [(''command'', snd (hd (createCosfsMountCmd t f opts)))]"
  by (simp add: createCosfsMountCmd_def Let_def)

lemma goosefs_cmd: "createGoosefsLiteMountCmd t x y opts = [(''command'', snd (hd (createGoosefsLiteMountCmd t x y opts)))]"
  by (simp add: createGoosefsLiteMountCmd_def Let_def)

text \<open>What happened after the launcher had said that nothing is mounted.\<close>

lemma publish_unfold:
  assumes "publish_on_host env req h = (Inr (), h')"
  obtains options where "parseCosfsOptions (GOARCH env) (cp_VolumeContext req) = Inr options"
      "tested (cos_host env) (cp_TargetPath req) (False, None) h'"
    | options podUid h1 where "parseCosfsOptions (GOARCH env) (cp_VolumeContext req) = Inr options"
      "getPodUidFromTargetPath (cp_TargetPath req) = Inr podUid" "Mounter options = MounterCosfs"
      "cos_publish_cosfs env (launcher_post (cos_host env)) req podUid options h1 = (Inr (), h')"
    | options podUid h1 where "parseCosfsOptions (GOARCH env) (cp_VolumeContext req) = Inr options"
      "getPodUidFromTargetPath (cp_TargetPath req) = Inr podUid" "Mounter options = MounterGoosefsLite"
      "cos_publish_goosefs env (launcher_post (cos_host env)) req podUid options h1 = (Inr (), h')"
proof -
  obtain options where o: "parseCosfsOptions (GOARCH env) (cp_VolumeContext req) = Inr options"
    using assms by (auto simp: cos_NodePublishVolume_def split: if_splits sum.splits)
  then have m: "Mounter options = MounterCosfs \<or> Mounter options = MounterGoosefsLite"
    by (auto simp: parseCosfsOptions_def validateCosfsOptions_def Let_def split: if_splits)
  let ?rest = "\<lambda>isMnt. if isMnt then ret ()
      else case getPodUidFromTargetPath (cp_TargetPath req) of
        Inl e \<Rightarrow> fail e
      | Inr podUid \<Rightarrow>
          if podUid = [] then fail (Status InvalidArgument)
          else if Mounter options = MounterCosfs then
            map_error (as_status Internal) (cos_publish_cosfs env (launcher_post (cos_host env)) req podUid options)
          else if Mounter options = MounterGoosefsLite then
            map_error (as_status Internal) (cos_publish_goosefs env (launcher_post (cos_host env)) req podUid options)
          else ret ()"
  from assms o have "andThen (map_error (as_status Internal)
      (cos_createMountPoint (launcher_post (cos_host env)) (cp_TargetPath req))) ?rest h = (Inr (), h')"
    by (auto simp: cos_NodePublishVolume_def split: if_splits)
  then obtain isMnt h1 where c: "cos_createMountPoint (launcher_post (cos_host env)) (cp_TargetPath req) h = (Inr isMnt, h1)"
    and r: "?rest isMnt h1 = (Inr (), h')"
    by (elim andThen_InrE) (blast dest: map_error_InrD)
  show ?thesis
  proof (cases isMnt)
    case True
    with c r host_launcher.create_mounted o that(1) show ?thesis by auto
  next
    case False
    with r obtain podUid where "getPodUidFromTargetPath (cp_TargetPath req) = Inr podUid"
      by (cases "getPodUidFromTargetPath (cp_TargetPath req)") auto
    with r False o m that(2,3) show ?thesis by (auto split: if_splits dest!: map_error_InrD)
  qed
qed

text \<open>
  C39. A COS publish that succeeds, through the launcher, has either seen the target mounted, or
  the host has run the mount command of the chosen mounter with success: for the target, the bucket
  and the options of the volume, and with the credential of the request's secrets, which lies in the
  directory of the target's pod.
\<close>

theorem cos_publish_mounted:
  assumes "publish_on_host env req h = (Inr (), h')"
  shows "\<exists>options. parseCosfsOptions (GOARCH env) (cp_VolumeContext req) = Inr options \<and>
    (tested (cos_host env) (cp_TargetPath req) (False, None) h' \<or>
     (\<exists>podUid. getPodUidFromTargetPath (cp_TargetPath req) = Inr podUid \<and>
       (if Mounter options = MounterCosfs
        then \<exists>c. getSecretCredential (cp_Secrets req) = Inr c \<and>
          ran (cos_host env) (cosfs_command env (cp_TargetPath req) podUid options c) h'
        else ran (cos_host env) (goosefs_command (cp_TargetPath req) podUid options) h')))"
  using assms
proof (cases rule: publish_unfold)
  case (2 options podUid h1)
  from 2(4) obtain f h2 where f: "createCosfsCredentialFile env (cp_VolumeId req) (Bucket options) podUid (cp_Secrets req) h1 = (Inr f, h2)"
    and m: "cos_mount (launcher_post (cos_host env)) (createCosfsMountCmd (cp_TargetPath req) f options) h2 = (Inr (), h')"
    unfolding cos_publish_cosfs_def by (elim andThen_InrE)
  from m have "cos_mount (launcher_post (cos_host env))
      [(''command'', snd (hd (createCosfsMountCmd (cp_TargetPath req) f options)))] h2 = (Inr (), h')"
    by (subst (asm) cosfs_cmd)
  from host_launcher.mount_ran [OF this] createCosfsCredentialFile_InrD [OF f] 2(1-3)
  show ?thesis unfolding cosfs_command_def by auto
next
  case (3 options podUid h1)
  from 3(4) obtain x y h2 where f: "createGoosefsLiteConfigFiles env podUid (URL options) (CoreSite options) (GoosefsLite options) (cp_Secrets req) h1 = (Inr (x, y), h2)"
    and m: "cos_mount (launcher_post (cos_host env)) (createGoosefsLiteMountCmd (cp_TargetPath req) x y options) h2 = (Inr (), h')"
    unfolding cos_publish_goosefs_def by (elim andThen_InrE) (auto split: prod.splits)
  from m have "cos_mount (launcher_post (cos_host env))
      [(''command'', snd (hd (createGoosefsLiteMountCmd (cp_TargetPath req) x y options)))] h2 = (Inr (), h')"
    by (subst (asm) goosefs_cmd)
  from host_launcher.mount_ran [OF this] createGoosefsLiteConfigFiles_InrD [OF f] 3(1-3)
  show ?thesis unfolding goosefs_command_def by auto
qed blast

section \<open>Credentials\<close>

lemma passwd_word:
  assumes "CHR '' '' \<notin> set f"
  shows "\<exists>args. SplitC (CHR '' '') (snd (hd (createCosfsMountCmd t f opts))) = ''cosfs'' # args \<and> CosfsPasswdPrefix @ f \<in> set args"
proof -
  let ?w = "CosfsPasswdPrefix @ f"
  let ?as = "[if Path opts \<noteq> [] then Bucket opts @ '':'' @ Path opts else Bucket opts, t, ''-ourl='' @ URL opts,
    ''-odbglevel='' @ DebugLevel opts]"
  let ?bs = "if AdditionalArgs opts \<noteq> [] then [AdditionalArgs opts] else []"
  obtain as bs where "as = ?as" "bs = ?bs" by blast
  then have cmd: "snd (hd (createCosfsMountCmd t f opts)) = ''cosfs '' @ Join (as @ ?w # bs) '' ''"
    by (simp add: createCosfsMountCmd_def Let_def)
  have w: "SplitC (CHR '' '') ?w = [?w]" using assms by (simp add: SplitC_no_sep)
  have "SplitC (CHR '' '') (''cosfs'' @ CHR '' '' # Join (as @ ?w # bs) '' '') =
      ''cosfs'' # concat (map (SplitC (CHR '' '')) (as @ ?w # bs))"
    unfolding SplitC_append_sep by (simp add: SplitC_Join_concat SplitC_no_sep del: map_append)
  moreover have "?w \<in> set (concat (map (SplitC (CHR '' '')) (as @ ?w # bs)))"
    using w by simp
  ultimately show ?thesis unfolding cmd by auto
qed

text \<open>
  C40. The credentials of a \<open>cosfs\<close> mount do not outlive it. A publish that succeeds without the target
  being mounted already used a credential file that held exactly bucket, id and key, or that was
  there under the digest of these; and its directory was removed after the mount command had run,
  when the name of the file has no blank, at which the launcher would cut it.
\<close>

theorem cos_credential_removed:
  assumes "publish_on_host env req h = (Inr (), h')"
    and "parseCosfsOptions (GOARCH env) (cp_VolumeContext req) = Inr options" "Mounter options = MounterCosfs"
    and "\<not> tested (cos_host env) (cp_TargetPath req) (False, None) h'"
  shows "\<exists>podUid c. getPodUidFromTargetPath (cp_TargetPath req) = Inr podUid \<and> getSecretCredential (cp_Secrets req) = Inr c \<and>
    (let credential = cosfs_credential (Bucket options) c; file = cosfs_passwd_file env podUid (Bucket options) credential in
       (\<exists>h0 b. suffix (Stat file # h0) h' \<and> on_Stat (cos_host env) h0 file = Inr b) \<or> WriteFile (Clean file) (credential @ [CHR 0x0A]) \<in> set h') \<and>
    (let file = cosfs_passwd_file env podUid (Bucket options) (cosfs_credential (Bucket options) c) in
       CHR '' '' \<notin> set file \<longrightarrow>
       (\<exists>h0. suffix (RemoveAll (PathDir file) # h0) h' \<and>
          ran (cos_host env) (cosfs_command env (cp_TargetPath req) podUid options c) h0))"
  using assms(1)
proof (cases rule: publish_unfold)
  case (2 options' podUid h1)
  with assms(2) have opt: "options' = options" by simp
  from 2(4) obtain f h2 where f: "createCosfsCredentialFile env (cp_VolumeId req) (Bucket options) podUid (cp_Secrets req) h1 = (Inr f, h2)"
    and m: "cos_mount (launcher_post (cos_host env)) (createCosfsMountCmd (cp_TargetPath req) f options) h2 = (Inr (), h')"
    unfolding cos_publish_cosfs_def opt by (elim andThen_InrE)
  from m have m': "cos_mount (launcher_post (cos_host env))
      [(''command'', snd (hd (createCosfsMountCmd (cp_TargetPath req) f options)))] h2 = (Inr (), h')"
    by (subst (asm) cosfs_cmd)
  from createCosfsCredentialFile_InrD [OF f] obtain c where c: "getSecretCredential (cp_Secrets req) = Inr c"
    "f = cosfs_passwd_file env podUid (Bucket options) (cosfs_credential (Bucket options) c)"
    "(\<exists>b. on_Stat (cos_host env) h1 f = Inr b \<and> h2 = Stat f # h1) \<or> WriteFile (Clean f) (cosfs_credential (Bucket options) c @ [CHR 0x0A]) \<in> set h2"
    by blast
  have h2: "suffix h2 h'" using m host_launcher.cos_mount_extends by blast
  then have "set h2 \<subseteq> set h'" by (rule set_mono_suffix)
  moreover have "\<exists>h0. suffix (RemoveAll (PathDir f) # h0) h' \<and>
      ran (cos_host env) (cosfs_command env (cp_TargetPath req) podUid options c) h0" if "CHR '' '' \<notin> set f"
  proof -
    from passwd_word [OF that] obtain args where
      "SplitC (CHR '' '') (snd (hd (createCosfsMountCmd (cp_TargetPath req) f options))) = ''cosfs'' # args"
      "CosfsPasswdPrefix @ f \<in> set args" by blast
    from host_launcher.mount_removes [OF m' this] show ?thesis unfolding cosfs_command_def c(2) .
  qed
  ultimately show ?thesis using c h2 2(2) unfolding Let_def by blast
qed (use assms in auto)

section \<open>Unpublishing\<close>

text \<open>
  A COS unpublish that succeeds, through the launcher, has seen the target not mounted, or has run
  the lazy unmount of it with success; for a target without a blank, at which the launcher would cut
  the path it tests.
\<close>

theorem cos_unpublish_unmounted:
  assumes "unpublish_on_host env volumeId targetPath h = (Inr (), h')" "CHR '' '' \<notin> set targetPath"
  shows "tested (cos_host env) targetPath (True, None) h' \<or> ran (cos_host env) (''umount -l '' @ targetPath) h'"
proof -
  from assms(1) have "cos_umount (launcher_post (cos_host env)) targetPath h = (Inr (), h')"
    by (auto simp: cos_NodeUnpublishVolume_def split: if_splits dest!: map_error_InrD)
  from host_launcher.umount_gone [OF this assms(2)] show ?thesis .
qed

section \<open>A host\<close>

text \<open>Nothing is mounted, no credential file is there, and every command succeeds.\<close>

definition cos_demo :: cos_env where
  "cos_demo =
     \<lparr>cos_host = quiet_host\<lparr>on_Stat := (\<lambda>h p. if p = ''/pods/u/m'' then Inr True else Inl (ExtErr ENotExist []))\<rparr>,
      sha256_hex = (\<lambda>s. ''d''), viper_text = (\<lambda>ps. []), GOARCH = ''arm64''\<rparr>"

definition cos_demo_request :: cos_publish_request where
  "cos_demo_request =
     \<lparr>cp_HasCapability = True, cp_VolumeId = ''v'', cp_TargetPath = ''/pods/u/m'',
      cp_VolumeContext = [(''url'', ''x''), (''bucket'', ''b'')],
      cp_Secrets = [(''SecretId'', ''i''), (''SecretKey'', ''k'')]\<rparr>"

lemma cos_demo_publish: "fst (publish_on_host cos_demo cos_demo_request []) = Inr ()"
  by code_simp

theorem cos_publish_mounted_witness:
  "ran (cos_host cos_demo) (''cosfs b /pods/u/m -ourl=x -odbglevel=err -opasswd_file=/etc/csi-cos/cosfs/u/b_d'')
     (snd (publish_on_host cos_demo cos_demo_request []))"
proof -
  obtain h' where h': "publish_on_host cos_demo cos_demo_request [] = (Inr (), h')"
    using cos_demo_publish by (metis prod.collapse)
  obtain options where o: "parseCosfsOptions (GOARCH cos_demo) (cp_VolumeContext cos_demo_request) = Inr options"
    "options = \<lparr>URL = ''x'', Bucket = ''b'', Path = [], Mounter = MounterCosfs, DebugLevel = ''err'',
       AdditionalArgs = [], CoreSite = [], GoosefsLite = []\<rparr>"
    by (simp add: cos_demo_def cos_demo_request_def parseCosfsOptions_def cosfs_defaults_def cosfs_option_def
        no_cosfs_options_def validateCosfsOptions_def ToLower_def lower_char_def)
  have p: "getPodUidFromTargetPath (cp_TargetPath cos_demo_request) = Inr ''u''" by code_simp
  have c: "getSecretCredential (cp_Secrets cos_demo_request) = Inr (''i'', ''k'')" by code_simp
  have cmd: "cosfs_command cos_demo (cp_TargetPath cos_demo_request) ''u'' options (''i'', ''k'') =
      ''cosfs b /pods/u/m -ourl=x -odbglevel=err -opasswd_file=/etc/csi-cos/cosfs/u/b_d''"
    unfolding o(2) by code_simp
  have "\<not> tested (cos_host cos_demo) (cp_TargetPath cos_demo_request) (False, None) h'"
    by (simp add: tested_def cos_demo_def quiet_host_def)
  with cos_publish_mounted [OF h'] o p c show ?thesis unfolding h' by (simp add: cmd [unfolded o(2)])
qed

theorem cos_credential_removed_witness:
  "\<exists>h0. suffix (RemoveAll ''/etc/csi-cos/cosfs/u'' # h0) (snd (publish_on_host cos_demo cos_demo_request []))"
proof -
  obtain h' where h': "publish_on_host cos_demo cos_demo_request [] = (Inr (), h')"
    using cos_demo_publish by (metis prod.collapse)
  obtain options where o: "parseCosfsOptions (GOARCH cos_demo) (cp_VolumeContext cos_demo_request) = Inr options"
    "Mounter options = MounterCosfs" "Bucket options = ''b''"
    by (simp add: cos_demo_def cos_demo_request_def parseCosfsOptions_def cosfs_defaults_def cosfs_option_def
        no_cosfs_options_def validateCosfsOptions_def ToLower_def lower_char_def)
  have p: "getPodUidFromTargetPath (cp_TargetPath cos_demo_request) = Inr ''u''" by code_simp
  have c: "getSecretCredential (cp_Secrets cos_demo_request) = Inr (''i'', ''k'')" by code_simp
  have f: "cosfs_passwd_file cos_demo ''u'' ''b'' (cosfs_credential ''b'' (''i'', ''k'')) = ''/etc/csi-cos/cosfs/u/b_d''"
    "PathDir ''/etc/csi-cos/cosfs/u/b_d'' = ''/etc/csi-cos/cosfs/u''" by code_simp+
  have "\<not> tested (cos_host cos_demo) (cp_TargetPath cos_demo_request) (False, None) h'"
    by (simp add: tested_def cos_demo_def quiet_host_def)
  from cos_credential_removed [OF h' o(1,2) this] show ?thesis
    by (auto simp: h' p c o(3) f Let_def)
qed

theorem cos_unpublish_unmounted_witness:
  "tested (cos_host cos_demo) ''/t'' (True, None) (snd (unpublish_on_host cos_demo ''v'' ''/t'' [])) \<or>
   ran (cos_host cos_demo) ''umount -l /t'' (snd (unpublish_on_host cos_demo ''v'' ''/t'' []))"
proof -
  have "fst (unpublish_on_host cos_demo ''v'' ''/t'' []) = Inr ()" by code_simp
  then obtain h' where h': "unpublish_on_host cos_demo ''v'' ''/t'' [] = (Inr (), h')" by (metis prod.collapse)
  from cos_unpublish_unmounted [OF h'] show ?thesis by (simp add: h')
qed

end
