(* ===== verification/CosCoreSite.thy ===== *)
theory CosCoreSite imports CosConfig begin

text \<open>
  A reader of the \<open>core-site.xml\<close> that the COS node writes, as the mounter reads it, and the round trip: no
  secret, region or argument, whatever its signs, changes the structure of the file.
\<close>

section \<open>The reader\<close>

definition entity :: "string \<Rightarrow> char" where
  "entity e =
     (if e = ''amp'' then CHR ''&'' else if e = ''lt'' then CHR ''<'' else if e = ''gt'' then CHR ''>''
      else if e = ''#34'' then CHR 0x22 else if e = ''#39'' then CHR 0x27
      else if e = ''#x9'' then CHR 0x09 else if e = ''#xA'' then CHR 0x0A else CHR 0x0D)"

function xml_unescape :: "string \<Rightarrow> string" where
  "xml_unescape [] = []"
| "xml_unescape (c # s) =
     (if c = CHR ''&''
      then entity (takeWhile (\<lambda>x. x \<noteq> CHR '';'') s) # xml_unescape (drop 1 (dropWhile (\<lambda>x. x \<noteq> CHR '';'') s))
      else c # xml_unescape s)"
  by pat_completeness auto
termination
  by (relation "measure length") (auto simp: less_Suc_eq_le intro: le_trans [OF diff_le_self length_dropWhile_le])

definition untag :: "string \<Rightarrow> string \<Rightarrow> string" where
  "untag name line = xml_unescape (TrimSuffix (TrimPrefix (drop 4 line) (''<'' @ name @ ''>'')) (''</'' @ name @ ''>''))"

text \<open>A property is four lines; the name and the value are in the middle.\<close>

fun read_lines :: "string list \<Rightarrow> property list" where
  "read_lines (a # n # v # b # ls) = (untag ''name'' n, untag ''value'' v) # read_lines ls"
| "read_lines _ = []"

definition read_configuration :: "string \<Rightarrow> property list" where
  "read_configuration text = read_lines (tl (SplitC (CHR 0x0A) text))"

section \<open>The round trip\<close>

text \<open>The signs that XML can carry: no control characters but tab and line ends.\<close>

definition xml_char :: "char \<Rightarrow> bool" where
  "xml_char c \<longleftrightarrow> 32 \<le> (of_char c :: nat) \<or> c \<in> {CHR 0x09, CHR 0x0A, CHR 0x0D}"

definition xml_text :: "property \<Rightarrow> bool" where
  "xml_text p \<longleftrightarrow> list_all xml_char (fst p) \<and> list_all xml_char (snd p)"

lemma xml_unescape_escape: "xml_char c \<Longrightarrow> xml_unescape (xml_escape c @ s) = c # xml_unescape s"
  by (auto simp: xml_char_def xml_escape_def entity_def)

lemma xml_unescape_EscapeText: "list_all xml_char s \<Longrightarrow> xml_unescape (EscapeText s) = s"
  by (induction s) (simp_all add: EscapeText_def xml_unescape_escape)

lemma EscapeText_one_line: "CHR 0x0A \<notin> set (EscapeText s)"
  by (induction s) (auto simp: EscapeText_def xml_escape_def split: if_splits)

definition property_lines :: "property \<Rightarrow> string list" where
  "property_lines p =
     [''  <property>'', ''    <name>'' @ EscapeText (fst p) @ ''</name>'',
      ''    <value>'' @ EscapeText (snd p) @ ''</value>'', ''  </property>'']"

lemma SplitC_one_line: "c \<notin> set w \<Longrightarrow> SplitC c (w @ [c] @ s) = w # SplitC c s"
  using SplitC_append [of c w s] by simp

lemma SplitC_property: "SplitC (CHR 0x0A) (xml_property p @ s) = property_lines p @ SplitC (CHR 0x0A) s"
proof -
  have eq: "xml_property p @ s =
      ''  <property>'' @ [CHR 0x0A] @ (''    <name>'' @ EscapeText (fst p) @ ''</name>'') @ [CHR 0x0A] @
      (''    <value>'' @ EscapeText (snd p) @ ''</value>'') @ [CHR 0x0A] @ ''  </property>'' @ [CHR 0x0A] @ s"
    by (simp add: xml_property_def xml_line_def numeral_eq_Suc)
  show ?thesis
    unfolding eq property_lines_def
    by (subst SplitC_one_line, use EscapeText_one_line in force)+ simp
qed

lemma SplitC_properties:
  "SplitC (CHR 0x0A) (concat (map xml_property ps) @ s) = concat (map property_lines ps) @ SplitC (CHR 0x0A) s"
  by (induction ps) (simp_all add: SplitC_property)

lemma untag_tagged:
  "list_all xml_char s \<Longrightarrow> untag name (''    '' @ ''<'' @ name @ ''>'' @ EscapeText s @ ''</'' @ name @ ''>'') = s"
  using TrimPrefix_append [of "''<'' @ name @ ''>''" "EscapeText s @ ''</'' @ name @ ''>''"]
    TrimSuffix_append [of "EscapeText s" "''</'' @ name @ ''>''"]
  by (simp add: untag_def xml_unescape_EscapeText)

lemma read_lines_properties:
  assumes "list_all xml_text ps" "length rest < 4"
  shows "read_lines (concat (map property_lines ps) @ rest) = ps"
  using assms(1)
proof (induction ps)
  case Nil
  with assms(2) show ?case by (cases rest rule: read_lines.cases) auto
next
  case (Cons p ps)
  then have "untag ''name'' (''    <name>'' @ EscapeText (fst p) @ ''</name>'') = fst p"
    "untag ''value'' (''    <value>'' @ EscapeText (snd p) @ ''</value>'') = snd p"
    using untag_tagged [of "fst p" "''name''"] untag_tagged [of "snd p" "''value''"]
    by (simp_all add: xml_text_def)
  with Cons show ?case by (simp add: property_lines_def)
qed

lemma read_Marshal:
  assumes "list_all xml_text ps"
  shows "read_configuration (MarshalConfiguration ps @ [CHR 0x0A]) = ps"
proof -
  have "SplitC (CHR 0x0A) (MarshalConfiguration ps @ [CHR 0x0A]) =
      ''<configuration>'' # concat (map property_lines ps) @ [''</configuration>'', []]"
    using SplitC_one_line [of "CHR 0x0A" "''<configuration>''" "concat (map xml_property ps) @ ''</configuration>'' @ [CHR 0x0A]"]
    by (simp add: MarshalConfiguration_def xml_line_def SplitC_properties)
  then show ?thesis using read_lines_properties [OF assms] by (simp add: read_configuration_def)
qed

text \<open>
  The \<open>core-site.xml\<close> that was written reads back as what it should say: the implementation, the id and
  key of the request's secrets, the region of the url, the volume's own arguments in their order, and
  the two defaults unless an argument sets them; for texts of signs that XML can carry.
\<close>

theorem cos_core_site_roundtrip:
  assumes "createCoreSiteXml env podUid cosUrl coreSite secrets h = (Inr f, h')"
  shows "\<exists>c region args text. getSecretCredential secrets = Inr c \<and> getRegionFromUrl cosUrl = Inr region \<and>
    (if coreSite = [] then args = [] else parse_pairs (SplitC (CHR '','') coreSite) = Some args) \<and>
    f = goosefs_path podUid ''core-site.xml'' \<and> WriteFile (Clean f) text \<in> set h' \<and>
    (list_all xml_text (core_site_properties c region args) \<longrightarrow> read_configuration text = core_site_properties c region args)"
proof -
  from assms obtain c region args where c: "getSecretCredential secrets = Inr c" "getRegionFromUrl cosUrl = Inr region"
    "(if coreSite = [] then Some [] else parse_pairs (SplitC (CHR '','') coreSite)) = Some args"
    unfolding createCoreSiteXml_def by (auto split: sum.splits option.splits)
  let ?text = "MarshalConfiguration (core_site_properties c region args) @ [CHR 0x0A]"
  from assms c have "f = goosefs_path podUid ''core-site.xml''" "WriteFile (Clean f) ?text \<in> set h'"
    by (auto simp: createCoreSiteXml_def Let_def cos_WriteFile_def
        elim!: andThen_InrE dest!: map_error_InrD call_InrD)
  with c read_Marshal show ?thesis
    by (intro exI [of _ c] exI [of _ region] exI [of _ args] exI [of _ ?text]) (auto split: if_splits)
qed

definition core_site_demo :: cos_env where
  "core_site_demo = \<lparr>cos_host = quiet_host, sha256_hex = (\<lambda>s. []), viper_text = (\<lambda>ps. []), GOARCH = ''amd64''\<rparr>"

theorem cos_core_site_roundtrip_witness:
  "\<exists>text f. WriteFile f text \<in> set (snd (createCoreSiteXml core_site_demo ''u'' ''http://cos.r.myqcloud.com'' ''a=<b'' [(''SecretId'', ''i'')] [])) \<and>
     (''a'', ''<b'') \<in> set (read_configuration text)"
proof -
  let ?run = "createCoreSiteXml core_site_demo ''u'' ''http://cos.r.myqcloud.com'' ''a=<b'' [(''SecretId'', ''i'')] []"
  have "case fst ?run of Inl e \<Rightarrow> False | Inr f \<Rightarrow> True" by code_simp
  then obtain f h' where r: "?run = (Inr f, h')" by (cases "fst ?run") (simp_all, metis prod.collapse)
  have c: "getSecretCredential [(''SecretId'', ''i'')] = Inr (''i'', [])"
    "getRegionFromUrl ''http://cos.r.myqcloud.com'' = Inr ''r''"
    "parse_pairs (SplitC (CHR '','') ''a=<b'') = Some [(''a'', ''<b'')]" by code_simp+
  have "list_all xml_text (core_site_properties (''i'', []) ''r'' [(''a'', ''<b'')])" by code_simp
  with cos_core_site_roundtrip [OF r] c obtain t where
    "WriteFile (Clean f) t \<in> set h'" "read_configuration t = core_site_properties (''i'', []) ''r'' [(''a'', ''<b'')]"
    by auto
  then show ?thesis unfolding r by (intro exI [of _ t] exI [of _ "Clean f"]) (simp add: core_site_properties_def)
qed

end
