(* ===== verification/JsonTexts.thy ===== *)
theory JsonTexts
  imports GoStruct CfsTurboConfig MetadataStore "HOL-Library.Char_ord" "HOL-Library.List_Lexorder"
begin

text \<open>
  The texts behind what the other theories keep as decoded values: the reference lists of CFS Turbo, the
  bodies of the launcher's requests and responses, and the snapshots in ConfigMaps. For each there is the
  text that \<open>json.Marshal\<close> makes and what \<open>json.Unmarshal\<close> reads in any text; the lemmas say that what is
  written is read as the decoded value that those theories work with.
\<close>

section \<open>Lists of strings\<close>

text \<open>An element \<open>null\<close> leaves the empty string of a new slice.\<close>

definition string_elem :: "json \<Rightarrow> string option" where
  "string_elem j = (case j of JText s \<Rightarrow> Some s | JNull \<Rightarrow> Some [] | _ \<Rightarrow> None)"

definition marshal_list :: "string list \<Rightarrow> string" where
  "marshal_list xs = enc (JArray (map JText xs))"

definition list_text_of :: "string \<Rightarrow> list_text" where
  "list_text_of s =
     (case parse_json s of
        Some (JArray js) \<Rightarrow> (case elems_of string_elem js of Some xs \<Rightarrow> StringList xs | None \<Rightarrow> BadText)
      | Some JNull \<Rightarrow> NullText
      | _ \<Rightarrow> BadText)"

lemma string_elems: "elems_of string_elem (map JText xs) = Some xs"
  by (induction xs) (simp_all add: string_elem_def)

theorem list_text: "list_text_of (marshal_list xs) = StringList xs"
proof -
  have "parse_json (marshal_list xs) = Some (JArray (map JText xs))"
    unfolding marshal_list_def by (rule parse_json_enc) (simp add: list_all_iff)
  then show ?thesis by (simp add: list_text_of_def string_elems)
qed

section \<open>Maps of strings\<close>

text \<open>The keys are written in their order; of two members with one key the later counts.\<close>

definition marshal_map :: "(string \<times> string) list \<Rightarrow> string" where
  "marshal_map m = enc (JObject (map (\<lambda>(k, v). (k, JText v)) (sort_key fst m)))"

fun string_members :: "(string \<times> string) list \<Rightarrow> (string \<times> json) list \<Rightarrow> (string \<times> string) list option" where
  "string_members m [] = Some m"
| "string_members m ((k, j) # ms) =
     (case string_elem j of None \<Rightarrow> None | Some v \<Rightarrow> string_members (AList.update k v m) ms)"

definition map_text_of :: "string \<Rightarrow> map_text" where
  "map_text_of s =
     (case parse_json s of
        Some (JObject ms) \<Rightarrow> (case string_members [] ms of Some m \<Rightarrow> StringMap m | None \<Rightarrow> BadMap)
      | Some JNull \<Rightarrow> NullMap
      | _ \<Rightarrow> BadMap)"

lemma string_members_read:
  "distinct (map fst kvs) \<Longrightarrow>
   \<exists>m'. string_members m (map (\<lambda>(k, v). (k, JText v)) kvs) = Some m' \<and> map_of m' = map_of m ++ map_of kvs"
proof (induction kvs arbitrary: m)
  case (Cons kv kvs)
  obtain k v where kv: "kv = (k, v)" by (cases kv)
  from Cons.IH [of "AList.update k v m"] Cons.prems kv obtain m' where
    "string_members (AList.update k v m) (map (\<lambda>(k, v). (k, JText v)) kvs) = Some m'"
    "map_of m' = map_of (AList.update k v m) ++ map_of kvs" by auto
  moreover have "(map_of m)(k \<mapsto> v) ++ map_of kvs = map_of m ++ (map_of kvs)(k \<mapsto> v)"
  proof -
    have "map_of kvs k = None" using Cons.prems kv by (simp add: map_of_eq_None_iff)
    then show ?thesis by (auto simp: fun_eq_iff map_add_def split: option.split)
  qed
  ultimately show ?case by (auto simp: kv string_elem_def update_conv' fun_eq_iff map_add_def)
qed simp

theorem map_text:
  assumes "distinct (map fst m)"
  shows "\<exists>m'. map_text_of (marshal_map m) = StringMap m' \<and> map_of m' = map_of m"
proof -
  let ?kvs = "sort_key fst m"
  have d: "distinct (map fst ?kvs)" using assms by (simp add: distinct_map)
  then have same: "map_of ?kvs = map_of m" using assms by (intro map_of_inject_set [THEN iffD2]) simp_all
  have "parse_json (marshal_map m) = Some (JObject (map (\<lambda>(k, v). (k, JText v)) ?kvs))"
    unfolding marshal_map_def by (rule parse_json_enc) (auto simp: list_all_iff)
  with string_members_read [OF d, of "[]"] same show ?thesis by (auto simp: map_text_of_def)
qed

section \<open>Snapshots\<close>

definition marshal_snapshot_text :: "cbsSnapshot \<Rightarrow> string" where
  "marshal_snapshot_text s = enc (JObject
     [(''sourceVolumeId'', JText (SourceVolumeId s)), (''snapName'', JText (SnapName s)), (''sanpId'', JText (SnapId s)),
      (''createdAt'', JLit (show_int (CreatedAt s))), (''sizeBytes'', JLit (show_int (SizeBytes s)))])"

text \<open>The members that are strings or 64-bit integers; a text with another one is taken for unreadable.\<close>

definition scalar :: "string \<times> json \<Rightarrow> (string \<times> json_val) option" where
  "scalar kj =
     (case snd kj of
        JText s \<Rightarrow> Some (fst kj, JStr s)
      | JLit n \<Rightarrow> map_option (\<lambda>i. (fst kj, JNum i)) (parse_int64 n)
      | _ \<Rightarrow> None)"

fun scalars :: "(string \<times> json) list \<Rightarrow> (string \<times> json_val) list option" where
  "scalars [] = Some []"
| "scalars (m # ms) = (case (scalar m, scalars ms) of (Some x, Some xs) \<Rightarrow> Some (x # xs) | _ \<Rightarrow> None)"

definition snapshot_text_of :: "string \<Rightarrow> json_text" where
  "snapshot_text_of s =
     (case parse_json s of
        Some (JObject ms) \<Rightarrow> (case scalars ms of Some kvs \<Rightarrow> JsonObj kvs | None \<Rightarrow> NotJson)
      | _ \<Rightarrow> NotJson)"

definition int64_fits :: "int \<Rightarrow> bool" where
  "int64_fits i \<longleftrightarrow> - (2 ^ 63) \<le> i \<and> i < 2 ^ 63"

theorem snapshot_text:
  assumes "int64_fits (CreatedAt s)" "int64_fits (SizeBytes s)"
  shows "snapshot_text_of (marshal_snapshot_text s) = marshal_snapshot s \<and>
    unmarshal_snapshot (snapshot_text_of (marshal_snapshot_text s)) dest = (True, s)"
proof -
  have "parse_json (marshal_snapshot_text s) = Some (JObject
     [(''sourceVolumeId'', JText (SourceVolumeId s)), (''snapName'', JText (SnapName s)), (''sanpId'', JText (SnapId s)),
      (''createdAt'', JLit (show_int (CreatedAt s))), (''sizeBytes'', JLit (show_int (SizeBytes s)))])"
    unfolding marshal_snapshot_text_def
    using show_int_writable [of "CreatedAt s"] show_int_writable [of "SizeBytes s"] by (intro parse_json_enc) simp
  with assms have "snapshot_text_of (marshal_snapshot_text s) = marshal_snapshot s"
    by (simp add: snapshot_text_of_def scalar_def parse_int64_show int64_fits_def marshal_snapshot_def)
  then show ?thesis by simp
qed

end
