(* ===== verification/Spec2Isabelle.thy ===== *)
theory Spec2Isabelle
  imports InFlight CbsCreateProps CbsSnapshots CbsLiveness CbsEndToEnd CbsWire CbsOtherActions Processes
    CfsTurboProps CfsProps CbsTagsProps ChdfsProps CosProps CosCoreSite JsonTexts
begin

text \<open>
  \<^bold>\<open>The Tencent Cloud CSI drivers\<close>

  This library models the Go code of \<^verbatim>\<open>src/driver\<close> and
  \<^verbatim>\<open>src/cmd\<close>: five drivers that make, attach, mount and remove volumes for Kubernetes.
  CBS volumes are cloud disks; CFS and CFS Turbo volumes are network file systems; CHDFS and COS volumes are
  object stores behind a FUSE process. Each driver has a controller or a node service or both, whose handlers a
  gRPC server calls.

  \<^bold>\<open>Conventions.\<close> A handler is a function of its request, of what it can ask of the outside,
  and of the state that it changes; it gives an error or a value, and the new state. Errors are of type
  \<open>go_error\<close>: a gRPC code, an outside error handed on, a message, a panic, or the end of the
  process. Messages that no code reads are left out. The outside (cloud API, mounter, file system, commands,
  Kubernetes, the account service) is a record of functions from the history of the calls made so far to the
  next answer, and the history is part of the state; so a statement for every such record covers every outside,
  with whatever other processes do to it between two calls. The laws that a property needs of an outside are
  hypotheses of that property or a locale. A request of the Kubernetes API that fails may still have been
  carried out, unless the answer is that the object exists already or is not found. A Go map that is ranged over is a list in the order of this run, or
  visited in an order that an argument picks. Strings are lists of bytes; \<open>int64\<close> and
  \<open>uint64\<close> arithmetic wraps where the code computes with it (\<open>GoStrings\<close>,
  \<open>Util\<close>).

  \<^bold>\<open>Shared theories.\<close>
  \<^item> \<open>Prelude\<close>: errors, collections of facts, folds that can fail and when their order does
    not matter, and \<open>poll\<close>, the loop of a ticker against a deadline.
  \<^item> \<open>GoStrings\<close>: \<open>strings\<close> and \<open>strconv\<close>, with their round trips.
  \<^item> \<open>Util\<close>: \<^verbatim>\<open>driver/util/util.go\<close>,
    \<^verbatim>\<open>secret_util.go\<close>, \<^verbatim>\<open>metadata.go\<close>.
  \<^item> \<open>InFlight\<close>: \<^verbatim>\<open>idlocker.go\<close> and
    \<^verbatim>\<open>idempotent.go\<close>; the locale \<open>exclusive_keys\<close> is the contract of a set
    of keys in use, interpreted on both, with the interleavings of handlers as a step relation.
  \<^item> \<open>MetadataStore\<close>: \<^verbatim>\<open>k8scache.go\<close>; the locale
    \<open>cache_persister\<close> is the interface of \<^verbatim>\<open>cachepersister.go\<close>, interpreted
    on the ConfigMap store.
  \<^item> \<open>Host\<close>: actions of a node and how they compose, \<open>path/filepath\<close>, and the
    calls to the mounter, the file system and commands as events. \<open>only\<close> and \<open>keeps\<close>
    say which events an action adds and which invariants it keeps, with rules that follow the structure of a
    handler.
  \<^item> \<open>Json\<close>, \<open>GoFloat\<close>, \<open>GoStruct\<close>, \<open>JsonTexts\<close>: JSON texts
    with their writer and parser, numbers of type \<open>float64\<close>, what \<open>encoding/json\<close> makes of structs of pointers, and the texts behind the lists,
    maps and snapshots that the drivers store or send.

  \<^bold>\<open>CBS\<close> (\<^verbatim>\<open>driver/cbs\<close>).
  \<^item> \<open>CbsTypes\<close>: the types of \<^verbatim>\<open>v20170312/models.go\<close> that the code
    fills in, and pure helpers.
  \<^item> \<open>CbsDisks\<close>, \<open>CbsAttach\<close>: listings and waits of
    \<^verbatim>\<open>controller.go\<close>; publish, unpublish, expand and delete. A handler has one worker
    for each disk, with an outside of its own.
  \<^item> \<open>CbsDiskProps\<close>, \<open>CbsLiveness\<close>: a success was seen in the cloud, a disk of
    another node is never taken or detached, nothing is shrunk, and a cloud that attaches in time makes
    publishing succeed.
  \<^item> \<open>CbsWorkers\<close>, \<open>CbsInterleave\<close>: the same workers as step machines, and the
    goroutines of a handler as interleavings of their steps in one shared cloud. The locale
    \<open>disk_worker\<close> has what the proofs need of a worker; it is interpreted on attaching, detaching
    and expanding. Outsides of their own and one shared cloud allow the same results, so what is proved of a
    handler holds of its goroutines.
  \<^item> \<open>CbsAccount\<close>: a reference cloud that keeps size, instance and pending change of every
    disk of an account, with any delay, as a specification: what the handlers do to it in any interleaving, and
    the life of a volume from publishing to deletion. \<open>CbsCompletion\<close>: on one account that the
    workers share, when no deadline comes before the cloud has shown a change, exactly when the handlers
    succeed and how they leave the account, for volumes whose disks are distinct. With one disk twice in a
    volume id, the second worker contends with the first.
  \<^item> \<open>CbsCreateParams\<close>, \<open>CbsCreate\<close>, \<open>CbsCreateProps\<close>:
    \<open>CreateVolume\<close>, from the parameters to the one request, and what the request and the id of the
    volume are.
  \<^item> \<open>CbsSnapshots\<close>: snapshots, their cache (\<^verbatim>\<open>cbs_utils.go\<close>) as a
    heap of shared records, and the metadata store behind it. That a name is created once is shown for the
    requests that one process handles one after the other; it does not hold across concurrent requests, a
    restart (the loader shares one record), or a creation that panicked.
  \<^item> \<open>CbsDevices\<close>, \<open>CbsNode\<close>, \<open>CbsNodeProps\<close>: devices, RAID and LVM
    (\<^verbatim>\<open>devicemapper.go\<close>) and the node service (\<^verbatim>\<open>node.go\<close>).
  \<^item> \<open>CbsNodeMachine\<close>: a reference host that keeps the mounts of a node, as a specification of the
    node service, and the life of a volume on it. Its clean-up of a mount point is that of the mount library:
    it takes one mount off, and fails when another one is left or the directory cannot be removed. \<open>CbsEndToEnd\<close>: the reference cloud and the reference
    host together, for a volume that goes from the account to the pods and back.
  \<^item> \<open>CbsDriver\<close>: \<^verbatim>\<open>driver.go\<close>,
    \<^verbatim>\<open>identity.go\<close> and the constructors.
  \<^item> \<open>CbsModels\<close>, \<open>CbsClient\<close>: the messages of
    \<^verbatim>\<open>v20170312/models.go\<close>, the actions of
    \<^verbatim>\<open>v20170312/client.go\<close>, and the part of the vendored SDK below them;
    \<open>CbsWire\<close>: what the calls of the controller and the node are on the wire;
    \<open>CbsPrices\<close>, \<open>CbsOtherActions\<close>: the actions that no code calls. The server reads the call that the model
    records, the controller the listing or the error that the server sent, and a response has the types of its
    message.
  \<^item> \<open>Norm\<close>, \<open>CbsTags\<close>, \<open>CbsTagsProps\<close>: the account service
    (\<^verbatim>\<open>driver/cloud/credential.go\<close>, \<^verbatim>\<open>tags/uin.go\<close>) and the
    synchronisation of the disks' tags with the cluster's (\<^verbatim>\<open>driver/cbs/tags\<close>): a run
    that succeeds leaves the file as the cluster says, and on every disk the keys on which the two disagreed.

  \<^bold>\<open>CFS\<close> (\<^verbatim>\<open>driver/cfs\<close>): \<open>CfsController\<close>,
  \<open>CfsNode\<close>, \<open>CfsProps\<close>. A volume is handed out only with a mount target that was seen
  available; a publish is one NFS mount of what the parameters say.

  \<^bold>\<open>CFS Turbo\<close> (\<^verbatim>\<open>driver/cfsturbo\<close>): \<open>CfsTurboConfig\<close>
  has the files that list the users of a global mount, \<open>CfsTurboNode\<close> and
  \<open>CfsTurboController\<close> the services and the client installer. \<open>CfsTurboProps\<close> has the
  invariant of a staged volume over a step relation, the refinement of the files to lists of users, and the
  round trip of volume ids. A write of a list of users that fails may have truncated the file; the invariant
  counts these torn writes and holds up to the first.

  \<^bold>\<open>CHDFS\<close> (\<^verbatim>\<open>driver/chdfs\<close>): \<open>ChdfsConfig\<close>,
  \<open>ChdfsLines\<close>, \<open>ChdfsNode\<close>, \<open>ChdfsProps\<close>. The arguments of a volume are
  read back from the configuration file; a publish has seen the mount.

  \<^bold>\<open>COS\<close> (\<^verbatim>\<open>driver/cosfs\<close>,
  \<^verbatim>\<open>cmd/cosfs/launcher\<close>): \<open>CosConfig\<close> and \<open>CosNode\<close> are the
  node, \<open>CosLauncher\<close> the server on the host that runs its commands. \<open>CosInterface\<close>
  has the contract between the two, the locale \<open>launcher\<close>; the lemmas of the node are proved under
  it, and \<open>CosLauncher\<close> interprets it on the handlers of the server. \<open>CosProps\<close> has
  the properties of the composition, \<open>CosCoreSite\<close> the round trip of \<open>core-site.xml\<close>.

  \<^bold>\<open>Processes\<close> (\<^verbatim>\<open>src/cmd\<close>, the \<^verbatim>\<open>driver.go\<close>
  of each driver): \<open>Processes\<close> goes from the command line to the services that a process registers,
  through the vendored package \<^verbatim>\<open>csi-common\<close>, with the client of Kubernetes and the
  registration of the metrics. A service that a process leaves out is nil in CHDFS and COS, and a nil pointer in
  CBS and CFS, which the server registers like any other.

  \<^bold>\<open>Bounds.\<close> A wait against a deadline serves as many ticks as an argument or the outside
  says; the properties hold for every number, and the liveness of publishing for every number above the delay of
  the cloud. Unmounting the whole stack of a path has no bound in the code; it is a
  \<open>partial_function\<close>, and it is shown to return for every stack of mounts. All other loops recurse
  on their data; the parser of JSON has fuel, and twice the length of the text is shown to be enough. The loop
  of the installer is a \<open>partial_function\<close> too; the one that synchronises the tags for ever takes
  the number of rounds (\<open>sync_rounds\<close>). An interleaving of workers is a finite derivation, of any
  length.

  \<^bold>\<open>What is left out.\<close> Logging; metrics other than their registration and the order in which
  CBS counts its calls; the parsing of flags; the gRPC and HTTP libraries; tests. The signature, the time
  and the nonce of a request are left out, and texts on the wire are ASCII, so that bytes are characters. The
  clients of CVM, CFS, tags and accounts are arguments. The fields of the quotas that the cloud lists
  (\<open>DiskConfig\<close>) are taken as present; a nil pointer there would panic. Refreshing the credentials of the SDK clients is the
  identity: \<open>GetSercet\<close> never returns a token. File modes and the time between ticks are not
  modelled. Of the JSON of the account service there is what it decodes to; \<open>sha256\<close> and
  \<open>viper\<close> are arguments; of \<open>net/url\<close> and \<open>encoding/xml\<close> there is what
  the code uses.
\<close>

end
